(* ===== verification/Prelude.thy ===== *)
theory Prelude
  imports Main "HOL-Library.Word"
begin

text \<open>
  What every component of the operator shares: Go errors and panics as values, programs that
  thread the outside world, the early-return chain of a Go function, and string maps.

  A Go function that talks to the cluster and returns an \<open>error\<close> is a \<open>prog\<close>: it takes the
  world and returns a result and the next world.  The result is \<open>Inr\<close> of a value, or \<open>Inl\<close>
  of what stopped it: an \<open>error\<close> (\<open>GoError\<close>) that a caller may test and handle, or a panic
  (\<open>GoPanic\<close>), which no caller handles.
\<close>

section \<open>Hints\<close>

named_theorems prog_simps "how programs evaluate"
named_theorems key_simps "kind, namespace and name of the objects the operator builds"

section \<open>Go errors\<close>

text \<open>
  The reasons the code asks an API error for (\<open>errors.IsNotFound\<close>, \<open>errors.IsConflict\<close>,
  \<open>errors.IsInvalid\<close>, \<open>meta.IsNoMatchError\<close>); any other failure is \<open>OtherReason\<close>.
\<close>

datatype kreason = NotFound | Conflict | Invalid | AlreadyExists | NoMatch | OtherReason

text \<open>An error of the client, \<open>fmt.Errorf("...: %w", err)\<close>, and an error with no cause.\<close>

datatype gerror = KubeErr kreason string | Wrapped string gerror | Plain string

fun err_Error :: "gerror \<Rightarrow> string" where
  "err_Error (KubeErr r m) = m"
| "err_Error (Wrapped p e) = p @ '': '' @ err_Error e"
| "err_Error (Plain m) = m"

text \<open>The predicates look through \<open>%w\<close> wrapping.\<close>

fun err_reason :: "gerror \<Rightarrow> kreason option" where
  "err_reason (KubeErr r m) = Some r"
| "err_reason (Wrapped p e) = err_reason e"
| "err_reason (Plain m) = None"

definition IsNotFound :: "gerror \<Rightarrow> bool" where
  "IsNotFound e = (err_reason e = Some NotFound)"

definition IsConflict :: "gerror \<Rightarrow> bool" where
  "IsConflict e = (err_reason e = Some Conflict)"

definition IsInvalid :: "gerror \<Rightarrow> bool" where
  "IsInvalid e = (err_reason e = Some Invalid)"

definition IsNoMatchError :: "gerror \<Rightarrow> bool" where
  "IsNoMatchError e = (err_reason e = Some NoMatch)"

lemmas err_tests = IsNotFound_def IsConflict_def IsInvalid_def IsNoMatchError_def

lemma not_found_not_conflict [simp]: "IsNotFound e \<Longrightarrow> \<not> IsConflict e"
  by (simp add: err_tests)

section \<open>Programs over a world\<close>

datatype abort = GoError gerror | GoPanic string

type_synonym 'a result = "abort + 'a"

type_synonym ('w, 'a) prog = "'w \<Rightarrow> 'a result \<times> 'w"

definition ret :: "'a \<Rightarrow> ('w, 'a) prog" where
  "ret a w = (Inr a, w)"

definition fail :: "gerror \<Rightarrow> ('w, 'a) prog" where
  "fail e w = (Inl (GoError e), w)"

definition panic :: "string \<Rightarrow> ('w, 'a) prog" where
  "panic m w = (Inl (GoPanic m), w)"

text \<open>A pure computation that may panic, such as a builder that parses a quantity.\<close>

definition pure :: "'a result \<Rightarrow> ('w, 'a) prog" where
  "pure r w = (r, w)"

text \<open>A call of the client, which returns a value or an error.\<close>

definition call :: "('w \<Rightarrow> (gerror + 'a) \<times> 'w) \<Rightarrow> ('w, 'a) prog" where
  "call m w = (case m w of (Inl e, w') \<Rightarrow> (Inl (GoError e), w') | (Inr a, w') \<Rightarrow> (Inr a, w'))"

text \<open>Sequencing: an error or a panic of the first part is the result.\<close>

definition bindP :: "('w, 'a) prog \<Rightarrow> ('a \<Rightarrow> ('w, 'b) prog) \<Rightarrow> ('w, 'b) prog" where
  "bindP m k w = (case m w of (Inl x, w') \<Rightarrow> (Inl x, w') | (Inr a, w') \<Rightarrow> k a w')"

text \<open>\<open>v, err := m\<close> followed by tests of \<open>err\<close>: the error becomes a value, a panic does not.\<close>

definition attempt :: "('w, 'a) prog \<Rightarrow> ('w, gerror + 'a) prog" where
  "attempt m w = (case m w of
     (Inl (GoPanic p), w') \<Rightarrow> (Inl (GoPanic p), w')
   | (Inl (GoError e), w') \<Rightarrow> (Inr (Inl e), w')
   | (Inr a, w') \<Rightarrow> (Inr (Inr a), w'))"

text \<open>
  A chain of \<open>if err := step(); err != nil { return err }\<close>: the first step that fails ends it
  and the later steps do not run.
\<close>

fun run_steps :: "('w, unit) prog list \<Rightarrow> ('w, unit) prog" where
  "run_steps [] = ret ()"
| "run_steps (p # ps) = bindP p (\<lambda>_. run_steps ps)"

text \<open>\<open>fmt.Errorf("prefix: %w", err)\<close> around a call.\<close>

definition wrap_err :: "string \<Rightarrow> ('w, 'a) prog \<Rightarrow> ('w, 'a) prog" where
  "wrap_err p m w = (case m w of
     (Inl (GoError e), w') \<Rightarrow> (Inl (GoError (Wrapped p e)), w')
   | (r, w') \<Rightarrow> (r, w'))"

lemmas prog_defs = ret_def fail_def panic_def pure_def call_def bindP_def attempt_def wrap_err_def

lemma ret_run [prog_simps]: "ret a w = (Inr a, w)"
  and fail_run [prog_simps]: "fail e w = (Inl (GoError e), w)"
  and panic_run [prog_simps]: "panic m w = (Inl (GoPanic m), w)"
  and pure_run [prog_simps]: "pure r w = (r, w)"
  by (simp_all add: prog_defs)

lemma call_Inl [prog_simps]: "m w = (Inl e, w') \<Longrightarrow> call m w = (Inl (GoError e), w')"
  and call_Inr [prog_simps]: "m w = (Inr a, w') \<Longrightarrow> call m w = (Inr a, w')"
  by (simp_all add: call_def)

lemma bindP_Inl [prog_simps]: "m w = (Inl x, w') \<Longrightarrow> bindP m k w = (Inl x, w')"
  and bindP_Inr [prog_simps]: "m w = (Inr a, w') \<Longrightarrow> bindP m k w = k a w'"
  by (simp_all add: bindP_def)

lemma attempt_GoError [prog_simps]:
    "m w = (Inl (GoError e), w') \<Longrightarrow> attempt m w = (Inr (Inl e), w')"
  and attempt_GoPanic [prog_simps]:
    "m w = (Inl (GoPanic p), w') \<Longrightarrow> attempt m w = (Inl (GoPanic p), w')"
  and attempt_Inr [prog_simps]: "m w = (Inr a, w') \<Longrightarrow> attempt m w = (Inr (Inr a), w')"
  by (simp_all add: attempt_def)

lemma wrap_err_GoError [prog_simps]:
    "m w = (Inl (GoError e), w') \<Longrightarrow> wrap_err p m w = (Inl (GoError (Wrapped p e)), w')"
  and wrap_err_GoPanic [prog_simps]:
    "m w = (Inl (GoPanic s), w') \<Longrightarrow> wrap_err p m w = (Inl (GoPanic s), w')"
  and wrap_err_Inr [prog_simps]: "m w = (Inr a, w') \<Longrightarrow> wrap_err p m w = (Inr a, w')"
  by (simp_all add: wrap_err_def)

text \<open>What the outcome of a sequence says about its parts.\<close>

lemma bindP_InrE:
  assumes "bindP m k w = (Inr b, w')"
  obtains a w1 where "m w = (Inr a, w1)" and "k a w1 = (Inr b, w')"
  using assms by (auto simp: bindP_def split: prod.splits sum.splits)

lemma bindP_InlE:
  assumes "bindP m k w = (Inl x, w')"
  obtains "m w = (Inl x, w')"
  | a w1 where "m w = (Inr a, w1)" and "k a w1 = (Inl x, w')"
  using assms by (auto simp: bindP_def split: prod.splits sum.splits)

lemma bindP_assoc: "bindP (bindP m k) h = bindP m (\<lambda>a. bindP (k a) h)"
  by (auto simp: bindP_def fun_eq_iff split: prod.splits sum.splits)

lemma run_steps_append: "run_steps (ps @ qs) = bindP (run_steps ps) (\<lambda>_. run_steps qs)"
proof (induction ps)
  case Nil
  then show ?case by (auto simp: prog_defs fun_eq_iff)
next
  case (Cons p ps)
  then show ?case by (simp add: bindP_assoc)
qed

text \<open>A chain that stops was stopped by one of its steps, after the ones before it succeeded.\<close>

lemma run_steps_Inl:
  assumes "run_steps ps w = (Inl x, w')"
  shows "\<exists>i < length ps. \<exists>w1. run_steps (take i ps) w = (Inr (), w1) \<and> (ps ! i) w1 = (Inl x, w')"
  using assms
proof (induction ps arbitrary: w)
  case Nil
  then show ?case by (simp add: prog_simps)
next
  case (Cons p ps)
  then have "bindP p (\<lambda>_. run_steps ps) w = (Inl x, w')" by simp
  then show ?case
  proof (cases rule: bindP_InlE)
    case 1
    then show ?thesis by (intro exI [of _ 0]) (simp add: prog_simps)
  next
    case (2 a w1)
    from Cons.IH [OF 2(2)] obtain i w2 where "i < length ps"
      and "run_steps (take i ps) w1 = (Inr (), w2)" and "(ps ! i) w2 = (Inl x, w')" by blast
    with 2(1) show ?thesis by (intro exI [of _ "Suc i"]) (simp add: prog_simps)
  qed
qed

lemma run_steps_map_ret: "run_steps (map (\<lambda>_. ret ()) xs) = ret ()"
  by (induction xs) (simp_all add: bindP_def ret_def fun_eq_iff)

section \<open>Programs that do not panic\<close>

definition no_panic :: "('w, 'a) prog \<Rightarrow> bool" where
  "no_panic p \<longleftrightarrow> (\<forall>w m w'. p w \<noteq> (Inl (GoPanic m), w'))"

lemma no_panicD: "no_panic p \<Longrightarrow> p w \<noteq> (Inl (GoPanic m), w')"
  by (simp add: no_panic_def)

lemma no_panic_base [simp, intro!]:
  "no_panic (ret a)" "no_panic (fail e)" "no_panic (pure (Inr a))" "no_panic (call c)"
  by (auto simp: no_panic_def prog_defs split: prod.splits sum.splits)

lemma no_panic_bind [intro!]: "no_panic m \<Longrightarrow> (\<And>a. no_panic (k a)) \<Longrightarrow> no_panic (bindP m k)"
  by (auto simp: no_panic_def bindP_def split: prod.splits sum.splits)

lemma no_panic_attempt [intro!]: "no_panic m \<Longrightarrow> no_panic (attempt m)"
  by (auto simp: no_panic_def attempt_def split: prod.splits sum.splits abort.splits)

lemma no_panic_wrap [intro!]: "no_panic m \<Longrightarrow> no_panic (wrap_err p m)"
  by (auto simp: no_panic_def wrap_err_def split: prod.splits sum.splits abort.splits)

lemma no_panic_steps: "(\<And>p. p \<in> set ps \<Longrightarrow> no_panic p) \<Longrightarrow> no_panic (run_steps ps)"
  by (induction ps) auto

section \<open>What programs keep of the world\<close>

text \<open>
  \<open>keeps R p\<close>: whatever the result, the world after \<open>p\<close> is related by \<open>R\<close> to the one before.
  For a reflexive and transitive \<open>R\<close> this composes along a program.
\<close>

definition keeps :: "('w \<Rightarrow> 'w \<Rightarrow> bool) \<Rightarrow> ('w, 'a) prog \<Rightarrow> bool" where
  "keeps R p \<longleftrightarrow> (\<forall>w. R w (snd (p w)))"

locale world_relation =
  fixes R :: "'w \<Rightarrow> 'w \<Rightarrow> bool"
  assumes refl: "R w w"
    and trans: "R w1 w2 \<Longrightarrow> R w2 w3 \<Longrightarrow> R w1 w3"
begin

lemma keeps_ret [intro!]: "keeps R (ret a)"
  and keeps_fail [intro!]: "keeps R (fail e)"
  and keeps_panic [intro!]: "keeps R (panic m)"
  and keeps_pure [intro!]: "keeps R (pure r)"
  by (simp_all add: keeps_def prog_simps refl)

lemma keeps_call:
  assumes "\<And>w. R w (snd (m w))"
  shows "keeps R (call m)"
proof -
  have "R w (snd (call m w))" for w
    using assms [of w] by (auto simp: call_def split: prod.splits sum.splits)
  then show ?thesis by (simp add: keeps_def)
qed

text \<open>The continuation needs to keep \<open>R\<close> for the values the first part can return only.\<close>

lemma keeps_bind_value:
  assumes "keeps R m" and "\<And>w a w'. m w = (Inr a, w') \<Longrightarrow> keeps R (k a)"
  shows "keeps R (bindP m k)"
proof -
  have "R w (snd (bindP m k w))" for w
  proof (cases "m w")
    case (Pair r w1)
    with assms(1) have 1: "R w w1" unfolding keeps_def by (metis snd_conv)
    show ?thesis
    proof (cases r)
      case (Inl x)
      with Pair 1 show ?thesis by (simp add: prog_simps)
    next
      case (Inr a)
      with Pair assms(2) have "R w1 (snd (k a w1))" by (simp add: keeps_def)
      with 1 Pair Inr show ?thesis by (auto simp: prog_simps intro: trans)
    qed
  qed
  then show ?thesis by (simp add: keeps_def)
qed

lemma keeps_bind [intro!]:
  assumes "keeps R m" and "\<And>a. keeps R (k a)"
  shows "keeps R (bindP m k)"
  using assms by (rule keeps_bind_value)

lemma keeps_attempt [intro!]:
  assumes "keeps R m"
  shows "keeps R (attempt m)"
proof -
  have "snd (attempt m w) = snd (m w)" for w
    by (auto simp: attempt_def split: prod.splits sum.splits abort.splits)
  with assms show ?thesis by (simp add: keeps_def)
qed

lemma keeps_wrap_err [intro!]:
  assumes "keeps R m"
  shows "keeps R (wrap_err p m)"
proof -
  have "snd (wrap_err p m w) = snd (m w)" for w
    by (auto simp: wrap_err_def split: prod.splits sum.splits abort.splits)
  with assms show ?thesis by (simp add: keeps_def)
qed

lemma keeps_run_steps:
  assumes "\<And>p. p \<in> set ps \<Longrightarrow> keeps R p"
  shows "keeps R (run_steps ps)"
  using assms by (induction ps) auto

lemma keeps_result: "keeps R p \<Longrightarrow> p w = (r, w') \<Longrightarrow> R w w'"
  unfolding keeps_def by (metis snd_conv)

end

section \<open>Maps of strings\<close>

text \<open>
  A Go \<open>map[string]string\<close> as an association list: \<open>map_of\<close> looks a key up.  Two of them are
  the same map when every key has the same value in both.
\<close>

type_synonym str_map = "(string \<times> string) list"

definition same_map :: "str_map \<Rightarrow> str_map \<Rightarrow> bool" where
  "same_map a b = list_all (\<lambda>k. map_of a k = map_of b k) (map fst a @ map fst b)"

lemma same_map_iff: "same_map a b \<longleftrightarrow> map_of a = map_of b"
proof
  assume s: "same_map a b"
  show "map_of a = map_of b"
  proof
    fix k
    show "map_of a k = map_of b k"
    proof (cases "k \<in> fst ` set a \<union> fst ` set b")
      case True
      with s show ?thesis by (auto simp: same_map_def list_all_iff)
    next
      case False
      then have "map_of a k = None" and "map_of b k = None" by (simp_all add: map_of_eq_None_iff)
      then show ?thesis by simp
    qed
  qed
qed (simp add: same_map_def list_all_iff)

text \<open>\<open>client.MatchingLabels\<close>: every pair of the selector is a label of the object.\<close>

definition has_labels :: "str_map \<Rightarrow> str_map \<Rightarrow> bool" where
  "has_labels sel lbls = list_all (\<lambda>(k, v). map_of lbls k = Some v) sel"

lemma has_labels_same_map:
  assumes "distinct (map fst sel)" and "same_map sel lbls"
  shows "has_labels sel lbls"
proof -
  have "map_of lbls k = Some v" if "(k, v) \<in> set sel" for k v
    using map_of_is_SomeI [OF assms(1) that] assms(2) by (simp add: same_map_iff)
  then show ?thesis by (auto simp: has_labels_def list_all_iff)
qed

text \<open>\<open>m[k] = v\<close> on such a map.\<close>

definition put :: "string \<Rightarrow> string \<Rightarrow> str_map \<Rightarrow> str_map" where
  "put k v m = (k, v) # filter (\<lambda>(k', _). k' \<noteq> k) m"

lemma map_of_put: "map_of (put k v m) = (map_of m)(k \<mapsto> v)"
proof -
  have "map_of (filter (\<lambda>(k', _). k' \<noteq> k) m) j = map_of m j" if "j \<noteq> k" for j
    using that by (induction m) auto
  then show ?thesis by (auto simp: put_def fun_eq_iff)
qed

text \<open>\<open>strings.Join\<close> of the standard library.\<close>

fun strings_Join :: "string list \<Rightarrow> string \<Rightarrow> string" where
  "strings_Join [] sep = ''''"
| "strings_Join [x] sep = x"
| "strings_Join (x # xs) sep = x @ sep @ strings_Join xs sep"

text \<open>\<open>%d\<close> of a number.\<close>

fun dec_digits :: "nat \<Rightarrow> string" where
  "dec_digits n = (if n < 10 then [char_of (48 + n)]
     else dec_digits (n div 10) @ [char_of (48 + n mod 10)])"

declare dec_digits.simps [simp del]

definition go_itoa :: "int \<Rightarrow> string" where
  "go_itoa i = (if i < 0 then ''-'' @ dec_digits (nat (- i)) else dec_digits (nat i))"

text \<open>
  \<open>%q\<close> of a string: quotes and backslashes escaped, control characters as Go escapes them. A byte
  outside ASCII is kept, as Go keeps the bytes of a printable character.
\<close>

definition hex_digit :: "nat \<Rightarrow> char" where
  "hex_digit n = (if n < 10 then char_of (48 + n) else char_of (87 + n))"

definition quote_char :: "char \<Rightarrow> string" where
  "quote_char ch = (let n = of_char ch :: nat; slash = CHR 0x5C in
     if n = 0x22 \<or> n = 0x5C then [slash, ch]
     else if n = 7 then [slash, CHR ''a'']
     else if n = 8 then [slash, CHR ''b'']
     else if n = 9 then [slash, CHR ''t'']
     else if n = 10 then [slash, CHR ''n'']
     else if n = 11 then [slash, CHR ''v'']
     else if n = 12 then [slash, CHR ''f'']
     else if n = 13 then [slash, CHR ''r'']
     else if n < 0x20 \<or> n = 0x7F
       then [slash, CHR ''x'', hex_digit (n div 16), hex_digit (n mod 16)]
     else [ch])"

definition go_quote :: "string \<Rightarrow> string" where
  "go_quote s = [CHR 0x22] @ concat (map quote_char s) @ [CHR 0x22]"

end
