(* ===== verification/Kube_Objects.thy ===== *)
theory Kube_Objects
  imports Prelude
begin

text \<open>
  The Kubernetes objects the operator builds and reads, with the fields its code sets or reads.
  A pointer field that the code leaves nil is \<open>None\<close>; a zero value is the empty string, the
  empty list, \<open>False\<close> or 0.  Every object is its metadata and a body, as every Go type embeds
  \<open>metav1.ObjectMeta\<close>.
\<close>

section \<open>Metadata\<close>

record owner_ref =
  or_api_version :: string
  or_kind :: string
  or_name :: string
  or_uid :: string
  or_controller :: bool

record obj_meta =
  om_name :: string
  om_namespace :: string
  om_labels :: str_map
  om_annotations :: str_map
  om_owner_refs :: "owner_ref list"
  om_resource_version :: string
  om_uid :: string
  om_finalizers :: "string list"
  om_deletion_timestamp :: "string option"

definition object_meta :: "string \<Rightarrow> string \<Rightarrow> str_map \<Rightarrow> obj_meta" where
  "object_meta name ns lbls = \<lparr>om_name = name, om_namespace = ns, om_labels = lbls,
     om_annotations = [], om_owner_refs = [], om_resource_version = '''', om_uid = '''',
     om_finalizers = [], om_deletion_timestamp = None\<rparr>"

section \<open>Pods\<close>

text \<open>A \<open>resource.Quantity\<close> is kept as the text it was parsed from.\<close>

datatype quantity = Quantity string

datatype env_var =
    EnvValue (ev_name: string) (ev_value: string)
  | EnvFieldRef (ev_name: string) (ev_field_path: string)

datatype mount_propagation = Bidirectional | HostToContainer

record volume_mount =
  vm_name :: string
  vm_mount_path :: string
  vm_propagation :: "mount_propagation option"
  vm_sub_path :: string
  vm_read_only :: bool

definition Mount :: "string \<Rightarrow> string \<Rightarrow> volume_mount" where
  "Mount name path = \<lparr>vm_name = name, vm_mount_path = path, vm_propagation = None,
     vm_sub_path = '''', vm_read_only = False\<rparr>"

datatype host_path_type = HostPathDirectory | HostPathDirectoryOrCreate

datatype volume_source =
    HostPath string "host_path_type option"
  | EmptyDir string "quantity option"
  | ConfigMapVolume string "32 word"

record volume =
  vol_name :: string
  vol_source :: volume_source

definition Volume :: "string \<Rightarrow> volume_source \<Rightarrow> volume" where
  "Volume name src = \<lparr>vol_name = name, vol_source = src\<rparr>"

record container_port =
  cp_name :: string
  cp_port :: int
  cp_protocol :: string

definition Port :: "string \<Rightarrow> int \<Rightarrow> string \<Rightarrow> container_port" where
  "Port name p proto = \<lparr>cp_name = name, cp_port = p, cp_protocol = proto\<rparr>"

record security_context =
  sc_privileged :: "bool option"
  sc_add_capabilities :: "string list"
  sc_allow_privilege_escalation :: "bool option"
  sc_run_as_user :: "int option"

definition security_context0 :: security_context where
  "security_context0 = \<lparr>sc_privileged = None, sc_add_capabilities = [],
     sc_allow_privilege_escalation = None, sc_run_as_user = None\<rparr>"

datatype probe_handler = ExecAction "string list" | HTTPGetAction string int

record probe =
  pr_handler :: probe_handler
  pr_failure_threshold :: int
  pr_initial_delay :: int
  pr_period :: int
  pr_timeout :: int

record resource_requirements =
  rr_limits :: "(string \<times> quantity) list"
  rr_requests :: "(string \<times> quantity) list"

record container =
  c_name :: string
  c_image :: string
  c_image_pull_policy :: string
  c_command :: "string list"
  c_args :: "string list"
  c_env :: "env_var list"
  c_ports :: "container_port list"
  c_resources :: resource_requirements
  c_volume_mounts :: "volume_mount list"
  c_security_context :: "security_context option"
  c_pre_stop :: "string list option"
  c_liveness :: "probe option"
  c_readiness :: "probe option"

definition container0 :: container where
  "container0 = \<lparr>c_name = '''', c_image = '''', c_image_pull_policy = '''', c_command = [],
     c_args = [], c_env = [], c_ports = [], c_resources = \<lparr>rr_limits = [], rr_requests = []\<rparr>,
     c_volume_mounts = [], c_security_context = None, c_pre_stop = None, c_liveness = None,
     c_readiness = None\<rparr>"

record pod_spec =
  ps_service_account :: string
  ps_host_network :: bool
  ps_dns_policy :: string
  ps_node_selector :: str_map
  ps_fs_group :: "int option"
  ps_init_containers :: "container list"
  ps_containers :: "container list"
  ps_volumes :: "volume list"

definition pod_spec0 :: pod_spec where
  "pod_spec0 = \<lparr>ps_service_account = '''', ps_host_network = False, ps_dns_policy = '''',
     ps_node_selector = [], ps_fs_group = None, ps_init_containers = [], ps_containers = [],
     ps_volumes = []\<rparr>"

record pod_template =
  pt_labels :: str_map
  pt_annotations :: str_map
  pt_spec :: pod_spec

definition template :: "str_map \<Rightarrow> pod_spec \<Rightarrow> pod_template" where
  "template lbls spec = \<lparr>pt_labels = lbls, pt_annotations = [], pt_spec = spec\<rparr>"

section \<open>Workloads\<close>

text \<open>A signed 32-bit count (Go \<open>int32\<close>) is a \<open>32 word\<close>, read with \<open>sint\<close>.\<close>

record deployment_spec =
  dep_replicas :: "32 word"
  dep_strategy :: string
  dep_selector :: str_map
  dep_template :: pod_template

datatype int_or_string = IntVal int | StrVal string

datatype update_strategy = UpdateUnset | OnDelete | RollingUpdate int_or_string

record daemonset_spec =
  ds_selector :: str_map
  ds_min_ready_seconds :: int
  ds_update_strategy :: update_strategy
  ds_template :: pod_template

record pvc =
  pvc_type_meta :: "string \<times> string"
  pvc_meta :: obj_meta
  pvc_access_modes :: "string list"
  pvc_volume_mode :: "string option"
  pvc_requests :: "(string \<times> quantity) list"
  pvc_storage_class :: "string option"
  pvc_status :: string

record statefulset_spec =
  sts_service_name :: string
  sts_replicas :: "32 word"
  sts_pod_management_policy :: string
  sts_selector :: str_map
  sts_template :: pod_template
  sts_volume_claim_templates :: "pvc list"
  sts_ready_replicas :: "32 word" \<comment> \<open>\<open>Status.ReadyReplicas\<close>\<close>

section \<open>Services, RBAC, storage\<close>

record service_port =
  sp_name :: string
  sp_port :: int
  sp_target_port :: "int_or_string option"

record service_spec =
  svc_cluster_ip :: string
  svc_selector :: str_map
  svc_ports :: "service_port list"

record policy_rule =
  api_groups :: "string list"
  resources :: "string list"
  verbs :: "string list"

definition Rule :: "string list \<Rightarrow> string list \<Rightarrow> string list \<Rightarrow> policy_rule" where
  "Rule gs rs vs = \<lparr>api_groups = gs, resources = rs, verbs = vs\<rparr>"

record role_ref =
  rr_api_group :: string
  rr_kind :: string
  rr_name :: string

record subject =
  sj_kind :: string
  sj_name :: string
  sj_namespace :: string

record csi_driver_spec =
  csi_attach_required :: bool
  csi_pod_info_on_mount :: bool
  csi_fs_group_policy :: string

record storage_class_spec =
  scs_provisioner :: string
  scs_reclaim_policy :: string
  scs_volume_binding_mode :: string
  scs_allow_volume_expansion :: bool
  scs_parameters :: str_map

text \<open>The value tree of an \<open>unstructured.Unstructured\<close> object.\<close>

datatype json = JStr string | JBool bool | JArr "json list" | JObj "(string \<times> json) list"

section \<open>Objects and their keys\<close>

datatype kbody =
    NamespaceBody
  | DeploymentBody deployment_spec
  | DaemonSetBody daemonset_spec
  | StatefulSetBody statefulset_spec
  | ServiceBody service_spec
  | ServiceAccountBody
  | ClusterRoleBody "policy_rule list"
  | ClusterRoleBindingBody role_ref "subject list"
  | CSIDriverBody csi_driver_spec
  | StorageClassBody storage_class_spec
  | ConfigMapBody str_map
  | UnstructuredBody string string "(string \<times> json) list"

datatype kind =
    KNamespace | KDeployment | KDaemonSet | KStatefulSet | KService | KServiceAccount
  | KClusterRole | KClusterRoleBinding | KCSIDriver | KStorageClass | KConfigMap
  | KUnstructured string string

fun kind_of :: "kbody \<Rightarrow> kind" where
  "kind_of NamespaceBody = KNamespace"
| "kind_of (DeploymentBody s) = KDeployment"
| "kind_of (DaemonSetBody s) = KDaemonSet"
| "kind_of (StatefulSetBody s) = KStatefulSet"
| "kind_of (ServiceBody s) = KService"
| "kind_of ServiceAccountBody = KServiceAccount"
| "kind_of (ClusterRoleBody rs) = KClusterRole"
| "kind_of (ClusterRoleBindingBody r sj) = KClusterRoleBinding"
| "kind_of (CSIDriverBody s) = KCSIDriver"
| "kind_of (StorageClassBody s) = KStorageClass"
| "kind_of (ConfigMapBody d) = KConfigMap"
| "kind_of (UnstructuredBody v k fs) = KUnstructured v k"

record kobj =
  meta :: obj_meta
  body :: kbody

type_synonym objkey = "kind \<times> string \<times> string"

text \<open>\<open>client.ObjectKeyFromObject\<close> together with the kind the typed client derives.\<close>

definition key_of :: "kobj \<Rightarrow> objkey" where
  "key_of ob = (kind_of (body ob), om_namespace (meta ob), om_name (meta ob))"

definition Obj :: "string \<Rightarrow> string \<Rightarrow> str_map \<Rightarrow> kbody \<Rightarrow> kobj" where
  "Obj name ns lbls b = \<lparr>meta = object_meta name ns lbls, body = b\<rparr>"

lemma key_of_Obj [simp]: "key_of (Obj name ns lbls b) = (kind_of b, ns, name)"
  by (simp add: key_of_def Obj_def object_meta_def)

lemma Obj_sel [simp]:
  "body (Obj name ns lbls b) = b"
  "om_labels (meta (Obj name ns lbls b)) = lbls"
  "om_name (meta (Obj name ns lbls b)) = name"
  "om_namespace (meta (Obj name ns lbls b)) = ns"
  by (simp_all add: Obj_def object_meta_def)

definition obj_name :: "kobj \<Rightarrow> string" where
  "obj_name ob = om_name (meta ob)"

definition SetResourceVersion :: "string \<Rightarrow> kobj \<Rightarrow> kobj" where
  "SetResourceVersion v ob = ob\<lparr>meta := (meta ob)\<lparr>om_resource_version := v\<rparr>\<rparr>"

definition SetOwnerReferences :: "owner_ref list \<Rightarrow> kobj \<Rightarrow> kobj" where
  "SetOwnerReferences rs ob = ob\<lparr>meta := (meta ob)\<lparr>om_owner_refs := rs\<rparr>\<rparr>"

definition resource_version :: "kobj \<Rightarrow> string" where
  "resource_version ob = om_resource_version (meta ob)"

lemma key_of_set [simp, key_simps]:
  "key_of (SetResourceVersion v ob) = key_of ob"
  "key_of (SetOwnerReferences rs ob) = key_of ob"
  by (simp_all add: key_of_def SetResourceVersion_def SetOwnerReferences_def)

lemma body_set [simp]:
  "body (SetResourceVersion v ob) = body ob"
  "body (SetOwnerReferences rs ob) = body ob"
  by (simp_all add: SetResourceVersion_def SetOwnerReferences_def)

lemma labels_set [simp]:
  "om_labels (meta (SetResourceVersion v ob)) = om_labels (meta ob)"
  "om_labels (meta (SetOwnerReferences rs ob)) = om_labels (meta ob)"
  by (simp_all add: SetResourceVersion_def SetOwnerReferences_def)

lemma owner_refs_set [simp]:
  "om_owner_refs (meta (SetResourceVersion v ob)) = om_owner_refs (meta ob)"
  "om_owner_refs (meta (SetOwnerReferences rs ob)) = rs"
  by (simp_all add: SetResourceVersion_def SetOwnerReferences_def)

lemma resource_version_set [simp]:
  "resource_version (SetResourceVersion v ob) = v"
  "resource_version (SetOwnerReferences rs ob) = resource_version ob"
  by (simp_all add: SetResourceVersion_def SetOwnerReferences_def resource_version_def)

lemma obj_name_key: "obj_name ob = snd (snd (key_of ob))"
  by (simp add: obj_name_def key_of_def)

end
