(* ===== verification/Api_Types.thy ===== *)
theory Api_Types
  imports Kube_Objects
begin

text \<open>
  The custom resource of the operator (src/api/v1alpha1/types.go): its spec, its status and
  the constants of its string types.  A Go string type stays a string here, so a value outside
  the declared constants (the zero value \<open>""\<close> for one) is representable, as it is in Go.
\<close>

section \<open>Engines, phases, conditions\<close>

type_synonym OpenEBSEngine = string

definition OpenEBSEngineHostpath :: OpenEBSEngine where "OpenEBSEngineHostpath = ''hostpath''"
definition OpenEBSEngineLVM :: OpenEBSEngine where "OpenEBSEngineLVM = ''lvm''"
definition OpenEBSEngineZFS :: OpenEBSEngine where "OpenEBSEngineZFS = ''zfs''"
definition OpenEBSEngineRawfile :: OpenEBSEngine where "OpenEBSEngineRawfile = ''rawfile''"
definition OpenEBSEngineMayastor :: OpenEBSEngine where "OpenEBSEngineMayastor = ''mayastor''"

lemmas engine_names = OpenEBSEngineHostpath_def OpenEBSEngineLVM_def OpenEBSEngineZFS_def
  OpenEBSEngineRawfile_def OpenEBSEngineMayastor_def

definition ConditionAvailable :: string where "ConditionAvailable = ''Available''"
definition ConditionProgressing :: string where "ConditionProgressing = ''Progressing''"
definition ConditionDegraded :: string where "ConditionDegraded = ''Degraded''"
definition ConditionFailed :: string where "ConditionFailed = ''Failed''"

lemmas condition_names = ConditionAvailable_def ConditionProgressing_def ConditionDegraded_def
  ConditionFailed_def

type_synonym OpenEBSPhase = string

definition OpenEBSPhasePending :: OpenEBSPhase where "OpenEBSPhasePending = ''Pending''"
definition OpenEBSPhaseInstalling :: OpenEBSPhase where "OpenEBSPhaseInstalling = ''Installing''"
definition OpenEBSPhaseRunning :: OpenEBSPhase where "OpenEBSPhaseRunning = ''Running''"
definition OpenEBSPhaseDegraded :: OpenEBSPhase where "OpenEBSPhaseDegraded = ''Degraded''"
definition OpenEBSPhaseFailed :: OpenEBSPhase where "OpenEBSPhaseFailed = ''Failed''"

lemmas phase_names = OpenEBSPhasePending_def OpenEBSPhaseInstalling_def OpenEBSPhaseRunning_def
  OpenEBSPhaseDegraded_def OpenEBSPhaseFailed_def

section \<open>Spec\<close>

record ResourceSpec =
  CPU :: string
  Memory :: string
  Hugepages2Mi :: string

record HostpathConfig =
  hp_Enabled :: bool
  hp_BasePath :: string
  hp_IsDefaultClass :: bool
  hp_StorageClassName :: string

record LVMConfig =
  lvm_Enabled :: bool
  lvm_StorageClassName :: string
  lvm_IsDefaultClass :: bool
  lvm_VolumeGroup :: string

record ZFSConfig =
  zfs_Enabled :: bool
  zfs_StorageClassName :: string
  zfs_PoolName :: string
  zfs_IsDefaultClass :: bool

record RawfileConfig =
  rf_Enabled :: bool
  rf_BasePath :: string
  rf_IsDefaultClass :: bool

text \<open>\<open>EtcdReplicaCount\<close> is a Go \<open>int\<close>, 64 bits wide on the platforms the image is built for.\<close>

record MayastorConfig =
  ms_Enabled :: bool
  ms_EtcdReplicaCount :: "64 word"
  ms_IOEngineResources :: "ResourceSpec option"
  ms_CoreAgentResources :: "ResourceSpec option"
  ms_StorageClassName :: string
  ms_IsDefaultClass :: bool
  ms_SnapshotClassName :: string
  ms_EtcdStorageSize :: string
  ms_EtcdStorageClassName :: string
  ms_EtcdVeleroBackup :: bool
  ms_EtcdVeleroSchedule :: string
  ms_EtcdVeleroNamespace :: string
  ms_IoEngineEnvContext :: string

record ImageConfig =
  img_LVM :: string
  img_Hostpath :: string
  img_ZFS :: string
  img_Rawfile :: string
  img_CSIProvisioner :: string
  img_CSIResizer :: string
  img_CSISnapshotter :: string
  img_CSIAttacher :: string
  img_CSISnapshotController :: string
  img_CSINodeRegistrar :: string
  img_Mayastor :: string
  img_Etcd :: string

record OpenEBSSpec =
  spec_Hostpath :: "HostpathConfig option"
  spec_LVM :: "LVMConfig option"
  spec_ZFS :: "ZFSConfig option"
  spec_Rawfile :: "RawfileConfig option"
  spec_Mayastor :: "MayastorConfig option"
  spec_ImagePullSecrets :: "string list"
  spec_NodeSelector :: str_map
  spec_Images :: "ImageConfig option"

section \<open>Status and the resource itself\<close>

record EngineStatus =
  es_Name :: OpenEBSEngine
  es_Phase :: OpenEBSPhase
  es_Version :: string
  es_Message :: string

text \<open>\<open>metav1.Condition\<close>, with the fields the operator sets.\<close>

record Condition =
  cond_Type :: string
  cond_Status :: string
  cond_LastTransitionTime :: string
  cond_Reason :: string
  cond_Message :: string

record OpenEBSStatus =
  st_Phase :: OpenEBSPhase
  st_Conditions :: "Condition list"
  st_Engines :: "EngineStatus list"

record OpenEBS =
  oe_meta :: obj_meta
  oe_Spec :: OpenEBSSpec
  oe_Status :: OpenEBSStatus

section \<open>Zero values\<close>

definition spec0 :: OpenEBSSpec where
  "spec0 = \<lparr>spec_Hostpath = None, spec_LVM = None, spec_ZFS = None, spec_Rawfile = None,
     spec_Mayastor = None, spec_ImagePullSecrets = [], spec_NodeSelector = [],
     spec_Images = None\<rparr>"

definition mayastor_config0 :: MayastorConfig where
  "mayastor_config0 = \<lparr>ms_Enabled = False, ms_EtcdReplicaCount = 0, ms_IOEngineResources = None,
     ms_CoreAgentResources = None, ms_StorageClassName = '''', ms_IsDefaultClass = False,
     ms_SnapshotClassName = '''', ms_EtcdStorageSize = '''', ms_EtcdStorageClassName = '''',
     ms_EtcdVeleroBackup = False, ms_EtcdVeleroSchedule = '''', ms_EtcdVeleroNamespace = '''',
     ms_IoEngineEnvContext = ''''\<rparr>"

definition openebs0 :: OpenEBS where
  "openebs0 = \<lparr>oe_meta = object_meta ''openebs'' '''' [], oe_Spec = spec0,
     oe_Status = \<lparr>st_Phase = '''', st_Conditions = [], st_Engines = []\<rparr>\<rparr>"

section \<open>Which engines a resource asks for\<close>

definition lvm_on :: "OpenEBS \<Rightarrow> bool" where
  "lvm_on inst = (case spec_LVM (oe_Spec inst) of None \<Rightarrow> False | Some c \<Rightarrow> lvm_Enabled c)"

definition zfs_on :: "OpenEBS \<Rightarrow> bool" where
  "zfs_on inst = (case spec_ZFS (oe_Spec inst) of None \<Rightarrow> False | Some c \<Rightarrow> zfs_Enabled c)"

definition hostpath_on :: "OpenEBS \<Rightarrow> bool" where
  "hostpath_on inst =
     (case spec_Hostpath (oe_Spec inst) of None \<Rightarrow> False | Some c \<Rightarrow> hp_Enabled c)"

definition rawfile_on :: "OpenEBS \<Rightarrow> bool" where
  "rawfile_on inst = (case spec_Rawfile (oe_Spec inst) of None \<Rightarrow> False | Some c \<Rightarrow> rf_Enabled c)"

definition mayastor_on :: "OpenEBS \<Rightarrow> bool" where
  "mayastor_on inst =
     (case spec_Mayastor (oe_Spec inst) of None \<Rightarrow> False | Some c \<Rightarrow> ms_Enabled c)"

lemma engine_on_Some:
  "lvm_on inst \<Longrightarrow> \<exists>c. spec_LVM (oe_Spec inst) = Some c"
  "zfs_on inst \<Longrightarrow> \<exists>c. spec_ZFS (oe_Spec inst) = Some c"
  "hostpath_on inst \<Longrightarrow> \<exists>c. spec_Hostpath (oe_Spec inst) = Some c"
  "rawfile_on inst \<Longrightarrow> \<exists>c. spec_Rawfile (oe_Spec inst) = Some c"
  "mayastor_on inst \<Longrightarrow> \<exists>c. spec_Mayastor (oe_Spec inst) = Some c"
  by (simp_all add: lvm_on_def zfs_on_def hostpath_on_def rawfile_on_def mayastor_on_def
      split: option.splits)

end
