(* ===== verification/Names.thy ===== *)
theory Names
  imports Api_Types
begin

text \<open>
  The names, labels and defaults that the builders, the deployer and the clean-up share
  (the constants of src/internal/controller/deployer.go and component.go), and the third-party
  helpers the code calls on values only.

  The helpers are not part of this repository, so they are fields of the record \<open>lib\<close>: every
  definition that uses one takes the record, and what the code relies on is stated in the
  locale \<open>apimachinery\<close> below.
\<close>

section \<open>Third-party helpers on values\<close>

datatype crd_file =
    LvmNodeCRD | LvmVolumeCRD | LvmSnapshotCRD | ZfsNodeCRD | ZfsVolumeCRD | ZfsSnapshotCRD
  | VolumeSnapshotClassCRD | VolumeSnapshotCRD | VolumeSnapshotContentCRD

record lib =
  NewControllerRef :: "OpenEBS \<Rightarrow> string \<Rightarrow> string \<Rightarrow> owner_ref"
  IsControlledBy :: "obj_meta \<Rightarrow> OpenEBS \<Rightarrow> bool"
  quantity_ok :: "string \<Rightarrow> bool"
  DeepEqual_selector :: "str_map \<Rightarrow> str_map \<Rightarrow> bool"
  DeepEqual_pvcs :: "pvc list \<Rightarrow> pvc list \<Rightarrow> bool"
  ContainsFinalizer :: "OpenEBS \<Rightarrow> string \<Rightarrow> bool"
  AddFinalizer :: "OpenEBS \<Rightarrow> string \<Rightarrow> OpenEBS"
  RemoveFinalizer :: "OpenEBS \<Rightarrow> string \<Rightarrow> OpenEBS"
  decode_yaml :: "crd_file \<Rightarrow> gerror + kobj"

text \<open>The name every embedded manifest under src/internal/controller/crds declares.\<close>

fun crd_name :: "crd_file \<Rightarrow> string" where
  "crd_name LvmNodeCRD = ''lvmnodes.local.openebs.io''"
| "crd_name LvmVolumeCRD = ''lvmvolumes.local.openebs.io''"
| "crd_name LvmSnapshotCRD = ''lvmsnapshots.local.openebs.io''"
| "crd_name ZfsNodeCRD = ''zfsnodes.zfs.openebs.io''"
| "crd_name ZfsVolumeCRD = ''zfsvolumes.zfs.openebs.io''"
| "crd_name ZfsSnapshotCRD = ''zfssnapshots.zfs.openebs.io''"
| "crd_name VolumeSnapshotClassCRD = ''volumesnapshotclasses.snapshot.storage.k8s.io''"
| "crd_name VolumeSnapshotCRD = ''volumesnapshots.snapshot.storage.k8s.io''"
| "crd_name VolumeSnapshotContentCRD = ''volumesnapshotcontents.snapshot.storage.k8s.io''"

definition crd_kind :: kind where
  "crd_kind = KUnstructured ''apiextensions.k8s.io/v1'' ''CustomResourceDefinition''"

definition crd_key :: "crd_file \<Rightarrow> objkey" where
  "crd_key f = (crd_kind, '''', crd_name f)"

text \<open>
  What the operator relies on: a controller reference made for an instance is recognised as
  its own, semantic equality is reflexive and sound for the maps and claims compared, adding a
  finalizer makes it present and removing it absent with the rest of the resource unchanged,
  and an embedded manifest that decodes is the definition it names.
\<close>

locale apimachinery =
  fixes L :: "'l lib_scheme"
  assumes controller_ref:
      "om_owner_refs m = [NewControllerRef L inst v k] \<Longrightarrow> IsControlledBy L m inst"
    and selector_refl: "DeepEqual_selector L s s"
    and selector_sound: "DeepEqual_selector L s t \<Longrightarrow> same_map s t"
    and pvcs_refl: "DeepEqual_pvcs L ps ps"
    and pvcs_sound: "DeepEqual_pvcs L ps qs \<Longrightarrow>
      map (om_name \<circ> pvc_meta) ps = map (om_name \<circ> pvc_meta) qs \<and>
      map pvc_volume_mode ps = map pvc_volume_mode qs \<and>
      map pvc_storage_class ps = map pvc_storage_class qs"
    and contains_add: "ContainsFinalizer L (AddFinalizer L inst f) f"
    and contains_remove: "\<not> ContainsFinalizer L (RemoveFinalizer L inst f) f"
    and add_spec: "oe_Spec (AddFinalizer L inst f) = oe_Spec inst"
    and remove_spec: "oe_Spec (RemoveFinalizer L inst f) = oe_Spec inst"
    and decoded: "decode_yaml L cf = Inr ob \<Longrightarrow> key_of ob = crd_key cf"

section \<open>Names\<close>

definition openebsNamespace :: string where "openebsNamespace = ''openebs''"
definition managedLabelKey :: string where "managedLabelKey = ''app.kubernetes.io/managed-by''"
definition managedLabelValue :: string where "managedLabelValue = ''openebs-operator''"

definition lvmControllerName :: string where "lvmControllerName = ''openebs-lvm-controller''"
definition lvmNodeName :: string where "lvmNodeName = ''openebs-lvm-node''"
definition lvmCSIDriverName :: string where "lvmCSIDriverName = ''local.csi.openebs.io''"
definition lvmSCName :: string where "lvmSCName = ''openebs-lvm''"

definition hostpathDeployName :: string where "hostpathDeployName = ''openebs-localpv-provisioner''"
definition hostpathSCName :: string where "hostpathSCName = ''openebs-hostpath''"

definition zfsControllerName :: string where "zfsControllerName = ''openebs-zfs-controller''"
definition zfsNodeName :: string where "zfsNodeName = ''openebs-zfs-node''"
definition zfsCSIDriverName :: string where "zfsCSIDriverName = ''zfs.csi.openebs.io''"
definition zfsSCName :: string where "zfsSCName = ''openebs-zfs''"

definition rawfileDeployName :: string where "rawfileDeployName = ''openebs-rawfile-provisioner''"
definition rawfileSCName :: string where "rawfileSCName = ''openebs-rawfile''"

definition mayastorNamespace :: string where "mayastorNamespace = ''mayastor''"

definition mayastorServiceAccountName :: string where
  "mayastorServiceAccountName = ''mayastor-service-account''"
definition mayastorClusterRoleName :: string where "mayastorClusterRoleName = ''mayastor-role''"
definition mayastorClusterRoleBindingName :: string where
  "mayastorClusterRoleBindingName = ''mayastor-binding''"
definition mayastorEtcdName :: string where "mayastorEtcdName = ''mayastor-etcd''"
definition mayastorEtcdServiceName :: string where "mayastorEtcdServiceName = ''mayastor-etcd''"
definition mayastorAgentCoreName :: string where "mayastorAgentCoreName = ''mayastor-agent-core''"
definition mayastorAgentCoreServiceName :: string where
  "mayastorAgentCoreServiceName = ''mayastor-agent-core''"
definition mayastorAPIRestName :: string where "mayastorAPIRestName = ''mayastor-api-rest''"
definition mayastorAPIRestServiceName :: string where
  "mayastorAPIRestServiceName = ''mayastor-api-rest''"
definition mayastorCSIControllerName :: string where
  "mayastorCSIControllerName = ''mayastor-csi-controller''"
definition mayastorIOEngineName :: string where "mayastorIOEngineName = ''mayastor-io-engine''"
definition mayastorMetricsExporterSvcName :: string where
  "mayastorMetricsExporterSvcName = ''mayastor-metrics-exporter-io-engine''"
definition mayastorCSINodeName :: string where "mayastorCSINodeName = ''mayastor-csi-node''"
definition mayastorDiskpoolName :: string where
  "mayastorDiskpoolName = ''mayastor-operator-diskpool''"
definition mayastorHANodeName :: string where "mayastorHANodeName = ''mayastor-agent-ha-node''"
definition mayastorCSIDriverName :: string where "mayastorCSIDriverName = ''io.openebs.csi-mayastor''"
definition mayastorSCName :: string where "mayastorSCName = ''mayastor''"
definition mayastorSnapshotClassName :: string where
  "mayastorSnapshotClassName = ''mayastor-snapshot''"

lemmas openebs_names =
  openebsNamespace_def managedLabelKey_def managedLabelValue_def
  lvmControllerName_def lvmNodeName_def lvmCSIDriverName_def lvmSCName_def
  hostpathDeployName_def hostpathSCName_def
  zfsControllerName_def zfsNodeName_def zfsCSIDriverName_def zfsSCName_def
  rawfileDeployName_def rawfileSCName_def

lemmas mayastor_names =
  mayastorNamespace_def mayastorServiceAccountName_def mayastorClusterRoleName_def
  mayastorClusterRoleBindingName_def mayastorEtcdName_def mayastorEtcdServiceName_def
  mayastorAgentCoreName_def mayastorAgentCoreServiceName_def mayastorAPIRestName_def
  mayastorAPIRestServiceName_def mayastorCSIControllerName_def mayastorIOEngineName_def
  mayastorMetricsExporterSvcName_def mayastorCSINodeName_def mayastorDiskpoolName_def
  mayastorHANodeName_def mayastorCSIDriverName_def mayastorSCName_def
  mayastorSnapshotClassName_def

lemmas all_names = openebs_names mayastor_names

section \<open>Default images\<close>

definition defaultLVMImage :: string where "defaultLVMImage = ''openebs/lvm-driver:1.9.1''"
definition defaultHostpathImage :: string where
  "defaultHostpathImage = ''openebs/provisioner-localpv:4.5.0''"
definition defaultZFSImage :: string where "defaultZFSImage = ''openebs/zfs-driver:2.10.1''"
definition defaultRawfileImage :: string where
  "defaultRawfileImage = ''openebs/rawfile-localpv:0.14.1''"
definition defaultHelperImage :: string where "defaultHelperImage = ''openebs/linux-utils:4.5.0''"
definition defaultCSIProvisioner :: string where
  "defaultCSIProvisioner = ''registry.k8s.io/sig-storage/csi-provisioner:v4.0.1''"
definition defaultCSIResizer :: string where
  "defaultCSIResizer = ''registry.k8s.io/sig-storage/csi-resizer:v1.10.1''"
definition defaultCSISnapshotter :: string where
  "defaultCSISnapshotter = ''registry.k8s.io/sig-storage/csi-snapshotter:v7.0.2''"
definition defaultCSINodeRegistrar :: string where
  "defaultCSINodeRegistrar = ''registry.k8s.io/sig-storage/csi-node-driver-registrar:v2.10.1''"
definition defaultCSIAttacher :: string where
  "defaultCSIAttacher = ''registry.k8s.io/sig-storage/csi-attacher:v4.8.1''"
definition defaultCSISnapshotController :: string where
  "defaultCSISnapshotController = ''registry.k8s.io/sig-storage/snapshot-controller:v8.2.0''"
definition defaultMayastorTag :: string where "defaultMayastorTag = ''v2.11.1''"
definition defaultEtcdImage :: string where
  "defaultEtcdImage = ''openebs/etcd:3.6.4-debian-12-r0''"

definition resolveImage :: "string \<Rightarrow> string \<Rightarrow> string" where
  "resolveImage override defaultImage = (if override \<noteq> '''' then override else defaultImage)"

text \<open>
  The pattern every builder uses: the default, replaced by a field of \<open>Spec.Images\<close> when that
  is set and the field is not empty.
\<close>

definition image_of :: "OpenEBS \<Rightarrow> (ImageConfig \<Rightarrow> string) \<Rightarrow> string \<Rightarrow> string" where
  "image_of inst field deflt = (case spec_Images (oe_Spec inst) of
     None \<Rightarrow> deflt
   | Some imgs \<Rightarrow> resolveImage (field imgs) deflt)"

definition mayastorImage :: "string \<Rightarrow> string \<Rightarrow> string" where
  "mayastorImage tag component = ''openebs/mayastor-'' @ component @ '':'' @ tag"

definition boolToStr :: "bool \<Rightarrow> string" where
  "boolToStr b = (if b then ''true'' else ''false'')"

section \<open>Labels and owner references\<close>

definition labels :: "string \<Rightarrow> str_map" where
  "labels component = [(''app.kubernetes.io/name'', ''openebs''),
     (''app.kubernetes.io/component'', component), (managedLabelKey, managedLabelValue)]"

definition managed_selector :: str_map where
  "managed_selector = [(managedLabelKey, managedLabelValue)]"

definition ownerRefs :: "'l lib_scheme \<Rightarrow> OpenEBS \<Rightarrow> owner_ref list" where
  "ownerRefs L inst = [NewControllerRef L inst ''storage.aldershaab-it.dk/v1alpha1'' ''OpenEBS'']"

text \<open>\<open>resource.MustParse\<close>: panics on a text that is no quantity.\<close>

definition MustParse :: "'l lib_scheme \<Rightarrow> string \<Rightarrow> quantity result" where
  "MustParse L s = (if quantity_ok L s then Inr (Quantity s)
     else Inl (GoPanic (''cannot parse '' @ s)))"

lemma labels_managed [simp]: "map_of (labels c) managedLabelKey = Some managedLabelValue"
  by (simp add: labels_def managedLabelKey_def)

lemma labels_component [simp]: "map_of (labels c) ''app.kubernetes.io/component'' = Some c"
  by (simp add: labels_def)

lemma labels_distinct: "distinct (map fst (labels c))"
  by (simp add: labels_def managedLabelKey_def)

lemma has_labels_managed [simp]: "has_labels managed_selector (labels c)"
  by (simp add: managed_selector_def has_labels_def)

text \<open>One component's labels select no object of another: the component label tells them apart.\<close>

lemma labels_select_own: "has_labels (labels c) (labels d) \<longleftrightarrow> c = d"
  by (auto simp: has_labels_def labels_def managedLabelKey_def)

lemma image_of_override:
  "spec_Images (oe_Spec inst) = Some imgs \<Longrightarrow> field imgs \<noteq> '''' \<Longrightarrow>
     image_of inst field deflt = field imgs"
  by (simp add: image_of_def resolveImage_def)

lemma image_of_default:
  "spec_Images (oe_Spec inst) = None \<or> (\<exists>imgs. spec_Images (oe_Spec inst) = Some imgs \<and>
     field imgs = '''') \<Longrightarrow> image_of inst field deflt = deflt"
  by (auto simp: image_of_def resolveImage_def)

section \<open>Shared pieces of the builders\<close>

definition csi_socket_mount :: volume_mount where
  "csi_socket_mount = Mount ''socket-dir'' ''/var/lib/csi/sockets/pluginproxy/''"

definition csi_pod_socket :: env_var where
  "csi_pod_socket = EnvValue ''ADDRESS'' ''/var/lib/csi/sockets/pluginproxy/csi.sock''"

definition cluster_role_ref :: "string \<Rightarrow> role_ref" where
  "cluster_role_ref name = \<lparr>rr_api_group = ''rbac.authorization.k8s.io'',
     rr_kind = ''ClusterRole'', rr_name = name\<rparr>"

definition service_account_subject :: "string \<Rightarrow> string \<Rightarrow> subject" where
  "service_account_subject name ns =
     \<lparr>sj_kind = ''ServiceAccount'', sj_name = name, sj_namespace = ns\<rparr>"

definition csi_driver :: "string \<Rightarrow> str_map \<Rightarrow> kobj" where
  "csi_driver name lbls = Obj name '''' lbls (CSIDriverBody
     \<lparr>csi_attach_required = True, csi_pod_info_on_mount = True, csi_fs_group_policy = ''File''\<rparr>)"

text \<open>Go raw strings with several lines: the lines, joined by newlines, with a final newline.\<close>

definition lines :: "string list \<Rightarrow> string" where
  "lines ls = concat (map (\<lambda>l. l @ [CHR 0x0A]) ls)"

text \<open>
  A storage class as all the engines build one: the default-class annotation, reclaim policy
  Delete, binding on first consumer, expansion allowed.
\<close>

definition storage_class ::
  "string \<Rightarrow> str_map \<Rightarrow> str_map \<Rightarrow> string \<Rightarrow> str_map \<Rightarrow> kobj" where
  "storage_class name lbls annotations provisioner parameters =
     \<lparr>meta = (object_meta name '''' lbls)\<lparr>om_annotations := annotations\<rparr>,
      body = StorageClassBody \<lparr>scs_provisioner = provisioner, scs_reclaim_policy = ''Delete'',
        scs_volume_binding_mode = ''WaitForFirstConsumer'', scs_allow_volume_expansion = True,
        scs_parameters = parameters\<rparr>\<rparr>"

definition default_class_annotation :: "bool \<Rightarrow> string \<times> string" where
  "default_class_annotation b = (''storageclass.kubernetes.io/is-default-class'', boolToStr b)"

lemma key_of_storage_class [simp, key_simps]:
  "key_of (storage_class name lbls ann p ps) = (KStorageClass, '''', name)"
  by (simp add: storage_class_def key_of_def object_meta_def)

lemma labels_of_storage_class [simp]:
  "om_labels (meta (storage_class name lbls ann p ps)) = lbls"
  by (simp add: storage_class_def object_meta_def)

end
