(* ===== verification/Environment.thy ===== *)
theory Environment
  imports Names
begin

text \<open>
  The outside world of the operator: the controller-runtime client, the retry helper of
  client-go, \<open>controllerutil.CreateOrUpdate\<close>, the HTTP client and the clock.  None of it is
  code of this repository, so it is one record \<open>'w env\<close> over an abstract world \<open>'w\<close>, and every
  operation of the model takes the record.  The locales state what the proofs rely on:

  \<^item> \<open>kube_client\<close>: the object a call returns has the key it was asked for, and
    \<open>RetryOnConflict\<close> runs its closure again only after a conflict;
  \<^item> \<open>audited_client\<close>: the world records the requests it serves, in order;
  \<^item> \<open>cluster_api\<close>: the world holds the stored objects, a successful write changes the object it
    names and nothing else, a failed call changes nothing, and an error that says an object is
    not there is true.  Writes by other actors between two calls are not in this last view.
\<close>

section \<open>The interface\<close>

record 'w env = lib +
  cl_get :: "objkey \<Rightarrow> 'w \<Rightarrow> (gerror + kobj) \<times> 'w"
  cl_create :: "kobj \<Rightarrow> 'w \<Rightarrow> (gerror + kobj) \<times> 'w"
  cl_update :: "kobj \<Rightarrow> 'w \<Rightarrow> (gerror + kobj) \<times> 'w"
  cl_delete :: "objkey \<Rightarrow> 'w \<Rightarrow> (gerror + unit) \<times> 'w"
  cl_list :: "kind \<Rightarrow> string option \<Rightarrow> str_map \<Rightarrow> 'w \<Rightarrow> (gerror + kobj list) \<times> 'w"
  cr_get :: "string \<Rightarrow> 'w \<Rightarrow> (gerror + OpenEBS) \<times> 'w"
  cr_update :: "OpenEBS \<Rightarrow> 'w \<Rightarrow> (gerror + OpenEBS) \<times> 'w"
  cr_status_update :: "OpenEBS \<Rightarrow> 'w \<Rightarrow> (gerror + OpenEBS) \<times> 'w"
  http_get :: "string \<Rightarrow> 'w \<Rightarrow> (string + int) \<times> 'w"
  time_now :: "'w \<Rightarrow> string \<times> 'w"
  create_or_update :: "(kobj \<Rightarrow> kobj) \<Rightarrow> kobj \<Rightarrow> 'w \<Rightarrow> (gerror + kobj) \<times> 'w"
  retry_on_conflict :: "(kobj \<times> 'w, unit) prog \<Rightarrow> (kobj \<times> 'w, unit) prog"

datatype request =
    GetReq objkey
  | CreateReq kobj
  | UpdateReq kobj
  | DeleteReq objkey
  | ListReq kind "string option"
  | CrGetReq string
  | CrUpdateReq OpenEBS
  | CrStatusReq OpenEBS
  | HttpReq string

text \<open>The object a request writes or reads, when it is about one.\<close>

fun req_key :: "request \<Rightarrow> objkey option" where
  "req_key (GetReq k) = Some k"
| "req_key (CreateReq ob) = Some (key_of ob)"
| "req_key (UpdateReq ob) = Some (key_of ob)"
| "req_key (DeleteReq k) = Some k"
| "req_key _ = None"

fun is_write :: "request \<Rightarrow> bool" where
  "is_write (CreateReq ob) = True"
| "is_write (UpdateReq ob) = True"
| "is_write (DeleteReq k) = True"
| "is_write _ = False"

section \<open>Retrying on conflict\<close>

text \<open>
  \<open>attempts f s out\<close>: running \<open>f\<close> from \<open>s\<close> again as long as it reports a conflict can end in
  \<open>out\<close>.  The number of attempts is the helper's own business.
\<close>

inductive attempts ::
  "('s, unit) prog \<Rightarrow> 's \<Rightarrow> unit result \<times> 's \<Rightarrow> bool" for f where
  attempt_last: "f s = out \<Longrightarrow> attempts f s out"
| attempt_again:
    "f s = (Inl (GoError e), s1) \<Longrightarrow> IsConflict e \<Longrightarrow> attempts f s1 out \<Longrightarrow> attempts f s out"

lemma attempts_invariant:
  assumes "attempts f s out" and "P s"
    and "\<And>s e s1. P s \<Longrightarrow> f s = (Inl (GoError e), s1) \<Longrightarrow> IsConflict e \<Longrightarrow> P s1"
  shows "\<exists>s1. P s1 \<and> f s1 = out"
  using assms(1,2)
proof (induction rule: attempts.induct)
  case (attempt_last s out)
  then show ?case by blast
next
  case (attempt_again s e s1 out)
  from assms(3) [OF attempt_again.prems attempt_again.hyps(1,2)] show ?case
    by (rule attempt_again.IH)
qed

lemma attempts_related:
  assumes "attempts f s out" and "world_relation R" and "keeps R f"
  shows "R s (snd out)"
  using assms(1)
proof (induction rule: attempts.induct)
  case (attempt_last s out)
  with assms(3) show ?case by (auto simp: keeps_def)
next
  case (attempt_again s e s1 out)
  from attempt_again.hyps(1) assms(3) have "R s s1" unfolding keeps_def by (metis snd_conv)
  from world_relation.trans [OF assms(2) this attempt_again.IH] show ?case .
qed

section \<open>Contracts\<close>

locale kube_client =
  fixes E :: "'w env"
  assumes got_key: "cl_get E k w = (Inr ob, w') \<Longrightarrow> key_of ob = k"
    and created_key: "cl_create E ob w = (Inr ob', w') \<Longrightarrow> key_of ob' = key_of ob"
    and updated_key: "cl_update E ob w = (Inr ob', w') \<Longrightarrow> key_of ob' = key_of ob"
    and retry_attempts: "attempts f s (retry_on_conflict E f s)"

text \<open>\<open>w'\<close> is \<open>w\<close> with further requests logged, all of them satisfying \<open>P\<close>.\<close>

definition logs_only :: "('w \<Rightarrow> request list) \<Rightarrow> (request \<Rightarrow> bool) \<Rightarrow> 'w \<Rightarrow> 'w \<Rightarrow> bool" where
  "logs_only audit P w w' \<longleftrightarrow> (\<exists>rs. audit w' = audit w @ rs \<and> list_all P rs)"

lemma logs_onlyI: "audit w' = audit w @ rs \<Longrightarrow> list_all P rs \<Longrightarrow> logs_only audit P w w'"
  by (auto simp: logs_only_def)

lemma logs_only_mono: "logs_only audit P w w' \<Longrightarrow> (\<And>r. P r \<Longrightarrow> Q r) \<Longrightarrow> logs_only audit Q w w'"
  by (auto simp: logs_only_def list_all_iff)

interpretation log: world_relation "logs_only audit P" for audit P
proof unfold_locales
  show "logs_only audit P w w" for w by (rule logs_onlyI [where rs = "[]"]) simp_all
  show "logs_only audit P w1 w3" if "logs_only audit P w1 w2" "logs_only audit P w2 w3"
    for w1 w2 w3
    using that by (fastforce simp: logs_only_def)
qed

locale audited_client = kube_client +
  fixes audit :: "'a \<Rightarrow> request list"
  assumes get_logged: "audit (snd (cl_get E k w)) = audit w @ [GetReq k]"
    and create_logged: "audit (snd (cl_create E ob w)) = audit w @ [CreateReq ob]"
    and update_logged: "audit (snd (cl_update E ob w)) = audit w @ [UpdateReq ob]"
    and delete_logged: "audit (snd (cl_delete E k w)) = audit w @ [DeleteReq k]"
    and list_logged: "audit (snd (cl_list E kd ns sel w)) = audit w @ [ListReq kd ns]"
    and cr_get_logged: "audit (snd (cr_get E n w)) = audit w @ [CrGetReq n]"
    and cr_update_logged: "audit (snd (cr_update E inst w)) = audit w @ [CrUpdateReq inst]"
    and cr_status_logged: "audit (snd (cr_status_update E inst w)) = audit w @ [CrStatusReq inst]"
    and http_logged: "audit (snd (http_get E url w)) = audit w @ [HttpReq url]"
    and time_silent: "audit (snd (time_now E w)) = audit w"
    and create_or_update_logged: "(\<And>x. key_of (f x) = key_of x) \<Longrightarrow>
      logs_only audit (\<lambda>r. req_key r = Some (key_of ob) \<and> (\<forall>k. r \<noteq> DeleteReq k))
        w (snd (create_or_update E f ob w))"

text \<open>
  What the server stores for a written object: the same key, labels and owner references, and
  a body that \<open>defaulted\<close> relates to the one written (the server fills in defaults).
\<close>

definition conforms :: "(kbody \<Rightarrow> kbody \<Rightarrow> bool) \<Rightarrow> kobj \<Rightarrow> kobj \<Rightarrow> bool" where
  "conforms defaulted ob st \<longleftrightarrow> key_of st = key_of ob \<and>
     om_labels (meta st) = om_labels (meta ob) \<and>
     om_owner_refs (meta st) = om_owner_refs (meta ob) \<and> defaulted (body ob) (body st)"

text \<open>\<open>w'\<close> has the objects of \<open>w\<close>, except those with a key in \<open>K\<close>.\<close>

definition same_outside ::
  "('w \<Rightarrow> objkey \<Rightarrow> kobj option) \<Rightarrow> objkey set \<Rightarrow> 'w \<Rightarrow> 'w \<Rightarrow> bool" where
  "same_outside view K w w' \<longleftrightarrow> (\<forall>k. k \<notin> K \<longrightarrow> view w' k = view w k)"

lemma same_outsideD: "same_outside view K w w' \<Longrightarrow> k \<notin> K \<Longrightarrow> view w' k = view w k"
  unfolding same_outside_def by blast

lemma same_outside_mono: "same_outside view K w w' \<Longrightarrow> K \<subseteq> K' \<Longrightarrow> same_outside view K' w w'"
  by (auto simp: same_outside_def)

interpretation frame: world_relation "same_outside view K" for view K
  by unfold_locales (simp_all add: same_outside_def)

definition listed :: "kind \<Rightarrow> string option \<Rightarrow> str_map \<Rightarrow> kobj \<Rightarrow> bool" where
  "listed kd ns sel ob \<longleftrightarrow> kind_of (body ob) = kd \<and>
     (case ns of None \<Rightarrow> True | Some n \<Rightarrow> om_namespace (meta ob) = n) \<and>
     has_labels sel (om_labels (meta ob))"

locale cluster_api = kube_client +
  fixes view :: "'a \<Rightarrow> objkey \<Rightarrow> kobj option"
    and defaulted :: "kbody \<Rightarrow> kbody \<Rightarrow> bool"
  assumes view_key: "view w k = Some ob \<Longrightarrow> key_of ob = k"
    and get_ok: "cl_get E k w = (Inr ob, w') \<Longrightarrow> view w' = view w \<and> view w k = Some ob"
    and get_err: "cl_get E k w = (Inl e, w') \<Longrightarrow>
      view w' = view w \<and> (IsNotFound e \<longrightarrow> view w k = None)"
    and create_ok: "cl_create E ob w = (Inr st, w') \<Longrightarrow>
      view w' = (view w)(key_of ob \<mapsto> st) \<and> conforms defaulted ob st"
    and create_err: "cl_create E ob w = (Inl e, w') \<Longrightarrow> view w' = view w"
    and update_ok: "cl_update E ob w = (Inr st, w') \<Longrightarrow>
      view w' = (view w)(key_of ob \<mapsto> st) \<and> conforms defaulted ob st"
    and update_err: "cl_update E ob w = (Inl e, w') \<Longrightarrow> view w' = view w"
    and delete_ok: "cl_delete E k w = (Inr u, w') \<Longrightarrow> view w' = (view w)(k := None)"
    and delete_err: "cl_delete E k w = (Inl e, w') \<Longrightarrow>
      view w' = view w \<and> (IsNotFound e \<or> IsNoMatchError e \<longrightarrow> view w k = None)"
    and list_ok: "cl_list E kd ns sel w = (Inr obs, w') \<Longrightarrow> view w' = view w \<and>
      set obs = {ob. \<exists>k. view w k = Some ob \<and> listed kd ns sel ob}"
    and list_err: "cl_list E kd ns sel w = (Inl e, w') \<Longrightarrow> view w' = view w"
    and create_or_update_view: "(\<And>x. key_of (f x) = key_of x) \<Longrightarrow>
      same_outside view {key_of ob} w (snd (create_or_update E f ob w))"
    and create_or_update_ok: "(\<And>x. key_of (f x) = key_of x) \<Longrightarrow>
      create_or_update E f ob w = (Inr st, w') \<Longrightarrow> view w' (key_of ob) = Some st \<and>
      om_labels (meta st) =
        om_labels (meta (f (case view w (key_of ob) of None \<Rightarrow> ob | Some ex \<Rightarrow> ex)))"
    and create_or_update_err: "(\<And>x. key_of (f x) = key_of x) \<Longrightarrow>
      create_or_update E f ob w = (Inl e, w') \<Longrightarrow> view w' = view w"
    and cr_get_view: "view (snd (cr_get E n w)) = view w"
    and cr_update_view: "view (snd (cr_update E inst w)) = view w"
    and cr_status_view: "view (snd (cr_status_update E inst w)) = view w"
    and http_view: "view (snd (http_get E url w)) = view w"
    and time_view: "view (snd (time_now E w)) = view w"

end
