(* ===== verification/Apply.thy ===== *)
theory Apply
  imports Environment
begin

text \<open>
  The \<open>apply\<close> family of src/internal/controller/deployer.go and volume_snapshot.go: create an
  object or update the stored one.

  The Go functions take a pointer to the object and set its owner references and its resource
  version through it, so a caller that uses the object again sees them.  The programs below
  therefore run on a pair: the object behind the pointer and the world.
\<close>

section \<open>Programs on an object and the world\<close>

type_synonym ('w, 'a) oprog = "(kobj \<times> 'w, 'a) prog"

definition lift_w :: "('w, 'a) prog \<Rightarrow> ('w, 'a) oprog" where
  "lift_w m s = (case m (snd s) of (r, w') \<Rightarrow> (r, (fst s, w')))"

definition with_obj :: "(kobj \<Rightarrow> ('w, 'a) oprog) \<Rightarrow> ('w, 'a) oprog" where
  "with_obj k s = k (fst s) s"

definition upd_obj :: "(kobj \<Rightarrow> kobj) \<Rightarrow> ('w, unit) oprog" where
  "upd_obj f s = (Inr (), (f (fst s), snd s))"

text \<open>\<open>d.Create(ctx, obj)\<close>, \<open>d.Update(ctx, obj)\<close>: on success the stored object is read back.\<close>

definition Create :: "'w env \<Rightarrow> ('w, unit) oprog" where
  "Create E s = (case cl_create E (fst s) (snd s) of
     (Inl e, w') \<Rightarrow> (Inl (GoError e), (fst s, w'))
   | (Inr ob', w') \<Rightarrow> (Inr (), (ob', w')))"

definition Update :: "'w env \<Rightarrow> ('w, unit) oprog" where
  "Update E s = (case cl_update E (fst s) (snd s) of
     (Inl e, w') \<Rightarrow> (Inl (GoError e), (fst s, w'))
   | (Inr ob', w') \<Rightarrow> (Inr (), (ob', w')))"

definition Get :: "'w env \<Rightarrow> objkey \<Rightarrow> ('w, kobj) prog" where
  "Get E k = call (cl_get E k)"

definition Delete :: "'w env \<Rightarrow> objkey \<Rightarrow> ('w, unit) prog" where
  "Delete E k = call (cl_delete E k)"

text \<open>Running such a program on an object that nothing else refers to.\<close>

definition run_obj :: "kobj \<Rightarrow> ('w, 'a) oprog \<Rightarrow> ('w, 'a) prog" where
  "run_obj ob p w = (case p (ob, w) of (r, s) \<Rightarrow> (r, snd s))"

definition set_owner :: "'l lib_scheme \<Rightarrow> OpenEBS option \<Rightarrow> kobj \<Rightarrow> kobj" where
  "set_owner L inst ob = (case inst of
     None \<Rightarrow> ob
   | Some i \<Rightarrow> SetOwnerReferences (ownerRefs L i) ob)"

section \<open>apply\<close>

text \<open>
  The closure that \<open>apply\<close> retries.  (For a typed CustomResourceDefinition the code also clears
  the annotations of \<open>existing\<close>, a local it does not use again.)
\<close>

definition apply_once :: "'w env \<Rightarrow> objkey \<Rightarrow> ('w, unit) oprog" where
  "apply_once E key = bindP (attempt (lift_w (Get E key))) (\<lambda>r. case r of
     Inl e \<Rightarrow> if \<not> IsNotFound e then fail e else Create E
   | Inr existing \<Rightarrow>
       bindP (upd_obj (SetResourceVersion (resource_version existing))) (\<lambda>_. Update E))"

definition apply_obj :: "'w env \<Rightarrow> OpenEBS option \<Rightarrow> ('w, unit) oprog" where
  "apply_obj E inst = bindP (upd_obj (set_owner E inst)) (\<lambda>_. with_obj (\<lambda>ob.
     retry_on_conflict E (apply_once E (key_of ob))))"

section \<open>applyStorageClass\<close>

definition replace_storage_class :: "'w env \<Rightarrow> objkey \<Rightarrow> ('w, unit) oprog" where
  "replace_storage_class E key = bindP (lift_w (Get E key)) (\<lambda>existing.
     bindP (lift_w (Delete E (key_of existing))) (\<lambda>_.
     bindP (upd_obj (SetResourceVersion '''')) (\<lambda>_. Create E)))"

definition applyStorageClass :: "'w env \<Rightarrow> OpenEBS option \<Rightarrow> ('w, unit) oprog" where
  "applyStorageClass E inst = bindP (attempt (apply_obj E inst)) (\<lambda>r. case r of
     Inr _ \<Rightarrow> ret ()
   | Inl err \<Rightarrow> if \<not> IsInvalid err then fail err
       else with_obj (\<lambda>sc. replace_storage_class E (key_of sc)))"

section \<open>applyService\<close>

definition svc_ClusterIP :: "kobj \<Rightarrow> string" where
  "svc_ClusterIP ob = (case body ob of ServiceBody s \<Rightarrow> svc_cluster_ip s | _ \<Rightarrow> '''')"

definition controlled_or_managed :: "'l lib_scheme \<Rightarrow> OpenEBS option \<Rightarrow> kobj \<Rightarrow> bool" where
  "controlled_or_managed L inst ob \<longleftrightarrow>
     (case inst of None \<Rightarrow> False | Some i \<Rightarrow> IsControlledBy L (meta ob) i) \<or>
     map_of (om_labels (meta ob)) managedLabelKey = Some managedLabelValue"

definition service_conflict_message :: "kobj \<Rightarrow> kobj \<Rightarrow> string" where
  "service_conflict_message existing svc = (let ns = om_namespace (meta existing);
     name = om_name (meta existing) in
     ''Service '' @ ns @ ''/'' @ name @ '' exists with clusterIP '' @
     go_quote (svc_ClusterIP existing) @ '' (desired '' @ go_quote (svc_ClusterIP svc) @
     '') and is not managed by this operator; delete it manually: kubectl -n '' @ ns @
     '' delete svc '' @ name)"

definition applyService_once ::
  "'w env \<Rightarrow> OpenEBS option \<Rightarrow> objkey \<Rightarrow> ('w, unit) oprog" where
  "applyService_once E inst key = bindP (attempt (lift_w (Get E key))) (\<lambda>r. case r of
     Inl e \<Rightarrow> if \<not> IsNotFound e then fail e else Create E
   | Inr existing \<Rightarrow> with_obj (\<lambda>svc.
       if svc_ClusterIP existing \<noteq> svc_ClusterIP svc then
         (if \<not> controlled_or_managed E inst existing
          then fail (Plain (service_conflict_message existing svc))
          else bindP (lift_w (Delete E (key_of existing))) (\<lambda>_.
            bindP (upd_obj (SetResourceVersion '''')) (\<lambda>_. Create E)))
       else bindP (upd_obj (SetResourceVersion (resource_version existing))) (\<lambda>_. Update E)))"

definition applyService :: "'w env \<Rightarrow> OpenEBS option \<Rightarrow> ('w, unit) oprog" where
  "applyService E inst = bindP (upd_obj (set_owner E inst)) (\<lambda>_. with_obj (\<lambda>ob.
     retry_on_conflict E (applyService_once E inst (key_of ob))))"

section \<open>applyStatefulSet\<close>

definition sts_spec_of :: "kobj \<Rightarrow> statefulset_spec option" where
  "sts_spec_of ob = (case body ob of StatefulSetBody s \<Rightarrow> Some s | _ \<Rightarrow> None)"

definition normalize_pvc :: "pvc \<Rightarrow> pvc" where
  "normalize_pvc p = p\<lparr>pvc_type_meta := ('''', ''''),
     pvc_meta := object_meta (om_name (pvc_meta p)) '''' [], pvc_status := ''''\<rparr>"

definition volumeClaimTemplatesEqual :: "'l lib_scheme \<Rightarrow> pvc list \<Rightarrow> pvc list \<Rightarrow> bool" where
  "volumeClaimTemplatesEqual L existing desired =
     DeepEqual_pvcs L (map normalize_pvc existing) (map normalize_pvc desired)"

definition stsImmutableDriftFields ::
  "'l lib_scheme \<Rightarrow> statefulset_spec \<Rightarrow> statefulset_spec \<Rightarrow> string list" where
  "stsImmutableDriftFields L existing desired =
     (if sts_service_name existing \<noteq> sts_service_name desired then [''serviceName''] else []) @
     (if sts_pod_management_policy existing \<noteq> sts_pod_management_policy desired
      then [''podManagementPolicy''] else []) @
     (if \<not> DeepEqual_selector L (sts_selector existing) (sts_selector desired)
      then [''selector''] else []) @
     (if \<not> volumeClaimTemplatesEqual L (sts_volume_claim_templates existing)
            (sts_volume_claim_templates desired)
      then [''volumeClaimTemplates''] else [])"

definition stsImmutableDrift ::
  "'l lib_scheme \<Rightarrow> statefulset_spec \<Rightarrow> statefulset_spec \<Rightarrow> bool" where
  "stsImmutableDrift L existing desired = (stsImmutableDriftFields L existing desired \<noteq> [])"

definition isOperatorOwned :: "'l lib_scheme \<Rightarrow> OpenEBS option \<Rightarrow> kobj \<Rightarrow> bool" where
  "isOperatorOwned L inst sts = controlled_or_managed L inst sts"

text \<open>The fields the drift test compares, for two stored objects of the StatefulSet type.\<close>

definition sts_drift :: "'l lib_scheme \<Rightarrow> kobj \<Rightarrow> kobj \<Rightarrow> string list" where
  "sts_drift L existing desired = (case (sts_spec_of existing, sts_spec_of desired) of
     (Some a, Some b) \<Rightarrow> stsImmutableDriftFields L a b
   | _ \<Rightarrow> [])"

definition keep_claim_templates :: "kobj \<Rightarrow> kobj \<Rightarrow> kobj" where
  "keep_claim_templates existing sts = (case (sts_spec_of existing, sts_spec_of sts) of
     (Some a, Some b) \<Rightarrow> sts\<lparr>body := StatefulSetBody
        (b\<lparr>sts_volume_claim_templates := sts_volume_claim_templates a\<rparr>)\<rparr>
   | _ \<Rightarrow> sts)"

definition unmanaged_sts_message :: "kobj \<Rightarrow> string list \<Rightarrow> string" where
  "unmanaged_sts_message existing drifted = (let ns = om_namespace (meta existing);
     name = om_name (meta existing) in
     ''StatefulSet '' @ ns @ ''/'' @ name @ '' exists with different immutable spec ('' @
     strings_Join drifted '', '' @
     '') and is not managed by this operator; delete it manually: kubectl -n '' @ ns @
     '' delete sts '' @ name)"

definition sts_deleted_message :: "kobj \<Rightarrow> string list \<Rightarrow> string" where
  "sts_deleted_message existing drifted =
     ''StatefulSet '' @ om_namespace (meta existing) @ ''/'' @ om_name (meta existing) @
     '' immutable spec drift ('' @ strings_Join drifted '', '' @
     ''): deleted, requeueing (pods recreated, PVCs retained)''"

definition applyStatefulSet_once ::
  "'w env \<Rightarrow> OpenEBS option \<Rightarrow> objkey \<Rightarrow> ('w, unit) oprog" where
  "applyStatefulSet_once E inst key = bindP (attempt (lift_w (Get E key))) (\<lambda>r. case r of
     Inl e \<Rightarrow> if \<not> IsNotFound e then fail e else Create E
   | Inr existing \<Rightarrow> with_obj (\<lambda>sts. let drifted = sts_drift E existing sts in
       if drifted \<noteq> [] then
         (if \<not> isOperatorOwned E inst existing
          then fail (Plain (unmanaged_sts_message existing drifted))
          else bindP (lift_w (Delete E (key_of existing))) (\<lambda>_.
            fail (Plain (sts_deleted_message existing drifted))))
       else bindP (upd_obj (SetResourceVersion (resource_version existing))) (\<lambda>_.
         bindP (upd_obj (keep_claim_templates existing)) (\<lambda>_. Update E))))"

definition applyStatefulSet :: "'w env \<Rightarrow> OpenEBS option \<Rightarrow> ('w, unit) oprog" where
  "applyStatefulSet E inst = bindP (upd_obj (set_owner E inst)) (\<lambda>_. with_obj (\<lambda>ob.
     retry_on_conflict E (applyStatefulSet_once E inst (key_of ob))))"

section \<open>Unstructured objects and embedded definitions\<close>

definition applyUnstructured :: "'w env \<Rightarrow> OpenEBS option \<Rightarrow> ('w, unit) oprog" where
  "applyUnstructured E inst = bindP (upd_obj (set_owner E inst)) (\<lambda>_. with_obj (\<lambda>ob.
     bindP (attempt (lift_w (Get E (key_of ob)))) (\<lambda>r. case r of
       Inr existing \<Rightarrow>
         bindP (upd_obj (SetResourceVersion (resource_version existing))) (\<lambda>_. Update E)
     | Inl err \<Rightarrow> if \<not> IsNotFound err then fail err else Create E)))"

definition applyCRD :: "'w env \<Rightarrow> OpenEBS option \<Rightarrow> crd_file \<Rightarrow> ('w, unit) prog" where
  "applyCRD E inst f = (case decode_yaml E f of
     Inl e \<Rightarrow> fail e
   | Inr ob \<Rightarrow> run_obj ob (applyUnstructured E inst))"

definition applyCRDs :: "'w env \<Rightarrow> OpenEBS option \<Rightarrow> crd_file list \<Rightarrow> ('w, unit) prog" where
  "applyCRDs E inst files = run_steps (map (applyCRD E inst) files)"

definition applyLVMCRDs :: "'w env \<Rightarrow> OpenEBS option \<Rightarrow> ('w, unit) prog" where
  "applyLVMCRDs E inst = applyCRDs E inst [LvmNodeCRD, LvmVolumeCRD, LvmSnapshotCRD]"

definition applyZFSCRDs :: "'w env \<Rightarrow> OpenEBS option \<Rightarrow> ('w, unit) prog" where
  "applyZFSCRDs E inst = applyCRDs E inst [ZfsNodeCRD, ZfsVolumeCRD, ZfsSnapshotCRD]"

definition applyVolumeSnapshotCRDs :: "'w env \<Rightarrow> OpenEBS option \<Rightarrow> ('w, unit) prog" where
  "applyVolumeSnapshotCRDs E inst =
     applyCRDs E inst [VolumeSnapshotClassCRD, VolumeSnapshotCRD, VolumeSnapshotContentCRD]"

section \<open>Namespaces and RBAC\<close>

text \<open>The mutation that \<open>ensureNamespace\<close> hands to \<open>CreateOrUpdate\<close>.\<close>

definition privileged_labels :: "kobj \<Rightarrow> kobj" where
  "privileged_labels ns = ns\<lparr>meta := (meta ns)\<lparr>om_labels :=
     put ''pod-security.kubernetes.io/audit'' ''privileged''
      (put ''pod-security.kubernetes.io/warn'' ''privileged''
        (put ''pod-security.kubernetes.io/enforce'' ''privileged'' (om_labels (meta ns))))\<rparr>\<rparr>"

definition namespace_obj :: "string \<Rightarrow> kobj" where
  "namespace_obj name = Obj name ''''
     [(''pod-security.kubernetes.io/enforce'', ''privileged'')] NamespaceBody"

definition ensureNamespace :: "'w env \<Rightarrow> string \<Rightarrow> ('w, unit) prog" where
  "ensureNamespace E name =
     bindP (call (create_or_update E privileged_labels (namespace_obj name))) (\<lambda>_. ret ())"

definition applyRBAC ::
  "'w env \<Rightarrow> OpenEBS option \<Rightarrow> kobj \<Rightarrow> kobj \<Rightarrow> kobj \<Rightarrow> ('w, unit) prog" where
  "applyRBAC E inst sa cr crb = run_steps [
     wrap_err (''serviceaccount '' @ obj_name sa) (run_obj sa (apply_obj E inst)),
     wrap_err (''clusterrole '' @ obj_name cr) (run_obj cr (apply_obj E inst)),
     wrap_err (''clusterrolebinding '' @ obj_name crb) (run_obj crb (apply_obj E inst))]"


section \<open>What the family touches\<close>

text \<open>
  A relation on worlds, lifted to an object and a world: when the object's key is \<open>k\<close>, it keeps
  that key and the worlds are related.
\<close>

definition obj_step :: "('w \<Rightarrow> 'w \<Rightarrow> bool) \<Rightarrow> objkey \<Rightarrow> kobj \<times> 'w \<Rightarrow> kobj \<times> 'w \<Rightarrow> bool" where
  "obj_step R k s s' \<longleftrightarrow>
     (key_of (fst s) = k \<longrightarrow> key_of (fst s') = k \<and> R (snd s) (snd s'))"

lemma obj_step_relation:
  assumes "world_relation R"
  shows "world_relation (obj_step R k)"
proof
  show "obj_step R k s s" for s
    using world_relation.refl [OF assms] by (simp add: obj_step_def)
  show "obj_step R k s1 s3" if "obj_step R k s1 s2" "obj_step R k s2 s3" for s1 s2 s3
    using that by (auto simp: obj_step_def intro: world_relation.trans [OF assms])
qed

lemma keep_claim_templates_key [simp]: "key_of (keep_claim_templates a b) = key_of b"
  by (auto simp: keep_claim_templates_def key_of_def sts_spec_of_def
      split: option.splits kbody.splits)

lemma set_owner_simps [simp]:
  "key_of (set_owner L inst ob) = key_of ob"
  "body (set_owner L inst ob) = body ob"
  "om_labels (meta (set_owner L inst ob)) = om_labels (meta ob)"
  by (simp_all add: set_owner_def split: option.splits)

text \<open>
  The calls about one key keep a relation on worlds; then everything the family does with an
  object of that key keeps it.  This is used twice: for the objects stored outside the key, and
  for the log of requests.
\<close>

locale key_calls = kube_client E + world_relation R
  for E :: "'a env" and R :: "'a \<Rightarrow> 'a \<Rightarrow> bool" and k :: objkey +
  assumes get_keeps: "R w (snd (cl_get E k w))"
    and delete_keeps: "R w (snd (cl_delete E k w))"
    and create_keeps: "key_of ob = k \<Longrightarrow> R w (snd (cl_create E ob w))"
    and update_keeps: "key_of ob = k \<Longrightarrow> R w (snd (cl_update E ob w))"
begin

lemma keeps_Get [intro!]: "keeps R (Get E k)"
  unfolding Get_def by (rule keeps_call) (rule get_keeps)

lemma keeps_Delete [intro!]: "keeps R (Delete E k)"
  unfolding Delete_def by (rule keeps_call) (rule delete_keeps)

abbreviation "S \<equiv> obj_step R k"

lemma keeps_lift: "keeps R m \<Longrightarrow> keeps S (lift_w m)"
  by (auto simp: keeps_def lift_w_def obj_step_def split: prod.splits) (metis snd_conv)

lemma keeps_upd: "(\<And>ob. key_of (f ob) = key_of ob) \<Longrightarrow> keeps S (upd_obj f)"
  by (simp add: keeps_def upd_obj_def obj_step_def refl)

lemma keeps_Create: "keeps S (Create E)"
proof -
  have "S (ob, w) (snd (Create E (ob, w)))" for ob w
    using create_keeps [of ob w] created_key [of ob w]
    by (auto simp: Create_def obj_step_def split: prod.splits sum.splits)
  then show ?thesis by (simp add: keeps_def)
qed

lemma keeps_Update: "keeps S (Update E)"
proof -
  have "S (ob, w) (snd (Update E (ob, w)))" for ob w
    using update_keeps [of ob w] updated_key [of ob w]
    by (auto simp: Update_def obj_step_def split: prod.splits sum.splits)
  then show ?thesis by (simp add: keeps_def)
qed

lemma keeps_with_obj:
  assumes "\<And>ob. key_of ob = k \<Longrightarrow> keeps S (p ob)"
  shows "keeps S (with_obj p)"
  using assms by (force simp: keeps_def with_obj_def obj_step_def)

lemmas S_relation = obj_step_relation [OF world_relation_axioms, of k]

lemmas keeps_S = keeps_lift keeps_upd keeps_Create keeps_Update keeps_with_obj
  world_relation.keeps_ret [OF S_relation] world_relation.keeps_fail [OF S_relation]
  world_relation.keeps_attempt [OF S_relation]

lemmas keeps_S_bind = world_relation.keeps_bind [OF S_relation]

lemma keeps_after_get:
  assumes "\<And>e. keeps S (k' (Inl e))" and "\<And>ob. key_of ob = k \<Longrightarrow> keeps S (k' (Inr ob))"
  shows "keeps S (bindP (attempt (lift_w (Get E k))) k')"
proof (rule world_relation.keeps_bind_value [OF S_relation])
  show "keeps S (attempt (lift_w (Get E k)))" by (intro keeps_S keeps_Get)
next
  fix s a s'
  assume "attempt (lift_w (Get E k)) s = (Inr a, s')"
  then have "a = Inr ob \<Longrightarrow> key_of ob = k" for ob
    using got_key [of k "snd s" ob]
    by (auto simp: attempt_def lift_w_def Get_def call_def
        split: prod.splits sum.splits abort.splits)
  with assms show "keeps S (k' a)" by (cases a) auto
qed

lemma keeps_retry:
  assumes "keeps S f"
  shows "keeps S (retry_on_conflict E f)"
  using attempts_related [OF retry_attempts S_relation assms] by (simp add: keeps_def)

lemma keeps_apply_once: "keeps S (apply_once E k)"
  unfolding apply_once_def
  by (intro keeps_after_get) (simp_all add: keeps_S keeps_S_bind)

lemma keeps_apply: "keeps S (apply_obj E inst)"
  unfolding apply_obj_def
  by (intro keeps_S_bind keeps_S) (simp_all add: keeps_retry keeps_apply_once)

lemma keeps_replace: "keeps S (replace_storage_class E k)"
proof -
  have "keeps S (bindP (lift_w (Get E k)) h)" if "\<And>ob. key_of ob = k \<Longrightarrow> keeps S (h ob)" for h
  proof (rule world_relation.keeps_bind_value [OF S_relation])
    show "keeps S (lift_w (Get E k))" by (intro keeps_S keeps_Get)
    show "keeps S (h a)" if "lift_w (Get E k) s = (Inr a, s')" for s a s'
      using that \<open>\<And>ob. key_of ob = k \<Longrightarrow> keeps S (h ob)\<close> got_key [of k "snd s" a]
      by (auto simp: lift_w_def Get_def call_def split: prod.splits sum.splits)
  qed
  note get = this
  show ?thesis
    unfolding replace_storage_class_def
    by (rule get) (simp add: keeps_S keeps_S_bind keeps_Delete)
qed

lemma keeps_applyStorageClass: "keeps S (applyStorageClass E inst)"
  unfolding applyStorageClass_def
  by (intro keeps_S_bind keeps_S keeps_apply)
    (simp add: keeps_S keeps_replace split: sum.splits)

lemma keeps_applyService_once: "keeps S (applyService_once E inst k)"
  unfolding applyService_once_def
  by (intro keeps_after_get) (simp_all add: keeps_S keeps_S_bind keeps_Delete)

lemma keeps_applyService: "keeps S (applyService E inst)"
  unfolding applyService_def
  by (intro keeps_S_bind keeps_S) (simp_all add: keeps_retry keeps_applyService_once)

lemma keeps_applyStatefulSet_once: "keeps S (applyStatefulSet_once E inst k)"
  unfolding applyStatefulSet_once_def Let_def
  by (intro keeps_after_get) (simp_all add: keeps_S keeps_S_bind keeps_Delete)

lemma keeps_applyStatefulSet: "keeps S (applyStatefulSet E inst)"
  unfolding applyStatefulSet_def
  by (intro keeps_S_bind keeps_S) (simp_all add: keeps_retry keeps_applyStatefulSet_once)

lemma keeps_applyUnstructured: "keeps S (applyUnstructured E inst)"
  unfolding applyUnstructured_def
  by (rule keeps_S_bind, simp add: keeps_S, rule keeps_with_obj)
    (simp add: keeps_after_get keeps_S keeps_S_bind)

lemma keeps_run_obj:
  assumes "keeps S p" and "key_of ob = k"
  shows "keeps R (run_obj ob p)"
  using assms by (auto simp: keeps_def run_obj_def obj_step_def split: prod.splits)
    (metis fst_conv snd_conv)

lemmas keeps_object =
  keeps_run_obj [OF keeps_apply] keeps_run_obj [OF keeps_applyStorageClass]
  keeps_run_obj [OF keeps_applyService] keeps_run_obj [OF keeps_applyStatefulSet]
  keeps_run_obj [OF keeps_applyUnstructured]

end

section \<open>The family does not panic\<close>

lemma no_panic_oprog [simp, intro!]:
  "no_panic (upd_obj f)" "no_panic (Create E)" "no_panic (Update E)"
  by (auto simp: no_panic_def upd_obj_def Create_def Update_def split: prod.splits sum.splits)

lemma no_panic_calls [simp, intro!]: "no_panic (Get E k)" "no_panic (Delete E k)"
  by (simp_all add: Get_def Delete_def)

lemma no_panic_lift [intro!]: "no_panic m \<Longrightarrow> no_panic (lift_w m)"
  by (auto simp: no_panic_def lift_w_def split: prod.splits)

lemma no_panic_with_obj [intro!]: "(\<And>ob. no_panic (p ob)) \<Longrightarrow> no_panic (with_obj p)"
  by (auto simp: no_panic_def with_obj_def)

lemma no_panic_run_obj [intro!]: "no_panic p \<Longrightarrow> no_panic (run_obj ob p)"
  by (auto simp: no_panic_def run_obj_def split: prod.splits)

context kube_client
begin

lemma no_panic_retry [intro!]:
  assumes "no_panic f"
  shows "no_panic (retry_on_conflict E f)"
proof -
  have "\<exists>s1. True \<and> f s1 = retry_on_conflict E f s" for s
    by (rule attempts_invariant [OF retry_attempts]) simp_all
  with assms show ?thesis unfolding no_panic_def by metis
qed

lemma no_panic_apply [intro!]: "no_panic (apply_obj E inst)"
  by (auto simp: apply_obj_def apply_once_def split: sum.split)

lemma no_panic_applyStorageClass [intro!]: "no_panic (applyStorageClass E inst)"
  by (auto simp: applyStorageClass_def replace_storage_class_def split: sum.split)

lemma no_panic_applyService [intro!]: "no_panic (applyService E inst)"
  by (auto simp: applyService_def applyService_once_def split: sum.split)

lemma no_panic_applyStatefulSet [intro!]: "no_panic (applyStatefulSet E inst)"
  by (auto simp: applyStatefulSet_def applyStatefulSet_once_def Let_def split: sum.split)

lemma no_panic_applyUnstructured [intro!]: "no_panic (applyUnstructured E inst)"
  by (auto simp: applyUnstructured_def split: sum.split)

lemma no_panic_applyCRDs [intro!]: "no_panic (applyCRDs E inst fs)"
  unfolding applyCRDs_def
  by (rule no_panic_steps) (auto simp: applyCRD_def split: sum.split)

lemma no_panic_ensureNamespace [intro!]: "no_panic (ensureNamespace E n)"
  by (auto simp: ensureNamespace_def)

lemma no_panic_applyRBAC [intro!]: "no_panic (applyRBAC E inst sa cr crb)"
  unfolding applyRBAC_def by (rule no_panic_steps) auto

end

end
