(* ===== verification/Lvm.thy ===== *)
theory Lvm
  imports Names
begin

text \<open>The resources of the LVM engine (src/internal/controller/component.go).\<close>

definition lvmServiceAccount :: kobj where
  "lvmServiceAccount = Obj ''openebs-lvm-controller'' openebsNamespace (labels ''lvm-rbac'')
     ServiceAccountBody"

definition lvmClusterRole :: kobj where
  "lvmClusterRole = Obj ''openebs-lvm-role'' '''' [] (ClusterRoleBody [
     Rule [''''] [''namespaces''] [''get'', ''list'', ''watch''],
     Rule [''''] [''persistentvolumes'', ''services'']
       [''get'', ''list'', ''watch'', ''create'', ''delete'', ''update'', ''patch''],
     Rule [''''] [''nodes''] [''get'', ''list'', ''watch''],
     Rule [''''] [''persistentvolumeclaims''] [''get'', ''list'', ''watch'', ''update''],
     Rule [''''] [''persistentvolumeclaims/status''] [''patch'', ''update''],
     Rule [''''] [''pods''] [''get'', ''list'', ''watch'', ''update'', ''patch''],
     Rule [''''] [''events''] [''get'', ''list'', ''watch'', ''create'', ''update'', ''patch''],
     Rule [''''] [''secrets''] [''get'', ''list''],
     Rule [''storage.k8s.io'']
       [''storageclasses'', ''volumeattachments'', ''csinodes'', ''volumeattributesclasses'']
       [''get'', ''list'', ''watch''],
     Rule [''storage.k8s.io''] [''csistoragecapacities''] [''*''],
     Rule [''coordination.k8s.io''] [''leases'']
       [''get'', ''watch'', ''list'', ''delete'', ''update'', ''create''],
     Rule [''local.openebs.io''] [''*''] [''*''],
     Rule [''snapshot.storage.k8s.io''] [''volumesnapshotclasses''] [''get'', ''list'', ''watch''],
     Rule [''snapshot.storage.k8s.io''] [''volumesnapshotcontents'', ''volumesnapshots'']
       [''get'', ''list'', ''watch'', ''create'', ''update'', ''patch'', ''delete''],
     Rule [''snapshot.storage.k8s.io'']
       [''volumesnapshotcontents/status'', ''volumesnapshots/status''] [''update'', ''patch''],
     Rule [''apiextensions.k8s.io''] [''customresourcedefinitions'']
       [''create'', ''list'', ''watch'', ''delete'']])"

definition lvmClusterRoleBinding :: kobj where
  "lvmClusterRoleBinding = Obj ''openebs-lvm-binding'' '''' (labels ''lvm-rbac'')
     (ClusterRoleBindingBody (cluster_role_ref ''openebs-lvm-role'')
       [service_account_subject ''openebs-lvm-controller'' openebsNamespace])"

definition lvmControllerDeployment :: "OpenEBS \<Rightarrow> kobj" where
  "lvmControllerDeployment inst = (let
     csiProvisionerImg = image_of inst img_CSIProvisioner defaultCSIProvisioner;
     csiResizerImg = image_of inst img_CSIResizer defaultCSIResizer;
     csiSnapshotterImg = image_of inst img_CSISnapshotter defaultCSISnapshotter;
     lvmPluginImg = image_of inst img_LVM defaultLVMImage;
     lbls = labels ''lvm-controller''
   in Obj lvmControllerName openebsNamespace lbls (DeploymentBody
     \<lparr>dep_replicas = 1, dep_strategy = '''', dep_selector = lbls,
      dep_template = template lbls (pod_spec0\<lparr>
        ps_service_account := ''openebs-lvm-controller'',
        ps_containers := [
          container0\<lparr>
            c_name := ''csi-provisioner'',
            c_image := csiProvisionerImg,
            c_args := [
              ''--csi-address=$(ADDRESS)'',
              ''--v=2'',
              ''--feature-gates=Topology=true'',
              ''--timeout=150s'',
              ''--leader-election'',
              ''--leader-election-lease-duration=120s'',
              ''--leader-election-renew-deadline=80s'',
              ''--leader-election-retry-period=30s'',
              ''--extra-create-metadata=true'',
              ''--default-fstype=ext4''],
            c_env := [csi_pod_socket],
            c_volume_mounts := [csi_socket_mount]\<rparr>,
          container0\<lparr>
            c_name := ''csi-resizer'',
            c_image := csiResizerImg,
            c_args := [
              ''--csi-address=$(ADDRESS)'',
              ''--v=2'',
              ''--timeout=150s'',
              ''--leader-election'',
              ''--leader-election-lease-duration=120s'',
              ''--leader-election-renew-deadline=80s'',
              ''--leader-election-retry-period=30s''],
            c_env := [csi_pod_socket],
            c_volume_mounts := [csi_socket_mount]\<rparr>,
          container0\<lparr>
            c_name := ''csi-snapshotter'',
            c_image := csiSnapshotterImg,
            c_args := [
              ''--csi-address=$(ADDRESS)'',
              ''--v=2'',
              ''--timeout=150s'',
              ''--leader-election''],
            c_env := [csi_pod_socket],
            c_volume_mounts := [csi_socket_mount]\<rparr>,
          container0\<lparr>
            c_name := ''lvm-plugin'',
            c_image := lvmPluginImg,
            c_args := [''--plugin=controller'', ''--endpoint=$(CSI_ENDPOINT)'',
              ''--nodeid=$(OPENEBS_NODE_ID)''],
            c_env := [
              EnvValue ''OPENEBS_NAMESPACE'' openebsNamespace,
              EnvValue ''CSI_ENDPOINT'' ''unix:///var/lib/csi/sockets/pluginproxy/csi.sock'',
              EnvFieldRef ''OPENEBS_NODE_ID'' ''spec.nodeName'',
              EnvValue ''OPENEBS_CSI_ENDPOINT''
                ''unix:///var/lib/csi/sockets/pluginproxy/csi.sock'',
              EnvValue ''OPENEBS_MONITOR_PERIOD'' ''60'',
              EnvValue ''OPENEBS_IO_INSTALLER_TYPE'' ''openebs-operator''],
            c_security_context := Some (security_context0\<lparr>sc_privileged := Some True\<rparr>),
            c_volume_mounts := [csi_socket_mount]\<rparr>],
        ps_volumes := [Volume ''socket-dir'' (EmptyDir '''' None)]\<rparr>)\<rparr>))"

definition lvmNodeDaemonSet :: "OpenEBS \<Rightarrow> kobj" where
  "lvmNodeDaemonSet inst = (let
     csiNodeRegistrarImg = image_of inst img_CSINodeRegistrar defaultCSINodeRegistrar;
     lvmPluginImg = image_of inst img_LVM defaultLVMImage;
     lbls = labels ''lvm-node''
   in Obj lvmNodeName openebsNamespace lbls (DaemonSetBody
     \<lparr>ds_selector = lbls, ds_min_ready_seconds = 0,
      ds_update_strategy = RollingUpdate (StrVal ''100%''),
      ds_template = template lbls (pod_spec0\<lparr>
        ps_service_account := ''openebs-lvm-controller'',
        ps_host_network := False,
        ps_containers := [
          container0\<lparr>
            c_name := ''csi-node-driver-registrar'',
            c_image := csiNodeRegistrarImg,
            c_args := [
              ''--v=5'',
              ''--csi-address=$(ADDRESS)'',
              ''--kubelet-registration-path=$(DRIVER_REG_SOCK_PATH)''],
            c_pre_stop := Some [''/bin/sh'', ''-c'',
              ''rm -rf /registration/lvm-localpv /registration/lvm-localpv-reg.sock''],
            c_env := [
              EnvValue ''ADDRESS'' ''/plugin/csi.sock'',
              EnvValue ''DRIVER_REG_SOCK_PATH'' ''/var/lib/kubelet/plugins/lvm-localpv/csi.sock'',
              EnvFieldRef ''KUBE_NODE_NAME'' ''spec.nodeName''],
            c_volume_mounts := [
              Mount ''plugin-dir'' ''/plugin'',
              Mount ''registration-dir'' ''/registration'']\<rparr>,
          container0\<lparr>
            c_name := ''lvm-node-plugin'',
            c_image := lvmPluginImg,
            c_security_context := Some \<lparr>sc_privileged = Some True,
              sc_add_capabilities = [''SYS_ADMIN''],
              sc_allow_privilege_escalation = Some True, sc_run_as_user = None\<rparr>,
            c_args := [
              ''--nodeid=$(OPENEBS_NODE_ID)'',
              ''--endpoint=$(OPENEBS_CSI_ENDPOINT)'',
              ''--plugin=$(OPENEBS_NODE_DRIVER)'',
              ''--kube-api-qps=0'',
              ''--kube-api-burst=0'',
              ''--kubelet-dir=/var/lib/kubelet/''],
            c_env := [
              EnvFieldRef ''OPENEBS_NODE_ID'' ''spec.nodeName'',
              EnvValue ''OPENEBS_NAMESPACE'' openebsNamespace,
              EnvValue ''OPENEBS_CSI_ENDPOINT'' ''unix:///plugin/csi.sock'',
              EnvValue ''OPENEBS_NODE_DRIVER'' ''agent'',
              EnvValue ''OPENEBS_IO_INSTALLER_TYPE'' ''openebs-operator''],
            c_volume_mounts := [
              Mount ''plugin-dir'' ''/plugin'',
              Mount ''device-dir'' ''/dev'',
              (Mount ''pods-mount-dir'' ''/var/lib/kubelet'')\<lparr>vm_propagation := Some Bidirectional\<rparr>,
              Mount ''node-dir'' ''/var/lib/openebs'']\<rparr>],
        ps_volumes := [
          Volume ''plugin-dir'' (HostPath ''/var/lib/kubelet/plugins/lvm-localpv/''
            (Some HostPathDirectoryOrCreate)),
          Volume ''registration-dir'' (HostPath ''/var/lib/kubelet/plugins_registry/''
            (Some HostPathDirectoryOrCreate)),
          Volume ''device-dir'' (HostPath ''/dev'' (Some HostPathDirectory)),
          Volume ''pods-mount-dir'' (HostPath ''/var/lib/kubelet'' (Some HostPathDirectory)),
          Volume ''node-dir'' (HostPath ''/var/lib/openebs''
            (Some HostPathDirectoryOrCreate))]\<rparr>)\<rparr>))"

definition lvmCSIDriver :: kobj where
  "lvmCSIDriver = csi_driver lvmCSIDriverName (labels ''lvm-csidriver'')"

definition lvmStorageClass :: "string \<Rightarrow> LVMConfig \<Rightarrow> kobj" where
  "lvmStorageClass name cfg = (let
     vgName = (if lvm_VolumeGroup cfg \<noteq> '''' then lvm_VolumeGroup cfg else ''lvmvg'')
   in storage_class name (labels ''lvm-sc'')
     [default_class_annotation (lvm_IsDefaultClass cfg)]
     lvmCSIDriverName [(''storage'', ''lvm''), (''volgroup'', vgName)])"

lemma lvm_keys [key_simps]:
  "key_of lvmServiceAccount = (KServiceAccount, openebsNamespace, ''openebs-lvm-controller'')"
  "key_of lvmClusterRole = (KClusterRole, '''', ''openebs-lvm-role'')"
  "key_of lvmClusterRoleBinding = (KClusterRoleBinding, '''', ''openebs-lvm-binding'')"
  "key_of (lvmControllerDeployment inst) = (KDeployment, openebsNamespace, lvmControllerName)"
  "key_of (lvmNodeDaemonSet inst) = (KDaemonSet, openebsNamespace, lvmNodeName)"
  "key_of lvmCSIDriver = (KCSIDriver, '''', lvmCSIDriverName)"
  "key_of (lvmStorageClass name cfg) = (KStorageClass, '''', name)"
  by (simp_all add: lvmServiceAccount_def lvmClusterRole_def lvmClusterRoleBinding_def
      lvmControllerDeployment_def lvmNodeDaemonSet_def lvmCSIDriver_def csi_driver_def lvmStorageClass_def Let_def)

end
