(* ===== verification/Hostpath.thy ===== *)
theory Hostpath
  imports Names
begin

text \<open>The resources of the hostpath engine (src/internal/controller/component.go).\<close>

definition hostpathServiceAccount :: kobj where
  "hostpathServiceAccount = Obj ''openebs-localpv-provisioner'' openebsNamespace
     (labels ''hostpath-rbac'') ServiceAccountBody"

definition hostpathClusterRole :: kobj where
  "hostpathClusterRole = Obj ''openebs-localpv-provisioner'' '''' (labels ''hostpath-rbac'')
     (ClusterRoleBody [
       Rule [''''] [''nodes''] [''get'', ''list'', ''watch''],
       Rule [''''] [''namespaces'', ''pods'', ''events'', ''endpoints''] [''*''],
       Rule [''''] [''resourcequotas'', ''limitranges''] [''list'', ''watch''],
       Rule [''''] [''persistentvolumes'', ''persistentvolumeclaims''] [''*''],
       Rule [''''] [''configmaps''] [''get'', ''create'', ''update''],
       Rule [''storage.k8s.io''] [''storageclasses''] [''*''],
       Rule [''apiextensions.k8s.io''] [''customresourcedefinitions'']
         [''get'', ''list'', ''create'', ''update'', ''delete'', ''patch''],
       Rule [''openebs.io''] [''*''] [''*''],
       Rule [''coordination.k8s.io''] [''leases''] [''get'', ''create'', ''update'']])"

definition hostpathClusterRoleBinding :: kobj where
  "hostpathClusterRoleBinding = Obj ''openebs-localpv-provisioner'' '''' (labels ''hostpath-rbac'')
     (ClusterRoleBindingBody (cluster_role_ref ''openebs-localpv-provisioner'')
       [service_account_subject ''openebs-localpv-provisioner'' openebsNamespace])"

definition hostpathDeployment :: "OpenEBS \<Rightarrow> kobj" where
  "hostpathDeployment inst = (let
     hostpathImg = image_of inst img_Hostpath defaultHostpathImage;
     lbls = labels ''hostpath-provisioner'';
     basePath = (case spec_Hostpath (oe_Spec inst) of
         None \<Rightarrow> ''/var/openebs/local''
       | Some c \<Rightarrow> if hp_BasePath c \<noteq> '''' then hp_BasePath c else ''/var/openebs/local'')
   in Obj hostpathDeployName openebsNamespace lbls (DeploymentBody
     \<lparr>dep_replicas = 1, dep_strategy = ''Recreate'', dep_selector = lbls,
      dep_template = template lbls (pod_spec0\<lparr>
        ps_service_account := ''openebs-localpv-provisioner'',
        ps_containers := [
          container0\<lparr>
            c_name := ''provisioner'',
            c_image := hostpathImg,
            c_liveness := Some \<lparr>
              pr_handler = ExecAction [''sh'', ''-c'',
                ''test `pgrep -c \"^provisioner-loc.*\"` = 1''],
              pr_failure_threshold = 0, pr_initial_delay = 30, pr_period = 60, pr_timeout = 0\<rparr>,
            c_env := [
              EnvFieldRef ''NODE_NAME'' ''spec.nodeName'',
              EnvFieldRef ''OPENEBS_NAMESPACE'' ''metadata.namespace'',
              EnvFieldRef ''OPENEBS_SERVICE_ACCOUNT'' ''spec.serviceAccountName'',
              EnvValue ''OPENEBS_IO_ENABLE_ANALYTICS'' ''false'',
              EnvValue ''OPENEBS_IO_BASE_PATH'' basePath,
              EnvValue ''OPENEBS_IO_WORKER_THREADS'' ''1'',
              EnvValue ''OPENEBS_IO_HELPER_IMAGE'' defaultHelperImage,
              EnvValue ''OPENEBS_IO_HELPER_POD_HOST_NETWORK'' ''false'',
              EnvValue ''OPENEBS_IO_INSTALLER_TYPE'' ''openebs-operator-helperpod'',
              EnvValue ''OPENEBS_IO_HELPER_POD_TIMEOUT_SECS'' ''120'',
              EnvValue ''LEADER_ELECTION_ENABLED'' ''true'']\<rparr>]\<rparr>)\<rparr>))"

definition hostpathStorageClass :: "string \<Rightarrow> HostpathConfig \<Rightarrow> kobj" where
  "hostpathStorageClass name cfg = (let
     basePath = (if hp_BasePath cfg \<noteq> '''' then hp_BasePath cfg else ''/var/openebs/local'')
   in storage_class name (labels ''hostpath-sc'')
     [default_class_annotation (hp_IsDefaultClass cfg),
      (''openebs.io/cas-type'', ''local''),
      (''cas.openebs.io/config'',
         lines [''- name: StorageType'', ''  value: hostpath'', ''- name: BasePath''] @
         ''  value: '' @ basePath)]
     ''openebs.io/local''
     [(''storage'', ''hostpath''), (''BasePath'', basePath)])"

lemma hostpath_keys [key_simps]:
  "key_of hostpathServiceAccount =
     (KServiceAccount, openebsNamespace, ''openebs-localpv-provisioner'')"
  "key_of hostpathClusterRole = (KClusterRole, '''', ''openebs-localpv-provisioner'')"
  "key_of hostpathClusterRoleBinding =
     (KClusterRoleBinding, '''', ''openebs-localpv-provisioner'')"
  "key_of (hostpathDeployment inst) = (KDeployment, openebsNamespace, hostpathDeployName)"
  "key_of (hostpathStorageClass name cfg) = (KStorageClass, '''', name)"
  by (simp_all add: hostpathServiceAccount_def hostpathClusterRole_def
      hostpathClusterRoleBinding_def hostpathDeployment_def hostpathStorageClass_def Let_def)

end
