(* ===== verification/Zfs.thy ===== *)
theory Zfs
  imports Names
begin

text \<open>The resources of the ZFS engine (src/internal/controller/component.go).\<close>

definition zfsServiceAccount :: kobj where
  "zfsServiceAccount = Obj ''openebs-zfs-controller'' openebsNamespace (labels ''zfs-rbac'')
     ServiceAccountBody"

definition zfsClusterRole :: kobj where
  "zfsClusterRole = Obj ''openebs-zfs-role'' '''' [] (ClusterRoleBody [
     Rule [''''] [''namespaces''] [''*''],
     Rule [''''] [''persistentvolumes'', ''services'']
       [''get'', ''list'', ''watch'', ''create'', ''delete'', ''update'', ''patch''],
     Rule [''''] [''nodes''] [''get'', ''list'', ''watch''],
     Rule [''''] [''persistentvolumeclaims''] [''get'', ''list'', ''watch'', ''update''],
     Rule [''''] [''persistentvolumeclaims/status''] [''patch'', ''update''],
     Rule [''''] [''pods''] [''get'', ''list'', ''watch'', ''update'', ''patch''],
     Rule [''''] [''events''] [''get'', ''list'', ''watch'', ''create'', ''update'', ''patch''],
     Rule [''''] [''secrets''] [''get'', ''list''],
     Rule [''storage.k8s.io'']
       [''storageclasses'', ''volumeattachments'', ''csinodes'', ''volumeattributesclasses'']
       [''get'', ''list'', ''watch''],
     Rule [''storage.k8s.io''] [''csistoragecapacities''] [''*''],
     Rule [''coordination.k8s.io''] [''leases'']
       [''get'', ''watch'', ''list'', ''delete'', ''update'', ''create''],
     Rule [''zfs.openebs.io''] [''*''] [''*''],
     Rule [''snapshot.storage.k8s.io''] [''volumesnapshotclasses''] [''get'', ''list'', ''watch''],
     Rule [''snapshot.storage.k8s.io''] [''volumesnapshotcontents'', ''volumesnapshots'']
       [''get'', ''list'', ''watch'', ''create'', ''update'', ''patch'', ''delete''],
     Rule [''snapshot.storage.k8s.io'']
       [''volumesnapshotcontents/status'', ''volumesnapshots/status''] [''update'', ''patch''],
     Rule [''apiextensions.k8s.io''] [''customresourcedefinitions'']
       [''create'', ''list'', ''watch'', ''delete'']])"

definition zfsClusterRoleBinding :: kobj where
  "zfsClusterRoleBinding = Obj ''openebs-zfs-binding'' '''' (labels ''zfs-rbac'')
     (ClusterRoleBindingBody (cluster_role_ref ''openebs-zfs-role'')
       [service_account_subject ''openebs-zfs-controller'' openebsNamespace])"

definition zfsControllerDeployment :: "OpenEBS \<Rightarrow> kobj" where
  "zfsControllerDeployment inst = (let
     csiProvisionerImg = image_of inst img_CSIProvisioner defaultCSIProvisioner;
     csiResizerImg = image_of inst img_CSIResizer defaultCSIResizer;
     zfsPluginImg = image_of inst img_ZFS defaultZFSImage;
     lbls = labels ''zfs-controller''
   in Obj zfsControllerName openebsNamespace lbls (DeploymentBody
     \<lparr>dep_replicas = 1, dep_strategy = '''', dep_selector = lbls,
      dep_template = template lbls (pod_spec0\<lparr>
        ps_service_account := ''openebs-zfs-controller'',
        ps_containers := [
          container0\<lparr>
            c_name := ''csi-provisioner'',
            c_image := csiProvisionerImg,
            c_args := [
              ''--csi-address=$(ADDRESS)'', ''--v=2'', ''--timeout=150s'', ''--leader-election'',
              ''--leader-election-lease-duration=120s'',
              ''--leader-election-renew-deadline=80s'',
              ''--leader-election-retry-period=30s'', ''--extra-create-metadata=true'',
              ''--default-fstype=ext4''],
            c_env := [csi_pod_socket],
            c_volume_mounts := [csi_socket_mount]\<rparr>,
          container0\<lparr>
            c_name := ''csi-resizer'',
            c_image := csiResizerImg,
            c_args := [
              ''--csi-address=$(ADDRESS)'', ''--v=2'', ''--timeout=150s'', ''--leader-election'',
              ''--leader-election-lease-duration=120s'',
              ''--leader-election-renew-deadline=80s'',
              ''--leader-election-retry-period=30s''],
            c_env := [csi_pod_socket],
            c_volume_mounts := [csi_socket_mount]\<rparr>,
          container0\<lparr>
            c_name := ''zfs-plugin'',
            c_image := zfsPluginImg,
            c_args := [''--endpoint=$(OPENEBS_CSI_ENDPOINT)'',
              ''--plugin=$(OPENEBS_CONTROLLER_DRIVER)''],
            c_env := [
              EnvValue ''OPENEBS_NAMESPACE'' openebsNamespace,
              EnvValue ''OPENEBS_CONTROLLER_DRIVER'' ''controller'',
              EnvValue ''OPENEBS_CSI_ENDPOINT''
                ''unix:///var/lib/csi/sockets/pluginproxy/csi.sock'',
              EnvValue ''OPENEBS_IO_INSTALLER_TYPE'' ''openebs-operator''],
            c_volume_mounts := [csi_socket_mount]\<rparr>],
        ps_volumes := [Volume ''socket-dir'' (EmptyDir '''' None)]\<rparr>)\<rparr>))"

text \<open>The file mode 0555 of the code is octal: 365.\<close>

definition zfsNodeDaemonSet :: "OpenEBS \<Rightarrow> kobj" where
  "zfsNodeDaemonSet inst = (let
     csiNodeRegistrarImg = image_of inst img_CSINodeRegistrar defaultCSINodeRegistrar;
     zfsPluginImg = image_of inst img_ZFS defaultZFSImage;
     lbls = labels ''zfs-node'';
     binMode = 365
   in Obj zfsNodeName openebsNamespace lbls (DaemonSetBody
     \<lparr>ds_selector = lbls, ds_min_ready_seconds = 0,
      ds_update_strategy = RollingUpdate (StrVal ''100%''),
      ds_template = template lbls (pod_spec0\<lparr>
        ps_service_account := ''openebs-zfs-controller'',
        ps_host_network := True,
        ps_containers := [
          container0\<lparr>
            c_name := ''csi-node-driver-registrar'',
            c_image := csiNodeRegistrarImg,
            c_args := [
              ''--v=5'',
              ''--csi-address=$(ADDRESS)'',
              ''--kubelet-registration-path=$(DRIVER_REG_SOCK_PATH)''],
            c_pre_stop := Some [''/bin/sh'', ''-c'',
              ''rm -rf /registration/zfs-localpv /registration/zfs-localpv-reg.sock''],
            c_env := [
              EnvValue ''ADDRESS'' ''/plugin/csi.sock'',
              EnvValue ''DRIVER_REG_SOCK_PATH'' ''/var/lib/kubelet/plugins/zfs-localpv/csi.sock'',
              EnvFieldRef ''KUBE_NODE_NAME'' ''spec.nodeName''],
            c_volume_mounts := [
              Mount ''plugin-dir'' ''/plugin'',
              Mount ''registration-dir'' ''/registration'']\<rparr>,
          container0\<lparr>
            c_name := ''zfs-node-plugin'',
            c_image := zfsPluginImg,
            c_security_context := Some \<lparr>sc_privileged = Some True,
              sc_add_capabilities = [''SYS_ADMIN''],
              sc_allow_privilege_escalation = Some True, sc_run_as_user = None\<rparr>,
            c_args := [''--nodename=$(OPENEBS_NODE_NAME)'',
              ''--endpoint=$(OPENEBS_CSI_ENDPOINT)'', ''--plugin=$(OPENEBS_NODE_DRIVER)''],
            c_env := [
              EnvFieldRef ''OPENEBS_NODE_NAME'' ''spec.nodeName'',
              EnvValue ''OPENEBS_NODE_DRIVER'' ''agent'',
              EnvValue ''OPENEBS_NAMESPACE'' openebsNamespace,
              EnvValue ''OPENEBS_CSI_ENDPOINT'' ''unix:///plugin/csi.sock'',
              EnvValue ''ALLOWED_TOPOLOGIES'' ''All'',
              EnvValue ''OPENEBS_IO_INSTALLER_TYPE'' ''openebs-operator''],
            c_volume_mounts := [
              Mount ''plugin-dir'' ''/plugin'',
              Mount ''device-dir'' ''/dev'',
              Mount ''encr-keys'' ''/home/keys'',
              (Mount ''chroot-zfs'' ''/sbin/zfs'')\<lparr>vm_sub_path := ''zfs''\<rparr>,
              (Mount ''host-root'' ''/host'')\<lparr>vm_propagation := Some HostToContainer,
                vm_read_only := True\<rparr>,
              (Mount ''pods-mount-dir'' ''/var/lib/kubelet'')\<lparr>
                vm_propagation := Some Bidirectional\<rparr>]\<rparr>],
        ps_volumes := [
          Volume ''plugin-dir'' (HostPath ''/var/lib/kubelet/plugins/zfs-localpv/''
            (Some HostPathDirectoryOrCreate)),
          Volume ''registration-dir'' (HostPath ''/var/lib/kubelet/plugins_registry/''
            (Some HostPathDirectoryOrCreate)),
          Volume ''device-dir'' (HostPath ''/dev'' (Some HostPathDirectory)),
          Volume ''encr-keys'' (HostPath ''/home/keys'' (Some HostPathDirectoryOrCreate)),
          Volume ''chroot-zfs'' (ConfigMapVolume ''openebs-zfspv-bin'' binMode),
          Volume ''host-root'' (HostPath ''/'' (Some HostPathDirectory)),
          Volume ''pods-mount-dir'' (HostPath ''/var/lib/kubelet''
            (Some HostPathDirectory))]\<rparr>)\<rparr>))"

definition zfsBinConfigMap :: kobj where
  "zfsBinConfigMap = Obj ''openebs-zfspv-bin'' openebsNamespace (labels ''zfs-bin'')
     (ConfigMapBody [(''zfs'', lines [
       ''#!/bin/sh'',
       ''if [ -x /host/sbin/zfs ]; then'',
       ''  chroot /host /sbin/zfs \"$@\"'',
       ''elif [ -x /host/usr/sbin/zfs ]; then'',
       ''  chroot /host /usr/sbin/zfs \"$@\"'',
       ''else'',
       ''  chroot /host \"zfs\" \"$@\"'',
       ''fi''])])"

definition zfsCSIDriver :: kobj where
  "zfsCSIDriver = csi_driver zfsCSIDriverName (labels ''zfs-csidriver'')"

definition zfsStorageClass :: "string \<Rightarrow> ZFSConfig \<Rightarrow> kobj" where
  "zfsStorageClass name cfg = (let
     poolName = (if zfs_PoolName cfg \<noteq> '''' then zfs_PoolName cfg else ''zfspool'')
   in storage_class name (labels ''zfs-sc'')
     [default_class_annotation (zfs_IsDefaultClass cfg)]
     zfsCSIDriverName [(''poolname'', poolName), (''fstype'', ''zfs'')])"

lemma zfs_keys [key_simps]:
  "key_of zfsServiceAccount = (KServiceAccount, openebsNamespace, ''openebs-zfs-controller'')"
  "key_of zfsClusterRole = (KClusterRole, '''', ''openebs-zfs-role'')"
  "key_of zfsClusterRoleBinding = (KClusterRoleBinding, '''', ''openebs-zfs-binding'')"
  "key_of (zfsControllerDeployment inst) = (KDeployment, openebsNamespace, zfsControllerName)"
  "key_of zfsBinConfigMap = (KConfigMap, openebsNamespace, ''openebs-zfspv-bin'')"
  "key_of (zfsNodeDaemonSet inst) = (KDaemonSet, openebsNamespace, zfsNodeName)"
  "key_of zfsCSIDriver = (KCSIDriver, '''', zfsCSIDriverName)"
  "key_of (zfsStorageClass name cfg) = (KStorageClass, '''', name)"
  by (simp_all add: zfsServiceAccount_def zfsClusterRole_def zfsClusterRoleBinding_def
      zfsControllerDeployment_def zfsBinConfigMap_def zfsNodeDaemonSet_def zfsCSIDriver_def
      csi_driver_def zfsStorageClass_def Let_def)

end
