(* ===== verification/Rawfile.thy ===== *)
theory Rawfile
  imports Names
begin

text \<open>The resources of the rawfile engine (src/internal/controller/component.go).\<close>

definition rawfileServiceAccount :: kobj where
  "rawfileServiceAccount = Obj ''openebs-rawfile-provisioner'' openebsNamespace
     (labels ''rawfile-rbac'') ServiceAccountBody"

definition rawfileClusterRole :: kobj where
  "rawfileClusterRole = Obj ''openebs-rawfile-provisioner'' '''' (labels ''rawfile-rbac'')
     (ClusterRoleBody [
       Rule [''''] [''nodes''] [''get'', ''list'', ''watch''],
       Rule [''''] [''namespaces'', ''pods'', ''events'', ''endpoints''] [''*''],
       Rule [''''] [''persistentvolumes'', ''persistentvolumeclaims''] [''*''],
       Rule [''''] [''configmaps''] [''get'', ''create'', ''update''],
       Rule [''storage.k8s.io''] [''storageclasses''] [''*''],
       Rule [''apiextensions.k8s.io''] [''customresourcedefinitions'']
         [''get'', ''list'', ''create'', ''update'', ''delete'', ''patch''],
       Rule [''coordination.k8s.io''] [''leases''] [''get'', ''create'', ''update'']])"

definition rawfileClusterRoleBinding :: kobj where
  "rawfileClusterRoleBinding = Obj ''openebs-rawfile-provisioner'' '''' (labels ''rawfile-rbac'')
     (ClusterRoleBindingBody (cluster_role_ref ''openebs-rawfile-provisioner'')
       [service_account_subject ''openebs-rawfile-provisioner'' openebsNamespace])"

definition rawfileDeployment :: "OpenEBS \<Rightarrow> kobj" where
  "rawfileDeployment inst = (let
     rawfileImg = image_of inst img_Rawfile defaultRawfileImage;
     lbls = labels ''rawfile-provisioner'';
     basePath = (case spec_Rawfile (oe_Spec inst) of
         None \<Rightarrow> ''/var/openebs/rawfile''
       | Some c \<Rightarrow> if rf_BasePath c \<noteq> '''' then rf_BasePath c else ''/var/openebs/rawfile'')
   in Obj rawfileDeployName openebsNamespace lbls (DeploymentBody
     \<lparr>dep_replicas = 1, dep_strategy = ''Recreate'', dep_selector = lbls,
      dep_template = template lbls (pod_spec0\<lparr>
        ps_service_account := ''openebs-rawfile-provisioner'',
        ps_containers := [
          container0\<lparr>
            c_name := ''rawfile-provisioner'',
            c_image := rawfileImg,
            c_env := [
              EnvFieldRef ''NODE_NAME'' ''spec.nodeName'',
              EnvFieldRef ''OPENEBS_NAMESPACE'' ''metadata.namespace'',
              EnvFieldRef ''OPENEBS_SERVICE_ACCOUNT'' ''spec.serviceAccountName'',
              EnvFieldRef ''OPENEBS_IO_INSTANCE_ID'' ''metadata.uid'',
              EnvValue ''OPENEBS_IO_ENABLE_ANALYTICS'' ''false'',
              EnvValue ''OPENEBS_IO_BASE_PATH'' basePath]\<rparr>]\<rparr>)\<rparr>))"

definition rawfileStorageClass :: "string \<Rightarrow> RawfileConfig \<Rightarrow> kobj" where
  "rawfileStorageClass name cfg = (let
     basePath = (if rf_BasePath cfg \<noteq> '''' then rf_BasePath cfg else ''/var/openebs/rawfile'')
   in storage_class name (labels ''rawfile-sc'')
     [default_class_annotation (rf_IsDefaultClass cfg)]
     ''rawfile.csi.openebs.io''
     [(''basePath'', basePath)])"

lemma rawfile_keys [key_simps]:
  "key_of rawfileServiceAccount =
     (KServiceAccount, openebsNamespace, ''openebs-rawfile-provisioner'')"
  "key_of rawfileClusterRole = (KClusterRole, '''', ''openebs-rawfile-provisioner'')"
  "key_of rawfileClusterRoleBinding =
     (KClusterRoleBinding, '''', ''openebs-rawfile-provisioner'')"
  "key_of (rawfileDeployment inst) = (KDeployment, openebsNamespace, rawfileDeployName)"
  "key_of (rawfileStorageClass name cfg) = (KStorageClass, '''', name)"
  by (simp_all add: rawfileServiceAccount_def rawfileClusterRole_def
      rawfileClusterRoleBinding_def rawfileDeployment_def rawfileStorageClass_def Let_def)

end
