(* ===== verification/Mayastor_Etcd.thy ===== *)
theory Mayastor_Etcd
  imports Names
begin

text \<open>
  The RBAC and the etcd store of the Mayastor engine (src/internal/controller/component.go):
  the bootstrap script, the StatefulSet, its Service and the Velero Schedule.
\<close>

section \<open>RBAC\<close>

definition mayastorServiceAccount :: kobj where
  "mayastorServiceAccount = Obj mayastorServiceAccountName mayastorNamespace
     (labels ''mayastor-rbac'') ServiceAccountBody"

definition mayastorClusterRole :: kobj where
  "mayastorClusterRole = Obj mayastorClusterRoleName '''' (labels ''mayastor-rbac'')
     (ClusterRoleBody [
       Rule [''''] [''pods'', ''nodes'', ''services'', ''persistentvolumes'',
         ''persistentvolumeclaims'', ''events'', ''configmaps'', ''secrets'', ''endpoints''] [''*''],
       Rule [''''] [''namespaces'', ''resourcequotas'', ''limitranges'']
         [''get'', ''list'', ''watch''],
       Rule [''apps''] [''deployments'', ''daemonsets'', ''statefulsets''] [''*''],
       Rule [''batch''] [''jobs''] [''*''],
       Rule [''storage.k8s.io'']
         [''storageclasses'', ''volumeattachments'', ''csinodes'', ''volumeattributesclasses'']
         [''*''],
       Rule [''storage.k8s.io''] [''volumeattachments/status''] [''patch''],
       Rule [''coordination.k8s.io''] [''leases''] [''*''],
       Rule [''apiextensions.k8s.io''] [''customresourcedefinitions'']
         [''get'', ''list'', ''watch'', ''create'', ''update'', ''patch'', ''delete''],
       Rule [''apiextensions.k8s.io''] [''customresourcedefinitions/status'']
         [''get'', ''patch'', ''update''],
       Rule [''openebs.io''] [''*''] [''*''],
       Rule [''snapshot.storage.k8s.io'']
         [''volumesnapshotclasses'', ''volumesnapshotcontents'', ''volumesnapshots''] [''*''],
       Rule [''snapshot.storage.k8s.io'']
         [''volumesnapshotcontents/status'', ''volumesnapshots/status''] [''update'', ''patch''],
       Rule [''mayastor.openebs.io''] [''*''] [''*''],
       Rule [''monitoring.coreos.com''] [''servicemonitors'']
         [''get'', ''list'', ''watch'', ''create'', ''update'', ''patch'', ''delete'']])"

definition mayastorClusterRoleBinding :: kobj where
  "mayastorClusterRoleBinding = Obj mayastorClusterRoleBindingName '''' (labels ''mayastor-rbac'')
     (ClusterRoleBindingBody (cluster_role_ref mayastorClusterRoleName)
       [service_account_subject mayastorServiceAccountName mayastorNamespace])"

section \<open>The etcd StatefulSet\<close>

text \<open>A line of the script that continues on the next one ends in a backslash.\<close>

definition continued :: "string \<Rightarrow> string" where
  "continued l = l @ [CHR '' '', CHR 0x5C]"

definition etcdBootstrapScript :: string where
  "etcdBootstrapScript = lines [
     ''#!/bin/sh'',
     ''MEMBER_URL=\"http://${POD_NAME}.mayastor-etcd:2380\"'',
     ''CLIENT_URL=\"http://${POD_NAME}.mayastor-etcd:2379\"'',
     ''DATA_DIR=\"${ETCD_DATA_DIR:-/bitnami/etcd/data}\"'',
     ''if [ -z \"$(ls -A \"${DATA_DIR}\" 2>/dev/null)\" ]; then'',
     ''  if [ \"${POD_NAME}\" = \"mayastor-etcd-0\" ]; then'',
     continued ''    exec etcd'',
     continued ''      --listen-client-urls=http://0.0.0.0:2379'',
     continued ''      --advertise-client-urls=\"${CLIENT_URL}\"'',
     continued ''      --listen-peer-urls=http://0.0.0.0:2380'',
     continued ''      --initial-advertise-peer-urls=\"${MEMBER_URL}\"'',
     continued ''      --initial-cluster=\"mayastor-etcd-0=http://mayastor-etcd-0.mayastor-etcd:2380\"'',
     ''      --initial-cluster-state=new'',
     ''  fi'',
     ''  until etcdctl --endpoints=\"http://mayastor-etcd:2379\" member list 2>/dev/null | grep -qE \"^[0-9a-fA-F]+, [a-z]+, ${POD_NAME},\"; do'',
     ''    etcdctl --endpoints=\"http://mayastor-etcd:2379\" member add \"${POD_NAME}\" --peer-urls=\"${MEMBER_URL}\" >/dev/null 2>&1 || true'',
     ''    sleep 5'',
     ''  done'',
     ''  INITIAL_CLUSTER=$(etcdctl --endpoints=\"http://mayastor-etcd:2379\" member list | awk -F', ' '{printf \"%s=%s,\", $3, $4}' | sed 's/,$//')'',
     continued ''  exec etcd'',
     continued ''    --listen-client-urls=http://0.0.0.0:2379'',
     continued ''    --advertise-client-urls=\"${CLIENT_URL}\"'',
     continued ''    --listen-peer-urls=http://0.0.0.0:2380'',
     continued ''    --initial-advertise-peer-urls=\"${MEMBER_URL}\"'',
     continued ''    --initial-cluster=\"${INITIAL_CLUSTER}\"'',
     ''    --initial-cluster-state=existing'',
     ''fi'',
     continued ''exec etcd'',
     continued ''  --listen-client-urls=http://0.0.0.0:2379'',
     continued ''  --advertise-client-urls=\"${CLIENT_URL}\"'',
     continued ''  --listen-peer-urls=http://0.0.0.0:2380'',
     continued ''  --initial-advertise-peer-urls=\"${MEMBER_URL}\"'',
     ''  --initial-cluster-state=existing'']"

text \<open>
  \<open>int32(EtcdReplicaCount)\<close> keeps the low 32 bits; the guard before it reads all 64.
\<close>

definition etcd_replicas :: "OpenEBS \<Rightarrow> 32 word" where
  "etcd_replicas inst = (case spec_Mayastor (oe_Spec inst) of
     None \<Rightarrow> 1
   | Some c \<Rightarrow> if sint (ms_EtcdReplicaCount c) > 0 then ucast (ms_EtcdReplicaCount c) else 1)"

definition etcd_storage_size :: "OpenEBS \<Rightarrow> string" where
  "etcd_storage_size inst = (case spec_Mayastor (oe_Spec inst) of
     None \<Rightarrow> ''10Gi''
   | Some c \<Rightarrow> if ms_EtcdStorageSize c \<noteq> '''' then ms_EtcdStorageSize c else ''10Gi'')"

definition etcd_pod_annotations :: "OpenEBS \<Rightarrow> str_map" where
  "etcd_pod_annotations inst = (case spec_Mayastor (oe_Spec inst) of
     None \<Rightarrow> []
   | Some c \<Rightarrow> if ms_EtcdVeleroBackup c then
       [(''backup.velero.io/backup-volumes'', ''data''),
        (''pre.hook.backup.velero.io/container'', ''etcd''),
        (''pre.hook.backup.velero.io/command'',
           ''[\"/bin/sh\",\"-c\",\"etcdctl snapshot save /bitnami/etcd/velero-etcd-snapshot.db && sync\"]''),
        (''pre.hook.backup.velero.io/timeout'', ''5m''),
        (''pre.hook.backup.velero.io/on-error'', ''Fail''),
        (''post.hook.backup.velero.io/container'', ''etcd''),
        (''post.hook.backup.velero.io/command'',
           ''[\"/bin/sh\",\"-c\",\"rm -f /bitnami/etcd/velero-etcd-snapshot.db\"]'')]
     else [])"

text \<open>The body of the StatefulSet once its storage size is parsed.\<close>

definition etcd_statefulset :: "OpenEBS \<Rightarrow> quantity \<Rightarrow> kobj" where
  "etcd_statefulset inst storage = (let
     etcdImg = image_of inst img_Etcd defaultEtcdImage;
     storageClassName = (case spec_Mayastor (oe_Spec inst) of
         None \<Rightarrow> '''' | Some c \<Rightarrow> ms_EtcdStorageClassName c);
     lbls = labels ''mayastor-etcd''
   in Obj mayastorEtcdName mayastorNamespace lbls (StatefulSetBody
     \<lparr>sts_service_name = mayastorEtcdServiceName,
      sts_replicas = etcd_replicas inst,
      sts_pod_management_policy = ''Parallel'',
      sts_selector = lbls,
      sts_template = \<lparr>pt_labels = lbls, pt_annotations = etcd_pod_annotations inst,
        pt_spec = pod_spec0\<lparr>
          ps_fs_group := Some 1001,
          ps_init_containers := [container0\<lparr>
            c_name := ''volume-permissions'',
            c_image := ''openebs/alpine-bash:4.5.0'',
            c_command := [''sh'', ''-c'', ''chown -R 1001:1001 /bitnami/etcd''],
            c_security_context := Some (security_context0\<lparr>sc_run_as_user := Some 0\<rparr>),
            c_volume_mounts := [Mount ''data'' ''/bitnami/etcd'']\<rparr>],
          ps_containers := [container0\<lparr>
            c_name := ''etcd'',
            c_image := etcdImg,
            c_command := [''/bin/sh'', ''-ec'', etcdBootstrapScript],
            c_security_context := Some (security_context0\<lparr>sc_run_as_user := Some 1001\<rparr>),
            c_env := [
              EnvFieldRef ''POD_NAME'' ''metadata.name'',
              EnvValue ''ETCD_AUTO_COMPACTION_MODE'' ''revision'',
              EnvValue ''ETCD_AUTO_COMPACTION_RETENTION'' ''100'',
              EnvValue ''ETCD_DATA_DIR'' ''/bitnami/etcd/data'',
              EnvValue ''ETCD_QUOTA_BACKEND_BYTES'' ''8589934592''],
            c_ports := [Port ''client'' 2379 '''', Port ''peer'' 2380 ''''],
            c_readiness := Some \<lparr>
              pr_handler = ExecAction
                [''etcdctl'', ''--endpoints=http://127.0.0.1:2379'', ''endpoint'', ''health''],
              pr_failure_threshold = 0, pr_initial_delay = 5, pr_period = 10, pr_timeout = 5\<rparr>,
            c_volume_mounts := [Mount ''data'' ''/bitnami/etcd'']\<rparr>]\<rparr>\<rparr>,
      sts_volume_claim_templates = [
        \<lparr>pvc_type_meta = ('''', ''''),
         pvc_meta = object_meta ''data'' '''' [(''app'', ''etcd'')],
         pvc_access_modes = [''ReadWriteOnce''],
         pvc_volume_mode = Some ''Filesystem'',
         pvc_requests = [(''storage'', storage)],
         pvc_storage_class = (if storageClassName \<noteq> '''' then Some storageClassName else None),
         pvc_status = ''''\<rparr>],
      sts_ready_replicas = 0\<rparr>))"

text \<open>The builder panics when \<open>resource.MustParse\<close> rejects the configured size.\<close>

definition mayastorEtcdStatefulSet :: "'l lib_scheme \<Rightarrow> OpenEBS \<Rightarrow> kobj result" where
  "mayastorEtcdStatefulSet L inst = (case MustParse L (etcd_storage_size inst) of
     Inl x \<Rightarrow> Inl x
   | Inr storage \<Rightarrow> Inr (etcd_statefulset inst storage))"

definition mayastorEtcdService :: kobj where
  "mayastorEtcdService = (let lbls = labels ''mayastor-etcd''
   in Obj mayastorEtcdServiceName mayastorNamespace lbls (ServiceBody
     \<lparr>svc_cluster_ip = ''None'', svc_selector = lbls,
      svc_ports = [\<lparr>sp_name = ''client'', sp_port = 2379, sp_target_port = None\<rparr>,
        \<lparr>sp_name = ''peer'', sp_port = 2380, sp_target_port = None\<rparr>]\<rparr>))"

section \<open>The Velero Schedule\<close>

definition velero_namespace :: "OpenEBS \<Rightarrow> string" where
  "velero_namespace inst = (case spec_Mayastor (oe_Spec inst) of
     None \<Rightarrow> ''velero''
   | Some c \<Rightarrow> if ms_EtcdVeleroNamespace c \<noteq> '''' then ms_EtcdVeleroNamespace c else ''velero'')"

definition mayastorEtcdVeleroSchedule :: "OpenEBS \<Rightarrow> kobj" where
  "mayastorEtcdVeleroSchedule inst = (let
     ns = velero_namespace inst;
     cron = (case spec_Mayastor (oe_Spec inst) of
         None \<Rightarrow> '''' | Some c \<Rightarrow> ms_EtcdVeleroSchedule c)
   in Obj mayastorEtcdName ns
     [(''app.kubernetes.io/name'', ''openebs''),
      (''app.kubernetes.io/component'', ''mayastor-etcd-velero''),
      (''app.kubernetes.io/managed-by'', ''openebs-operator'')]
     (UnstructuredBody ''velero.io/v1'' ''Schedule''
       [(''spec'', JObj [
          (''schedule'', JStr cron),
          (''template'', JObj [
             (''includedNamespaces'', JArr [JStr mayastorNamespace]),
             (''includedResources'', JArr [JStr ''statefulsets'']),
             (''labelSelector'', JObj [
                (''matchLabels'', JObj [
                   (''app.kubernetes.io/component'', JStr ''mayastor-etcd'')])]),
             (''snapshotVolumes'', JBool False)])])]))"

definition schedule_kind :: kind where
  "schedule_kind = KUnstructured ''velero.io/v1'' ''Schedule''"

lemma mayastor_etcd_keys [key_simps]:
  "key_of mayastorServiceAccount =
     (KServiceAccount, mayastorNamespace, mayastorServiceAccountName)"
  "key_of mayastorClusterRole = (KClusterRole, '''', mayastorClusterRoleName)"
  "key_of mayastorClusterRoleBinding =
     (KClusterRoleBinding, '''', mayastorClusterRoleBindingName)"
  "key_of (etcd_statefulset inst q) = (KStatefulSet, mayastorNamespace, mayastorEtcdName)"
  "key_of mayastorEtcdService = (KService, mayastorNamespace, mayastorEtcdServiceName)"
  "key_of (mayastorEtcdVeleroSchedule inst) =
     (schedule_kind, velero_namespace inst, mayastorEtcdName)"
  by (simp_all add: mayastorServiceAccount_def mayastorClusterRole_def
      mayastorClusterRoleBinding_def etcd_statefulset_def mayastorEtcdService_def
      mayastorEtcdVeleroSchedule_def schedule_kind_def Let_def)

lemma mayastorEtcdStatefulSet_Inr:
  "mayastorEtcdStatefulSet L inst = Inr ob \<longleftrightarrow>
     quantity_ok L (etcd_storage_size inst) \<and>
     ob = etcd_statefulset inst (Quantity (etcd_storage_size inst))"
  by (auto simp: mayastorEtcdStatefulSet_def MustParse_def)

lemma mayastorEtcdStatefulSet_Inl:
  "mayastorEtcdStatefulSet L inst = Inl x \<longleftrightarrow>
     \<not> quantity_ok L (etcd_storage_size inst) \<and>
     x = GoPanic (''cannot parse '' @ etcd_storage_size inst)"
  by (auto simp: mayastorEtcdStatefulSet_def MustParse_def)

end
