(* ===== verification/Mayastor.thy ===== *)
theory Mayastor
  imports Mayastor_Etcd
begin

text \<open>
  The other workloads of the Mayastor engine (src/internal/controller/component.go).  The
  resource quantities of these builders are literals; each is kept as the text the code parses.
\<close>

text \<open>\<open>tag\<close> as every Mayastor builder resolves it.\<close>

definition mayastor_tag :: "OpenEBS \<Rightarrow> string" where
  "mayastor_tag inst = (case spec_Images (oe_Spec inst) of
     None \<Rightarrow> defaultMayastorTag
   | Some imgs \<Rightarrow> if img_Mayastor imgs \<noteq> '''' then img_Mayastor imgs else defaultMayastorTag)"

text \<open>\<open>corev1.ResourceList\<close> of CPU and memory, for the limits and for the requests.\<close>

definition cpu_memory :: "string \<Rightarrow> string \<Rightarrow> (string \<times> quantity) list" where
  "cpu_memory c m = [(''cpu'', Quantity c), (''memory'', Quantity m)]"

definition mayastorAgentCoreDeployment :: "OpenEBS \<Rightarrow> kobj" where
  "mayastorAgentCoreDeployment inst = (let
     tag = mayastor_tag inst;
     coreImg = mayastorImage tag ''agent-core'';
     haImg = mayastorImage tag ''agent-ha-cluster'';
     lbls = labels ''mayastor-agent-core''
   in Obj mayastorAgentCoreName mayastorNamespace lbls (DeploymentBody
     \<lparr>dep_replicas = 1, dep_strategy = '''', dep_selector = lbls,
      dep_template = template lbls (pod_spec0\<lparr>
        ps_service_account := mayastorServiceAccountName,
        ps_containers := [
          container0\<lparr>
            c_name := ''agent-core'',
            c_image := coreImg,
            c_args := [
              ''--store=http://mayastor-etcd:2379'',
              ''--request-timeout=5s'',
              ''--cache-period=30s'',
              ''--grpc-server-addr=[::]:50051'',
              ''--pool-commitment=250%'',
              ''--snapshot-commitment=40%'',
              ''--volume-commitment-initial=40%'',
              ''--volume-commitment=40%'',
              ''--fmt-style=pretty'',
              ''--ansi-colors=true'',
              ''--create-volume-limit=10''],
            c_ports := [Port '''' 50051 ''''],
            c_env := [
              EnvValue ''RUST_LOG'' ''info'',
              EnvFieldRef ''MY_POD_NAME'' ''metadata.name'',
              EnvFieldRef ''MY_POD_NAMESPACE'' ''metadata.namespace''],
            c_resources := \<lparr>rr_limits = cpu_memory ''1000m'' ''128Mi'',
              rr_requests = cpu_memory ''500m'' ''32Mi''\<rparr>\<rparr>,
          container0\<lparr>
            c_name := ''agent-ha-cluster'',
            c_image := haImg,
            c_args := [
              ''-g=[::]:50052'',
              ''--store=http://mayastor-etcd:2379'',
              ''--core-grpc=https://'' @ mayastorAgentCoreName @ '':50051'',
              ''--ansi-colors=true'',
              ''--fmt-style=pretty''],
            c_ports := [Port '''' 50052 ''''],
            c_env := [
              EnvValue ''RUST_LOG'' ''info'',
              EnvFieldRef ''MY_POD_NAME'' ''metadata.name'',
              EnvFieldRef ''MY_POD_NAMESPACE'' ''metadata.namespace''],
            c_resources := \<lparr>rr_limits = cpu_memory ''100m'' ''64Mi'',
              rr_requests = cpu_memory ''100m'' ''16Mi''\<rparr>\<rparr>]\<rparr>)\<rparr>))"

definition mayastorAgentCoreService :: kobj where
  "mayastorAgentCoreService = (let lbls = labels ''mayastor-agent-core''
   in Obj mayastorAgentCoreServiceName mayastorNamespace lbls (ServiceBody
     \<lparr>svc_cluster_ip = '''', svc_selector = lbls,
      svc_ports = [\<lparr>sp_name = ''grpc'', sp_port = 50051, sp_target_port = None\<rparr>,
        \<lparr>sp_name = ''ha-cluster'', sp_port = 50052, sp_target_port = None\<rparr>]\<rparr>))"

definition mayastorAPIRestDeployment :: "OpenEBS \<Rightarrow> kobj" where
  "mayastorAPIRestDeployment inst = (let
     img = mayastorImage (mayastor_tag inst) ''api-rest'';
     lbls = labels ''mayastor-api-rest''
   in Obj mayastorAPIRestName mayastorNamespace lbls (DeploymentBody
     \<lparr>dep_replicas = 1, dep_strategy = '''', dep_selector = lbls,
      dep_template = template lbls (pod_spec0\<lparr>
        ps_service_account := mayastorServiceAccountName,
        ps_containers := [container0\<lparr>
          c_name := ''api-rest'',
          c_image := img,
          c_args := [
            ''--dummy-certificates'',
            ''--http=[::]:8081'',
            ''--no-auth'',
            ''--request-timeout=5s'',
            ''--core-grpc=https://'' @ mayastorAgentCoreName @ '':50051'',
            ''--ansi-colors=true'',
            ''--fmt-style=pretty'',
            ''--core-health-freq=20s''],
          c_ports := [Port ''http'' 8080 '''', Port ''rest'' 8081 ''''],
          c_env := [EnvValue ''RUST_LOG'' ''info''],
          c_resources := \<lparr>rr_limits = cpu_memory ''100m'' ''64Mi'',
            rr_requests = cpu_memory ''50m'' ''32Mi''\<rparr>,
          c_readiness := Some \<lparr>pr_handler = HTTPGetAction ''/ready'' 8081,
            pr_failure_threshold = 3, pr_initial_delay = 1, pr_period = 20, pr_timeout = 5\<rparr>,
          c_liveness := Some \<lparr>pr_handler = HTTPGetAction ''/live'' 8081,
            pr_failure_threshold = 3, pr_initial_delay = 1, pr_period = 30, pr_timeout = 5\<rparr>\<rparr>]\<rparr>)\<rparr>))"

definition mayastorAPIRestService :: kobj where
  "mayastorAPIRestService = (let lbls = labels ''mayastor-api-rest''
   in Obj mayastorAPIRestServiceName mayastorNamespace lbls (ServiceBody
     \<lparr>svc_cluster_ip = '''', svc_selector = lbls,
      svc_ports = [\<lparr>sp_name = ''https'', sp_port = 8080, sp_target_port = None\<rparr>,
        \<lparr>sp_name = ''http'', sp_port = 8081, sp_target_port = None\<rparr>]\<rparr>))"

definition mayastorCSIControllerDeployment :: "OpenEBS \<Rightarrow> kobj" where
  "mayastorCSIControllerDeployment inst = (let
     csiProvisionerImg = image_of inst img_CSIProvisioner defaultCSIProvisioner;
     csiAttacherImg = image_of inst img_CSIAttacher defaultCSIAttacher;
     csiSnapshotterImg = image_of inst img_CSISnapshotter defaultCSISnapshotter;
     csiSnapshotControllerImg = image_of inst img_CSISnapshotController defaultCSISnapshotController;
     csiResizerImg = image_of inst img_CSIResizer defaultCSIResizer;
     csiControllerImg = mayastorImage (mayastor_tag inst) ''csi-controller'';
     lbls = labels ''mayastor-csi-controller'';
     socketDir = ''/var/lib/csi/sockets/pluginproxy'';
     socketPath = socketDir @ ''/csi.sock''
   in Obj mayastorCSIControllerName mayastorNamespace lbls (DeploymentBody
     \<lparr>dep_replicas = 1, dep_strategy = '''', dep_selector = lbls,
      dep_template = template lbls (pod_spec0\<lparr>
        ps_host_network := True,
        ps_dns_policy := ''ClusterFirstWithHostNet'',
        ps_service_account := mayastorServiceAccountName,
        ps_containers := [
          container0\<lparr>
            c_name := ''csi-provisioner'',
            c_image := csiProvisionerImg,
            c_args := [
              ''--csi-address=$(ADDRESS)'',
              ''--v=2'',
              ''--feature-gates=Topology=true'',
              ''--strict-topology=false'',
              ''--default-fstype=ext4'',
              ''--extra-create-metadata'',
              ''--timeout=36s'',
              ''--worker-threads=10'',
              ''--prevent-volume-mode-conversion''],
            c_env := [EnvValue ''ADDRESS'' socketPath],
            c_volume_mounts := [Mount ''socket-dir'' socketDir]\<rparr>,
          container0\<lparr>
            c_name := ''csi-attacher'',
            c_image := csiAttacherImg,
            c_args := [''--csi-address=$(ADDRESS)'', ''--v=2'', ''--timeout=36s''],
            c_env := [EnvValue ''ADDRESS'' socketPath],
            c_volume_mounts := [Mount ''socket-dir'' socketDir]\<rparr>,
          container0\<lparr>
            c_name := ''csi-snapshotter'',
            c_image := csiSnapshotterImg,
            c_args := [''--csi-address=$(ADDRESS)'', ''--v=2''],
            c_env := [EnvValue ''ADDRESS'' socketPath],
            c_volume_mounts := [Mount ''socket-dir'' socketDir]\<rparr>,
          container0\<lparr>
            c_name := ''csi-snapshot-controller'',
            c_image := csiSnapshotControllerImg,
            c_args := [''--v=2'', ''--leader-election=false'',
              ''--prevent-volume-mode-conversion'']\<rparr>,
          container0\<lparr>
            c_name := ''csi-resizer'',
            c_image := csiResizerImg,
            c_args := [''--csi-address=$(ADDRESS)'', ''--v=2'',
              ''--handle-volume-inuse-error=false''],
            c_env := [EnvValue ''ADDRESS'' socketPath],
            c_volume_mounts := [Mount ''socket-dir'' socketDir]\<rparr>,
          container0\<lparr>
            c_name := ''mayastor-csi-controller'',
            c_image := csiControllerImg,
            c_args := [
              ''--csi-socket='' @ socketPath,
              ''--rest-endpoint=http://mayastor-api-rest:8081'',
              ''--node-selector=openebs.io/csi-node=mayastor'',
              ''--create-volume-limit=10'',
              ''--enable-orphan-vol-gc=false'',
              ''--ansi-colors=true'',
              ''--fmt-style=pretty''],
            c_env := [EnvValue ''RUST_LOG'' ''info''],
            c_resources := \<lparr>rr_limits = cpu_memory ''32m'' ''128Mi'',
              rr_requests = cpu_memory ''16m'' ''64Mi''\<rparr>,
            c_volume_mounts := [Mount ''socket-dir'' socketDir]\<rparr>],
        ps_volumes := [Volume ''socket-dir'' (EmptyDir '''' None)]\<rparr>)\<rparr>))"

definition ioEngineArgs :: "OpenEBS \<Rightarrow> string list" where
  "ioEngineArgs inst =
     [''--grpc-ip=$(MY_POD_IP)'',
      ''--grpc-port=10124'',
      ''-N$(MY_NODE_NAME)'',
      ''-Rhttps://'' @ mayastorAgentCoreName @ '':50051'',
      ''-y/var/local/mayastor/io-engine/config.yaml'',
      ''-l1,2'',
      ''-p=mayastor-etcd:2379'',
      ''--ptpl-dir=/var/local/mayastor/io-engine/ptpl/'',
      ''--api-versions=v1''] @
     (case spec_Mayastor (oe_Spec inst) of
        None \<Rightarrow> []
      | Some c \<Rightarrow> if ms_IoEngineEnvContext c \<noteq> ''''
          then [''--env-context=--'' @ ms_IoEngineEnvContext c] else []) @
     [''--tgt-crdt=30'',
      ''--ps-retries=300'',
      ''--pool-io-error-threshold=64'',
      ''--pool-io-stall-deadline=110s110s'',
      ''--pool-io-stall-transition-threshold=3'',
      ''--pool-io-stall-transition-window=3h'']"

definition io_engine_resources :: "(string \<times> quantity) list" where
  "io_engine_resources = [(''cpu'', Quantity ''2''), (''memory'', Quantity ''1Gi''),
     (''hugepages-2Mi'', Quantity ''2Gi'')]"

definition mayastorIOEngineDaemonSet :: "OpenEBS \<Rightarrow> kobj" where
  "mayastorIOEngineDaemonSet inst = (let
     tag = mayastor_tag inst;
     ioEngineImg = mayastorImage tag ''io-engine'';
     lbls = labels ''mayastor-io-engine''
   in Obj mayastorIOEngineName mayastorNamespace lbls (DaemonSetBody
     \<lparr>ds_selector = lbls, ds_min_ready_seconds = 10, ds_update_strategy = OnDelete,
      ds_template = template lbls (pod_spec0\<lparr>
        ps_service_account := mayastorServiceAccountName,
        ps_node_selector := [(''openebs.io/engine'', ''mayastor''),
          (''kubernetes.io/arch'', ''amd64'')],
        ps_host_network := True,
        ps_dns_policy := ''ClusterFirstWithHostNet'',
        ps_containers := [
          container0\<lparr>
            c_name := ''io-engine'',
            c_image := ioEngineImg,
            c_image_pull_policy := ''IfNotPresent'',
            c_command := [''io-engine''],
            c_security_context := Some (security_context0\<lparr>sc_privileged := Some True\<rparr>),
            c_args := ioEngineArgs inst,
            c_env := [
              EnvValue ''RUST_LOG'' ''info'',
              EnvValue ''NVMF_TCP_NUM_SHARED_BUF'' ''2047'',
              EnvValue ''NVMF_TCP_BUF_CACHE_SIZE'' ''64'',
              EnvValue ''NVMF_TCP_MAX_QPAIRS_PER_CTRL'' ''32'',
              EnvValue ''NVMF_TCP_MAX_QUEUE_DEPTH'' ''32'',
              EnvValue ''NVMF_TCP_IN_CAPSULE_DATA_SIZE'' ''4096'',
              EnvValue ''NVMF_TCP_MAX_IO_SIZE'' ''131072'',
              EnvValue ''NVMF_TCP_IO_UNIT_SIZE'' ''131072'',
              EnvValue ''NVME_TIMEOUT'' ''110s'',
              EnvValue ''NVME_TIMEOUT_ADMIN'' ''30s'',
              EnvValue ''NVME_KATO'' ''10s'',
              EnvValue ''NVME_MAX_NAMESPACES'' ''4096'',
              EnvFieldRef ''MY_NODE_NAME'' ''spec.nodeName'',
              EnvFieldRef ''MY_POD_IP'' ''status.podIP'',
              EnvValue ''NEXUS_NVMF_ANA_ENABLE'' ''1'',
              EnvValue ''NEXUS_NVMF_RESV_ENABLE'' ''1'',
              EnvValue ''POOL_HANDLE_RESCAN_PERIOD'' ''5m''],
            c_ports := [Port ''io-engine'' 10124 ''TCP''],
            c_resources := \<lparr>rr_limits = io_engine_resources, rr_requests = io_engine_resources\<rparr>,
            c_volume_mounts := [
              Mount ''device'' ''/dev'',
              Mount ''udev'' ''/run/udev'',
              Mount ''dshm'' ''/dev/shm'',
              Mount ''configlocation'' ''/var/local/mayastor/io-engine/'',
              Mount ''hugepages-2mi'' ''/dev/hugepages-2mi'']\<rparr>,
          container0\<lparr>
            c_name := ''metrics-exporter-io-engine'',
            c_image := mayastorImage tag ''metrics-exporter-io-engine'',
            c_args := [
              ''--metrics-endpoint=[::]:9502'',
              ''--grpc-port=10124'',
              ''--fmt-style=pretty'',
              ''--ansi-colors=true'',
              ''--rest-endpoint=http://'' @ mayastorAPIRestName @ '':8081''],
            c_env := [
              EnvFieldRef ''MY_NODE_NAME'' ''spec.nodeName'',
              EnvFieldRef ''MY_POD_IP'' ''status.podIP''],
            c_ports := [Port ''metrics'' 9502 ''TCP''],
            c_volume_mounts := [
              Mount ''device'' ''/dev'',
              Mount ''udev'' ''/run/udev'',
              Mount ''dshm'' ''/dev/shm'',
              Mount ''hugepages-2mi'' ''/dev/hugepages-2mi'',
              Mount ''configlocation'' ''/var/local/mayastor/io-engine/'']\<rparr>],
        ps_volumes := [
          Volume ''device'' (HostPath ''/dev'' (Some HostPathDirectory)),
          Volume ''udev'' (HostPath ''/run/udev'' (Some HostPathDirectory)),
          Volume ''dshm'' (EmptyDir ''Memory'' (Some (Quantity ''1Gi''))),
          Volume ''hugepages-2mi'' (EmptyDir ''HugePages'' None),
          Volume ''configlocation'' (HostPath ''/var/local/mayastor/io-engine/''
            (Some HostPathDirectoryOrCreate))]\<rparr>)\<rparr>))"

definition mayastorMetricsExporterService :: kobj where
  "mayastorMetricsExporterService = (let lbls = labels ''mayastor-io-engine''
   in Obj mayastorMetricsExporterSvcName mayastorNamespace lbls (ServiceBody
     \<lparr>svc_cluster_ip = '''', svc_selector = lbls,
      svc_ports = [\<lparr>sp_name = ''metrics'', sp_port = 9502,
        sp_target_port = Some (IntVal 9502)\<rparr>]\<rparr>))"

definition mayastorCSINodeDaemonSet :: "OpenEBS \<Rightarrow> kobj" where
  "mayastorCSINodeDaemonSet inst = (let
     csiRegistrarImg = image_of inst img_CSINodeRegistrar defaultCSINodeRegistrar;
     csiNodeImg = mayastorImage (mayastor_tag inst) ''csi-node'';
     lbls = labels ''mayastor-csi-node'';
     kubeletPluginDir = ''/var/lib/kubelet/plugins/io.openebs.mayastor''
   in Obj mayastorCSINodeName mayastorNamespace lbls (DaemonSetBody
     \<lparr>ds_selector = lbls, ds_min_ready_seconds = 10,
      ds_update_strategy = RollingUpdate (IntVal 1),
      ds_template = template lbls (pod_spec0\<lparr>
        ps_service_account := mayastorServiceAccountName,
        ps_host_network := True,
        ps_dns_policy := ''ClusterFirstWithHostNet'',
        ps_node_selector := [(''openebs.io/csi-node'', ''mayastor'')],
        ps_containers := [
          container0\<lparr>
            c_name := ''csi-driver-registrar'',
            c_image := csiRegistrarImg,
            c_args := [
              ''--csi-address=/csi/csi.sock'',
              ''--kubelet-registration-path='' @ kubeletPluginDir @ ''/csi.sock''],
            c_volume_mounts := [
              Mount ''plugin-dir'' ''/csi'',
              Mount ''registration-dir'' ''/registration''],
            c_resources := \<lparr>rr_limits = cpu_memory ''100m'' ''50Mi'',
              rr_requests = cpu_memory ''100m'' ''50Mi''\<rparr>,
            c_ports := [Port ''mayastor-node'' 10199 ''TCP'']\<rparr>,
          container0\<lparr>
            c_name := ''csi-node'',
            c_image := csiNodeImg,
            c_security_context := Some (security_context0\<lparr>sc_privileged := Some True\<rparr>),
            c_args := [
              ''--csi-socket=/csi/csi.sock'',
              ''--node-name=$(MY_NODE_NAME)'',
              ''--rest-endpoint=http://mayastor-api-rest:8081'',
              ''--enable-rest'',
              ''--enable-registration'',
              ''--grpc-ip=$(MY_POD_IP)'',
              ''--grpc-port=10199'',
              ''--nvme-io-timeout=110s10s'',
              ''--nvme-core-io-timeout=110s10s'',
              ''--nvme-ctrl-loss-tmo=1980'',
              ''--nvme-nr-io-queues=2'',
              ''--nvme-connect-fallback=true'',
              ''--kubelet-path=/var/lib/kubelet'',
              ''--node-selector=openebs.io/csi-node=mayastor'',
              ''--fmt-style=pretty'',
              ''--ansi-colors=true''],
            c_env := [
              EnvValue ''RUST_LOG'' ''info'',
              EnvFieldRef ''MY_NODE_NAME'' ''spec.nodeName'',
              EnvFieldRef ''MY_POD_IP'' ''status.podIP'',
              EnvValue ''RUST_BACKTRACE'' ''1''],
            c_volume_mounts := [
              Mount ''device'' ''/dev'',
              Mount ''sys'' ''/sys'',
              Mount ''run-udev'' ''/run/udev'',
              Mount ''plugin-dir'' ''/csi'',
              (Mount ''kubelet-dir'' ''/var/lib/kubelet'')\<lparr>vm_propagation := Some Bidirectional\<rparr>],
            c_resources := \<lparr>rr_limits = cpu_memory ''100m'' ''128Mi'',
              rr_requests = cpu_memory ''100m'' ''64Mi''\<rparr>\<rparr>],
        ps_volumes := [
          Volume ''device'' (HostPath ''/dev'' None),
          Volume ''sys'' (HostPath ''/sys'' None),
          Volume ''run-udev'' (HostPath ''/run/udev'' None),
          Volume ''registration-dir'' (HostPath ''/var/lib/kubelet/plugins_registry'' None),
          Volume ''plugin-dir'' (HostPath kubeletPluginDir (Some HostPathDirectoryOrCreate)),
          Volume ''kubelet-dir'' (HostPath ''/var/lib/kubelet'' None)]\<rparr>)\<rparr>))"

definition mayastorOperatorDiskpoolDeployment :: "OpenEBS \<Rightarrow> kobj" where
  "mayastorOperatorDiskpoolDeployment inst = (let
     img = mayastorImage (mayastor_tag inst) ''operator-diskpool'';
     lbls = labels ''mayastor-operator-diskpool''
   in Obj mayastorDiskpoolName mayastorNamespace lbls (DeploymentBody
     \<lparr>dep_replicas = 1, dep_strategy = '''', dep_selector = lbls,
      dep_template = template lbls (pod_spec0\<lparr>
        ps_service_account := mayastorServiceAccountName,
        ps_containers := [container0\<lparr>
          c_name := ''operator-diskpool'',
          c_image := img,
          c_args := [
            ''-e http://'' @ mayastorAPIRestName @ '':8081'',
            ''-n'' @ mayastorNamespace,
            ''--request-timeout=5s'',
            ''--interval=30s'',
            ''--ansi-colors=true'',
            ''--fmt-style=pretty''],
          c_env := [
            EnvValue ''RUST_LOG'' ''info'',
            EnvFieldRef ''MY_POD_NAME'' ''metadata.name''],
          c_resources := \<lparr>rr_limits = cpu_memory ''100m'' ''32Mi'',
            rr_requests = cpu_memory ''50m'' ''16Mi''\<rparr>\<rparr>]\<rparr>)\<rparr>))"

definition mayastorHANodeDaemonSet :: "OpenEBS \<Rightarrow> kobj" where
  "mayastorHANodeDaemonSet inst = (let
     img = mayastorImage (mayastor_tag inst) ''agent-ha-node'';
     lbls = labels ''mayastor-ha-node''
   in Obj mayastorHANodeName mayastorNamespace lbls (DaemonSetBody
     \<lparr>ds_selector = lbls, ds_min_ready_seconds = 10,
      ds_update_strategy = RollingUpdate (IntVal 1),
      ds_template = template lbls (pod_spec0\<lparr>
        ps_service_account := mayastorServiceAccountName,
        ps_host_network := True,
        ps_dns_policy := ''ClusterFirstWithHostNet'',
        ps_containers := [container0\<lparr>
          c_name := ''agent-ha-node'',
          c_image := img,
          c_security_context := Some (security_context0\<lparr>sc_privileged := Some True\<rparr>),
          c_args := [
            ''--node-name=$(MY_NODE_NAME)'',
            ''--csi-socket=/csi/csi.sock'',
            ''--grpc-ip=$(MY_POD_IP)'',
            ''--grpc-port=50053'',
            ''--cluster-agent=https://'' @ mayastorAgentCoreName @ '':50052'',
            ''--ansi-colors=true'',
            ''--fmt-style=pretty''],
          c_env := [
            EnvValue ''RUST_LOG'' ''info'',
            EnvFieldRef ''MY_NODE_NAME'' ''spec.nodeName'',
            EnvFieldRef ''MY_POD_IP'' ''status.podIP'',
            EnvValue ''RUST_BACKTRACE'' ''1''],
          c_ports := [Port ''ha-node'' 50053 ''TCP''],
          c_resources := \<lparr>rr_limits = cpu_memory ''100m'' ''64Mi'',
            rr_requests = cpu_memory ''100m'' ''64Mi''\<rparr>,
          c_volume_mounts := [
            Mount ''device'' ''/dev'',
            Mount ''sys'' ''/sys'',
            Mount ''run-udev'' ''/run/udev'',
            Mount ''plugin-dir'' ''/csi'']\<rparr>],
        ps_volumes := [
          Volume ''device'' (HostPath ''/dev'' None),
          Volume ''sys'' (HostPath ''/sys'' None),
          Volume ''run-udev'' (HostPath ''/run/udev'' None),
          Volume ''plugin-dir'' (HostPath ''/var/lib/kubelet/plugins/io.openebs.mayastor''
            (Some HostPathDirectoryOrCreate))]\<rparr>)\<rparr>))"

definition mayastorCSIDriver :: kobj where
  "mayastorCSIDriver = csi_driver mayastorCSIDriverName (labels ''mayastor-csidriver'')"

definition mayastorStorageClass :: "string \<Rightarrow> OpenEBS \<Rightarrow> kobj" where
  "mayastorStorageClass name inst = (let
     isDefault = (case spec_Mayastor (oe_Spec inst) of
         None \<Rightarrow> False | Some c \<Rightarrow> ms_IsDefaultClass c)
   in storage_class name (labels ''mayastor-sc'') [default_class_annotation isDefault]
     mayastorCSIDriverName [(''repl'', ''1''), (''protocol'', ''nvmf'')])"

definition snapshot_class_kind :: kind where
  "snapshot_class_kind = KUnstructured ''snapshot.storage.k8s.io/v1'' ''VolumeSnapshotClass''"

definition mayastorVolumeSnapshotClass :: "string \<Rightarrow> kobj" where
  "mayastorVolumeSnapshotClass name = Obj name ''''
     [(''app.kubernetes.io/name'', ''mayastor-snapshot''),
      (''app.kubernetes.io/managed-by'', ''openebs-operator'')]
     (UnstructuredBody ''snapshot.storage.k8s.io/v1'' ''VolumeSnapshotClass''
       [(''driver'', JStr mayastorCSIDriverName), (''deletionPolicy'', JStr ''Delete'')])"

lemma mayastor_keys [key_simps]:
  "key_of (mayastorAgentCoreDeployment inst) =
     (KDeployment, mayastorNamespace, mayastorAgentCoreName)"
  "key_of mayastorAgentCoreService = (KService, mayastorNamespace, mayastorAgentCoreServiceName)"
  "key_of mayastorAPIRestService = (KService, mayastorNamespace, mayastorAPIRestServiceName)"
  "key_of (mayastorAPIRestDeployment inst) = (KDeployment, mayastorNamespace, mayastorAPIRestName)"
  "key_of (mayastorCSIControllerDeployment inst) =
     (KDeployment, mayastorNamespace, mayastorCSIControllerName)"
  "key_of (mayastorIOEngineDaemonSet inst) = (KDaemonSet, mayastorNamespace, mayastorIOEngineName)"
  "key_of mayastorMetricsExporterService =
     (KService, mayastorNamespace, mayastorMetricsExporterSvcName)"
  "key_of (mayastorCSINodeDaemonSet inst) = (KDaemonSet, mayastorNamespace, mayastorCSINodeName)"
  "key_of (mayastorHANodeDaemonSet inst) = (KDaemonSet, mayastorNamespace, mayastorHANodeName)"
  "key_of (mayastorOperatorDiskpoolDeployment inst) =
     (KDeployment, mayastorNamespace, mayastorDiskpoolName)"
  "key_of mayastorCSIDriver = (KCSIDriver, '''', mayastorCSIDriverName)"
  "key_of (mayastorStorageClass name inst) = (KStorageClass, '''', name)"
  "key_of (mayastorVolumeSnapshotClass name) = (snapshot_class_kind, '''', name)"
  by (simp_all add: mayastorAgentCoreDeployment_def mayastorAgentCoreService_def
      mayastorAPIRestService_def mayastorAPIRestDeployment_def
      mayastorCSIControllerDeployment_def mayastorIOEngineDaemonSet_def
      mayastorMetricsExporterService_def mayastorCSINodeDaemonSet_def
      mayastorHANodeDaemonSet_def mayastorOperatorDiskpoolDeployment_def
      mayastorCSIDriver_def csi_driver_def mayastorStorageClass_def
      mayastorVolumeSnapshotClass_def snapshot_class_kind_def Let_def)

end
