(* ===== verification/Engines.thy ===== *)
theory Engines
  imports Apply Lvm Hostpath Zfs Rawfile Mayastor
begin

text \<open>
  The engine deployments of src/internal/controller/deployer.go.  Each Go function is a chain
  of calls that returns \<open>d.engineFailed(engine, err)\<close> at the first error and a \<open>Running\<close> status
  at the end; here it is the list of its steps, in the order of the code, under
  \<open>deploy_engine\<close>.
\<close>

section \<open>The statuses a deployment returns\<close>

definition engineFailed :: "OpenEBSEngine \<Rightarrow> gerror \<Rightarrow> EngineStatus" where
  "engineFailed engine err = \<lparr>es_Name = engine, es_Phase = OpenEBSPhaseFailed,
     es_Version = '''', es_Message = err_Error err\<rparr>"

definition engineRunning :: "OpenEBSEngine \<Rightarrow> string \<Rightarrow> EngineStatus" where
  "engineRunning engine msg = \<lparr>es_Name = engine, es_Phase = OpenEBSPhaseRunning,
     es_Version = '''', es_Message = msg\<rparr>"

definition deploy_engine ::
  "OpenEBSEngine \<Rightarrow> string \<Rightarrow> ('w, unit) prog list \<Rightarrow> ('w, EngineStatus) prog" where
  "deploy_engine engine msg steps = bindP (attempt (run_steps steps)) (\<lambda>r. case r of
     Inl err \<Rightarrow> ret (engineFailed engine err)
   | Inr _ \<Rightarrow> ret (engineRunning engine msg))"

definition nil_dereference :: string where
  "nil_dereference = ''runtime error: invalid memory address or nil pointer dereference''"

section \<open>The typed apply helpers\<close>

definition apply_to :: "'w env \<Rightarrow> OpenEBS \<Rightarrow> kobj \<Rightarrow> ('w, unit) prog" where
  "apply_to E inst ob = run_obj ob (apply_obj E (Some inst))"

definition applyDeployment :: "'w env \<Rightarrow> OpenEBS \<Rightarrow> kobj \<Rightarrow> ('w, unit) prog" where
  "applyDeployment E inst dep = apply_to E inst dep"

definition applyDaemonSet :: "'w env \<Rightarrow> OpenEBS \<Rightarrow> kobj \<Rightarrow> ('w, unit) prog" where
  "applyDaemonSet E inst ds = apply_to E inst ds"

definition applyCSIDriver :: "'w env \<Rightarrow> OpenEBS \<Rightarrow> kobj \<Rightarrow> ('w, unit) prog" where
  "applyCSIDriver E inst driver = apply_to E inst driver"

definition apply_class :: "'w env \<Rightarrow> OpenEBS \<Rightarrow> kobj \<Rightarrow> ('w, unit) prog" where
  "apply_class E inst sc = run_obj sc (applyStorageClass E (Some inst))"

lemmas typed_apply_defs = applyDeployment_def applyDaemonSet_def applyCSIDriver_def

text \<open>\<open>scName := default; if cfg.StorageClassName != "" { scName = cfg.StorageClassName }\<close>.\<close>

definition name_or :: "string \<Rightarrow> string \<Rightarrow> string" where
  "name_or configured deflt = (if configured \<noteq> '''' then configured else deflt)"

section \<open>The single-node engines\<close>

definition lvm_class :: "LVMConfig \<Rightarrow> kobj" where
  "lvm_class cfg = lvmStorageClass (name_or (lvm_StorageClassName cfg) lvmSCName) cfg"

definition lvm_steps :: "'w env \<Rightarrow> OpenEBS \<Rightarrow> ('w, unit) prog list" where
  "lvm_steps E inst = [
     ensureNamespace E openebsNamespace,
     applyLVMCRDs E (Some inst),
     applyRBAC E (Some inst) lvmServiceAccount lvmClusterRole lvmClusterRoleBinding,
     applyDeployment E inst (lvmControllerDeployment inst),
     applyDaemonSet E inst (lvmNodeDaemonSet inst),
     applyCSIDriver E inst lvmCSIDriver,
     (case spec_LVM (oe_Spec inst) of
        None \<Rightarrow> panic nil_dereference
      | Some cfg \<Rightarrow> apply_class E inst (lvm_class cfg))]"

definition deployLVM :: "'w env \<Rightarrow> OpenEBS \<Rightarrow> ('w, EngineStatus) prog" where
  "deployLVM E inst = deploy_engine OpenEBSEngineLVM ''LVM engine deployed'' (lvm_steps E inst)"

definition hostpath_class :: "HostpathConfig \<Rightarrow> kobj" where
  "hostpath_class cfg =
     hostpathStorageClass (name_or (hp_StorageClassName cfg) hostpathSCName) cfg"

definition hostpath_steps :: "'w env \<Rightarrow> OpenEBS \<Rightarrow> ('w, unit) prog list" where
  "hostpath_steps E inst = [
     ensureNamespace E openebsNamespace,
     applyRBAC E (Some inst) hostpathServiceAccount hostpathClusterRole hostpathClusterRoleBinding,
     applyDeployment E inst (hostpathDeployment inst),
     (case spec_Hostpath (oe_Spec inst) of
        None \<Rightarrow> panic nil_dereference
      | Some cfg \<Rightarrow> apply_class E inst (hostpath_class cfg))]"

definition deployHostpath :: "'w env \<Rightarrow> OpenEBS \<Rightarrow> ('w, EngineStatus) prog" where
  "deployHostpath E inst =
     deploy_engine OpenEBSEngineHostpath ''Hostpath engine deployed'' (hostpath_steps E inst)"

definition zfs_class :: "ZFSConfig \<Rightarrow> kobj" where
  "zfs_class cfg = zfsStorageClass (name_or (zfs_StorageClassName cfg) zfsSCName) cfg"

definition zfs_steps :: "'w env \<Rightarrow> OpenEBS \<Rightarrow> ('w, unit) prog list" where
  "zfs_steps E inst = [
     ensureNamespace E openebsNamespace,
     applyZFSCRDs E (Some inst),
     applyRBAC E (Some inst) zfsServiceAccount zfsClusterRole zfsClusterRoleBinding,
     applyDeployment E inst (zfsControllerDeployment inst),
     apply_to E inst zfsBinConfigMap,
     applyDaemonSet E inst (zfsNodeDaemonSet inst),
     applyCSIDriver E inst zfsCSIDriver,
     (case spec_ZFS (oe_Spec inst) of
        None \<Rightarrow> panic nil_dereference
      | Some cfg \<Rightarrow> apply_class E inst (zfs_class cfg))]"

definition deployZFS :: "'w env \<Rightarrow> OpenEBS \<Rightarrow> ('w, EngineStatus) prog" where
  "deployZFS E inst = deploy_engine OpenEBSEngineZFS ''ZFS engine deployed'' (zfs_steps E inst)"

definition rawfile_class :: "RawfileConfig \<Rightarrow> kobj" where
  "rawfile_class cfg = rawfileStorageClass rawfileSCName cfg"

definition rawfile_steps :: "'w env \<Rightarrow> OpenEBS \<Rightarrow> ('w, unit) prog list" where
  "rawfile_steps E inst = [
     ensureNamespace E openebsNamespace,
     applyRBAC E (Some inst) rawfileServiceAccount rawfileClusterRole rawfileClusterRoleBinding,
     applyDeployment E inst (rawfileDeployment inst),
     (case spec_Rawfile (oe_Spec inst) of
        None \<Rightarrow> panic nil_dereference
      | Some cfg \<Rightarrow> apply_class E inst (rawfile_class cfg))]"

definition deployRawfile :: "'w env \<Rightarrow> OpenEBS \<Rightarrow> ('w, EngineStatus) prog" where
  "deployRawfile E inst =
     deploy_engine OpenEBSEngineRawfile ''Rawfile engine deployed'' (rawfile_steps E inst)"

section \<open>Mayastor\<close>

definition etcd_sts_key :: objkey where
  "etcd_sts_key = (KStatefulSet, mayastorNamespace, mayastorEtcdName)"

definition sts_ReadyReplicas :: "kobj \<Rightarrow> 32 word" where
  "sts_ReadyReplicas ob = (case sts_spec_of ob of None \<Rightarrow> 0 | Some s \<Rightarrow> sts_ready_replicas s)"

definition etcd_health_url :: string where
  "etcd_health_url = ''http://mayastor-etcd.mayastor:2379/health''"

text \<open>
  The request that \<open>http.NewRequestWithContext\<close> builds is for a constant, valid URL, so its own
  error branch cannot be taken.
\<close>

definition etcdHealthCheck :: "'w env \<Rightarrow> ('w, unit) prog" where
  "etcdHealthCheck E = bindP (attempt (Get E etcd_sts_key)) (\<lambda>r. case r of
     Inl err \<Rightarrow> if IsNotFound err then ret () else fail (Wrapped ''etcd statefulset lookup'' err)
   | Inr sts \<Rightarrow> if sts_ReadyReplicas sts = 0 then ret ()
       else (\<lambda>w. case http_get E etcd_health_url w of
           (Inl m, w') \<Rightarrow> fail (Wrapped ''etcd not healthy'' (Plain m)) w'
         | (Inr code, w') \<Rightarrow>
             if code \<noteq> 200
             then fail (Plain (''etcd health check returned status '' @ go_itoa code)) w'
             else ret () w'))"

text \<open>\<open>d.Delete\<close>, with NotFound and NoMatch ignored.\<close>

definition delete_quietly :: "'w env \<Rightarrow> objkey \<Rightarrow> ('w, unit) prog" where
  "delete_quietly E k = bindP (attempt (Delete E k)) (\<lambda>r. case r of
     Inl err \<Rightarrow> if \<not> IsNotFound err \<and> \<not> IsNoMatchError err then fail err else ret ()
   | Inr _ \<Rightarrow> ret ())"

definition schedule_configured :: "OpenEBS \<Rightarrow> bool" where
  "schedule_configured inst = (case spec_Mayastor (oe_Spec inst) of
     None \<Rightarrow> False | Some c \<Rightarrow> ms_EtcdVeleroSchedule c \<noteq> '''')"

definition reconcileEtcdVeleroSchedule :: "'w env \<Rightarrow> OpenEBS \<Rightarrow> ('w, unit) prog" where
  "reconcileEtcdVeleroSchedule E inst = (let schedule = mayastorEtcdVeleroSchedule inst in
     if \<not> schedule_configured inst then delete_quietly E (key_of schedule)
     else bindP (attempt (run_obj schedule (applyUnstructured E (Some inst)))) (\<lambda>r. case r of
         Inl err \<Rightarrow> if IsNoMatchError err then ret () else fail err
       | Inr _ \<Rightarrow> ret ()))"

definition mayastor_class :: "OpenEBS \<Rightarrow> MayastorConfig \<Rightarrow> kobj" where
  "mayastor_class inst cfg =
     mayastorStorageClass (name_or (ms_StorageClassName cfg) mayastorSCName) inst"

definition mayastor_snapshot_class :: "MayastorConfig \<Rightarrow> kobj" where
  "mayastor_snapshot_class cfg =
     mayastorVolumeSnapshotClass (name_or (ms_SnapshotClassName cfg) mayastorSnapshotClassName)"

definition mayastor_steps :: "'w env \<Rightarrow> OpenEBS \<Rightarrow> ('w, unit) prog list" where
  "mayastor_steps E inst = [
     ensureNamespace E mayastorNamespace,
     applyVolumeSnapshotCRDs E (Some inst),
     applyRBAC E (Some inst) mayastorServiceAccount mayastorClusterRole mayastorClusterRoleBinding,
     run_obj mayastorEtcdService (applyService E (Some inst)),
     etcdHealthCheck E,
     bindP (pure (mayastorEtcdStatefulSet E inst)) (\<lambda>sts.
       run_obj sts (applyStatefulSet E (Some inst))),
     reconcileEtcdVeleroSchedule E inst,
     applyDeployment E inst (mayastorAgentCoreDeployment inst),
     apply_to E inst mayastorAgentCoreService,
     apply_to E inst mayastorAPIRestService,
     applyDeployment E inst (mayastorAPIRestDeployment inst),
     applyDeployment E inst (mayastorCSIControllerDeployment inst),
     applyDaemonSet E inst (mayastorIOEngineDaemonSet inst),
     apply_to E inst mayastorMetricsExporterService,
     applyDaemonSet E inst (mayastorCSINodeDaemonSet inst),
     applyDaemonSet E inst (mayastorHANodeDaemonSet inst),
     applyDeployment E inst (mayastorOperatorDiskpoolDeployment inst),
     applyCSIDriver E inst mayastorCSIDriver,
     (case spec_Mayastor (oe_Spec inst) of
        None \<Rightarrow> panic nil_dereference
      | Some cfg \<Rightarrow> apply_class E inst (mayastor_class inst cfg)),
     (case spec_Mayastor (oe_Spec inst) of
        None \<Rightarrow> panic nil_dereference
      | Some cfg \<Rightarrow> run_obj (mayastor_snapshot_class cfg) (applyUnstructured E (Some inst)))]"

definition deployMayastor :: "'w env \<Rightarrow> OpenEBS \<Rightarrow> ('w, EngineStatus) prog" where
  "deployMayastor E inst =
     deploy_engine OpenEBSEngineMayastor ''Mayastor engine deployed'' (mayastor_steps E inst)"

end
