(* ===== verification/Cleanup.thy ===== *)
theory Cleanup
  imports Engines
begin

text \<open>
  Removal of resources (src/internal/controller/deployer.go): \<open>cleanupOrphans\<close> deletes what the
  operator manages and no enabled engine expects, \<open>cleanup\<close> deletes everything when the custom
  resource goes away.
\<close>

section \<open>expectedResources\<close>

text \<open>The Go map from name to \<open>true\<close> is the list of its keys.\<close>

definition expectedResources :: "OpenEBS \<Rightarrow> string list" where
  "expectedResources inst = (let
     lvm = (case spec_LVM (oe_Spec inst) of None \<Rightarrow> [] | Some c \<Rightarrow>
       if lvm_Enabled c then
         [lvmControllerName, lvmNodeName, lvmCSIDriverName, lvmSCName,
          ''openebs-lvm-controller'', ''openebs-lvm-role'', ''openebs-lvm-binding''] @
         (if lvm_StorageClassName c \<noteq> '''' then [lvm_StorageClassName c] else [])
       else []);
     hostpath = (case spec_Hostpath (oe_Spec inst) of None \<Rightarrow> [] | Some c \<Rightarrow>
       if hp_Enabled c then
         [hostpathDeployName, hostpathSCName, ''openebs-localpv-provisioner''] @
         (if hp_StorageClassName c \<noteq> '''' then [hp_StorageClassName c] else [])
       else []);
     zfs = (case spec_ZFS (oe_Spec inst) of None \<Rightarrow> [] | Some c \<Rightarrow>
       if zfs_Enabled c then
         [zfsControllerName, zfsNodeName, zfsCSIDriverName, zfsSCName,
          ''openebs-zfs-controller'', ''openebs-zfs-role'', ''openebs-zfs-binding''] @
         (if zfs_StorageClassName c \<noteq> '''' then [zfs_StorageClassName c] else [])
       else []);
     rawfile = (case spec_Rawfile (oe_Spec inst) of None \<Rightarrow> [] | Some c \<Rightarrow>
       if rf_Enabled c then
         [rawfileDeployName, rawfileSCName, ''openebs-rawfile-provisioner'',
          ''openebs-rawfile-role'', ''openebs-rawfile-binding'']
       else []);
     mayastor = (case spec_Mayastor (oe_Spec inst) of None \<Rightarrow> [] | Some c \<Rightarrow>
       if ms_Enabled c then
         [mayastorEtcdName, mayastorAgentCoreName, mayastorAPIRestName,
          mayastorCSIControllerName, mayastorIOEngineName, mayastorCSINodeName,
          mayastorHANodeName, mayastorDiskpoolName, mayastorServiceAccountName,
          mayastorClusterRoleName, mayastorClusterRoleBindingName, mayastorCSIDriverName,
          mayastorSCName, mayastorSnapshotClassName,
          ''volumesnapshotclasses.snapshot.storage.k8s.io'',
          ''volumesnapshots.snapshot.storage.k8s.io'',
          ''volumesnapshotcontents.snapshot.storage.k8s.io''] @
         (if ms_StorageClassName c \<noteq> '''' then [ms_StorageClassName c] else []) @
         (if ms_SnapshotClassName c \<noteq> '''' then [ms_SnapshotClassName c] else [])
       else [])
   in lvm @ hostpath @ zfs @ rawfile @ mayastor)"

section \<open>cleanupOrphans\<close>

text \<open>One block of the function: list a kind, delete the items that are not expected.\<close>

definition delete_orphans ::
  "'w env \<Rightarrow> string list \<Rightarrow> kind \<times> string option \<Rightarrow> ('w, unit) prog" where
  "delete_orphans E expected scope =
     bindP (call (cl_list E (fst scope) (snd scope) managed_selector)) (\<lambda>items.
       run_steps (map (\<lambda>ob. if obj_name ob \<notin> set expected then Delete E (key_of ob) else ret ())
         items))"

definition orphan_scopes :: "(kind \<times> string option) list" where
  "orphan_scopes = [
     (KDeployment, Some openebsNamespace),
     (KDaemonSet, Some openebsNamespace),
     (KServiceAccount, Some openebsNamespace),
     (KDeployment, Some mayastorNamespace),
     (KDaemonSet, Some mayastorNamespace),
     (KStatefulSet, Some mayastorNamespace),
     (KServiceAccount, Some mayastorNamespace),
     (KClusterRole, None),
     (KClusterRoleBinding, None),
     (KCSIDriver, None),
     (KStorageClass, None)]"

definition scheduleWanted :: "OpenEBS \<Rightarrow> bool" where
  "scheduleWanted inst = (case spec_Mayastor (oe_Spec inst) of
     None \<Rightarrow> False | Some c \<Rightarrow> ms_Enabled c \<and> ms_EtcdVeleroSchedule c \<noteq> '''')"

definition cleanupOrphans :: "'w env \<Rightarrow> OpenEBS \<Rightarrow> ('w, unit) prog" where
  "cleanupOrphans E inst = run_steps (
     map (delete_orphans E (expectedResources inst)) orphan_scopes @
     [if \<not> scheduleWanted inst then delete_quietly E (key_of (mayastorEtcdVeleroSchedule inst))
      else ret ()])"

section \<open>cleanup\<close>

definition csi_driver_named :: "string \<Rightarrow> kobj" where
  "csi_driver_named name = Obj name '''' [] (CSIDriverBody
     \<lparr>csi_attach_required = False, csi_pod_info_on_mount = False, csi_fs_group_policy = ''''\<rparr>)"

definition storage_class_named :: "string \<Rightarrow> kobj" where
  "storage_class_named name = Obj name '''' [] (StorageClassBody
     \<lparr>scs_provisioner = '''', scs_reclaim_policy = '''', scs_volume_binding_mode = '''',
      scs_allow_volume_expansion = False, scs_parameters = []\<rparr>)"

definition crd_named :: "string \<Rightarrow> kobj" where
  "crd_named name = Obj name '''' []
     (UnstructuredBody ''apiextensions.k8s.io/v1'' ''CustomResourceDefinition'' [])"

text \<open>
  The slice literal the loop ranges over is evaluated first, so a panic in the StatefulSet
  builder happens before any delete.
\<close>

definition cleanup_objects :: "'l lib_scheme \<Rightarrow> OpenEBS \<Rightarrow> kobj list result" where
  "cleanup_objects L inst = (case mayastorEtcdStatefulSet L inst of
     Inl x \<Rightarrow> Inl x
   | Inr etcd \<Rightarrow> Inr [
       lvmControllerDeployment inst,
       lvmNodeDaemonSet inst,
       hostpathDeployment inst,
       zfsControllerDeployment inst,
       zfsNodeDaemonSet inst,
       zfsBinConfigMap,
       rawfileDeployment inst,
       csi_driver_named lvmCSIDriverName,
       csi_driver_named zfsCSIDriverName,
       storage_class_named lvmSCName,
       storage_class_named hostpathSCName,
       storage_class_named zfsSCName,
       storage_class_named rawfileSCName,
       etcd,
       mayastorAgentCoreDeployment inst,
       mayastorAgentCoreService,
       mayastorAPIRestDeployment inst,
       mayastorCSIControllerDeployment inst,
       mayastorIOEngineDaemonSet inst,
       mayastorMetricsExporterService,
       mayastorCSINodeDaemonSet inst,
       mayastorHANodeDaemonSet inst,
       mayastorOperatorDiskpoolDeployment inst,
       csi_driver_named mayastorCSIDriverName,
       storage_class_named mayastorSCName,
       crd_named ''lvmnodes.local.openebs.io'',
       crd_named ''lvmvolumes.local.openebs.io'',
       crd_named ''lvmsnapshots.local.openebs.io'',
       crd_named ''zfsnodes.zfs.openebs.io'',
       crd_named ''zfsvolumes.zfs.openebs.io'',
       crd_named ''zfssnapshots.zfs.openebs.io'',
       crd_named ''volumesnapshotclasses.snapshot.storage.k8s.io'',
       crd_named ''volumesnapshots.snapshot.storage.k8s.io'',
       crd_named ''volumesnapshotcontents.snapshot.storage.k8s.io'',
       Obj mayastorSnapshotClassName '''' []
         (UnstructuredBody ''snapshot.storage.k8s.io/v1'' ''VolumeSnapshotClass'' []),
       mayastorEtcdVeleroSchedule inst])"

definition cleanup :: "'w env \<Rightarrow> OpenEBS \<Rightarrow> ('w, unit) prog" where
  "cleanup E inst = bindP (pure (cleanup_objects E inst)) (\<lambda>objs.
     run_steps (map (\<lambda>ob. delete_quietly E (key_of ob)) objs))"

end
