(* ===== verification/Reconcile.thy ===== *)
theory Reconcile
  imports Cleanup
begin

text \<open>
  The reconciler of src/internal/controller/openebs_controller.go.  A reconcile returns a
  \<open>ctrl.Result\<close> (the seconds after which to requeue, 0 for none) and an error, both kept as
  values; only a panic ends it otherwise.
\<close>

definition openebsFinalizer :: string where
  "openebsFinalizer = ''storage.aldershaab-it.dk/finalizer''"

definition requeueAfter :: nat where "requeueAfter = 30"
definition requeueAfterError :: nat where "requeueAfterError = 10"

type_synonym reconcile_result = "nat \<times> gerror option"

section \<open>Phase and conditions\<close>

text \<open>The loop of \<open>derivePhase\<close>: \<open>allRunning\<close> and \<open>anyFailed\<close> after the engines seen.\<close>

fun phase_flags :: "bool \<times> bool \<Rightarrow> EngineStatus list \<Rightarrow> bool \<times> bool" where
  "phase_flags acc [] = acc"
| "phase_flags (allRunning, anyFailed) (e # es) =
     (if es_Phase e = OpenEBSPhaseFailed then phase_flags (False, True) es
      else if es_Phase e = OpenEBSPhaseDegraded then phase_flags (False, anyFailed) es
      else if es_Phase e = OpenEBSPhaseInstalling \<or> es_Phase e = OpenEBSPhasePending
        then phase_flags (False, anyFailed) es
      else phase_flags (allRunning, anyFailed) es)"

definition derivePhase :: "EngineStatus list \<Rightarrow> OpenEBSPhase" where
  "derivePhase engines = (let (allRunning, anyFailed) = phase_flags (True, False) engines in
     if engines = [] then OpenEBSPhasePending
     else if anyFailed then OpenEBSPhaseDegraded
     else if allRunning then OpenEBSPhaseRunning
     else OpenEBSPhaseInstalling)"

definition condition_status :: "bool \<Rightarrow> string" where
  "condition_status b = (if b then ''True'' else ''False'')"

definition buildConditions :: "string \<Rightarrow> OpenEBSPhase \<Rightarrow> Condition list" where
  "buildConditions now phase = (let
     available = (phase = OpenEBSPhaseRunning \<or> phase = OpenEBSPhaseDegraded);
     progressing = (phase = OpenEBSPhaseInstalling \<or> phase = OpenEBSPhasePending);
     degraded = (phase = OpenEBSPhaseDegraded);
     failed = (phase = OpenEBSPhaseFailed);
     msg = ''OpenEBS is '' @ phase;
     cond = (\<lambda>ty b m. \<lparr>cond_Type = ty, cond_Status = condition_status b,
       cond_LastTransitionTime = now, cond_Reason = phase, cond_Message = m\<rparr>)
   in [cond ConditionAvailable available msg, cond ConditionProgressing progressing msg,
       cond ConditionDegraded degraded '''', cond ConditionFailed failed ''''])"

section \<open>Deploying the engines\<close>

definition engine_table ::
  "'w env \<Rightarrow> OpenEBS \<Rightarrow> (bool \<times> string \<times> ('w, EngineStatus) prog) list" where
  "engine_table E inst = [
     (lvm_on inst, ''lvm'', deployLVM E inst),
     (zfs_on inst, ''zfs'', deployZFS E inst),
     (hostpath_on inst, ''hostpath'', deployHostpath E inst),
     (rawfile_on inst, ''rawfile'', deployRawfile E inst),
     (mayastor_on inst, ''mayastor'', deployMayastor E inst)]"

text \<open>The blocks of \<open>deployEngines\<close>: the statuses and the error texts collected so far.\<close>

fun run_engines :: "(bool \<times> string \<times> ('w, EngineStatus) prog) list \<Rightarrow>
    EngineStatus list \<times> string list \<Rightarrow> ('w, EngineStatus list \<times> string list) prog" where
  "run_engines [] acc = ret acc"
| "run_engines ((enabled, name, deploy) # rest) (engines, errs) =
     (if enabled then bindP deploy (\<lambda>status. run_engines rest
        (engines @ [status],
         errs @ (if es_Phase status = OpenEBSPhaseFailed
           then [name @ '': '' @ es_Message status] else [])))
      else run_engines rest (engines, errs))"

definition deployEngines ::
  "'w env \<Rightarrow> OpenEBS \<Rightarrow> ('w, EngineStatus list \<times> gerror option) prog" where
  "deployEngines E inst = bindP (run_engines (engine_table E inst) ([], [])) (\<lambda>(engines, errs).
     ret (engines, if errs \<noteq> []
       then Some (Plain (''engine deployment errors: ['' @ strings_Join errs '' '' @ '']''))
       else None))"

section \<open>Reconcile\<close>

definition with_status ::
  "OpenEBSPhase \<Rightarrow> EngineStatus list \<Rightarrow> Condition list \<Rightarrow> OpenEBS \<Rightarrow> OpenEBS" where
  "with_status phase engines conds latest = latest\<lparr>oe_Status :=
     \<lparr>st_Phase = phase, st_Conditions = conds, st_Engines = engines\<rparr>\<rparr>"

text \<open>
  The second half of \<open>reconcileNormal\<close>: conditions, a fresh read of the resource, the write of
  its status.
\<close>

definition metav1_Now :: "'w env \<Rightarrow> ('w, string) prog" where
  "metav1_Now E w = (case time_now E w of (now, w') \<Rightarrow> (Inr now, w'))"

definition write_status ::
  "'w env \<Rightarrow> OpenEBS \<Rightarrow> EngineStatus list \<Rightarrow> ('w, reconcile_result) prog" where
  "write_status E inst engines = (let phase = derivePhase engines in
     bindP (metav1_Now E) (\<lambda>now. let conds = buildConditions now phase in
     bindP (attempt (call (cr_get E (om_name (oe_meta inst))))) (\<lambda>r. case r of
       Inl e \<Rightarrow> ret (0, Some e)
     | Inr latest \<Rightarrow>
         bindP (attempt (call (cr_status_update E (with_status phase engines conds latest))))
           (\<lambda>r. case r of
             Inl e \<Rightarrow> ret (0, Some e)
           | Inr _ \<Rightarrow>
               if phase = OpenEBSPhaseFailed then ret (requeueAfterError, None)
               else ret (requeueAfter, None)))))"

text \<open>Errors of the engines and of the orphan clean-up are logged, not returned.\<close>

definition reconcileNormal :: "'w env \<Rightarrow> OpenEBS \<Rightarrow> ('w, reconcile_result) prog" where
  "reconcileNormal E inst =
     bindP (deployEngines E inst) (\<lambda>(engines, err).
     bindP (attempt (cleanupOrphans E inst)) (\<lambda>_. write_status E inst engines))"

definition reconcileDelete :: "'w env \<Rightarrow> OpenEBS \<Rightarrow> ('w, reconcile_result) prog" where
  "reconcileDelete E inst = bindP (attempt (cleanup E inst)) (\<lambda>r. case r of
     Inl e \<Rightarrow> ret (requeueAfterError, Some e)
   | Inr _ \<Rightarrow>
       bindP (attempt (call (cr_update E (RemoveFinalizer E inst openebsFinalizer)))) (\<lambda>r.
         case r of Inl e \<Rightarrow> ret (0, Some e) | Inr _ \<Rightarrow> ret (0, None)))"

definition ReconcileReq :: "'w env \<Rightarrow> string \<Rightarrow> ('w, reconcile_result) prog" where
  "ReconcileReq E name = bindP (attempt (call (cr_get E name))) (\<lambda>r. case r of
     Inl e \<Rightarrow> if IsNotFound e then ret (0, None) else ret (0, Some e)
   | Inr inst \<Rightarrow>
       if om_deletion_timestamp (oe_meta inst) \<noteq> None then reconcileDelete E inst
       else if \<not> ContainsFinalizer E inst openebsFinalizer then
         bindP (attempt (call (cr_update E (AddFinalizer E inst openebsFinalizer)))) (\<lambda>r.
           case r of Inl e \<Rightarrow> ret (0, Some e) | Inr inst' \<Rightarrow> reconcileNormal E inst')
       else reconcileNormal E inst)"

end
