(* ===== verification/Apply_Correct.thy ===== *)
theory Apply_Correct
  imports Apply
begin

text \<open>
  What the \<open>apply\<close> family does to the cluster.  The first part instantiates the contract
  \<open>key_calls\<close> for the stored objects and for the request log; the second describes each
  operation's result: on success the object is stored as written, on failure nothing changed
  (or, for the operations that delete first, exactly what was deleted).
\<close>

section \<open>The family touches its own key only\<close>

sublocale cluster_api \<subseteq> framed: key_calls E "same_outside view {k}" k for k
proof unfold_locales
  show "same_outside view {k} w (snd (cl_get E k w))" for w
    using get_ok [of k w] get_err [of k w]
    by (cases "cl_get E k w"; cases "fst (cl_get E k w)") (auto simp: same_outside_def)
  show "same_outside view {k} w (snd (cl_delete E k w))" for w
    using delete_ok [of k w] delete_err [of k w]
    by (cases "cl_delete E k w"; cases "fst (cl_delete E k w)") (auto simp: same_outside_def)
  show "same_outside view {k} w (snd (cl_create E ob w))" if "key_of ob = k" for ob w
    using create_ok [of ob w] create_err [of ob w] that
    by (cases "cl_create E ob w"; cases "fst (cl_create E ob w)") (auto simp: same_outside_def)
  show "same_outside view {k} w (snd (cl_update E ob w))" if "key_of ob = k" for ob w
    using update_ok [of ob w] update_err [of ob w] that
    by (cases "cl_update E ob w"; cases "fst (cl_update E ob w)") (auto simp: same_outside_def)
qed

sublocale audited_client \<subseteq> logged: key_calls E "logs_only audit (\<lambda>r. req_key r = Some k)" k for k
  by unfold_locales (auto intro: logs_onlyI simp: get_logged delete_logged create_logged
      update_logged)

section \<open>Objects up to their resource version\<close>

definition upto_rv :: "kobj \<Rightarrow> kobj \<Rightarrow> bool" where
  "upto_rv a b \<longleftrightarrow> SetResourceVersion '''' a = SetResourceVersion '''' b"

lemma upto_rv_refl [simp]: "upto_rv a a"
  by (simp add: upto_rv_def)

lemma upto_rv_set [simp]: "upto_rv a (SetResourceVersion v b) \<longleftrightarrow> upto_rv a b"
  by (simp add: upto_rv_def SetResourceVersion_def)

lemma upto_rvD:
  assumes "upto_rv a b"
  shows "key_of b = key_of a" and "body b = body a"
    and "om_labels (meta b) = om_labels (meta a)"
    and "om_owner_refs (meta b) = om_owner_refs (meta a)"
proof -
  from assms have e: "SetResourceVersion '''' a = SetResourceVersion '''' b"
    by (simp add: upto_rv_def)
  show "key_of b = key_of a" using arg_cong [OF e, of key_of] by simp
  show "body b = body a" using arg_cong [OF e, of body] by simp
  show "om_labels (meta b) = om_labels (meta a)"
    using arg_cong [OF e, of "\<lambda>o'. om_labels (meta o')"] by simp
  show "om_owner_refs (meta b) = om_owner_refs (meta a)"
    using arg_cong [OF e, of "\<lambda>o'. om_owner_refs (meta o')"] by simp
qed

lemma conforms_upto_rv: "upto_rv a b \<Longrightarrow> conforms d b st = conforms d a st"
  by (simp add: conforms_def upto_rvD)

text \<open>
  The two outcomes of an operation on an object that started as \<open>ob0\<close> in a world \<open>w\<close>: stored as
  written, or the world unchanged and the object changed in its resource version only.
\<close>

definition stored :: "('w \<Rightarrow> objkey \<Rightarrow> kobj option) \<Rightarrow> (kbody \<Rightarrow> kbody \<Rightarrow> bool) \<Rightarrow>
    kobj \<Rightarrow> 'w \<Rightarrow> 'w \<Rightarrow> bool" where
  "stored view d ob w w' \<longleftrightarrow>
     (\<exists>st. view w' = (view w)(key_of ob \<mapsto> st) \<and> conforms d ob st)"

definition untouched :: "('w \<Rightarrow> objkey \<Rightarrow> kobj option) \<Rightarrow> kobj \<Rightarrow> 'w \<Rightarrow> kobj \<times> 'w \<Rightarrow> bool" where
  "untouched view ob w s \<longleftrightarrow> view (snd s) = view w \<and> upto_rv ob (fst s)"

lemma stored_lookup: "stored view d ob w w' \<Longrightarrow> \<exists>st. view w' (key_of ob) = Some st \<and> conforms d ob st"
  by (auto simp: stored_def)

lemma stored_frame: "stored view d ob w w' \<Longrightarrow> k \<noteq> key_of ob \<Longrightarrow> view w' k = view w k"
  by (auto simp: stored_def)

lemma untouched_stored:
  assumes "untouched view ob0 w s" and "stored view d (fst s) (snd s) w'"
  shows "stored view d ob0 w w'"
proof -
  from assms(1) have v: "view (snd s) = view w" and u: "upto_rv ob0 (fst s)"
    by (simp_all add: untouched_def)
  from assms(2) show ?thesis
    by (simp add: stored_def v conforms_upto_rv [OF u] upto_rvD(1) [OF u])
qed

section \<open>Single calls\<close>

lemma lift_w_run: "lift_w m s = (fst (m (snd s)), (fst s, snd (m (snd s))))"
  by (simp add: lift_w_def split: prod.split)

lemma bindP_upd_obj [simp]: "bindP (upd_obj f) h s = h () (f (fst s), snd s)"
  by (simp add: bindP_def upd_obj_def)

context cluster_api
begin

text \<open>The three ways a \<open>Get\<close> inside an operation can go.\<close>

lemma get_cases:
  obtains (found) ex w1 where "cl_get E k w = (Inr ex, w1)" "view w1 = view w"
      "view w k = Some ex" "key_of ex = k"
  | (absent) e w1 where "cl_get E k w = (Inl e, w1)" "view w1 = view w" "IsNotFound e"
      "view w k = None"
  | (error) e w1 where "cl_get E k w = (Inl e, w1)" "view w1 = view w" "\<not> IsNotFound e"
proof (cases "cl_get E k w")
  case (Pair r w1)
  show ?thesis
  proof (cases r)
    case (Inl e)
    with Pair get_err [of k w e w1] show ?thesis
      by (cases "IsNotFound e") (auto intro: absent error)
  next
    case (Inr ex)
    with Pair get_ok [of k w ex w1] got_key [of k w ex w1] show ?thesis by (auto intro: found)
  qed
qed

lemma after_get_found [simp]:
  "cl_get E k w = (Inr ex, w1) \<Longrightarrow>
     bindP (attempt (lift_w (Get E k))) h (ob, w) = h (Inr ex) (ob, w1)"
  by (simp add: bindP_def attempt_def lift_w_def Get_def call_def)

lemma after_get_error [simp]:
  "cl_get E k w = (Inl e, w1) \<Longrightarrow>
     bindP (attempt (lift_w (Get E k))) h (ob, w) = h (Inl e) (ob, w1)"
  by (simp add: bindP_def attempt_def lift_w_def Get_def call_def)

lemma Create_ok: "Create E (ob, w) = (Inr u, (ob', w')) \<Longrightarrow> stored view defaulted ob w w'"
  using create_ok [of ob w]
  by (auto simp: Create_def stored_def split: prod.splits sum.splits)

lemma Create_err:
  "Create E (ob, w) = (Inl x, s') \<Longrightarrow> fst s' = ob \<and> view (snd s') = view w \<and>
     (\<exists>e. x = GoError e \<and> cl_create E ob w = (Inl e, snd s'))"
  using create_err [of ob w]
  by (auto simp: Create_def split: prod.splits sum.splits)

lemma Update_ok: "Update E (ob, w) = (Inr u, (ob', w')) \<Longrightarrow> stored view defaulted ob w w'"
  using update_ok [of ob w]
  by (auto simp: Update_def stored_def split: prod.splits sum.splits)

lemma Update_err:
  "Update E (ob, w) = (Inl x, s') \<Longrightarrow> fst s' = ob \<and> view (snd s') = view w \<and>
     (\<exists>e. x = GoError e \<and> cl_update E ob w = (Inl e, snd s'))"
  using update_err [of ob w]
  by (auto simp: Update_def split: prod.splits sum.splits)

section \<open>apply\<close>

lemma apply_once_ok:
  assumes "apply_once E k (ob, w) = (Inr u, (ob', w'))"
  shows "stored view defaulted ob w w'"
proof (cases rule: get_cases [of k w])
  case (found ex w1)
  with assms have u: "Update E (SetResourceVersion (resource_version ex) ob, w1) =
      (Inr u, (ob', w'))"
    by (simp add: apply_once_def)
  show ?thesis
    by (rule untouched_stored [of _ _ _ "(SetResourceVersion (resource_version ex) ob, w1)"])
      (simp_all add: untouched_def found(2) Update_ok [OF u])
next
  case (absent e w1)
  with assms have "Create E (ob, w1) = (Inr u, (ob', w'))" by (simp add: apply_once_def)
  from Create_ok [OF this] absent(2) show ?thesis by (simp add: stored_def)
next
  case (error e w1)
  with assms show ?thesis by (simp add: apply_once_def prog_simps)
qed

lemma apply_once_err:
  assumes "apply_once E k (ob, w) = (Inl x, s')"
  shows "untouched view ob w s' \<and> (\<exists>e. x = GoError e)"
proof (cases rule: get_cases [of k w])
  case (found ex w1)
  with assms have "Update E (SetResourceVersion (resource_version ex) ob, w1) = (Inl x, s')"
    by (simp add: apply_once_def)
  from Update_err [OF this] found(2) show ?thesis by (auto simp: untouched_def)
next
  case (absent e w1)
  with assms have "Create E (ob, w1) = (Inl x, s')" by (simp add: apply_once_def)
  from Create_err [OF this] absent(2) show ?thesis by (auto simp: untouched_def)
next
  case (error e w1)
  with assms show ?thesis by (auto simp: apply_once_def prog_simps untouched_def)
qed

lemma untouched_step:
  "untouched view ob0 w s \<Longrightarrow> untouched view (fst s) (snd s) s' \<Longrightarrow> untouched view ob0 w s'"
  by (simp add: untouched_def upto_rv_def)

text \<open>Every attempt before the last one found a conflict and left the cluster as it was.\<close>

lemma retry_untouched:
  assumes "\<And>ob w e s'. f (ob, w) = (Inl (GoError e), s') \<Longrightarrow> IsConflict e \<Longrightarrow> untouched view ob w s'"
    and "retry_on_conflict E f (ob, w) = out"
  shows "\<exists>s. untouched view ob w s \<and> f s = out"
proof (rule attempts_invariant [where P = "untouched view ob w"])
  show "attempts f (ob, w) out" using retry_attempts assms(2) by metis
  show "untouched view ob w (ob, w)" by (simp add: untouched_def)
  show "untouched view ob w s1"
    if "untouched view ob w s" "f s = (Inl (GoError e), s1)" "IsConflict e" for s e s1
    using untouched_step [OF that(1)] assms(1) [of "fst s" "snd s" e s1] that(2,3) by simp
qed

lemma untouched_key: "untouched view ob w s \<Longrightarrow> key_of (fst s) = key_of ob"
  by (simp add: untouched_def upto_rvD)

lemma apply_last:
  assumes "apply_obj E inst (ob, w) = out"
  shows "\<exists>s. untouched view (set_owner E inst ob) w s \<and> apply_once E (key_of ob) s = out"
  using assms apply_once_err
  by (intro retry_untouched) (auto simp: apply_obj_def with_obj_def)

lemma apply_ok:
  assumes "apply_obj E inst (ob, w) = (Inr u, (ob', w'))"
  shows "stored view defaulted (set_owner E inst ob) w w'"
proof -
  from apply_last [OF assms] obtain s where s: "untouched view (set_owner E inst ob) w s"
    and r: "apply_once E (key_of ob) (fst s, snd s) = (Inr u, (ob', w'))" by auto
  from untouched_stored [OF s apply_once_ok [OF r]] show ?thesis .
qed

lemma apply_err:
  assumes "apply_obj E inst (ob, w) = (Inl x, s')"
  shows "untouched view (set_owner E inst ob) w s' \<and> (\<exists>e. x = GoError e)"
proof -
  from apply_last [OF assms] obtain s where s: "untouched view (set_owner E inst ob) w s"
    and r: "apply_once E (key_of ob) (fst s, snd s) = (Inl x, s')" by auto
  from untouched_step [OF s] apply_once_err [OF r] show ?thesis by simp
qed

section \<open>applyUnstructured\<close>

lemma applyUnstructured_alt:
  "applyUnstructured E inst (ob, w) = apply_once E (key_of ob) (set_owner E inst ob, w)"
  by (simp add: applyUnstructured_def apply_once_def with_obj_def)

lemma applyUnstructured_ok:
  "applyUnstructured E inst (ob, w) = (Inr u, (ob', w')) \<Longrightarrow>
     stored view defaulted (set_owner E inst ob) w w'"
  unfolding applyUnstructured_alt by (rule apply_once_ok)

lemma applyUnstructured_err:
  "applyUnstructured E inst (ob, w) = (Inl x, s') \<Longrightarrow>
     untouched view (set_owner E inst ob) w s' \<and> (\<exists>e. x = GoError e)"
  unfolding applyUnstructured_alt by (rule apply_once_err)

section \<open>applyStorageClass\<close>

lemma replace_ok:
  assumes "replace_storage_class E (key_of ob) (ob, w) = (Inr u, (ob', w'))"
  shows "stored view defaulted ob w w'"
proof -
  let ?k = "key_of ob"
  from assms obtain ex w1 w2 where g: "cl_get E ?k w = (Inr ex, w1)"
    and d: "cl_delete E (key_of ex) w1 = (Inr (), w2)"
    and c: "Create E (SetResourceVersion '''' ob, w2) = (Inr u, (ob', w'))"
    by (auto simp: replace_storage_class_def bindP_def lift_w_def Get_def Delete_def call_def
        upd_obj_def split: prod.splits sum.splits)
  have "view w2 = (view w)(?k := None)"
    using get_ok [OF g] got_key [OF g] delete_ok [OF d] by simp
  with Create_ok [OF c] show ?thesis
    by (auto simp: stored_def conforms_def)
qed

text \<open>A replacement that fails leaves the class as it was, or deleted when the create failed.\<close>

lemma replace_err:
  assumes "replace_storage_class E (key_of ob) (ob, w) = (Inl x, s')"
  shows "view (snd s') = view w \<or> view (snd s') = (view w)(key_of ob := None)"
proof (cases rule: get_cases [of "key_of ob" w])
  case (found ex w1)
  show ?thesis
  proof (cases "cl_delete E (key_of ex) w1")
    case (Pair r w2)
    show ?thesis
    proof (cases r)
      case (Inl e)
      with assms found Pair delete_err [of "key_of ex" w1 e w2] show ?thesis
        by (auto simp: replace_storage_class_def bindP_def lift_w_def Get_def Delete_def call_def)
    next
      case (Inr v)
      with assms found Pair have "Create E (SetResourceVersion '''' ob, w2) = (Inl x, s')"
        by (simp add: replace_storage_class_def bindP_def lift_w_def Get_def Delete_def call_def
            upd_obj_def)
      from Create_err [OF this] found Pair Inr delete_ok [of "key_of ex" w1 v w2]
      show ?thesis by simp
    qed
  qed
next
  case (absent e w1)
  with assms show ?thesis
    by (auto simp: replace_storage_class_def bindP_def lift_w_def Get_def call_def)
next
  case (error e w1)
  with assms show ?thesis
    by (auto simp: replace_storage_class_def bindP_def lift_w_def Get_def call_def)
qed

lemma applyStorageClass_cases:
  obtains s1 where "apply_obj E inst (ob, w) = (Inr (), s1)"
      "applyStorageClass E inst (ob, w) = (Inr (), s1)"
  | e s1 where "apply_obj E inst (ob, w) = (Inl (GoError e), s1)" "\<not> IsInvalid e"
      "applyStorageClass E inst (ob, w) = (Inl (GoError e), s1)"
  | e s1 where "apply_obj E inst (ob, w) = (Inl (GoError e), s1)" "IsInvalid e"
      "applyStorageClass E inst (ob, w) = replace_storage_class E (key_of (fst s1)) s1"
proof (cases "apply_obj E inst (ob, w)" rule: prod.exhaust)
  case (Pair r s1)
  show ?thesis
  proof (cases r)
    case (Inr u)
    with Pair that(1) [of s1] show ?thesis
      by (simp add: applyStorageClass_def bindP_def attempt_def ret_def)
  next
    case (Inl x)
    with Pair apply_err [of inst ob w x s1] obtain e where x: "x = GoError e" by auto
    show ?thesis
    proof (cases "IsInvalid e")
      case True
      with Pair Inl x that(3) [of e s1] show ?thesis
        by (simp add: applyStorageClass_def bindP_def attempt_def with_obj_def)
    next
      case False
      with Pair Inl x that(2) [of e s1] show ?thesis
        by (simp add: applyStorageClass_def bindP_def attempt_def fail_def)
    qed
  qed
qed

lemma applyStorageClass_ok:
  assumes "applyStorageClass E inst (ob, w) = (Inr u, (ob', w'))"
  shows "stored view defaulted (set_owner E inst ob) w w'"
proof (cases rule: applyStorageClass_cases [of inst ob w])
  case (1 s1)
  with assms apply_ok [of inst ob w u ob' w'] show ?thesis by simp
next
  case (2 e s1)
  with assms show ?thesis by simp
next
  case (3 e s1)
  with assms have "replace_storage_class E (key_of (fst s1)) (fst s1, snd s1) = (Inr u, (ob', w'))"
    by simp
  from untouched_stored [OF _ replace_ok [OF this]] apply_err [OF 3(1)] show ?thesis by simp
qed

lemma applyStorageClass_err:
  assumes "applyStorageClass E inst (ob, w) = (Inl x, s')"
  shows "view (snd s') = view w \<or> view (snd s') = (view w)(key_of ob := None)"
proof (cases rule: applyStorageClass_cases [of inst ob w])
  case (1 s1)
  with assms show ?thesis by simp
next
  case (2 e s1)
  with assms apply_err [OF 2(1)] show ?thesis by (simp add: untouched_def)
next
  case (3 e s1)
  with assms have r: "replace_storage_class E (key_of (fst s1)) (fst s1, snd s1) = (Inl x, s')"
    by simp
  from apply_err [OF 3(1)] have u: "untouched view (set_owner E inst ob) w s1" by simp
  from replace_err [OF r] u untouched_key [OF u] show ?thesis
    by (simp add: untouched_def)
qed

end

section \<open>applyService\<close>

text \<open>The object as an attempt can leave it: unchanged, or deleted to be created again.\<close>

definition cleared :: "('w \<Rightarrow> objkey \<Rightarrow> kobj option) \<Rightarrow> kobj \<Rightarrow> 'w \<Rightarrow> kobj \<times> 'w \<Rightarrow> bool" where
  "cleared view ob w s \<longleftrightarrow> upto_rv ob (fst s) \<and>
     (view (snd s) = view w \<or> view (snd s) = (view w)(key_of ob := None))"

lemma cleared_step:
  assumes "cleared view ob0 w s" and "cleared view (fst s) (snd s) s'"
  shows "cleared view ob0 w s'"
proof -
  from assms(1) have "key_of (fst s) = key_of ob0" by (simp add: cleared_def upto_rvD(1))
  with assms show ?thesis by (auto simp: cleared_def upto_rv_def)
qed

lemma cleared_stored:
  assumes "cleared view ob0 w s" and "stored view d (fst s) (snd s) w'"
  shows "stored view d ob0 w w'"
proof -
  from assms(1) have u: "upto_rv ob0 (fst s)"
    and v: "view (snd s) = view w \<or> view (snd s) = (view w)(key_of ob0 := None)"
    by (simp_all add: cleared_def)
  from assms(2) obtain st where "view w' = (view (snd s))(key_of ob0 \<mapsto> st)" "conforms d ob0 st"
    by (auto simp: stored_def conforms_upto_rv [OF u] upto_rvD(1) [OF u])
  with v show ?thesis by (auto simp: stored_def)
qed

context cluster_api
begin

text \<open>Deleting the stored object and creating it again, in the middle of an operation.\<close>

lemma recreate_ok:
  assumes "bindP (lift_w (Delete E (key_of ob))) (\<lambda>_.
      bindP (upd_obj (SetResourceVersion '''')) (\<lambda>_. Create E)) (ob, w) = (Inr u, (ob', w'))"
  shows "stored view defaulted ob w w'"
proof -
  from assms obtain w2 where d: "cl_delete E (key_of ob) w = (Inr (), w2)"
    and c: "Create E (SetResourceVersion '''' ob, w2) = (Inr u, (ob', w'))"
    by (auto simp: bindP_def lift_w_def Delete_def call_def upd_obj_def
        split: prod.splits sum.splits)
  from Create_ok [OF c] delete_ok [OF d] show ?thesis by (auto simp: stored_def conforms_def)
qed

lemma recreate_err:
  assumes "bindP (lift_w (Delete E (key_of ob))) (\<lambda>_.
      bindP (upd_obj (SetResourceVersion '''')) (\<lambda>_. Create E)) (ob, w) = (Inl x, s')"
  shows "cleared view ob w s'"
proof (cases "cl_delete E (key_of ob) w")
  case (Pair r w2)
  show ?thesis
  proof (cases r)
    case (Inl e)
    with assms Pair delete_err [of "key_of ob" w e w2] show ?thesis
      by (auto simp: bindP_def lift_w_def Delete_def call_def cleared_def)
  next
    case (Inr v)
    with assms Pair have "Create E (SetResourceVersion '''' ob, w2) = (Inl x, s')"
      by (simp add: bindP_def lift_w_def Delete_def call_def upd_obj_def)
    from Create_err [OF this] delete_ok [of "key_of ob" w v w2] Pair Inr show ?thesis
      by (simp add: cleared_def)
  qed
qed

lemma stored_same_view:
  "view w1 = view w \<Longrightarrow> stored view d ob w1 w' = stored view d ob w w'"
  by (simp add: stored_def)

lemma applyService_once_ok:
  assumes "applyService_once E inst (key_of ob) (ob, w) = (Inr u, (ob', w'))"
  shows "stored view defaulted ob w w'"
proof (cases rule: get_cases [of "key_of ob" w])
  case (found ex w1)
  show ?thesis
  proof (cases "svc_ClusterIP ex = svc_ClusterIP ob")
    case True
    with found assms have u: "Update E (SetResourceVersion (resource_version ex) ob, w1) =
        (Inr u, (ob', w'))"
      by (simp add: applyService_once_def with_obj_def)
    show ?thesis
      by (rule untouched_stored [of _ _ _ "(SetResourceVersion (resource_version ex) ob, w1)"])
        (simp_all add: untouched_def found(2) Update_ok [OF u])
  next
    case False
    with found assms show ?thesis
      by (auto simp: applyService_once_def with_obj_def fail_def split: if_splits
          dest!: recreate_ok simp flip: stored_same_view [OF found(2)])
  qed
next
  case (absent e w1)
  with assms have "Create E (ob, w1) = (Inr u, (ob', w'))" by (simp add: applyService_once_def)
  from Create_ok [OF this] absent(2) show ?thesis by (simp add: stored_def)
next
  case (error e w1)
  with assms show ?thesis by (simp add: applyService_once_def prog_simps)
qed

lemma applyService_once_err:
  assumes "applyService_once E inst (key_of ob) (ob, w) = (Inl x, s')"
  shows "cleared view ob w s'"
proof (cases rule: get_cases [of "key_of ob" w])
  case (found ex w1)
  show ?thesis
  proof (cases "svc_ClusterIP ex = svc_ClusterIP ob")
    case True
    with found assms have "Update E (SetResourceVersion (resource_version ex) ob, w1) = (Inl x, s')"
      by (simp add: applyService_once_def with_obj_def)
    from Update_err [OF this] found(2) show ?thesis by (simp add: cleared_def)
  next
    case False
    show ?thesis
    proof (cases "controlled_or_managed E inst ex")
      case True
      with False found assms have "cleared view ob w1 s'"
        by (intro recreate_err) (simp add: applyService_once_def with_obj_def)
      with found(2) show ?thesis by (simp add: cleared_def)
    next
      case nowner: False
      with False found assms have "s' = (ob, w1)"
        by (simp add: applyService_once_def with_obj_def fail_def)
      with found(2) show ?thesis by (simp add: cleared_def)
    qed
  qed
next
  case (absent e w1)
  with assms have "Create E (ob, w1) = (Inl x, s')" by (simp add: applyService_once_def)
  from Create_err [OF this] absent(2) show ?thesis by (simp add: cleared_def)
next
  case (error e w1)
  with assms show ?thesis by (auto simp: applyService_once_def prog_simps cleared_def)
qed

lemma applyService_last:
  assumes "applyService E inst (ob, w) = out"
  shows "\<exists>s. cleared view (set_owner E inst ob) w s \<and>
     applyService_once E inst (key_of (fst s)) s = out"
proof -
  let ?ob = "set_owner E inst ob" and ?f = "applyService_once E inst (key_of ob)"
  let ?P = "\<lambda>s. cleared view ?ob w s"
  have key: "key_of (fst s) = key_of ob" if "?P s" for s
    using that by (auto simp: cleared_def dest: upto_rvD(1))
  have "\<exists>s. ?P s \<and> ?f s = out"
  proof (rule attempts_invariant [where P = ?P])
    show "attempts ?f (?ob, w) out"
      using assms retry_attempts [of ?f "(?ob, w)"] by (simp add: applyService_def with_obj_def)
    show "?P (?ob, w)" by (simp add: cleared_def)
    show "?P s1" if "?P s" "?f s = (Inl (GoError e), s1)" "IsConflict e" for s e s1
      using cleared_step [OF that(1)] applyService_once_err [of inst "fst s" "snd s" _ s1]
        key [OF that(1)] that(2) by auto
  qed
  then obtain s where "?P s" and "?f s = out" by blast
  with key [OF this(1)] show ?thesis by (intro exI [of _ s]) simp
qed

lemma applyService_ok:
  assumes "applyService E inst (ob, w) = (Inr u, (ob', w'))"
  shows "stored view defaulted (set_owner E inst ob) w w'"
proof -
  from applyService_last [OF assms] obtain s where s: "cleared view (set_owner E inst ob) w s"
    and r: "applyService_once E inst (key_of (fst s)) (fst s, snd s) = (Inr u, (ob', w'))" by auto
  from cleared_stored [OF s applyService_once_ok [OF r]] show ?thesis .
qed

lemma applyService_err:
  assumes "applyService E inst (ob, w) = (Inl x, s')"
  shows "cleared view (set_owner E inst ob) w s'"
proof -
  from applyService_last [OF assms] obtain s where s: "cleared view (set_owner E inst ob) w s"
    and r: "applyService_once E inst (key_of (fst s)) (fst s, snd s) = (Inl x, s')" by auto
  from cleared_step [OF s applyService_once_err [OF r]] show ?thesis .
qed

text \<open>A Service with another cluster IP that the operator does not own is left alone.\<close>

lemma applyService_foreign:
  assumes "view w (key_of ob) = Some ex" and "svc_ClusterIP ex \<noteq> svc_ClusterIP ob"
    and "\<not> controlled_or_managed E inst ex"
  shows "\<exists>x s'. applyService E inst (ob, w) = (Inl x, s') \<and> view (snd s') = view w"
proof -
  let ?ob = "set_owner E inst ob" and ?f = "applyService_once E inst (key_of ob)"
  let ?P = "\<lambda>s. untouched view ?ob w s"
  have step: "\<exists>x s'. ?f s = (Inl x, s') \<and> ?P s'" if "?P s" for s
  proof -
    obtain ob1 w1 where s: "s = (ob1, w1)" by (cases s)
    with that have v: "view w1 = view w" and b: "body ob1 = body ob"
      using upto_rvD(2) [of ?ob ob1] by (auto simp: untouched_def)
    show ?thesis
    proof (cases rule: get_cases [of "key_of ob" w1])
      case (found ex' w2)
      with v assms(1) have "ex' = ex" by simp
      with found assms b s that show ?thesis
        by (auto simp: applyService_once_def with_obj_def svc_ClusterIP_def fail_def untouched_def)
    next
      case (absent e w2)
      with v assms(1) show ?thesis by simp
    next
      case (error e w2)
      with s that show ?thesis
        by (auto simp: applyService_once_def fail_def untouched_def)
    qed
  qed
  have "\<exists>s. ?P s \<and> ?f s = applyService E inst (ob, w)"
  proof (rule attempts_invariant [where P = ?P])
    show "attempts ?f (?ob, w) (applyService E inst (ob, w))"
      using retry_attempts [of ?f "(?ob, w)"] by (simp add: applyService_def with_obj_def)
    show "?P (?ob, w)" by (simp add: untouched_def)
    show "?P s1" if "?P s" "?f s = (Inl (GoError e), s1)" "IsConflict e" for s e s1
      using step [OF that(1)] that(2) by auto
  qed
  then obtain s where "?P s" and f: "?f s = applyService E inst (ob, w)" by blast
  from step [OF this(1)] f show ?thesis by (auto simp: untouched_def)
qed

end

section \<open>applyStatefulSet\<close>

lemma sts_drift_upto: "upto_rv a b \<Longrightarrow> sts_drift L ex b = sts_drift L ex a"
  by (simp add: sts_drift_def sts_spec_of_def upto_rvD(2))

lemma keep_claim_upto: "upto_rv a b \<Longrightarrow> upto_rv (keep_claim_templates ex a) (keep_claim_templates ex b)"
  unfolding upto_rv_def keep_claim_templates_def sts_spec_of_def SetResourceVersion_def
  by (cases a, cases b) (auto split: kbody.splits)

lemma keep_claim_idem [simp]:
  "keep_claim_templates ex (keep_claim_templates ex ob) = keep_claim_templates ex ob"
  by (simp add: keep_claim_templates_def sts_spec_of_def split: option.splits kbody.splits)

lemma sts_drift_keep_claim:
  assumes "\<And>ps. DeepEqual_pvcs L ps ps" and "sts_drift L ex ob = []"
  shows "sts_drift L ex (keep_claim_templates ex ob) = []"
  using assms
  by (auto simp: sts_drift_def keep_claim_templates_def sts_spec_of_def
      stsImmutableDriftFields_def volumeClaimTemplatesEqual_def
      split: option.splits kbody.splits if_splits)

text \<open>What \<open>applyStatefulSet\<close> means to store: the desired object with the live claim templates.\<close>

definition sts_target :: "kobj option \<Rightarrow> kobj \<Rightarrow> kobj" where
  "sts_target live ob = (case live of None \<Rightarrow> ob | Some ex \<Rightarrow> keep_claim_templates ex ob)"

lemma sts_target_key [simp]: "key_of (sts_target live ob) = key_of ob"
  by (simp add: sts_target_def split: option.split)

text \<open>
  The object after attempts that found a conflict: as desired, or already with the claim
  templates of the live object it did not drift from.
\<close>

definition sts_pending :: "'l lib_scheme \<Rightarrow> ('w \<Rightarrow> objkey \<Rightarrow> kobj option) \<Rightarrow> kobj \<Rightarrow> 'w \<Rightarrow>
    kobj \<times> 'w \<Rightarrow> bool" where
  "sts_pending L view ob w s \<longleftrightarrow> view (snd s) = view w \<and>
     (upto_rv ob (fst s) \<or>
      (\<exists>ex. view w (key_of ob) = Some ex \<and> sts_drift L ex ob = [] \<and>
        upto_rv (keep_claim_templates ex ob) (fst s)))"

lemma sts_pending_key: "sts_pending L view ob w s \<Longrightarrow> key_of (fst s) = key_of ob"
  by (auto simp: sts_pending_def dest: upto_rvD(1))

context cluster_api
begin

text \<open>One attempt from a pending state.\<close>

lemma applyStatefulSet_once_found:
  assumes "cl_get E k w = (Inr ex, w1)" and "sts_drift E ex ob = []"
  shows "applyStatefulSet_once E inst k (ob, w) =
    Update E (keep_claim_templates ex (SetResourceVersion (resource_version ex) ob), w1)"
  using assms by (simp add: applyStatefulSet_once_def with_obj_def Let_def)

lemma applyStatefulSet_once_foreign:
  assumes "cl_get E k w = (Inr ex, w1)" and "sts_drift E ex ob \<noteq> []"
    and "\<not> isOperatorOwned E inst ex"
  shows "applyStatefulSet_once E inst k (ob, w) =
    (Inl (GoError (Plain (unmanaged_sts_message ex (sts_drift E ex ob)))), (ob, w1))"
  using assms by (simp add: applyStatefulSet_once_def with_obj_def Let_def fail_def)

lemma applyStatefulSet_once_drift:
  assumes "cl_get E k w = (Inr ex, w1)" and "sts_drift E ex ob \<noteq> []"
    and "isOperatorOwned E inst ex"
  shows "applyStatefulSet_once E inst k (ob, w) = (case cl_delete E (key_of ex) w1 of
      (Inl e, w2) \<Rightarrow> (Inl (GoError e), (ob, w2))
    | (Inr u, w2) \<Rightarrow>
        (Inl (GoError (Plain (sts_deleted_message ex (sts_drift E ex ob)))), (ob, w2)))"
  using assms
  by (simp add: applyStatefulSet_once_def with_obj_def Let_def fail_def bindP_def [of "lift_w _"]
      lift_w_def Delete_def call_def split: prod.split sum.split)

lemma pending_target:
  assumes "sts_pending E view ob w s" and "view w (key_of ob) = Some ex"
    and "sts_drift E ex (fst s) = []"
  shows "sts_drift E ex ob = []"
    and "upto_rv (keep_claim_templates ex ob)
      (keep_claim_templates ex (SetResourceVersion v (fst s)))"
proof -
  from assms consider "upto_rv ob (fst s)"
    | "sts_drift E ex ob = []" "upto_rv (keep_claim_templates ex ob) (fst s)"
    by (auto simp: sts_pending_def)
  then have "sts_drift E ex ob = [] \<and> upto_rv (keep_claim_templates ex ob)
      (keep_claim_templates ex (SetResourceVersion v (fst s)))"
  proof cases
    case 1
    then have "upto_rv ob (SetResourceVersion v (fst s))" by simp
    from keep_claim_upto [OF this, of ex] sts_drift_upto [OF 1, of E ex] assms(3)
    show ?thesis by metis
  next
    case 2
    then have "upto_rv (keep_claim_templates ex ob) (SetResourceVersion v (fst s))" by simp
    from keep_claim_upto [OF this, of ex] 2 show ?thesis by simp
  qed
  then show "sts_drift E ex ob = []" and "upto_rv (keep_claim_templates ex ob)
      (keep_claim_templates ex (SetResourceVersion v (fst s)))" by simp_all
qed

lemma sts_once_ok:
  assumes p: "sts_pending E view ob w s"
    and r: "applyStatefulSet_once E inst (key_of ob) s = (Inr u, (ob', w'))"
  shows "stored view defaulted (sts_target (view w (key_of ob)) ob) w w' \<and>
    (\<forall>ex. view w (key_of ob) = Some ex \<longrightarrow> sts_drift E ex ob = [])"
proof -
  obtain ob1 w1 where s: "s = (ob1, w1)" by (cases s)
  with p have v: "view w1 = view w" by (simp add: sts_pending_def)
  show ?thesis
  proof (cases rule: get_cases [of "key_of ob" w1])
    case (found ex w2)
    with v have ex: "view w (key_of ob) = Some ex" by simp
    have d: "sts_drift E ex ob1 = []"
    proof (rule ccontr)
      assume n: "sts_drift E ex ob1 \<noteq> []"
      with found(1) r s show False
        by (cases "isOperatorOwned E inst ex")
          (auto simp: applyStatefulSet_once_foreign applyStatefulSet_once_drift
            split: prod.splits sum.splits)
    qed
    let ?new = "keep_claim_templates ex (SetResourceVersion (resource_version ex) ob1)"
    from r s found(1) d have "Update E (?new, w2) = (Inr u, (ob', w'))"
      by (simp add: applyStatefulSet_once_found)
    from Update_ok [OF this] have "stored view defaulted ?new w2 w'" .
    moreover have new: "upto_rv (keep_claim_templates ex ob) ?new"
      using pending_target(2) [OF p ex] s d by simp
    ultimately have "stored view defaulted (keep_claim_templates ex ob) w w'"
      by (intro untouched_stored [of view "keep_claim_templates ex ob" w "(?new, w2)"])
        (simp_all only: untouched_def found(2) v fst_conv snd_conv simp_thms)
    moreover have "sts_drift E ex ob = []" using pending_target(1) [OF p ex] s d by simp
    ultimately show ?thesis using ex by (simp add: sts_target_def)
  next
    case (absent e w2)
    with v have none: "view w (key_of ob) = None" by simp
    with p s have u: "upto_rv ob ob1" by (simp add: sts_pending_def)
    from r s absent have "Create E (ob1, w2) = (Inr u, (ob', w'))"
      by (simp add: applyStatefulSet_once_def)
    from Create_ok [OF this] have "stored view defaulted ob1 w2 w'" .
    moreover have "untouched view ob w (ob1, w2)"
      using u absent(2) v by (simp add: untouched_def)
    ultimately have "stored view defaulted ob w w'"
      using untouched_stored [of view ob w "(ob1, w2)"] by simp
    with none show ?thesis by (simp add: sts_target_def)
  next
    case (error e w2)
    with r s show ?thesis by (simp add: applyStatefulSet_once_def fail_def)
  qed
qed

lemma sts_once_err:
  assumes p: "sts_pending E view ob w s"
    and r: "applyStatefulSet_once E inst (key_of ob) s = (Inl x, s')"
    and refl: "\<And>ps. DeepEqual_pvcs E ps ps"
  shows "sts_pending E view ob w s' \<or>
    (\<exists>ex m. view w (key_of ob) = Some ex \<and> isOperatorOwned E inst ex \<and> sts_drift E ex ob \<noteq> [] \<and>
       view (snd s') = (view w)(key_of ob := None) \<and> x = GoError (Plain m))"
proof -
  obtain ob1 w1 where s: "s = (ob1, w1)" by (cases s)
  with p have v: "view w1 = view w" by (simp add: sts_pending_def)
  show ?thesis
  proof (cases rule: get_cases [of "key_of ob" w1])
    case (found ex w2)
    with v have ex: "view w (key_of ob) = Some ex" by simp
    consider (same) "sts_drift E ex ob1 = []"
      | (foreign) "sts_drift E ex ob1 \<noteq> []" "\<not> isOperatorOwned E inst ex"
      | (owned) "sts_drift E ex ob1 \<noteq> []" "isOperatorOwned E inst ex" by blast
    then show ?thesis
    proof cases
      case same
      let ?new = "keep_claim_templates ex (SetResourceVersion (resource_version ex) ob1)"
      from r s found(1) same have "Update E (?new, w2) = (Inl x, s')"
        by (simp add: applyStatefulSet_once_found)
      from Update_err [OF this] found(2) v ex pending_target [OF p ex] s same show ?thesis
        by (simp add: sts_pending_def)
    next
      case foreign
      with r s found p v show ?thesis
        by (auto simp: applyStatefulSet_once_foreign sts_pending_def)
    next
      case owned
      have drift: "sts_drift E ex ob \<noteq> []"
      proof
        assume n: "sts_drift E ex ob = []"
        from p s ex consider "upto_rv ob ob1" | "upto_rv (keep_claim_templates ex ob) ob1"
          by (auto simp: sts_pending_def)
        then show False
        proof cases
          case 1
          with n owned(1) show False by (simp add: sts_drift_upto)
        next
          case 2
          with n owned(1) show False
            by (simp add: sts_drift_upto sts_drift_keep_claim [OF refl])
        qed
      qed
      show ?thesis
      proof (cases "cl_delete E (key_of ex) w2")
        case (Pair d w3)
        show ?thesis
        proof (cases d)
          case (Inl e)
          with r s found owned Pair delete_err [of "key_of ex" w2 e w3] p v show ?thesis
            by (auto simp: applyStatefulSet_once_drift sts_pending_def)
        next
          case (Inr u)
          with r s found owned Pair delete_ok [of "key_of ex" w2 u w3] v ex drift show ?thesis
            by (auto simp: applyStatefulSet_once_drift)
        qed
      qed
    qed
  next
    case (absent e w2)
    with r s have "Create E (ob1, w2) = (Inl x, s')" by (simp add: applyStatefulSet_once_def)
    from Create_err [OF this] absent(2) v p s show ?thesis by (simp add: sts_pending_def)
  next
    case (error e w2)
    with r s v p show ?thesis
      by (auto simp: applyStatefulSet_once_def fail_def sts_pending_def)
  qed
qed

end

context cluster_api
begin

lemma applyStatefulSet_last:
  assumes "applyStatefulSet E inst (ob, w) = out" and refl: "\<And>ps. DeepEqual_pvcs E ps ps"
  shows "\<exists>s. sts_pending E view (set_owner E inst ob) w s \<and>
     applyStatefulSet_once E inst (key_of ob) s = out"
proof (rule attempts_invariant)
  let ?f = "applyStatefulSet_once E inst (key_of ob)"
  show "attempts ?f (set_owner E inst ob, w) out"
    using assms(1) retry_attempts [of ?f "(set_owner E inst ob, w)"]
    by (simp add: applyStatefulSet_def with_obj_def)
  show "sts_pending E view (set_owner E inst ob) w (set_owner E inst ob, w)"
    by (simp add: sts_pending_def)
  show "sts_pending E view (set_owner E inst ob) w s1"
    if "sts_pending E view (set_owner E inst ob) w s" "?f s = (Inl (GoError e), s1)" "IsConflict e"
    for s e s1
    using sts_once_err [OF that(1) _ refl, of inst "GoError e" s1] that(2,3)
    by (auto simp: IsConflict_def)
qed

lemma applyStatefulSet_ok:
  assumes "applyStatefulSet E inst (ob, w) = (Inr u, (ob', w'))"
    and refl: "\<And>ps. DeepEqual_pvcs E ps ps"
  shows "stored view defaulted (sts_target (view w (key_of ob)) (set_owner E inst ob)) w w'"
    and "view w (key_of ob) = Some ex \<Longrightarrow> sts_drift E ex ob = []"
proof -
  let ?ob = "set_owner E inst ob"
  from applyStatefulSet_last [OF assms] obtain s where p: "sts_pending E view ?ob w s"
    and r: "applyStatefulSet_once E inst (key_of ?ob) s = (Inr u, (ob', w'))" by auto
  from sts_once_ok [OF p r] show "stored view defaulted (sts_target (view w (key_of ob)) ?ob) w w'"
    by simp
  have d: "sts_drift E ex ?ob = sts_drift E ex ob"
    by (simp add: sts_drift_def sts_spec_of_def)
  from sts_once_ok [OF p r] d show "view w (key_of ob) = Some ex \<Longrightarrow> sts_drift E ex ob = []" by simp
qed

lemma applyStatefulSet_err:
  assumes "applyStatefulSet E inst (ob, w) = (Inl x, s')"
    and refl: "\<And>ps. DeepEqual_pvcs E ps ps"
  shows "view (snd s') = view w \<or>
    (\<exists>ex. view w (key_of ob) = Some ex \<and> isOperatorOwned E inst ex \<and> sts_drift E ex ob \<noteq> [] \<and>
       view (snd s') = (view w)(key_of ob := None))"
proof -
  let ?ob = "set_owner E inst ob"
  from applyStatefulSet_last [OF assms] obtain s where p: "sts_pending E view ?ob w s"
    and r: "applyStatefulSet_once E inst (key_of ?ob) s = (Inl x, s')" by auto
  have d: "sts_drift E ex ?ob = sts_drift E ex ob" for ex
    by (simp add: sts_drift_def sts_spec_of_def)
  from sts_once_err [OF p r refl] d show ?thesis
    by (auto simp: sts_pending_def)
qed

end

end
