(* ===== verification/Ref_Cluster.thy ===== *)
theory Ref_Cluster
  imports Environment
begin

text \<open>
  A concrete environment, so that the contracts of \<open>Environment\<close> are seen to be satisfiable and
  the theorems can be applied to runs: an in-memory object store with optimistic concurrency,
  a request log, an etcd endpoint and a clock.  Keys in \<open>faulty\<close> fail every write with a
  transport error; a \<open>StorageClass\<close> is immutable, as the API server keeps it.
\<close>

record cluster =
  objects :: "kobj list"
  next_version :: nat
  request_log :: "request list"
  resources_cr :: "OpenEBS list"
  etcd_status :: "string + int"
  faulty :: "objkey list"

definition cluster_view :: "cluster \<Rightarrow> objkey \<Rightarrow> kobj option" where
  "cluster_view c k = find (\<lambda>ob. key_of ob = k) (objects c)"

definition log_req :: "request \<Rightarrow> cluster \<Rightarrow> cluster" where
  "log_req r c = c\<lparr>request_log := request_log c @ [r]\<rparr>"

definition not_found :: gerror where "not_found = KubeErr NotFound ''not found''"
definition injected :: gerror where "injected = KubeErr OtherReason ''connection refused''"

definition put_object :: "kobj \<Rightarrow> cluster \<Rightarrow> cluster" where
  "put_object ob c = c\<lparr>objects := ob # filter (\<lambda>o'. key_of o' \<noteq> key_of ob) (objects c),
     next_version := Suc (next_version c)\<rparr>"

definition drop_object :: "objkey \<Rightarrow> cluster \<Rightarrow> cluster" where
  "drop_object k c = c\<lparr>objects := filter (\<lambda>o'. key_of o' \<noteq> k) (objects c)\<rparr>"

definition stamp :: "cluster \<Rightarrow> kobj \<Rightarrow> kobj" where
  "stamp c ob = SetResourceVersion (replicate (Suc (next_version c)) CHR ''1'') ob"

definition immutable_change :: "kobj \<Rightarrow> kobj \<Rightarrow> bool" where
  "immutable_change old new = (case (body old, body new) of
     (StorageClassBody a, StorageClassBody b) \<Rightarrow> a \<noteq> b
   | _ \<Rightarrow> False)"

definition mem_get :: "objkey \<Rightarrow> cluster \<Rightarrow> (gerror + kobj) \<times> cluster" where
  "mem_get k c = (case cluster_view c k of None \<Rightarrow> Inl not_found | Some ob \<Rightarrow> Inr ob,
     log_req (GetReq k) c)"

definition mem_create :: "kobj \<Rightarrow> cluster \<Rightarrow> (gerror + kobj) \<times> cluster" where
  "mem_create ob c = (let c' = log_req (CreateReq ob) c in
     if key_of ob \<in> set (faulty c) then (Inl injected, c')
     else if resource_version ob \<noteq> '''' then
       (Inl (KubeErr OtherReason ''resourceVersion should not be set on objects to be created''), c')
     else if cluster_view c (key_of ob) \<noteq> None then (Inl (KubeErr AlreadyExists ''exists''), c')
     else (Inr (stamp c ob), put_object (stamp c ob) c'))"

definition mem_update :: "kobj \<Rightarrow> cluster \<Rightarrow> (gerror + kobj) \<times> cluster" where
  "mem_update ob c = (let c' = log_req (UpdateReq ob) c in
     if key_of ob \<in> set (faulty c) then (Inl injected, c')
     else case cluster_view c (key_of ob) of
       None \<Rightarrow> (Inl not_found, c')
     | Some old \<Rightarrow>
         if resource_version ob \<noteq> resource_version old then (Inl (KubeErr Conflict ''conflict''), c')
         else if immutable_change old ob then (Inl (KubeErr Invalid ''immutable field''), c')
         else (Inr (stamp c ob), put_object (stamp c ob) c'))"

definition mem_delete :: "objkey \<Rightarrow> cluster \<Rightarrow> (gerror + unit) \<times> cluster" where
  "mem_delete k c = (let c' = log_req (DeleteReq k) c in
     if k \<in> set (faulty c) then (Inl injected, c')
     else if cluster_view c k = None then (Inl not_found, c')
     else (Inr (), drop_object k c'))"

definition mem_list ::
  "kind \<Rightarrow> string option \<Rightarrow> str_map \<Rightarrow> cluster \<Rightarrow> (gerror + kobj list) \<times> cluster" where
  "mem_list kd ns sel c =
     (Inr (filter (\<lambda>ob. cluster_view c (key_of ob) = Some ob \<and> listed kd ns sel ob) (objects c)),
      log_req (ListReq kd ns) c)"

definition cluster_crs :: "cluster \<Rightarrow> string \<Rightarrow> OpenEBS option" where
  "cluster_crs c n = find (\<lambda>i. om_name (oe_meta i) = n) (resources_cr c)"

definition mem_cr_get :: "string \<Rightarrow> cluster \<Rightarrow> (gerror + OpenEBS) \<times> cluster" where
  "mem_cr_get n c = (case cluster_crs c n of None \<Rightarrow> Inl not_found | Some i \<Rightarrow> Inr i,
     log_req (CrGetReq n) c)"

definition drop_cr :: "string \<Rightarrow> cluster \<Rightarrow> cluster" where
  "drop_cr n c = c\<lparr>resources_cr := filter (\<lambda>i. om_name (oe_meta i) \<noteq> n) (resources_cr c)\<rparr>"

definition store_cr :: "OpenEBS \<Rightarrow> cluster \<Rightarrow> cluster" where
  "store_cr inst c = c\<lparr>resources_cr :=
     inst # filter (\<lambda>i. om_name (oe_meta i) \<noteq> om_name (oe_meta inst)) (resources_cr c)\<rparr>"

text \<open>
  An update cannot change the deletion time. A resource that is being deleted goes away with its
  last finalizer. The status is a resource of its own: a write of it changes nothing else.
\<close>

definition mem_cr_update :: "OpenEBS \<Rightarrow> cluster \<Rightarrow> (gerror + OpenEBS) \<times> cluster" where
  "mem_cr_update inst c = (let n = om_name (oe_meta inst); c' = log_req (CrUpdateReq inst) c in
     case cluster_crs c n of
       None \<Rightarrow> (Inl not_found, c')
     | Some old \<Rightarrow> let st = inst\<lparr>oe_meta := (oe_meta inst)\<lparr>
           om_deletion_timestamp := om_deletion_timestamp (oe_meta old)\<rparr>\<rparr> in
         (Inr st, if om_deletion_timestamp (oe_meta old) \<noteq> None \<and>
             om_finalizers (oe_meta inst) = [] then drop_cr n c' else store_cr st c'))"

definition mem_cr_status_update :: "OpenEBS \<Rightarrow> cluster \<Rightarrow> (gerror + OpenEBS) \<times> cluster" where
  "mem_cr_status_update inst c = (let c' = log_req (CrStatusReq inst) c in
     case cluster_crs c (om_name (oe_meta inst)) of
       None \<Rightarrow> (Inl not_found, c')
     | Some old \<Rightarrow> let st = old\<lparr>oe_Status := oe_Status inst\<rparr> in (Inr st, store_cr st c'))"

definition mem_create_or_update ::
  "(kobj \<Rightarrow> kobj) \<Rightarrow> kobj \<Rightarrow> cluster \<Rightarrow> (gerror + kobj) \<times> cluster" where
  "mem_create_or_update f ob c = (case mem_get (key_of ob) c of
     (Inl e, c1) \<Rightarrow> mem_create (f ob) c1
   | (Inr ex, c1) \<Rightarrow> if f ex = ex then (Inr ex, c1) else mem_update (f ex) c1)"

fun retry_n :: "nat \<Rightarrow> ('s, unit) prog \<Rightarrow> ('s, unit) prog" where
  "retry_n n f s = (case f s of
     (Inl (GoError e), s1) \<Rightarrow>
       (case n of 0 \<Rightarrow> (Inl (GoError e), s1)
        | Suc m \<Rightarrow> if IsConflict e then retry_n m f s1 else (Inl (GoError e), s1))
   | out \<Rightarrow> out)"

declare retry_n.simps [simp del]

text \<open>A quantity: digits, then a suffix.\<close>

definition quantity_suffixes :: "string list" where
  "quantity_suffixes = ['''', ''m'', ''k'', ''M'', ''G'', ''T'', ''Ki'', ''Mi'', ''Gi'', ''Ti'']"

definition mem_quantity_ok :: "string \<Rightarrow> bool" where
  "mem_quantity_ok s = (let ds = takeWhile (\<lambda>ch. ch \<in> set ''0123456789'') s in
     ds \<noteq> [] \<and> drop (length ds) s \<in> set quantity_suffixes)"

definition ref_env :: "cluster env" where
  "ref_env = \<lparr>
     NewControllerRef = (\<lambda>inst v k. \<lparr>or_api_version = v, or_kind = k,
       or_name = om_name (oe_meta inst), or_uid = om_uid (oe_meta inst), or_controller = True\<rparr>),
     IsControlledBy = (\<lambda>m inst. list_ex (\<lambda>r. or_controller r \<and>
       or_uid r = om_uid (oe_meta inst)) (om_owner_refs m)),
     quantity_ok = mem_quantity_ok,
     DeepEqual_selector = same_map,
     DeepEqual_pvcs = (=),
     ContainsFinalizer = (\<lambda>inst f. List.member (om_finalizers (oe_meta inst)) f),
     AddFinalizer = (\<lambda>inst f. inst\<lparr>oe_meta := (oe_meta inst)\<lparr>
       om_finalizers := List.insert f (om_finalizers (oe_meta inst))\<rparr>\<rparr>),
     RemoveFinalizer = (\<lambda>inst f. inst\<lparr>oe_meta := (oe_meta inst)\<lparr>
       om_finalizers := removeAll f (om_finalizers (oe_meta inst))\<rparr>\<rparr>),
     decode_yaml = (\<lambda>f. Inr (Obj (crd_name f) '''' []
       (UnstructuredBody ''apiextensions.k8s.io/v1'' ''CustomResourceDefinition'' []))),
     cl_get = mem_get,
     cl_create = mem_create,
     cl_update = mem_update,
     cl_delete = mem_delete,
     cl_list = mem_list,
     cr_get = mem_cr_get,
     cr_update = mem_cr_update,
     cr_status_update = mem_cr_status_update,
     http_get = (\<lambda>url c. (etcd_status c, log_req (HttpReq url) c)),
     time_now = (\<lambda>c. (''2025-01-01T00:00:00Z'', c)),
     create_or_update = mem_create_or_update,
     retry_on_conflict = retry_n 4\<rparr>"

definition empty_cluster :: cluster where
  "empty_cluster = \<lparr>objects = [], next_version = 0, request_log = [], resources_cr = [],
     etcd_status = Inr 200, faulty = []\<rparr>"

lemma ref_env_sel [simp]:
  "cl_get ref_env = mem_get" "cl_create ref_env = mem_create" "cl_update ref_env = mem_update"
  "cl_delete ref_env = mem_delete" "cl_list ref_env = mem_list" "cr_get ref_env = mem_cr_get"
  "cr_update ref_env = mem_cr_update" "cr_status_update ref_env = mem_cr_status_update"
  "create_or_update ref_env = mem_create_or_update"
  "retry_on_conflict ref_env = retry_n 4" "quantity_ok ref_env = mem_quantity_ok"
  "DeepEqual_selector ref_env = same_map" "DeepEqual_pvcs ref_env = (=)"
  by (simp_all add: ref_env_def)

section \<open>The store keeps the contracts\<close>

lemma view_log [simp]: "cluster_view (log_req r c) = cluster_view c"
  by (simp add: cluster_view_def log_req_def fun_eq_iff)

lemma find_filter_other: "k \<noteq> j \<Longrightarrow>
  find (\<lambda>ob. key_of ob = k) (filter (\<lambda>o'. key_of o' \<noteq> j) obs) = find (\<lambda>ob. key_of ob = k) obs"
  by (induction obs) auto

lemma view_put [simp]: "cluster_view (put_object ob c) = (cluster_view c)(key_of ob \<mapsto> ob)"
proof
  fix k
  show "cluster_view (put_object ob c) k = ((cluster_view c)(key_of ob \<mapsto> ob)) k"
    by (cases "k = key_of ob")
      (simp_all add: cluster_view_def put_object_def find_filter_other del: filter.simps)
qed

lemma view_drop [simp]: "cluster_view (drop_object k c) = (cluster_view c)(k := None)"
proof
  fix j
  have "find (\<lambda>ob. key_of ob = k) (filter (\<lambda>o'. key_of o' \<noteq> k) (objects c)) = None"
    by (simp add: find_None_iff)
  then show "cluster_view (drop_object k c) j = ((cluster_view c)(k := None)) j"
    by (cases "j = k")
      (simp_all add: cluster_view_def drop_object_def find_filter_other)
qed

lemma cluster_view_key: "cluster_view c k = Some ob \<Longrightarrow> key_of ob = k \<and> ob \<in> set (objects c)"
  by (auto simp: cluster_view_def find_Some_iff)

lemma stamp_simps [simp]:
  "key_of (stamp c ob) = key_of ob" "body (stamp c ob) = body ob"
  "conforms (=) ob (stamp c ob)"
  by (simp_all add: stamp_def conforms_def)

lemma retry_n_attempts: "attempts f s (retry_n n f s)"
proof (induction n arbitrary: s)
  case 0
  show ?case by (auto intro!: attempt_last simp: retry_n.simps [of 0]
      split: prod.splits sum.splits abort.splits)
next
  case (Suc n)
  obtain r s1 where fs: "f s = (r, s1)" by (cases "f s" rule: prod.exhaust)
  show ?case
  proof (cases "\<exists>e. r = Inl (GoError e) \<and> IsConflict e")
    case True
    then obtain e where e: "r = Inl (GoError e)" "IsConflict e" by blast
    with fs have "retry_n (Suc n) f s = retry_n n f s1" by (simp add: retry_n.simps [of "Suc n"])
    with fs e Suc.IH show ?thesis by (auto intro: attempt_again)
  next
    case False
    with fs have "retry_n (Suc n) f s = f s"
      by (auto simp: retry_n.simps [of "Suc n"] split: sum.splits abort.splits)
    then show ?thesis by (simp add: attempt_last)
  qed
qed

lemma request_log_simps [simp]:
  "request_log (log_req r c) = request_log c @ [r]"
  "request_log (put_object ob c) = request_log c"
  "request_log (drop_object k c) = request_log c"
  "request_log (store_cr inst c) = request_log c"
  "request_log (drop_cr n c) = request_log c"
  by (simp_all add: log_req_def put_object_def drop_object_def store_cr_def drop_cr_def)

lemma view_cr [simp]: "cluster_view (store_cr inst c) = cluster_view c"
    "cluster_view (drop_cr n c) = cluster_view c"
  by (simp_all add: cluster_view_def store_cr_def drop_cr_def fun_eq_iff)

lemma crs_simps [simp]:
  "cluster_crs (log_req r c) = cluster_crs c"
  "cluster_crs (put_object ob c) = cluster_crs c"
  "cluster_crs (drop_object k c) = cluster_crs c"
  by (simp_all add: cluster_crs_def log_req_def put_object_def drop_object_def fun_eq_iff)

lemma find_name_other: "n \<noteq> m \<Longrightarrow> find (\<lambda>i. om_name (oe_meta i) = n)
    (filter (\<lambda>i. om_name (oe_meta i) \<noteq> m) is) = find (\<lambda>i. om_name (oe_meta i) = n) is"
  by (induction "is") auto

lemma crs_store [simp]:
    "cluster_crs (store_cr inst c) = (cluster_crs c)(om_name (oe_meta inst) \<mapsto> inst)"
  and crs_drop [simp]: "cluster_crs (drop_cr n c) = (cluster_crs c)(n := None)"
  by (auto simp: cluster_crs_def store_cr_def drop_cr_def fun_eq_iff find_name_other
      find_None_iff)

lemma cluster_crs_name: "cluster_crs c n = Some i \<Longrightarrow> om_name (oe_meta i) = n"
  by (auto simp: cluster_crs_def find_Some_iff)


lemmas mem_ops = mem_get_def mem_create_def mem_update_def mem_delete_def mem_list_def
  mem_cr_get_def mem_cr_update_def mem_cr_status_update_def

interpretation ref_lib: apimachinery ref_env
proof unfold_locales
  show "om_owner_refs m = [NewControllerRef ref_env inst v k] \<Longrightarrow> IsControlledBy ref_env m inst"
    for m inst v k by (simp add: ref_env_def)
  show "DeepEqual_selector ref_env s s" for s by (simp add: same_map_iff)
  show "ContainsFinalizer ref_env (AddFinalizer ref_env inst f) f" for inst f
    by (simp add: ref_env_def)
  show "\<not> ContainsFinalizer ref_env (RemoveFinalizer ref_env inst f) f" for inst f
    by (simp add: ref_env_def)
  show "key_of ob = crd_key cf" if "decode_yaml ref_env cf = Inr ob" for cf ob
    using that by (auto simp: ref_env_def crd_key_def crd_kind_def)
qed (simp_all add: ref_env_def)

interpretation ref_client: kube_client ref_env
proof unfold_locales
  show "key_of ob = k" if "cl_get ref_env k w = (Inr ob, w')" for k w ob w'
    using that by (auto simp: mem_get_def dest: cluster_view_key split: option.splits)
  show "key_of ob' = key_of ob" if "cl_create ref_env ob w = (Inr ob', w')" for ob w ob' w'
    using that by (auto simp: mem_create_def Let_def split: if_splits)
  show "key_of ob' = key_of ob" if "cl_update ref_env ob w = (Inr ob', w')" for ob w ob' w'
    using that by (auto simp: mem_update_def Let_def split: if_splits option.splits)
  show "attempts f s (retry_on_conflict ref_env f s)" for f s
    by (simp add: retry_n_attempts)
qed

interpretation ref_audit: audited_client ref_env request_log
proof unfold_locales
  fix f :: "kobj \<Rightarrow> kobj" and ob w
  assume "\<And>x. key_of (f x) = key_of x"
  moreover have "key_of ex = key_of ob" if "cluster_view w (key_of ob) = Some ex" for ex
    using cluster_view_key [OF that] by simp
  ultimately show "logs_only request_log (\<lambda>r. req_key r = Some (key_of ob) \<and> (\<forall>k. r \<noteq> DeleteReq k))
      w (snd (create_or_update ref_env f ob w))"
    by (auto simp: mem_create_or_update_def mem_get_def mem_create_def mem_update_def Let_def
        logs_only_def split: option.splits)
qed (auto simp: mem_ops Let_def ref_env_def split: option.splits)

interpretation ref_api: cluster_api ref_env cluster_view "(=)"
proof unfold_locales
  fix f :: "kobj \<Rightarrow> kobj" and ob w
  assume "\<And>x. key_of (f x) = key_of x"
  moreover have "key_of ex = key_of ob" if "cluster_view w (key_of ob) = Some ex" for ex
    using cluster_view_key [OF that] by simp
  ultimately show "same_outside cluster_view {key_of ob} w
      (snd (create_or_update ref_env f ob w))"
    by (auto simp: mem_create_or_update_def mem_get_def mem_create_def mem_update_def Let_def
        same_outside_def split: option.splits)
next
  fix f :: "kobj \<Rightarrow> kobj" and ob w st w'
  assume f: "\<And>x. key_of (f x) = key_of x"
    and r: "create_or_update ref_env f ob w = (Inr st, w')"
  let ?base = "case cluster_view w (key_of ob) of None \<Rightarrow> ob | Some ex \<Rightarrow> ex"
  have "cluster_view w' (key_of ob) = Some st \<and> om_labels (meta st) = om_labels (meta (f ?base))"
  proof (cases "cluster_view w (key_of ob)")
    case None
    with r f show ?thesis
      by (auto simp: mem_create_or_update_def mem_get_def mem_create_def Let_def stamp_def
          split: if_splits)
  next
    case (Some ex)
    with cluster_view_key [OF Some] have "key_of ex = key_of ob" by simp
    with Some r f show ?thesis
      by (auto simp: mem_create_or_update_def mem_get_def mem_update_def Let_def stamp_def
          split: if_splits option.splits)
  qed
  then show "cluster_view w' (key_of ob) = Some st \<and> om_labels (meta st) = om_labels (meta (f ?base))" .
next
  fix f :: "kobj \<Rightarrow> kobj" and ob w e w'
  assume "create_or_update ref_env f ob w = (Inl e, w')"
  then show "cluster_view w' = cluster_view w"
    by (auto simp: mem_create_or_update_def mem_get_def mem_create_def mem_update_def Let_def
        split: if_splits option.splits)
next
  fix kd ns sel w obs w'
  assume l: "cl_list ref_env kd ns sel w = (Inr obs, w')"
  then have "set obs = {ob \<in> set (objects w). cluster_view w (key_of ob) = Some ob \<and>
      listed kd ns sel ob}" by (auto simp: mem_list_def)
  moreover have "(\<exists>k. cluster_view w k = Some ob) \<longleftrightarrow>
      ob \<in> set (objects w) \<and> cluster_view w (key_of ob) = Some ob" for ob
    using cluster_view_key [of w _ ob] by metis
  moreover from l have "cluster_view w' = cluster_view w" by (auto simp: mem_list_def)
  ultimately show "cluster_view w' = cluster_view w \<and>
      set obs = {ob. \<exists>k. cluster_view w k = Some ob \<and> listed kd ns sel ob}"
    by auto
qed (auto simp: mem_ops Let_def not_found_def injected_def IsNotFound_def IsNoMatchError_def
    ref_env_def cluster_view_key split: option.splits if_splits)

end
