(* ===== verification/Engines_Correct.thy ===== *)
theory Engines_Correct
  imports Engines Apply_Correct Ref_Cluster
begin

text \<open>
  What a deployment of an engine does to the cluster: it touches the keys of its own objects
  only, and when it reports Running every one of them is stored as it was built.  Each step of
  an engine is shown to install its part (\<open>installs\<close>), and a chain of steps on distinct keys
  installs all the parts.
\<close>

section \<open>Installing a part\<close>

text \<open>
  \<open>installs view ks reqs p\<close>: \<open>p\<close> touches the keys \<open>ks\<close> only, and when it succeeds every pair of
  \<open>reqs\<close> finds an object under its key that satisfies its predicate.
\<close>

definition installs :: "('w \<Rightarrow> objkey \<Rightarrow> kobj option) \<Rightarrow> objkey list \<Rightarrow>
    (objkey \<times> (kobj \<Rightarrow> bool)) list \<Rightarrow> ('w, unit) prog \<Rightarrow> bool" where
  "installs view ks reqs p \<longleftrightarrow> keeps (same_outside view (set ks)) p \<and>
     fst ` set reqs \<subseteq> set ks \<and>
     (\<forall>w u w'. p w = (Inr u, w') \<longrightarrow> (\<forall>(k, P) \<in> set reqs. \<exists>st. view w' k = Some st \<and> P st))"

lemma installsI:
  assumes "keeps (same_outside view (set ks)) p" and "fst ` set reqs \<subseteq> set ks"
    and "\<And>w w' k P. p w = (Inr (), w') \<Longrightarrow> (k, P) \<in> set reqs \<Longrightarrow> \<exists>st. view w' k = Some st \<and> P st"
  shows "installs view ks reqs p"
  using assms unfolding installs_def by fastforce

lemma installs_keeps: "installs view ks reqs p \<Longrightarrow> keeps (same_outside view (set ks)) p"
  by (simp add: installs_def)

lemma installs_ok:
  "installs view ks reqs p \<Longrightarrow> p w = (Inr u, w') \<Longrightarrow> (k, P) \<in> set reqs \<Longrightarrow>
     \<exists>st. view w' k = Some st \<and> P st"
  unfolding installs_def by blast

lemma installs_frame:
  "installs view ks reqs p \<Longrightarrow> p w = (r, w') \<Longrightarrow> k \<notin> set ks \<Longrightarrow> view w' k = view w k"
  by (rule same_outsideD [OF frame.keeps_result [OF installs_keeps]])

lemma installs_weaken:
  assumes "installs view ks reqs p" and "set ks \<subseteq> set ks'" and "set reqs' \<subseteq> set reqs"
  shows "installs view ks' reqs' p"
proof (rule installsI)
  show "keeps (same_outside view (set ks')) p"
    using installs_keeps [OF assms(1)]
    by (auto simp: keeps_def intro: same_outside_mono [OF _ assms(2)])
  show "fst ` set reqs' \<subseteq> set ks'" using assms by (auto simp: installs_def)
  show "\<exists>st. view w' k = Some st \<and> P st"
    if "p w = (Inr (), w')" "(k, P) \<in> set reqs'" for w w' k P
    using installs_ok [OF assms(1) that(1)] assms(3) that(2) by blast
qed

lemma installs_wrap: "installs view ks reqs p \<Longrightarrow> installs view ks reqs (wrap_err m p)"
  using frame.keeps_wrap_err
  by (auto simp: installs_def wrap_err_def split: prod.splits sum.splits abort.splits)

text \<open>A step after which nothing is required of the cluster, and which may not change it.\<close>

lemma installs_silent: "keeps (same_outside view {}) p \<Longrightarrow> installs view [] [] p"
  by (simp add: installs_def)

lemma installs_panic: "installs view ks [] (panic m)"
  by (auto simp: installs_def prog_simps)

lemma installs_ret: "installs view [] [] (ret ())"
  by (auto simp: installs_def)

text \<open>The composition: a later step does not undo an earlier one, because their keys differ.\<close>

lemma installs_bind:
  assumes p: "installs view ks1 r1 p" and q: "installs view ks2 r2 q"
    and "set ks1 \<inter> set ks2 = {}"
  shows "installs view (ks1 @ ks2) (r1 @ r2) (bindP p (\<lambda>_. q))"
proof (rule installsI)
  have "installs view (ks1 @ ks2) [] p" "installs view (ks1 @ ks2) [] q"
    by (rule installs_weaken [OF p], simp_all) (rule installs_weaken [OF q], simp_all)
  then show "keeps (same_outside view (set (ks1 @ ks2))) (bindP p (\<lambda>_. q))"
    by (intro frame.keeps_bind installs_keeps)
  show "fst ` set (r1 @ r2) \<subseteq> set (ks1 @ ks2)" using p q by (auto simp: installs_def)
  fix w w' k P
  assume "bindP p (\<lambda>_. q) w = (Inr (), w')" and m: "(k, P) \<in> set (r1 @ r2)"
  then obtain w1 where w1: "p w = (Inr (), w1)" and w': "q w1 = (Inr (), w')"
    by (auto elim: bindP_InrE)
  show "\<exists>st. view w' k = Some st \<and> P st"
  proof (cases "(k, P) \<in> set r2")
    case True
    with installs_ok [OF q w'] show ?thesis by blast
  next
    case False
    with m have in1: "(k, P) \<in> set r1" by simp
    with p have "k \<in> set ks1" by (force simp: installs_def)
    with assms(3) have "k \<notin> set ks2" by auto
    with installs_frame [OF q w'] installs_ok [OF p w1 in1] show ?thesis by simp
  qed
qed

text \<open>A part of an engine: the keys it may touch and what it requires of them.\<close>

type_synonym part = "objkey list \<times> (objkey \<times> (kobj \<Rightarrow> bool)) list"

abbreviation installs_part :: "('w \<Rightarrow> objkey \<Rightarrow> kobj option) \<Rightarrow> part \<Rightarrow> ('w, unit) prog \<Rightarrow> bool" where
  "installs_part view s p \<equiv> installs view (fst s) (snd s) p"

lemma installs_steps:
  assumes "list_all2 (installs_part view) parts ps" and "distinct (concat (map fst parts))"
  shows "installs view (concat (map fst parts)) (concat (map snd parts)) (run_steps ps)"
  using assms
proof (induction rule: list_all2_induct)
  case Nil
  show ?case by (simp add: installs_ret)
next
  case (Cons part parts p ps)
  then have "installs view (concat (map fst parts)) (concat (map snd parts)) (run_steps ps)"
    by simp
  from installs_bind [OF Cons.hyps(1) this] Cons.prems show ?case by auto
qed

section \<open>The parts of the engines\<close>

definition as_built :: "(kbody \<Rightarrow> kbody \<Rightarrow> bool) \<Rightarrow> 'l lib_scheme \<Rightarrow> OpenEBS \<Rightarrow> kobj \<Rightarrow> kobj \<Rightarrow> bool" where
  "as_built d L inst ob st \<longleftrightarrow> conforms d (set_owner L (Some inst) ob) st"

definition crd_as_embedded ::
  "(kbody \<Rightarrow> kbody \<Rightarrow> bool) \<Rightarrow> 'l lib_scheme \<Rightarrow> OpenEBS \<Rightarrow> crd_file \<Rightarrow> kobj \<Rightarrow> bool" where
  "crd_as_embedded d L inst f st \<longleftrightarrow> (\<exists>ob. decode_yaml L f = Inr ob \<and> as_built d L inst ob st)"

definition crds_part ::
  "(kbody \<Rightarrow> kbody \<Rightarrow> bool) \<Rightarrow> 'l lib_scheme \<Rightarrow> OpenEBS \<Rightarrow> crd_file list \<Rightarrow> part" where
  "crds_part d L inst fs = (map crd_key fs, map (\<lambda>f. (crd_key f, crd_as_embedded d L inst f)) fs)"

definition objects_part ::
  "(kbody \<Rightarrow> kbody \<Rightarrow> bool) \<Rightarrow> 'l lib_scheme \<Rightarrow> OpenEBS \<Rightarrow> kobj list \<Rightarrow> part" where
  "objects_part d L inst obs =
     (map key_of obs, map (\<lambda>ob. (key_of ob, as_built d L inst ob)) obs)"

definition namespace_key :: "string \<Rightarrow> objkey" where
  "namespace_key n = (KNamespace, '''', n)"

definition privileged_pods :: "kobj \<Rightarrow> bool" where
  "privileged_pods ns \<longleftrightarrow> has_labels [(''pod-security.kubernetes.io/enforce'', ''privileged''),
     (''pod-security.kubernetes.io/warn'', ''privileged''),
     (''pod-security.kubernetes.io/audit'', ''privileged'')] (om_labels (meta ns))"

definition namespace_part :: "string \<Rightarrow> part" where
  "namespace_part n = ([namespace_key n], [(namespace_key n, privileged_pods)])"

text \<open>
  The StatefulSet of etcd is stored with the claim templates of the live one when there is one
  (they are immutable), which the built one must not differ from in an immutable field;
  everything else is as built.
\<close>

definition sts_as_built :: "(kbody \<Rightarrow> kbody \<Rightarrow> bool) \<Rightarrow> 'l lib_scheme \<Rightarrow> OpenEBS \<Rightarrow> kobj \<Rightarrow> kobj \<Rightarrow> bool" where
  "sts_as_built d L inst ob st \<longleftrightarrow>
     (\<exists>live. (\<forall>ex. live = Some ex \<longrightarrow> sts_drift L ex ob = []) \<and>
       conforms d (sts_target live (set_owner L (Some inst) ob)) st)"

definition statefulset_part :: "(kbody \<Rightarrow> kbody \<Rightarrow> bool) \<Rightarrow> 'l lib_scheme \<Rightarrow> OpenEBS \<Rightarrow> kobj \<Rightarrow> part" where
  "statefulset_part d L inst ob = ([key_of ob], [(key_of ob, sts_as_built d L inst ob)])"

lemmas part_defs = crds_part_def objects_part_def namespace_part_def statefulset_part_def

lemma privileged_labels_privileged:
  "om_labels (meta st) = om_labels (meta (privileged_labels ns)) \<Longrightarrow> privileged_pods st"
  by (simp add: privileged_pods_def privileged_labels_def has_labels_def map_of_put)

lemma privileged_labels_key [simp]: "key_of (privileged_labels ns) = key_of ns"
  by (simp add: privileged_labels_def key_of_def)

text \<open>A namespace that runs privileged pods keeps doing so.\<close>

definition namespace_ok :: "('w \<Rightarrow> objkey \<Rightarrow> kobj option) \<Rightarrow> string \<Rightarrow> 'w \<Rightarrow> bool" where
  "namespace_ok view n w \<longleftrightarrow> (\<exists>ns. view w (namespace_key n) = Some ns \<and> privileged_pods ns)"

definition namespace_kept :: "('w \<Rightarrow> objkey \<Rightarrow> kobj option) \<Rightarrow> string \<Rightarrow> 'w \<Rightarrow> 'w \<Rightarrow> bool" where
  "namespace_kept view n w w' \<longleftrightarrow> (namespace_ok view n w \<longrightarrow> namespace_ok view n w')"

interpretation privileged: world_relation "namespace_kept view n" for view n
  by unfold_locales (simp_all add: namespace_kept_def)

lemma same_outside_namespace:
  "same_outside view K w w' \<Longrightarrow> namespace_key n \<notin> K \<Longrightarrow> namespace_kept view n w w'"
  using same_outsideD [of view K w w' "namespace_key n"]
  by (simp add: namespace_kept_def namespace_ok_def)

context cluster_api
begin

abbreviation "objs_part inst obs \<equiv> objects_part defaulted E inst obs"

text \<open>One lemma for the four ways to store an object, from what each keeps and achieves.\<close>

lemma installs_run_obj:
  assumes "keeps (obj_step (same_outside view {key_of ob}) (key_of ob)) p"
    and "\<And>w ob' w'. p (ob, w) = (Inr (), (ob', w')) \<Longrightarrow>
      stored view defaulted (set_owner E (Some inst) ob) w w'"
  shows "installs_part view (objs_part inst [ob]) (run_obj ob p)"
proof (rule installsI)
  show "keeps (same_outside view (set (fst (objs_part inst [ob])))) (run_obj ob p)"
    using framed.keeps_run_obj [OF assms(1)] by (simp add: objects_part_def)
  show "\<exists>st. view w' k = Some st \<and> P st"
    if "run_obj ob p w = (Inr (), w')" "(k, P) \<in> set (snd (objs_part inst [ob]))"
    for w w' k P
    using that assms(2) [of w] stored_lookup [of view defaulted "set_owner E (Some inst) ob" w w']
    by (auto simp: run_obj_def objects_part_def as_built_def split: prod.splits)
qed (simp add: objects_part_def)

lemma installs_object:
  "installs_part view (objs_part inst [ob]) (apply_to E inst ob)"
  "installs_part view (objs_part inst [ob]) (apply_class E inst ob)"
  "installs_part view (objs_part inst [ob]) (run_obj ob (applyService E (Some inst)))"
  "installs_part view (objs_part inst [ob]) (run_obj ob (applyUnstructured E (Some inst)))"
  unfolding apply_to_def apply_class_def
  by (rule installs_run_obj, rule framed.keeps_apply framed.keeps_applyStorageClass
      framed.keeps_applyService framed.keeps_applyUnstructured,
      erule apply_ok applyStorageClass_ok applyService_ok applyUnstructured_ok)+

lemma installs_namespace: "installs_part view (namespace_part n) (ensureNamespace E n)"
proof (rule installsI)
  let ?ns = "namespace_obj n"
  have key: "key_of ?ns = namespace_key n" by (simp add: namespace_obj_def namespace_key_def)
  show "keeps (same_outside view (set (fst (namespace_part n)))) (ensureNamespace E n)"
    using create_or_update_view [of privileged_labels ?ns] key
    by (auto simp: ensureNamespace_def namespace_part_def intro!: frame.keeps_bind frame.keeps_call)
  show "\<exists>st. view w' k = Some st \<and> P st"
    if "ensureNamespace E n w = (Inr (), w')" "(k, P) \<in> set (snd (namespace_part n))" for w w' k P
    using that create_or_update_ok [of privileged_labels ?ns w] key
    by (auto simp: ensureNamespace_def namespace_part_def call_def bindP_def ret_def
        split: prod.splits sum.splits intro: privileged_labels_privileged)
qed (simp add: namespace_part_def)

lemma ensureNamespace_kept: "keeps (namespace_kept view m) (ensureNamespace E n)"
proof -
  let ?ns = "namespace_obj n"
  have key: "key_of ?ns = namespace_key n" by (simp add: namespace_obj_def namespace_key_def)
  have "namespace_kept view m w (snd (create_or_update E privileged_labels ?ns w))" for w
  proof (cases "m = n")
    case False
    then have "namespace_key m \<notin> {key_of ?ns}" by (simp add: key namespace_key_def)
    from create_or_update_view [of privileged_labels ?ns w] this show ?thesis
      by (rule same_outside_namespace) simp
  next
    case True
    show ?thesis
    proof (cases "create_or_update E privileged_labels ?ns w")
      case (Pair r w')
      with True key create_or_update_ok [of privileged_labels ?ns w _ w']
        create_or_update_err [of privileged_labels ?ns w _ w'] show ?thesis
        by (cases r) (auto simp: namespace_kept_def namespace_ok_def
            intro: privileged_labels_privileged)
    qed
  qed
  then show ?thesis
    unfolding ensureNamespace_def by (auto intro!: privileged.keeps_bind privileged.keeps_call)
qed

lemma installs_statefulset:
  assumes "\<And>ps. DeepEqual_pvcs E ps ps"
  shows "installs_part view (statefulset_part defaulted E inst ob)
    (run_obj ob (applyStatefulSet E (Some inst)))"
proof (rule installsI)
  show "keeps (same_outside view (set (fst (statefulset_part defaulted E inst ob))))
      (run_obj ob (applyStatefulSet E (Some inst)))"
    using framed.keeps_run_obj [OF framed.keeps_applyStatefulSet]
    by (simp add: statefulset_part_def)
  show "\<exists>st. view w' k = Some st \<and> P st"
    if "run_obj ob (applyStatefulSet E (Some inst)) w = (Inr (), w')"
      "(k, P) \<in> set (snd (statefulset_part defaulted E inst ob))" for w w' k P
  proof -
    from that(1) obtain ob' where "applyStatefulSet E (Some inst) (ob, w) = (Inr (), (ob', w'))"
      by (auto simp: run_obj_def split: prod.splits)
    note ok = applyStatefulSet_ok [OF this assms]
    from stored_lookup [OF ok(1)] obtain st where "view w' (key_of ob) = Some st"
      and c: "conforms defaulted
        (sts_target (view w (key_of ob)) (set_owner E (Some inst) ob)) st" by auto
    moreover have "sts_as_built defaulted E inst ob st"
      unfolding sts_as_built_def by (intro exI [of _ "view w (key_of ob)"] conjI allI impI ok(2) c)
    ultimately show ?thesis using that(2) by (simp add: statefulset_part_def)
  qed
qed (simp add: statefulset_part_def)

end

section \<open>The compound steps\<close>

context cluster_api
begin

lemma installs_all_objects:
  assumes "list_all2 (\<lambda>ob p. installs_part view (objs_part inst [ob]) p) obs ps"
    and "distinct (map key_of obs)"
  shows "installs_part view (objs_part inst obs) (run_steps ps)"
proof -
  let ?parts = "map (\<lambda>ob. objs_part inst [ob]) obs"
  have "list_all2 (installs_part view) ?parts ps"
    using assms(1) by (simp add: list_all2_map1)
  moreover have "concat (map fst ?parts) = map key_of obs"
    and "concat (map snd ?parts) = map (\<lambda>ob. (key_of ob, as_built defaulted E inst ob)) obs"
    by (induction obs) (simp_all add: objects_part_def)
  ultimately show ?thesis
    using installs_steps [of view ?parts ps] assms(2) by (simp add: objects_part_def)
qed

lemma installs_rbac:
  assumes "distinct (map key_of [sa, cr, crb])"
  shows "installs_part view (objs_part inst [sa, cr, crb]) (applyRBAC E (Some inst) sa cr crb)"
  unfolding applyRBAC_def
  by (rule installs_all_objects)
    (use assms installs_object(1) [unfolded apply_to_def] in \<open>simp_all add: installs_wrap\<close>)

lemma installs_crd:
  assumes "apimachinery E"
  shows "installs_part view (crds_part defaulted E inst [f]) (applyCRD E (Some inst) f)"
proof (cases "decode_yaml E f")
  case (Inl e)
  then show ?thesis
    by (auto simp: applyCRD_def crds_part_def installs_def prog_simps)
next
  case (Inr ob)
  with apimachinery.decoded [OF assms Inr] installs_object(4) [of inst ob]
  show ?thesis
    by (auto simp: applyCRD_def crds_part_def crd_as_embedded_def objects_part_def installs_def)
qed

lemma installs_crds:
  assumes "apimachinery E" and "distinct (map crd_key fs)"
  shows "installs_part view (crds_part defaulted E inst fs) (applyCRDs E (Some inst) fs)"
proof -
  let ?parts = "map (\<lambda>f. crds_part defaulted E inst [f]) fs"
  have "list_all2 (installs_part view) ?parts (map (applyCRD E (Some inst)) fs)"
    using installs_crd [OF assms(1)] by (simp add: list_all2_map1 list_all2_map2 list.rel_refl)
  moreover have "concat (map fst ?parts) = fst (crds_part defaulted E inst fs)"
    and "concat (map snd ?parts) = snd (crds_part defaulted E inst fs)"
    by (induction fs) (simp_all add: crds_part_def)
  ultimately show ?thesis
    using installs_steps [of view ?parts "map (applyCRD E (Some inst)) fs"] assms(2)
    by (simp add: applyCRDs_def crds_part_def)
qed

text \<open>The health check of etcd reads, it writes nothing.\<close>

lemma keeps_etcdHealthCheck: "keeps (same_outside view {}) (etcdHealthCheck E)"
proof -
  have get: "keeps (same_outside view {}) (Get E k)" for k
    unfolding Get_def
  proof (rule frame.keeps_call)
    show "same_outside view {} w (snd (cl_get E k w))" for w
      using get_ok [of k w] get_err [of k w]
      by (cases "cl_get E k w"; cases "fst (cl_get E k w)") (auto simp: same_outside_def)
  qed
  have "keeps (same_outside view {}) (\<lambda>w. case http_get E etcd_health_url w of
      (Inl m, w') \<Rightarrow> fail (f m) w'
    | (Inr code, w') \<Rightarrow> if code \<noteq> 200 then fail (g code) w' else ret () w')" for f g
    using http_view [of etcd_health_url]
    by (auto simp: keeps_def prog_simps same_outside_def split: prod.splits sum.splits)
      (metis snd_conv)+
  with get [of etcd_sts_key] show ?thesis
    unfolding etcdHealthCheck_def by (auto split: sum.split)
qed

lemma keeps_delete_quietly: "keeps (same_outside view {k}) (delete_quietly E k)"
  unfolding delete_quietly_def by (auto split: sum.split)

lemma keeps_velero:
  "keeps (same_outside view {key_of (mayastorEtcdVeleroSchedule inst)})
    (reconcileEtcdVeleroSchedule E inst)"
  unfolding reconcileEtcdVeleroSchedule_def Let_def
  using framed.keeps_run_obj [OF framed.keeps_applyUnstructured HOL.refl]
  by (auto simp: keeps_delete_quietly split: sum.split)

lemma installs_quiet: "keeps (same_outside view (set ks)) p \<Longrightarrow> installs_part view (ks, []) p"
  by (simp add: installs_def)

end

section \<open>The engines\<close>

definition lvm_crds :: "crd_file list" where
  "lvm_crds = [LvmNodeCRD, LvmVolumeCRD, LvmSnapshotCRD]"

definition zfs_crds :: "crd_file list" where
  "zfs_crds = [ZfsNodeCRD, ZfsVolumeCRD, ZfsSnapshotCRD]"

definition snapshot_crds :: "crd_file list" where
  "snapshot_crds = [VolumeSnapshotClassCRD, VolumeSnapshotCRD, VolumeSnapshotContentCRD]"

definition lvm_objects :: "OpenEBS \<Rightarrow> kobj list" where
  "lvm_objects inst = [lvmServiceAccount, lvmClusterRole, lvmClusterRoleBinding,
     lvmControllerDeployment inst, lvmNodeDaemonSet inst, lvmCSIDriver] @
     (case spec_LVM (oe_Spec inst) of None \<Rightarrow> [] | Some cfg \<Rightarrow> [lvm_class cfg])"

definition hostpath_objects :: "OpenEBS \<Rightarrow> kobj list" where
  "hostpath_objects inst = [hostpathServiceAccount, hostpathClusterRole,
     hostpathClusterRoleBinding, hostpathDeployment inst] @
     (case spec_Hostpath (oe_Spec inst) of None \<Rightarrow> [] | Some cfg \<Rightarrow> [hostpath_class cfg])"

definition zfs_objects :: "OpenEBS \<Rightarrow> kobj list" where
  "zfs_objects inst = [zfsServiceAccount, zfsClusterRole, zfsClusterRoleBinding,
     zfsControllerDeployment inst, zfsBinConfigMap, zfsNodeDaemonSet inst, zfsCSIDriver] @
     (case spec_ZFS (oe_Spec inst) of None \<Rightarrow> [] | Some cfg \<Rightarrow> [zfs_class cfg])"

definition rawfile_objects :: "OpenEBS \<Rightarrow> kobj list" where
  "rawfile_objects inst = [rawfileServiceAccount, rawfileClusterRole, rawfileClusterRoleBinding,
     rawfileDeployment inst] @
     (case spec_Rawfile (oe_Spec inst) of None \<Rightarrow> [] | Some cfg \<Rightarrow> [rawfile_class cfg])"

text \<open>Mayastor without the etcd StatefulSet, which has its own contract.\<close>

definition mayastor_objects :: "OpenEBS \<Rightarrow> kobj list" where
  "mayastor_objects inst = [mayastorServiceAccount, mayastorClusterRole,
     mayastorClusterRoleBinding, mayastorEtcdService,
     mayastorAgentCoreDeployment inst, mayastorAgentCoreService, mayastorAPIRestService,
     mayastorAPIRestDeployment inst, mayastorCSIControllerDeployment inst,
     mayastorIOEngineDaemonSet inst, mayastorMetricsExporterService,
     mayastorCSINodeDaemonSet inst, mayastorHANodeDaemonSet inst,
     mayastorOperatorDiskpoolDeployment inst, mayastorCSIDriver] @
     (case spec_Mayastor (oe_Spec inst) of None \<Rightarrow> []
      | Some cfg \<Rightarrow> [mayastor_class inst cfg, mayastor_snapshot_class cfg])"

lemmas engine_objects = lvm_objects_def hostpath_objects_def zfs_objects_def
  rawfile_objects_def mayastor_objects_def

text \<open>An engine is deployed: its namespace, its custom resource definitions, its objects.\<close>

definition deployed :: "('w \<Rightarrow> objkey \<Rightarrow> kobj option) \<Rightarrow> (kbody \<Rightarrow> kbody \<Rightarrow> bool) \<Rightarrow> 'l lib_scheme \<Rightarrow>
    OpenEBS \<Rightarrow> string \<Rightarrow> crd_file list \<Rightarrow> kobj list \<Rightarrow> 'w \<Rightarrow> bool" where
  "deployed view d L inst n files obs w \<longleftrightarrow>
     (\<exists>ns. view w (namespace_key n) = Some ns \<and> privileged_pods ns) \<and>
     (\<forall>f \<in> set files. \<exists>st. view w (crd_key f) = Some st \<and> crd_as_embedded d L inst f st) \<and>
     (\<forall>ob \<in> set obs. \<exists>st. view w (key_of ob) = Some st \<and> as_built d L inst ob st)"

text \<open>The keys such an engine may touch.\<close>

definition footprint :: "string \<Rightarrow> crd_file list \<Rightarrow> kobj list \<Rightarrow> objkey set" where
  "footprint n files obs = {namespace_key n} \<union> crd_key ` set files \<union> key_of ` set obs"

text \<open>The two results a deployment can have, from the run of its steps.\<close>

lemma deploy_engine_cases:
  assumes "deploy_engine e msg steps w = (r, w')"
  obtains "run_steps steps w = (Inr (), w')" "r = Inr (engineRunning e msg)"
  | err where "run_steps steps w = (Inl (GoError err), w')" "r = Inr (engineFailed e err)"
  | m where "run_steps steps w = (Inl (GoPanic m), w')" "r = Inl (GoPanic m)"
  using assms
  by (auto simp: deploy_engine_def bindP_def attempt_def ret_def
      split: prod.splits sum.splits abort.splits)

lemma engine_result_phase [simp]:
  "es_Phase (engineRunning e m) = OpenEBSPhaseRunning"
  "es_Phase (engineFailed e err) = OpenEBSPhaseFailed"
  "es_Name (engineRunning e m) = e" "es_Name (engineFailed e err) = e"
  "es_Message (engineRunning e m) = m" "es_Message (engineFailed e err) = err_Error err"
  by (simp_all add: engineRunning_def engineFailed_def)

lemma running_not_failed [simp]: "OpenEBSPhaseFailed \<noteq> OpenEBSPhaseRunning"
  "OpenEBSPhaseRunning \<noteq> OpenEBSPhaseFailed"
  by (simp_all add: phase_names)

lemma deploy_engine_running:
  assumes "deploy_engine e msg steps w = (Inr st, w')" and "es_Phase st = OpenEBSPhaseRunning"
  shows "run_steps steps w = (Inr (), w') \<and> st = engineRunning e msg"
  by (rule deploy_engine_cases [OF assms(1)]) (use assms(2) in auto)

lemma deploy_engine_snd: "snd (deploy_engine e msg steps w) = snd (run_steps steps w)"
  by (auto simp: deploy_engine_def bindP_def attempt_def ret_def
      split: prod.splits sum.splits abort.splits)

text \<open>From the parts installed by the chain to the engine deployed.\<close>

lemma installs_deployed:
  assumes "installs view ks reqs (run_steps steps)"
    and "deploy_engine e msg steps w = (Inr st, w')" and "es_Phase st = OpenEBSPhaseRunning"
    and "set (snd (namespace_part n)) \<union> set (snd (crds_part d L inst files)) \<union>
      set (snd (objects_part d L inst obs)) \<subseteq> set reqs"
  shows "deployed view d L inst n files obs w'"
proof -
  from deploy_engine_running [OF assms(2,3)] have "run_steps steps w = (Inr (), w')" by simp
  from installs_ok [OF assms(1) this] have ok: "\<exists>st. view w' k = Some st \<and> P st"
    if "(k, P) \<in> set reqs" for k P using that by blast
  show ?thesis
    unfolding deployed_def
    by (intro conjI ballI; rule ok)
      (use assms(4) in \<open>auto simp: namespace_part_def crds_part_def objects_part_def\<close>)
qed

lemma installs_footprint:
  assumes "installs view ks reqs (run_steps steps)"
    and "deploy_engine e msg steps w = (r, w')" and "k \<notin> set ks"
  shows "view w' k = view w k"
  using frame.keeps_result [OF installs_keeps [OF assms(1)], of w "fst (run_steps steps w)" w']
    deploy_engine_snd [of e msg steps w] assms(2,3)
  by (cases "run_steps steps w") (auto dest: same_outsideD)

text \<open>
  An engine whose steps install the parts it is made of, on the keys of these parts, and keep
  every namespace privileged that is.
\<close>

definition installs_engine :: "('w \<Rightarrow> objkey \<Rightarrow> kobj option) \<Rightarrow> (kbody \<Rightarrow> kbody \<Rightarrow> bool) \<Rightarrow>
    'l lib_scheme \<Rightarrow> OpenEBS \<Rightarrow> string \<Rightarrow> crd_file list \<Rightarrow> kobj list \<Rightarrow> part \<Rightarrow>
    ('w, unit) prog list \<Rightarrow> bool" where
  "installs_engine view d L inst n files obs extra steps \<longleftrightarrow>
     (\<exists>ks reqs. installs view ks reqs (run_steps steps) \<and>
       set ks \<subseteq> footprint n files obs \<union> set (fst extra) \<and>
       set (snd (namespace_part n)) \<union> set (snd (crds_part d L inst files)) \<union>
         set (snd (objects_part d L inst obs)) \<union> set (snd extra) \<subseteq> set reqs) \<and>
     (\<forall>m. keeps (namespace_kept view m) (run_steps steps))"

lemma installs_engine_deployed:
  assumes "installs_engine view d L inst n files obs extra steps"
    and "deploy_engine e msg steps w = (Inr st, w')" and "es_Phase st = OpenEBSPhaseRunning"
  shows "deployed view d L inst n files obs w'"
    and "(k, P) \<in> set (snd extra) \<Longrightarrow> \<exists>st. view w' k = Some st \<and> P st"
proof -
  from assms(1) obtain ks reqs where i: "installs view ks reqs (run_steps steps)"
    and r: "set (snd (namespace_part n)) \<union> set (snd (crds_part d L inst files)) \<union>
         set (snd (objects_part d L inst obs)) \<union> set (snd extra) \<subseteq> set reqs"
    by (auto simp: installs_engine_def)
  show "deployed view d L inst n files obs w'"
    by (rule installs_deployed [OF i assms(2,3)]) (use r in auto)
  show "\<exists>st. view w' k = Some st \<and> P st" if "(k, P) \<in> set (snd extra)"
    using installs_ok [OF i] deploy_engine_running [OF assms(2,3)] r that by blast
qed

lemma installs_engine_frame:
  assumes "installs_engine view d L inst n files obs extra steps"
    and "deploy_engine e msg steps w = (r, w')"
    and "k \<notin> footprint n files obs" and "k \<notin> set (fst extra)"
  shows "view w' k = view w k"
proof -
  from assms(1) obtain ks reqs where i: "installs view ks reqs (run_steps steps)"
    and ks: "set ks \<subseteq> footprint n files obs \<union> set (fst extra)"
    by (auto simp: installs_engine_def)
  from installs_footprint [OF i assms(2)] ks assms(3,4) show ?thesis by blast
qed

lemma crd_keys_distinct [simp]:
  "distinct (map crd_key lvm_crds)" "distinct (map crd_key zfs_crds)"
  "distinct (map crd_key snapshot_crds)"
  by (simp_all add: lvm_crds_def zfs_crds_def snapshot_crds_def crd_key_def)

lemma storage_class_of_engine [key_simps]:
  "key_of (lvm_class c) = (KStorageClass, '''', name_or (lvm_StorageClassName c) lvmSCName)"
  "key_of (hostpath_class h) = (KStorageClass, '''', name_or (hp_StorageClassName h) hostpathSCName)"
  "key_of (zfs_class z) = (KStorageClass, '''', name_or (zfs_StorageClassName z) zfsSCName)"
  "key_of (rawfile_class r) = (KStorageClass, '''', rawfileSCName)"
  "key_of (mayastor_class inst m) =
     (KStorageClass, '''', name_or (ms_StorageClassName m) mayastorSCName)"
  "key_of (mayastor_snapshot_class m) =
     (KUnstructured ''snapshot.storage.k8s.io/v1'' ''VolumeSnapshotClass'', '''',
      name_or (ms_SnapshotClassName m) mayastorSnapshotClassName)"
  by (simp_all add: lvm_class_def hostpath_class_def zfs_class_def rawfile_class_def
      mayastor_class_def mayastor_snapshot_class_def key_simps snapshot_class_kind_def)

lemmas part_keys = part_defs namespace_key_def crd_key_def crd_kind_def key_simps

text \<open>
  The parts of an engine in the order of its deployment: the namespace, the definitions, the three
  RBAC objects, and then the objects one by one.
\<close>

definition plan :: "(kbody \<Rightarrow> kbody \<Rightarrow> bool) \<Rightarrow> 'l lib_scheme \<Rightarrow> OpenEBS \<Rightarrow> string \<Rightarrow> crd_file list \<Rightarrow>
    kobj list \<Rightarrow> part list" where
  "plan d L inst n files obs = namespace_part n #
     (if files = [] then [] else [crds_part d L inst files]) @
     objects_part d L inst (take 3 obs) #
     map (\<lambda>ob. objects_part d L inst [ob]) (drop 3 obs)"

context cluster_api
begin

lemma installs_engineI:
  assumes parts: "list_all2 (installs_part view) parts steps"
    and distinct: "distinct (concat (map fst parts))"
    and "set (concat (map fst parts)) \<subseteq> footprint n files obs \<union> set (fst extra)"
    and "set (snd (namespace_part n)) \<union> set (snd (crds_part defaulted E inst files)) \<union>
         set (snd (objects_part defaulted E inst obs)) \<union> set (snd extra) \<subseteq>
         set (concat (map snd parts))"
    and first: "hd steps = ensureNamespace E n"
    and rest: "\<forall>k \<in> set (concat (map fst (tl parts))). fst k \<noteq> KNamespace"
  shows "installs_engine view defaulted E inst n files obs extra steps"
proof -
  have "keeps (namespace_kept view m) (run_steps steps)" for m
  proof (cases steps)
    case Nil
    then show ?thesis by auto
  next
    case (Cons p ps)
    with parts obtain q qs where qs: "parts = q # qs" "list_all2 (installs_part view) qs ps"
      by (auto simp: list_all2_Cons2)
    from installs_keeps [OF installs_steps [OF qs(2)]] distinct qs(1)
    have "keeps (same_outside view (set (concat (map fst qs)))) (run_steps ps)" by simp
    moreover have "namespace_key m \<notin> set (concat (map fst qs))"
      using rest qs(1) unfolding namespace_key_def by (metis fst_conv list.sel(3))
    ultimately have "keeps (namespace_kept view m) (run_steps ps)"
      unfolding keeps_def by (blast intro: same_outside_namespace)
    with Cons first show ?thesis by (auto simp: ensureNamespace_kept)
  qed
  then show ?thesis
    unfolding installs_engine_def using installs_steps [OF parts distinct] assms(3,4) by blast
qed

lemmas typed_parts = installs_object(1) [folded applyDeployment_def]
  installs_object(1) [folded applyDaemonSet_def] installs_object(1) [folded applyCSIDriver_def]

lemmas object_steps = installs_object typed_parts installs_namespace

lemma installs_crd_lists:
  assumes "apimachinery E"
  shows "installs_part view (crds_part defaulted E inst lvm_crds) (applyLVMCRDs E (Some inst))"
    and "installs_part view (crds_part defaulted E inst zfs_crds) (applyZFSCRDs E (Some inst))"
    and "installs_part view (crds_part defaulted E inst snapshot_crds)
      (applyVolumeSnapshotCRDs E (Some inst))"
  unfolding applyLVMCRDs_def applyZFSCRDs_def applyVolumeSnapshotCRDs_def
    lvm_crds_def [symmetric] zfs_crds_def [symmetric] snapshot_crds_def [symmetric]
  by (rule installs_crds [OF assms], simp)+

lemma installs_rbac_lists:
  "installs_part view (objs_part inst [lvmServiceAccount, lvmClusterRole, lvmClusterRoleBinding])
    (applyRBAC E (Some inst) lvmServiceAccount lvmClusterRole lvmClusterRoleBinding)"
  "installs_part view
    (objs_part inst [hostpathServiceAccount, hostpathClusterRole, hostpathClusterRoleBinding])
    (applyRBAC E (Some inst) hostpathServiceAccount hostpathClusterRole hostpathClusterRoleBinding)"
  "installs_part view (objs_part inst [zfsServiceAccount, zfsClusterRole, zfsClusterRoleBinding])
    (applyRBAC E (Some inst) zfsServiceAccount zfsClusterRole zfsClusterRoleBinding)"
  "installs_part view
    (objs_part inst [rawfileServiceAccount, rawfileClusterRole, rawfileClusterRoleBinding])
    (applyRBAC E (Some inst) rawfileServiceAccount rawfileClusterRole rawfileClusterRoleBinding)"
  "installs_part view
    (objs_part inst [mayastorServiceAccount, mayastorClusterRole, mayastorClusterRoleBinding])
    (applyRBAC E (Some inst) mayastorServiceAccount mayastorClusterRole mayastorClusterRoleBinding)"
  by (rule installs_rbac, simp add: key_simps)+

lemma lvm_plan:
  assumes "apimachinery E" and "spec_LVM (oe_Spec inst) = Some cfg"
  shows "list_all2 (installs_part view)
      (plan defaulted E inst openebsNamespace lvm_crds (lvm_objects inst)) (lvm_steps E inst)"
    and "distinct (concat (map fst (plan defaulted E inst openebsNamespace lvm_crds (lvm_objects inst))))"
proof -
  show "list_all2 (installs_part view)
      (plan defaulted E inst openebsNamespace lvm_crds (lvm_objects inst)) (lvm_steps E inst)"
    using object_steps installs_rbac_lists installs_crd_lists [OF assms(1)]
    by (simp add: lvm_steps_def plan_def lvm_objects_def lvm_crds_def assms(2))
  show "distinct (concat (map fst (plan defaulted E inst openebsNamespace lvm_crds (lvm_objects inst))))"
    by (simp add: plan_def lvm_objects_def assms(2) part_keys lvm_crds_def all_names)
qed

lemma installs_lvm:
  assumes "apimachinery E" and "spec_LVM (oe_Spec inst) = Some cfg"
  shows "installs_engine view defaulted E inst openebsNamespace lvm_crds (lvm_objects inst)
    ([], []) (lvm_steps E inst)"
proof (rule installs_engineI [OF lvm_plan [OF assms]])
  show "\<forall>k \<in> set (concat (map fst (tl (plan defaulted E inst openebsNamespace lvm_crds (lvm_objects inst))))).
      fst k \<noteq> KNamespace"
    by (simp add: plan_def lvm_objects_def assms(2) part_keys lvm_crds_def)
  show "hd (lvm_steps E inst) = ensureNamespace E openebsNamespace"
    by (simp add: lvm_steps_def)
qed (auto simp: plan_def part_defs footprint_def lvm_objects_def assms(2))

lemma hostpath_plan:
  assumes "spec_Hostpath (oe_Spec inst) = Some cfg"
  shows "list_all2 (installs_part view)
      (plan defaulted E inst openebsNamespace [] (hostpath_objects inst)) (hostpath_steps E inst)"
    and "distinct (concat (map fst (plan defaulted E inst openebsNamespace [] (hostpath_objects inst))))"
proof -
  show "list_all2 (installs_part view)
      (plan defaulted E inst openebsNamespace [] (hostpath_objects inst)) (hostpath_steps E inst)"
    using object_steps installs_rbac_lists
    by (simp add: hostpath_steps_def plan_def hostpath_objects_def assms)
  show "distinct (concat (map fst (plan defaulted E inst openebsNamespace [] (hostpath_objects inst))))"
    by (simp add: plan_def hostpath_objects_def assms part_keys all_names)
qed

lemma installs_hostpath:
  assumes "spec_Hostpath (oe_Spec inst) = Some cfg"
  shows "installs_engine view defaulted E inst openebsNamespace [] (hostpath_objects inst)
    ([], []) (hostpath_steps E inst)"
proof (rule installs_engineI [OF hostpath_plan [OF assms]])
  show "\<forall>k \<in> set (concat (map fst (tl (plan defaulted E inst openebsNamespace [] (hostpath_objects inst))))).
      fst k \<noteq> KNamespace"
    by (simp add: plan_def hostpath_objects_def assms part_keys)
  show "hd (hostpath_steps E inst) = ensureNamespace E openebsNamespace"
    by (simp add: hostpath_steps_def)
qed (auto simp: plan_def part_defs footprint_def hostpath_objects_def assms)

lemma zfs_plan:
  assumes "apimachinery E" and "spec_ZFS (oe_Spec inst) = Some cfg"
  shows "list_all2 (installs_part view)
      (plan defaulted E inst openebsNamespace zfs_crds (zfs_objects inst)) (zfs_steps E inst)"
    and "distinct (concat (map fst (plan defaulted E inst openebsNamespace zfs_crds (zfs_objects inst))))"
proof -
  show "list_all2 (installs_part view)
      (plan defaulted E inst openebsNamespace zfs_crds (zfs_objects inst)) (zfs_steps E inst)"
    using object_steps installs_rbac_lists installs_crd_lists [OF assms(1)]
    by (simp add: zfs_steps_def plan_def zfs_objects_def zfs_crds_def assms(2))
  show "distinct (concat (map fst (plan defaulted E inst openebsNamespace zfs_crds (zfs_objects inst))))"
    by (simp add: plan_def zfs_objects_def assms(2) part_keys zfs_crds_def all_names)
qed

lemma installs_zfs:
  assumes "apimachinery E" and "spec_ZFS (oe_Spec inst) = Some cfg"
  shows "installs_engine view defaulted E inst openebsNamespace zfs_crds (zfs_objects inst)
    ([], []) (zfs_steps E inst)"
proof (rule installs_engineI [OF zfs_plan [OF assms]])
  show "\<forall>k \<in> set (concat (map fst (tl (plan defaulted E inst openebsNamespace zfs_crds (zfs_objects inst))))).
      fst k \<noteq> KNamespace"
    by (simp add: plan_def zfs_objects_def assms(2) part_keys zfs_crds_def)
  show "hd (zfs_steps E inst) = ensureNamespace E openebsNamespace"
    by (simp add: zfs_steps_def)
qed (auto simp: plan_def part_defs footprint_def zfs_objects_def assms(2))

lemma rawfile_plan:
  assumes "spec_Rawfile (oe_Spec inst) = Some cfg"
  shows "list_all2 (installs_part view)
      (plan defaulted E inst openebsNamespace [] (rawfile_objects inst)) (rawfile_steps E inst)"
    and "distinct (concat (map fst (plan defaulted E inst openebsNamespace [] (rawfile_objects inst))))"
proof -
  show "list_all2 (installs_part view)
      (plan defaulted E inst openebsNamespace [] (rawfile_objects inst)) (rawfile_steps E inst)"
    using object_steps installs_rbac_lists
    by (simp add: rawfile_steps_def plan_def rawfile_objects_def assms)
  show "distinct (concat (map fst (plan defaulted E inst openebsNamespace [] (rawfile_objects inst))))"
    by (simp add: plan_def rawfile_objects_def assms part_keys all_names)
qed

lemma installs_rawfile:
  assumes "spec_Rawfile (oe_Spec inst) = Some cfg"
  shows "installs_engine view defaulted E inst openebsNamespace [] (rawfile_objects inst)
    ([], []) (rawfile_steps E inst)"
proof (rule installs_engineI [OF rawfile_plan [OF assms]])
  show "\<forall>k \<in> set (concat (map fst (tl (plan defaulted E inst openebsNamespace [] (rawfile_objects inst))))).
      fst k \<noteq> KNamespace"
    by (simp add: plan_def rawfile_objects_def assms part_keys)
  show "hd (rawfile_steps E inst) = ensureNamespace E openebsNamespace"
    by (simp add: rawfile_steps_def)
qed (auto simp: plan_def part_defs footprint_def rawfile_objects_def assms)

end

definition etcd_sts :: "OpenEBS \<Rightarrow> kobj" where
  "etcd_sts inst = etcd_statefulset inst (Quantity (etcd_storage_size inst))"

definition etcd_part :: "(kbody \<Rightarrow> kbody \<Rightarrow> bool) \<Rightarrow> 'l lib_scheme \<Rightarrow> OpenEBS \<Rightarrow> part" where
  "etcd_part d L inst = ([etcd_sts_key, key_of (mayastorEtcdVeleroSchedule inst)],
     [(etcd_sts_key, sts_as_built d L inst (etcd_sts inst))])"

text \<open>Mayastor: the health check writes nothing, and of the Schedule nothing is promised.\<close>

definition mayastor_plan :: "(kbody \<Rightarrow> kbody \<Rightarrow> bool) \<Rightarrow> 'l lib_scheme \<Rightarrow> OpenEBS \<Rightarrow> part list" where
  "mayastor_plan d L inst = (let obs = mayastor_objects inst in
     [namespace_part mayastorNamespace, crds_part d L inst snapshot_crds,
      objects_part d L inst (take 3 obs), objects_part d L inst [obs ! 3], ([], []),
      statefulset_part d L inst (etcd_sts inst), ([key_of (mayastorEtcdVeleroSchedule inst)], [])] @
     map (\<lambda>ob. objects_part d L inst [ob]) (drop 4 obs))"

lemma etcd_sts_key_of [key_simps]: "key_of (etcd_sts inst) = etcd_sts_key"
  by (simp add: etcd_sts_def etcd_sts_key_def key_simps)

context cluster_api
begin

lemma installs_etcd:
  assumes "apimachinery E"
  shows "installs_part view (statefulset_part defaulted E inst (etcd_sts inst))
    (bindP (pure (mayastorEtcdStatefulSet E inst)) (\<lambda>sts.
       run_obj sts (applyStatefulSet E (Some inst))))"
proof (cases "quantity_ok E (etcd_storage_size inst)")
  case True
  then have "mayastorEtcdStatefulSet E inst = Inr (etcd_sts inst)"
    by (simp add: mayastorEtcdStatefulSet_Inr etcd_sts_def)
  with installs_statefulset [OF apimachinery.pvcs_refl [OF assms]] show ?thesis
    by (simp add: bindP_def [abs_def] pure_def)
next
  case False
  then have "mayastorEtcdStatefulSet E inst = Inl (GoPanic (''cannot parse '' @ etcd_storage_size inst))"
    by (simp add: mayastorEtcdStatefulSet_Inl)
  then show ?thesis
    by (auto simp: installs_def keeps_def bindP_def pure_def statefulset_part_def frame.refl)
qed

lemma mayastor_plan:
  assumes "apimachinery E" and "spec_Mayastor (oe_Spec inst) = Some cfg"
  shows "list_all2 (installs_part view) (mayastor_plan defaulted E inst) (mayastor_steps E inst)"
    and "distinct (concat (map fst (mayastor_plan defaulted E inst)))"
proof -
  let ?k = "key_of (mayastorEtcdVeleroSchedule inst)"
  have "installs_part view ([], []) (etcdHealthCheck E)"
    and "installs_part view ([?k], []) (reconcileEtcdVeleroSchedule E inst)"
    using installs_quiet [of "[]"] installs_quiet [of "[?k]"] keeps_etcdHealthCheck keeps_velero
    by simp_all
  then show "list_all2 (installs_part view) (mayastor_plan defaulted E inst) (mayastor_steps E inst)"
    using object_steps installs_rbac_lists installs_crd_lists [OF assms(1)]
      installs_etcd [OF assms(1)]
    by (simp add: mayastor_steps_def mayastor_plan_def mayastor_objects_def assms(2)
        del: fst_conv snd_conv)
  show "distinct (concat (map fst (mayastor_plan defaulted E inst)))"
    by (simp add: mayastor_plan_def mayastor_objects_def assms(2) part_keys snapshot_crds_def
        mayastor_names etcd_sts_key_of etcd_sts_key_def schedule_kind_def snapshot_class_kind_def)
qed

lemma installs_mayastor:
  assumes "apimachinery E" and "spec_Mayastor (oe_Spec inst) = Some cfg"
  shows "installs_engine view defaulted E inst mayastorNamespace snapshot_crds
    (mayastor_objects inst) (etcd_part defaulted E inst) (mayastor_steps E inst)"
proof (rule installs_engineI [OF mayastor_plan [OF assms]])
  show "\<forall>k \<in> set (concat (map fst (tl (mayastor_plan defaulted E inst)))). fst k \<noteq> KNamespace"
    by (simp add: mayastor_plan_def mayastor_objects_def assms(2) part_keys snapshot_crds_def
        etcd_sts_key_of etcd_sts_key_def schedule_kind_def snapshot_class_kind_def)
  show "hd (mayastor_steps E inst) = ensureNamespace E mayastorNamespace"
    by (simp add: mayastor_steps_def)
qed (simp_all add: mayastor_plan_def part_defs footprint_def mayastor_objects_def assms(2)
    etcd_part_def etcd_sts_key_of snapshot_crds_def)

end

end
