(* ===== verification/Cleanup_Correct.thy ===== *)
theory Cleanup_Correct
  imports Cleanup Engines_Correct
begin

text \<open>
  What the removal of resources does to the cluster.  A pruning program only deletes: an object
  it does not delete is left as it was (\<open>prunes\<close>).  \<open>cleanupOrphans\<close> is shown to delete exactly
  the managed objects of its scopes that no enabled engine expects, \<open>cleanup\<close> exactly the keys
  of its list, and every object of an enabled engine is shown to be spared by the first.
\<close>

section \<open>Pruning\<close>

text \<open>
  \<open>prunes view P p\<close>: whatever its result, \<open>p\<close> changes the cluster by deleting objects that
  satisfy \<open>P\<close>; when it succeeds, none that satisfies \<open>P\<close> is left.
\<close>

definition only_deletes :: "('w \<Rightarrow> objkey \<Rightarrow> kobj option) \<Rightarrow> (objkey \<Rightarrow> kobj \<Rightarrow> bool) \<Rightarrow>
    'w \<Rightarrow> 'w \<Rightarrow> bool" where
  "only_deletes view P w w' \<longleftrightarrow> (\<forall>k. view w' k = view w k \<or>
     (view w' k = None \<and> (\<exists>ob. view w k = Some ob \<and> P k ob)))"

interpretation pruned: world_relation "only_deletes view P" for view P
proof unfold_locales
  show "only_deletes view P w w" for w by (simp add: only_deletes_def)
  show "only_deletes view P w1 w3"
    if "only_deletes view P w1 w2" "only_deletes view P w2 w3" for w1 w2 w3
    using that unfolding only_deletes_def by metis
qed

definition prunes :: "('w \<Rightarrow> objkey \<Rightarrow> kobj option) \<Rightarrow> (objkey \<Rightarrow> kobj \<Rightarrow> bool) \<Rightarrow>
    ('w, unit) prog \<Rightarrow> bool" where
  "prunes view P p \<longleftrightarrow> keeps (only_deletes view P) p \<and>
     (\<forall>w w'. p w = (Inr (), w') \<longrightarrow> (\<forall>k ob. view w' k = Some ob \<longrightarrow> \<not> P k ob))"

lemma only_deletes_mono:
  assumes "only_deletes view P w w'" and "\<And>k ob. view w k = Some ob \<Longrightarrow> P k ob \<Longrightarrow> Q k ob"
  shows "only_deletes view Q w w'"
  using assms unfolding only_deletes_def by metis

lemma prunes_deletes: "prunes view P p \<Longrightarrow> p w = (r, w') \<Longrightarrow> only_deletes view P w w'"
  unfolding prunes_def by (blast intro: pruned.keeps_result)

lemma prunes_clears: "prunes view P p \<Longrightarrow> p w = (Inr (), w') \<Longrightarrow> view w' k = Some ob \<Longrightarrow> \<not> P k ob"
  unfolding prunes_def by blast

text \<open>The exact effect of a pruning that succeeds.\<close>

lemma prunes_ok:
  assumes "prunes view P p" and "p w = (Inr (), w')"
  shows "view w' k = (case view w k of None \<Rightarrow> None | Some ob \<Rightarrow> if P k ob then None else Some ob)"
  using prunes_deletes [OF assms, unfolded only_deletes_def, rule_format, of k]
    prunes_clears [OF assms, of k]
  by (cases "view w k") auto

lemma prunes_cong: "(\<And>k ob. P k ob = Q k ob) \<Longrightarrow> prunes view P p \<Longrightarrow> prunes view Q p"
proof -
  assume "\<And>k ob. P k ob = Q k ob"
  then have "P = Q" by (intro ext)
  then show "prunes view P p \<Longrightarrow> prunes view Q p" by simp
qed

lemma prunes_ret: "prunes view (\<lambda>_ _. False) (ret ())"
  unfolding prunes_def by (auto intro: pruned.keeps_ret)

lemma prunes_bind:
  assumes p: "prunes view P p" and q: "prunes view Q q"
  shows "prunes view (\<lambda>k ob. P k ob \<or> Q k ob) (bindP p (\<lambda>_. q))"
  unfolding prunes_def
proof (intro conjI allI impI)
  have "keeps (only_deletes view (\<lambda>k ob. P k ob \<or> Q k ob)) m"
    if "prunes view R m" "\<And>k ob. R k ob \<Longrightarrow> P k ob \<or> Q k ob" for R and m :: "('a, unit) prog"
    using that unfolding prunes_def keeps_def by (blast intro: only_deletes_mono)
  with p q show "keeps (only_deletes view (\<lambda>k ob. P k ob \<or> Q k ob)) (bindP p (\<lambda>_. q))"
    by (intro pruned.keeps_bind) blast+
  fix w w' k ob
  assume "bindP p (\<lambda>_. q) w = (Inr (), w')" and v: "view w' k = Some ob"
  then obtain w1 where w1: "p w = (Inr (), w1)" and w': "q w1 = (Inr (), w')"
    by (auto elim: bindP_InrE)
  from prunes_deletes [OF q w'] v have "view w1 k = Some ob"
    unfolding only_deletes_def by (metis option.discI)
  from prunes_clears [OF p w1 this] prunes_clears [OF q w' v] show "\<not> (P k ob \<or> Q k ob)" by blast
qed

lemma prunes_steps:
  assumes "\<And>x. x \<in> set xs \<Longrightarrow> prunes view (P x) (f x)"
  shows "prunes view (\<lambda>k ob. \<exists>x \<in> set xs. P x k ob) (run_steps (map f xs))"
  using assms
proof (induction xs)
  case Nil
  show ?case using prunes_ret by simp
next
  case (Cons x xs)
  from Cons have "prunes view (\<lambda>k ob. P x k ob \<or> (\<exists>x \<in> set xs. P x k ob))
      (bindP (f x) (\<lambda>_. run_steps (map f xs)))"
    by (intro prunes_bind) simp_all
  then show ?case by simp
qed

context cluster_api
begin

lemma prunes_Delete: "prunes view (\<lambda>j _. j = k) (Delete E k)"
  unfolding prunes_def
proof (intro conjI allI impI)
  have "only_deletes view (\<lambda>j _. j = k) w (snd (cl_delete E k w))" for w
    using delete_ok [of k w] delete_err [of k w]
    by (cases "cl_delete E k w"; cases "fst (cl_delete E k w)") (auto simp: only_deletes_def)
  then show "keeps (only_deletes view (\<lambda>j _. j = k)) (Delete E k)"
    unfolding Delete_def by (rule pruned.keeps_call)
  show "j \<noteq> k" if "Delete E k w = (Inr (), w')" "view w' j = Some ob" for w w' j ob
    using that delete_ok [of k w "()" w']
    by (auto simp: Delete_def call_def split: prod.splits sum.splits)
qed

lemma prunes_delete_quietly: "prunes view (\<lambda>j _. j = k) (delete_quietly E k)"
  unfolding prunes_def
proof (intro conjI allI impI)
  have "keeps (only_deletes view (\<lambda>j _. j = k)) (Delete E k)"
    using prunes_Delete by (simp add: prunes_def)
  then show "keeps (only_deletes view (\<lambda>j _. j = k)) (delete_quietly E k)"
    unfolding delete_quietly_def
    by (intro pruned.keeps_bind pruned.keeps_attempt) (auto split: sum.split)
  show "j \<noteq> k" if q: "delete_quietly E k w = (Inr (), w')" and "view w' j = Some ob" for w w' j ob
  proof -
    have "view w' k = None"
    proof (cases "cl_delete E k w")
      case (Pair r w1)
      with q delete_ok [of k w _ w1] delete_err [of k w _ w1] show ?thesis
        by (cases r) (auto simp: delete_quietly_def Delete_def call_def bindP_def attempt_def
            prog_simps split: if_splits)
    qed
    with that(2) show ?thesis by auto
  qed
qed

section \<open>Orphans\<close>

lemma prunes_delete_orphans:
  "prunes view (\<lambda>k ob. listed (fst scope) (snd scope) managed_selector ob \<and>
      obj_name ob \<notin> set expected) (delete_orphans E expected scope)"
    (is "prunes view ?P ?p")
proof -
  let ?step = "\<lambda>ob. if obj_name ob \<notin> set expected then Delete E (key_of ob) else ret ()"
  let ?Q = "\<lambda>obs k (_ :: kobj). \<exists>ob \<in> set obs. k = key_of ob \<and> obj_name ob \<notin> set expected"
  have one: "prunes view (\<lambda>k _. k = key_of ob \<and> obj_name ob \<notin> set expected) (?step ob)" for ob
    using prunes_Delete prunes_ret by (cases "obj_name ob \<in> set expected") auto
  have steps: "prunes view (?Q obs) (run_steps (map ?step obs))" for obs
    by (rule prunes_steps) (rule one)
  have all: "only_deletes view ?P w w' \<and> (r = Inr () \<longrightarrow> (\<forall>k ob. view w' k = Some ob \<longrightarrow> \<not> ?P k ob))"
    if run: "?p w = (r, w')" for w r w'
  proof (cases "cl_list E (fst scope) (snd scope) managed_selector w")
    case (Pair l w1)
    show ?thesis
    proof (cases l)
      case (Inl e)
      with run Pair list_err [OF Pair [unfolded Inl]] show ?thesis
        by (auto simp: delete_orphans_def bindP_def call_def only_deletes_def)
    next
      case (Inr obs)
      with Pair list_ok have v: "view w1 = view w"
        and obs: "set obs = {ob. \<exists>k. view w k = Some ob \<and>
            listed (fst scope) (snd scope) managed_selector ob}" by blast+
      from run Pair Inr have r: "run_steps (map ?step obs) w1 = (r, w')"
        by (simp add: delete_orphans_def bindP_def call_def)
      have Q: "?Q obs k ob = ?P k ob" if "view w k = Some ob" for k ob
      proof -
        have "ob' = ob" if "ob' \<in> set obs" "key_of ob' = k" for ob'
          using that obs view_key \<open>view w k = Some ob\<close> by fastforce
        moreover have "ob \<in> set obs \<longleftrightarrow> listed (fst scope) (snd scope) managed_selector ob"
          using obs \<open>view w k = Some ob\<close> by blast
        ultimately show ?thesis using view_key [OF \<open>view w k = Some ob\<close>] by metis
      qed
      have "only_deletes view ?P w w'"
        using prunes_deletes [OF steps r] Q v unfolding only_deletes_def by metis
      moreover have "\<not> ?P k ob" if "r = Inr ()" "view w' k = Some ob" for k ob
      proof -
        from prunes_clears [OF steps, of obs w1 w' k ob] r that have "\<not> ?Q obs k ob" by simp
        moreover from prunes_deletes [OF steps r] that(2) v have "view w k = Some ob"
          unfolding only_deletes_def by (metis option.discI)
        ultimately show ?thesis using Q by blast
      qed
      ultimately show ?thesis by blast
    qed
  qed
  have "only_deletes view ?P w (snd (?p w))" for w
    using all [of w "fst (?p w)" "snd (?p w)"] by simp
  moreover have "\<not> ?P k ob" if "?p w = (Inr (), w')" "view w' k = Some ob" for w w' k ob
    using all [OF that(1)] that(2) by blast
  ultimately show ?thesis
    unfolding prunes_def keeps_def by blast
qed

end

text \<open>An object the operator manages, in one of the scopes it lists, that no engine expects.\<close>

definition in_scope :: "objkey \<Rightarrow> bool" where
  "in_scope k = list_ex (\<lambda>(kd, ns). fst k = kd \<and>
     (case ns of None \<Rightarrow> True | Some n \<Rightarrow> fst (snd k) = n)) orphan_scopes"

definition orphan :: "OpenEBS \<Rightarrow> kobj \<Rightarrow> bool" where
  "orphan inst ob \<longleftrightarrow> in_scope (key_of ob) \<and>
     has_labels managed_selector (om_labels (meta ob)) \<and>
     obj_name ob \<notin> set (expectedResources inst)"

lemma listed_key: "listed kd ns sel ob \<longleftrightarrow> (fst (key_of ob) = kd \<and>
     (case ns of None \<Rightarrow> True | Some n \<Rightarrow> fst (snd (key_of ob)) = n)) \<and>
     has_labels sel (om_labels (meta ob))"
  by (cases ns) (simp_all add: listed_def key_of_def)

lemma orphan_listed:
  "orphan inst ob \<longleftrightarrow> (\<exists>scope \<in> set orphan_scopes.
     listed (fst scope) (snd scope) managed_selector ob \<and>
     obj_name ob \<notin> set (expectedResources inst))"
  unfolding orphan_def in_scope_def list_ex_iff listed_key split_beta by blast

definition unwanted :: "OpenEBS \<Rightarrow> objkey \<Rightarrow> kobj \<Rightarrow> bool" where
  "unwanted inst k ob \<longleftrightarrow> orphan inst ob \<or>
     (\<not> scheduleWanted inst \<and> k = key_of (mayastorEtcdVeleroSchedule inst))"

context cluster_api
begin

lemma prunes_cleanupOrphans: "prunes view (unwanted inst) (cleanupOrphans E inst)"
proof -
  let ?last = "if \<not> scheduleWanted inst
    then delete_quietly E (key_of (mayastorEtcdVeleroSchedule inst)) else ret ()"
  have "prunes view (\<lambda>k ob. orphan inst ob)
      (run_steps (map (delete_orphans E (expectedResources inst)) orphan_scopes))"
    unfolding orphan_listed by (rule prunes_steps) (rule prunes_delete_orphans)
  moreover have "prunes view (\<lambda>k _. \<not> scheduleWanted inst \<and>
      k = key_of (mayastorEtcdVeleroSchedule inst)) (run_steps [?last])"
  proof -
    have "run_steps [?last] = ?last" by (auto simp: bindP_def ret_def fun_eq_iff split: prod.splits sum.splits)
    then show ?thesis
      using prunes_delete_quietly prunes_ret by (cases "scheduleWanted inst") auto
  qed
  ultimately have "prunes view (\<lambda>k ob. orphan inst ob \<or> \<not> scheduleWanted inst \<and>
      k = key_of (mayastorEtcdVeleroSchedule inst)) (cleanupOrphans E inst)"
    unfolding cleanupOrphans_def run_steps_append by (rule prunes_bind)
  then show ?thesis by (rule prunes_cong [rotated]) (simp add: unwanted_def)
qed

section \<open>Removing everything\<close>

lemma prunes_quiet_list:
  "prunes view (\<lambda>k _. k \<in> key_of ` set obs)
    (run_steps (map (\<lambda>ob. delete_quietly E (key_of ob)) obs))"
proof (rule prunes_cong)
  show "prunes view (\<lambda>k ob. \<exists>x \<in> set obs. k = key_of x)
      (run_steps (map (\<lambda>ob. delete_quietly E (key_of ob)) obs))"
    by (rule prunes_steps) (rule prunes_delete_quietly)
qed auto

lemma cleanup_parsed:
  "cleanup_objects E inst = Inr obs \<Longrightarrow>
     cleanup E inst w = run_steps (map (\<lambda>ob. delete_quietly E (key_of ob)) obs) w"
  by (simp add: cleanup_def bindP_def pure_def)

lemma cleanup_unparsed:
  "cleanup_objects E inst = Inl x \<Longrightarrow> cleanup E inst w = (Inl x, w)"
  by (simp add: cleanup_def bindP_def pure_def)

end

lemma cleanup_objects_Inl:
  "cleanup_objects L inst = Inl x \<longleftrightarrow> \<not> quantity_ok L (etcd_storage_size inst) \<and>
     x = GoPanic (''cannot parse '' @ etcd_storage_size inst)"
proof (cases "quantity_ok L (etcd_storage_size inst)")
  case True
  then have "mayastorEtcdStatefulSet L inst = Inr (etcd_sts inst)"
    by (simp add: mayastorEtcdStatefulSet_Inr etcd_sts_def)
  with True show ?thesis by (simp add: cleanup_objects_def)
next
  case False
  then have "mayastorEtcdStatefulSet L inst =
      Inl (GoPanic (''cannot parse '' @ etcd_storage_size inst))"
    by (simp add: mayastorEtcdStatefulSet_Inl)
  with False show ?thesis by (auto simp: cleanup_objects_def)
qed

lemma cleanup_objects_Inr:
  "(\<exists>obs. cleanup_objects L inst = Inr obs) \<longleftrightarrow> quantity_ok L (etcd_storage_size inst)"
  using cleanup_objects_Inl [of L inst] by (cases "cleanup_objects L inst") auto

section \<open>What an engine keeps\<close>

text \<open>
  The contract between an engine and the clean-up of orphans: while the engine is enabled, the
  names of its objects are expected in every scope the clean-up looks at.
\<close>

locale engine_inventory =
  fixes enabled :: "OpenEBS \<Rightarrow> bool" and objs :: "OpenEBS \<Rightarrow> kobj list"
  assumes expected: "enabled inst \<Longrightarrow> ob \<in> set (objs inst) \<Longrightarrow> in_scope (key_of ob) \<Longrightarrow>
      obj_name ob \<in> set (expectedResources inst)"
    and no_schedule: "ob \<in> set (objs inst) \<Longrightarrow> fst (key_of ob) \<noteq> schedule_kind"
begin

lemma not_unwanted:
  assumes "enabled inst" and "ob \<in> set (objs inst)" and "key_of st = key_of ob"
  shows "\<not> unwanted inst (key_of ob) st"
  using expected [OF assms(1,2)] no_schedule [OF assms(2)] assms(3)
  by (auto simp: unwanted_def orphan_def obj_name_key key_simps)

text \<open>The clean-up, successful or not, leaves the objects of the engine alone.\<close>

lemma spared:
  assumes "prunes view (unwanted inst) p" and "\<And>w k ob. view w k = Some ob \<Longrightarrow> key_of ob = k"
    and "p w = (r, w')" and "enabled inst" and "ob \<in> set (objs inst)"
  shows "view w' (key_of ob) = view w (key_of ob)"
  using prunes_deletes [OF assms(1,3)] not_unwanted [OF assms(4,5)] assms(2)
  unfolding only_deletes_def by metis

end

text \<open>The names the enabled engines put among the expected ones.\<close>

lemma expected_names:
  "spec_LVM (oe_Spec inst) = Some l \<Longrightarrow> lvm_Enabled l \<Longrightarrow>
     n \<in> {''openebs-lvm-controller'', ''openebs-lvm-node'', ''local.csi.openebs.io'',
       ''openebs-lvm-role'', ''openebs-lvm-binding'', name_or (lvm_StorageClassName l) lvmSCName} \<Longrightarrow>
     n \<in> set (expectedResources inst)"
  "spec_Hostpath (oe_Spec inst) = Some h \<Longrightarrow> hp_Enabled h \<Longrightarrow>
     n \<in> {''openebs-localpv-provisioner'', name_or (hp_StorageClassName h) hostpathSCName} \<Longrightarrow>
     n \<in> set (expectedResources inst)"
  "spec_ZFS (oe_Spec inst) = Some z \<Longrightarrow> zfs_Enabled z \<Longrightarrow>
     n \<in> {''openebs-zfs-controller'', ''openebs-zfs-node'', ''zfs.csi.openebs.io'',
       ''openebs-zfs-role'', ''openebs-zfs-binding'', name_or (zfs_StorageClassName z) zfsSCName} \<Longrightarrow>
     n \<in> set (expectedResources inst)"
  "spec_Rawfile (oe_Spec inst) = Some r \<Longrightarrow> rf_Enabled r \<Longrightarrow>
     n \<in> {''openebs-rawfile-provisioner'', ''openebs-rawfile-role'', ''openebs-rawfile-binding'',
       rawfileSCName} \<Longrightarrow>
     n \<in> set (expectedResources inst)"
  "spec_Mayastor (oe_Spec inst) = Some m \<Longrightarrow> ms_Enabled m \<Longrightarrow>
     n \<in> {mayastorEtcdName, mayastorAgentCoreName, mayastorAPIRestName, mayastorCSIControllerName,
       mayastorIOEngineName, mayastorCSINodeName, mayastorHANodeName, mayastorDiskpoolName,
       mayastorServiceAccountName, mayastorClusterRoleName, mayastorClusterRoleBindingName,
       mayastorCSIDriverName, name_or (ms_StorageClassName m) mayastorSCName} \<Longrightarrow>
     n \<in> set (expectedResources inst)"
  unfolding expectedResources_def Let_def
  by (simp_all add: name_or_def openebs_names, auto)

text \<open>Some kinds the clean-up does not list.\<close>

lemma not_in_scope [simp]:
  "\<not> in_scope (KConfigMap, k)" "\<not> in_scope (KService, k)" "\<not> in_scope (KNamespace, k)"
  "\<not> in_scope (KUnstructured v kd, k)"
  by (simp_all add: in_scope_def orphan_scopes_def)

interpretation lvm_inventory: engine_inventory lvm_on lvm_objects
proof unfold_locales
  fix inst ob
  assume "lvm_on inst" and ob: "ob \<in> set (lvm_objects inst)" and "in_scope (key_of ob)"
  then obtain c where c: "spec_LVM (oe_Spec inst) = Some c" "lvm_Enabled c"
    by (auto simp: lvm_on_def split: option.splits)
  with ob \<open>in_scope (key_of ob)\<close> have "obj_name ob \<in> {''openebs-lvm-controller'', ''openebs-lvm-node'', ''local.csi.openebs.io'',
      ''openebs-lvm-role'', ''openebs-lvm-binding'', name_or (lvm_StorageClassName c) lvmSCName}"
    by (auto simp: lvm_objects_def obj_name_key key_simps openebs_names)
  then show "obj_name ob \<in> set (expectedResources inst)" by (rule expected_names(1) [OF c])
qed (auto simp: lvm_objects_def key_simps schedule_kind_def split: option.splits)

interpretation hostpath_inventory: engine_inventory hostpath_on hostpath_objects
proof unfold_locales
  fix inst ob
  assume "hostpath_on inst" and ob: "ob \<in> set (hostpath_objects inst)" and "in_scope (key_of ob)"
  then obtain c where c: "spec_Hostpath (oe_Spec inst) = Some c" "hp_Enabled c"
    by (auto simp: hostpath_on_def split: option.splits)
  with ob \<open>in_scope (key_of ob)\<close> have "obj_name ob \<in> {''openebs-localpv-provisioner'', name_or (hp_StorageClassName c) hostpathSCName}"
    by (auto simp: hostpath_objects_def obj_name_key key_simps openebs_names)
  then show "obj_name ob \<in> set (expectedResources inst)" by (rule expected_names(2) [OF c])
qed (auto simp: hostpath_objects_def key_simps schedule_kind_def split: option.splits)

interpretation zfs_inventory: engine_inventory zfs_on zfs_objects
proof unfold_locales
  fix inst ob
  assume "zfs_on inst" and ob: "ob \<in> set (zfs_objects inst)" and "in_scope (key_of ob)"
  then obtain c where c: "spec_ZFS (oe_Spec inst) = Some c" "zfs_Enabled c"
    by (auto simp: zfs_on_def split: option.splits)
  with ob \<open>in_scope (key_of ob)\<close> have "obj_name ob \<in> {''openebs-zfs-controller'', ''openebs-zfs-node'', ''zfs.csi.openebs.io'',
      ''openebs-zfs-role'', ''openebs-zfs-binding'', name_or (zfs_StorageClassName c) zfsSCName}"
    by (auto simp: zfs_objects_def obj_name_key key_simps openebs_names)
  then show "obj_name ob \<in> set (expectedResources inst)" by (rule expected_names(3) [OF c])
qed (auto simp: zfs_objects_def key_simps schedule_kind_def split: option.splits)

interpretation rawfile_inventory: engine_inventory rawfile_on rawfile_objects
proof unfold_locales
  fix inst ob
  assume "rawfile_on inst" and ob: "ob \<in> set (rawfile_objects inst)" and "in_scope (key_of ob)"
  then obtain c where c: "spec_Rawfile (oe_Spec inst) = Some c" "rf_Enabled c"
    by (auto simp: rawfile_on_def split: option.splits)
  with ob \<open>in_scope (key_of ob)\<close> have "obj_name ob \<in> {''openebs-rawfile-provisioner'', ''openebs-rawfile-role'',
      ''openebs-rawfile-binding'', rawfileSCName}"
    by (auto simp: rawfile_objects_def obj_name_key key_simps openebs_names)
  then show "obj_name ob \<in> set (expectedResources inst)" by (rule expected_names(4) [OF c])
qed (auto simp: rawfile_objects_def key_simps schedule_kind_def split: option.splits)

interpretation mayastor_inventory: engine_inventory mayastor_on "\<lambda>inst. etcd_sts inst # mayastor_objects inst"
proof unfold_locales
  fix inst ob
  assume "mayastor_on inst" and ob: "ob \<in> set (etcd_sts inst # mayastor_objects inst)" and "in_scope (key_of ob)"
  then obtain c where c: "spec_Mayastor (oe_Spec inst) = Some c" "ms_Enabled c"
    by (auto simp: mayastor_on_def split: option.splits)
  with ob \<open>in_scope (key_of ob)\<close> have "obj_name ob \<in> {mayastorEtcdName, mayastorAgentCoreName, mayastorAPIRestName,
      mayastorCSIControllerName, mayastorIOEngineName, mayastorCSINodeName, mayastorHANodeName,
      mayastorDiskpoolName, mayastorServiceAccountName, mayastorClusterRoleName,
      mayastorClusterRoleBindingName, mayastorCSIDriverName,
      name_or (ms_StorageClassName c) mayastorSCName}"
    by (auto simp: mayastor_objects_def obj_name_key key_simps etcd_sts_key_def snapshot_class_kind_def )
  then show "obj_name ob \<in> set (expectedResources inst)" by (rule expected_names(5) [OF c])
qed (auto simp: mayastor_objects_def key_simps etcd_sts_key_def snapshot_class_kind_def schedule_kind_def split: option.splits)

section \<open>The clean-up of orphans\<close>

text \<open> C10: a clean-up of orphans that succeeds removes exactly the unwanted
  objects (managed, in a scope, expected by no enabled engine; and the Velero Schedule when none
  is wanted), and leaves every other object as it was.\<close>

theorem cleanupOrphans_exact:
  assumes "cluster_api E view d" and "cleanupOrphans E inst w = (Inr (), w')"
  shows "view w' k = (case view w k of None \<Rightarrow> None
    | Some ob \<Rightarrow> if unwanted inst k ob then None else Some ob)"
  by (rule prunes_ok [OF cluster_api.prunes_cleanupOrphans [OF assms(1)] assms(2)])

text \<open>Whatever its result, the clean-up of orphans changes an object only
  by deleting it, and only if it is the Velero Schedule nobody wants, or carries the operator's
  managed-by label, lies in a scope the clean-up lists and has a name no enabled engine expects.\<close>

theorem cleanupOrphans_safe:
  assumes "cluster_api E view d" and "cleanupOrphans E inst w = (r, w')"
    and "view w' k \<noteq> view w k"
  shows "view w' k = None \<and> (\<exists>ob. view w k = Some ob \<and>
    (k = key_of (mayastorEtcdVeleroSchedule inst) \<and> \<not> scheduleWanted inst \<or>
     map_of (om_labels (meta ob)) managedLabelKey = Some managedLabelValue \<and>
     in_scope k \<and> snd (snd k) \<notin> set (expectedResources inst)))"
proof -
  from prunes_deletes [OF cluster_api.prunes_cleanupOrphans [OF assms(1)] assms(2)] assms(3)
  obtain ob where v: "view w' k = None" "view w k = Some ob" and u: "unwanted inst k ob"
    unfolding only_deletes_def by metis
  from cluster_api.view_key [OF assms(1) v(2)] have "key_of ob = k" .
  with u v show ?thesis
    by (auto simp: unwanted_def orphan_def has_labels_def managed_selector_def obj_name_key)
qed

definition inventories :: "OpenEBS \<Rightarrow> (bool \<times> kobj list) list" where
  "inventories inst = [(lvm_on inst, lvm_objects inst), (zfs_on inst, zfs_objects inst),
     (hostpath_on inst, hostpath_objects inst), (rawfile_on inst, rawfile_objects inst),
     (mayastor_on inst, etcd_sts inst # mayastor_objects inst)]"

lemma inventory_wanted:
  assumes "(True, obs) \<in> set (inventories inst)" and "ob \<in> set obs" and "key_of st = key_of ob"
  shows "\<not> unwanted inst (key_of ob) st"
proof -
  from assms(1) consider "lvm_on inst" "obs = lvm_objects inst"
    | "zfs_on inst" "obs = zfs_objects inst"
    | "hostpath_on inst" "obs = hostpath_objects inst"
    | "rawfile_on inst" "obs = rawfile_objects inst"
    | "mayastor_on inst" "obs = etcd_sts inst # mayastor_objects inst"
    unfolding inventories_def by auto
  then show ?thesis
    using assms(2,3) lvm_inventory.not_unwanted zfs_inventory.not_unwanted
      hostpath_inventory.not_unwanted rawfile_inventory.not_unwanted
      mayastor_inventory.not_unwanted
    by cases blast+
qed

lemma cleanupOrphans_keeps:
  assumes "cluster_api E view d" and "cleanupOrphans E inst w = (r, w')"
    and "\<And>st. view w k = Some st \<Longrightarrow> \<not> unwanted inst k st"
  shows "view w' k = view w k"
  using prunes_deletes [OF cluster_api.prunes_cleanupOrphans [OF assms(1)] assms(2)] assms(3)
  unfolding only_deletes_def by metis

text \<open> C11: every object of an enabled engine survives the clean-up of
  orphans, whatever the result of the clean-up: the names in \<open>expectedResources\<close> cover, for each
  of the five engines, all the objects its deployment writes in the scopes that are listed.\<close>

theorem cleanupOrphans_spares_engines:
  assumes "cluster_api E view d" and "cleanupOrphans E inst w = (r, w')"
    and "(True, obs) \<in> set (inventories inst)" and "ob \<in> set obs"
  shows "view w' (key_of ob) = view w (key_of ob)"
  using assms(1,2)
  by (rule cleanupOrphans_keeps)
    (rule inventory_wanted [OF assms(3,4)], erule cluster_api.view_key [OF assms(1)])

text \<open>The ClusterRoles of LVM and ZFS are written without labels, so the
  clean-up of orphans leaves them in the cluster also when the engine is switched off.\<close>

theorem engine_roles_leak:
  assumes "cluster_api E view d" and "cleanupOrphans E inst w = (r, w')"
    and "role \<in> {lvmClusterRole, zfsClusterRole}"
    and "view w (key_of role) = Some st" and "om_labels (meta st) = om_labels (meta role)"
  shows "view w' (key_of role) = Some st"
proof -
  have "om_labels (meta role) = []" and "fst (key_of role) = KClusterRole"
    using assms(3) by (auto simp: lvmClusterRole_def zfsClusterRole_def key_simps)
  then have "\<not> unwanted inst (key_of role) st"
    using assms(5) by (auto simp: unwanted_def orphan_def has_labels_def managed_selector_def
        key_simps schedule_kind_def)
  then show ?thesis
    using cleanupOrphans_keeps [OF assms(1,2), of "key_of role"] assms(4) by simp
qed

section \<open>The clean-up on deletion\<close>

definition cleanup_keys :: "OpenEBS \<Rightarrow> objkey set" where
  "cleanup_keys inst = {
     (KDeployment, openebsNamespace, lvmControllerName),
     (KDaemonSet, openebsNamespace, lvmNodeName),
     (KDeployment, openebsNamespace, hostpathDeployName),
     (KDeployment, openebsNamespace, zfsControllerName),
     (KDaemonSet, openebsNamespace, zfsNodeName),
     key_of zfsBinConfigMap,
     (KDeployment, openebsNamespace, rawfileDeployName),
     (KStatefulSet, mayastorNamespace, mayastorEtcdName),
     (KService, mayastorNamespace, mayastorAgentCoreServiceName),
     (KService, mayastorNamespace, mayastorMetricsExporterSvcName),
     (KUnstructured ''snapshot.storage.k8s.io/v1'' ''VolumeSnapshotClass'', '''',
      mayastorSnapshotClassName),
     key_of (mayastorEtcdVeleroSchedule inst)} \<union>
   (\<lambda>n. (KDeployment, mayastorNamespace, n)) ` {mayastorAgentCoreName, mayastorAPIRestName,
     mayastorCSIControllerName, mayastorDiskpoolName} \<union>
   (\<lambda>n. (KDaemonSet, mayastorNamespace, n)) ` {mayastorIOEngineName, mayastorCSINodeName,
     mayastorHANodeName} \<union>
   (\<lambda>n. (KCSIDriver, '''', n)) ` {lvmCSIDriverName, zfsCSIDriverName, mayastorCSIDriverName} \<union>
   (\<lambda>n. (KStorageClass, '''', n)) ` {lvmSCName, hostpathSCName, zfsSCName, rawfileSCName,
     mayastorSCName} \<union>
   crd_key ` set (lvm_crds @ zfs_crds @ snapshot_crds)"

text \<open>Two resources differ only in the Schedule; it is the only one of its kind in the list.\<close>

lemma cleanup_keys_differ:
  assumes "k \<in> cleanup_keys inst" and "fst k \<noteq> schedule_kind"
  shows "k \<in> cleanup_keys inst'"
proof -
  have "cleanup_keys inst \<subseteq> insert (key_of (mayastorEtcdVeleroSchedule inst)) (cleanup_keys inst')"
    unfolding cleanup_keys_def by blast
  moreover have "fst (key_of (mayastorEtcdVeleroSchedule inst)) = schedule_kind"
    by (simp add: key_simps)
  ultimately show ?thesis using assms by auto
qed

lemma cleanup_keys_schedule:
  "k \<in> cleanup_keys inst \<Longrightarrow> fst k = schedule_kind \<Longrightarrow>
    k = key_of (mayastorEtcdVeleroSchedule inst)"
  by (auto simp: cleanup_keys_def key_simps schedule_kind_def crd_key_def crd_kind_def)

lemma cleanup_objects_keys:
  assumes "cleanup_objects L inst = Inr obs"
  shows "key_of ` set obs = cleanup_keys inst"
proof -
  have "quantity_ok L (etcd_storage_size inst)" using cleanup_objects_Inr [of L inst] assms by blast
  then have "mayastorEtcdStatefulSet L inst = Inr (etcd_sts inst)"
    by (simp add: mayastorEtcdStatefulSet_Inr etcd_sts_def)
  with assms have "obs = (case cleanup_objects L inst of Inl x \<Rightarrow> [] | Inr xs \<Rightarrow> xs)" by simp
  also have "key_of ` set ... = cleanup_keys inst"
    unfolding cleanup_objects_def \<open>mayastorEtcdStatefulSet L inst = Inr (etcd_sts inst)\<close>
    by (simp add: cleanup_keys_def key_simps csi_driver_named_def storage_class_named_def
        crd_named_def etcd_sts_key_of etcd_sts_key_def lvm_crds_def zfs_crds_def snapshot_crds_def
        crd_key_def crd_kind_def insert_commute)
  finally show ?thesis .
qed

lemma prunes_cleanup:
  assumes "cluster_api E view d" and "quantity_ok E (etcd_storage_size inst)"
  shows "prunes view (\<lambda>k _. k \<in> cleanup_keys inst) (cleanup E inst)"
proof -
  from assms(2) cleanup_objects_Inr obtain obs where obs: "cleanup_objects E inst = Inr obs"
    by blast
  have "cleanup E inst = run_steps (map (\<lambda>ob. delete_quietly E (key_of ob)) obs)"
    by (rule ext) (rule cluster_api.cleanup_parsed [OF assms(1) obs])
  with cluster_api.prunes_quiet_list [OF assms(1), of obs] cleanup_objects_keys [OF obs]
  show ?thesis by simp
qed

lemma cleanup_touches:
  assumes "cluster_api E view d" and "cleanup E inst w = (r, w')" and "view w' k \<noteq> view w k"
  shows "k \<in> cleanup_keys inst \<and> view w' k = None"
proof (cases "quantity_ok E (etcd_storage_size inst)")
  case True
  from prunes_deletes [OF prunes_cleanup [OF assms(1) this] assms(2)] assms(3) show ?thesis
    unfolding only_deletes_def by metis
next
  case False
  then obtain x where "cleanup_objects E inst = Inl x" using cleanup_objects_Inl by blast
  with assms(2) have "w' = w" by (simp add: cleanup_def bindP_def pure_def)
  with assms(3) show ?thesis by simp
qed

lemma cleanup_panics_iff:
  "(\<exists>m w'. cleanup E inst w = (Inl (GoPanic m), w')) \<longleftrightarrow> \<not> quantity_ok E (etcd_storage_size inst)"
  if "kube_client E"
proof (cases "cleanup_objects E inst")
  case (Inl x)
  then have "cleanup E inst w = (Inl x, w)" by (simp add: cleanup_def bindP_def pure_def)
  with Inl show ?thesis by (auto simp: cleanup_objects_Inl)
next
  case (Inr obs)
  then have "no_panic (cleanup E inst)"
    unfolding cleanup_def delete_quietly_def
    by (intro no_panic_bind no_panic_steps) (auto split: sum.split)
  moreover from Inr have "quantity_ok E (etcd_storage_size inst)"
    using cleanup_objects_Inr [of E inst] by blast
  ultimately show ?thesis by (auto simp: no_panic_def)
qed

lemma engine_workloads_cleaned:
  assumes "(en, obs) \<in> set (inventories inst)" and "ob \<in> set obs"
    and "fst (key_of ob) \<in> {KDeployment, KDaemonSet, KStatefulSet, KCSIDriver}"
  shows "key_of ob \<in> cleanup_keys inst"
proof -
  from assms(1,2) consider "ob \<in> set (lvm_objects inst)" | "ob \<in> set (zfs_objects inst)"
    | "ob \<in> set (hostpath_objects inst)" | "ob \<in> set (rawfile_objects inst)"
    | "ob = etcd_sts inst" | "ob \<in> set (mayastor_objects inst)"
    unfolding inventories_def by auto
  then show ?thesis
    using assms(3)
    by cases (auto simp: engine_objects key_simps cleanup_keys_def etcd_sts_key_def
        snapshot_class_kind_def split: option.splits)
qed

text \<open>The workloads of the engines, whatever a resource says, are in the list of every resource.\<close>

definition operator_workload :: "objkey \<Rightarrow> bool" where
  "operator_workload k \<longleftrightarrow> fst k \<in> {KDeployment, KDaemonSet, KStatefulSet, KCSIDriver} \<and>
     (\<exists>inst. \<exists>(en, obs) \<in> set (inventories inst). k \<in> key_of ` set obs)"

lemma workload_in_list:
  assumes "operator_workload k"
  shows "k \<in> cleanup_keys inst"
proof -
  from assms obtain inst' en obs ob where ob: "(en, obs) \<in> set (inventories inst')" "ob \<in> set obs"
    and k: "k = key_of ob" "fst k \<in> {KDeployment, KDaemonSet, KStatefulSet, KCSIDriver}"
    unfolding operator_workload_def by auto
  from engine_workloads_cleaned [OF ob] k have "k \<in> cleanup_keys inst'" by simp
  then show ?thesis by (rule cleanup_keys_differ) (use k(2) in \<open>auto simp: schedule_kind_def\<close>)
qed

lemma definitions_in_list: "crd_key f \<in> cleanup_keys inst"
  by (cases f) (simp_all add: cleanup_keys_def lvm_crds_def zfs_crds_def snapshot_crds_def)

text \<open> C21: a clean-up on deletion that succeeds leaves no object under the keys of its list and
  every other object as it was; one that does not succeed (an error, or a panic over an etcd size
  that is no quantity) has only deleted objects of that list. The list of any resource holds every
  Deployment, DaemonSet, StatefulSet and CSIDriver that an engine writes for this or any other
  resource, enabled or not, and every embedded custom resource definition.\<close>

theorem cleanup_exact:
  assumes "cluster_api E view d" and "cleanup E inst w = (r, w')"
  shows "(r = Inr () \<longrightarrow> view w' k = (if k \<in> cleanup_keys inst then None else view w k)) \<and>
    (view w' k \<noteq> view w k \<longrightarrow> k \<in> cleanup_keys inst \<and> view w' k = None) \<and>
    (operator_workload k \<or> k \<in> range crd_key \<longrightarrow> k \<in> cleanup_keys inst)"
proof (intro conjI impI)
  show "k \<in> cleanup_keys inst" "view w' k = None" if "view w' k \<noteq> view w k"
    using cleanup_touches [OF assms that] by simp_all
  show "view w' k = (if k \<in> cleanup_keys inst then None else view w k)" if "r = Inr ()"
  proof -
    have "quantity_ok E (etcd_storage_size inst)"
      using cleanup_panics_iff [OF cluster_api.axioms(1) [OF assms(1)], of inst w] assms(2) that
      by auto
    from prunes_ok [OF prunes_cleanup [OF assms(1) this]] assms(2) that show ?thesis
      by (auto split: option.split)
  qed
  show "k \<in> cleanup_keys inst" if "operator_workload k \<or> k \<in> range crd_key"
    using that workload_in_list definitions_in_list by blast
qed

text \<open>When the clean-up on deletion succeeds, no workload of any
  engine is left: no Deployment, DaemonSet, StatefulSet or CSIDriver that a deployment of one of
  the five engines writes for this resource, enabled or not.\<close>

theorem cleanup_covers_workloads:
  assumes "cluster_api E view d" and "cleanup E inst w = (Inr (), w')"
    and "(en, obs) \<in> set (inventories inst)" and "ob \<in> set obs"
    and "fst (key_of ob) \<in> {KDeployment, KDaemonSet, KStatefulSet, KCSIDriver}"
  shows "view w' (key_of ob) = None"
proof -
  have q: "quantity_ok E (etcd_storage_size inst)"
  proof (rule ccontr)
    assume "\<not> quantity_ok E (etcd_storage_size inst)"
    with cleanup_panics_iff [OF cluster_api.axioms(1) [OF assms(1)], of inst w] assms(2)
    show False by auto
  qed
  from prunes_clears [OF prunes_cleanup [OF assms(1) q] assms(2), of "key_of ob"]
    engine_workloads_cleaned [OF assms(3-5)]
  show ?thesis by (cases "view w' (key_of ob)") auto
qed

end
