(* ===== verification/Object_Calls.thy ===== *)
theory Object_Calls
  imports Reconcile Cleanup_Correct
begin

text \<open>
  What the engines and the two clean-ups have in common: they reach the world only through the
  calls on cluster objects, the list, the namespace helper and the health check.  A relation on
  worlds that these calls keep is kept by each of them as a whole (\<open>object_calls\<close>).  This is used
  for the log of requests, for the custom resources beside the objects, and for permissions.
\<close>

text \<open>The kinds of the objects the operator handles.\<close>

definition operator_kinds :: "kind set" where
  "operator_kinds = {KNamespace, KDeployment, KDaemonSet, KStatefulSet, KService, KServiceAccount,
     KClusterRole, KClusterRoleBinding, KCSIDriver, KStorageClass, KConfigMap, crd_kind,
     snapshot_class_kind, schedule_kind}"

text \<open>
  The calls keep \<open>R\<close> for the keys that are \<open>ok\<close>; those are all keys of the operator's kinds and
  the keys of the embedded definitions.
\<close>

locale object_calls = kube_client E + world_relation R
  for E :: "'a env" and R :: "'a \<Rightarrow> 'a \<Rightarrow> bool" +
  fixes ok :: "objkey \<Rightarrow> bool"
  assumes ok_kinds: "fst k \<in> operator_kinds \<Longrightarrow> ok k"
    and ok_crds: "decode_yaml E cf = Inr ob \<Longrightarrow> ok (key_of ob)"
    and ok_get: "ok k \<Longrightarrow> R w (snd (cl_get E k w))"
    and ok_delete: "ok k \<Longrightarrow> R w (snd (cl_delete E k w))"
    and ok_create: "ok (key_of ob) \<Longrightarrow> R w (snd (cl_create E ob w))"
    and ok_update: "ok (key_of ob) \<Longrightarrow> R w (snd (cl_update E ob w))"
    and ok_list: "kd \<in> operator_kinds \<Longrightarrow> R w (snd (cl_list E kd ns sel w))"
    and ok_ensure: "(\<And>x. key_of (f x) = key_of x) \<Longrightarrow> ok (key_of ob) \<Longrightarrow>
      R w (snd (create_or_update E f ob w))"
    and ok_http: "R w (snd (http_get E url w))"
    and ok_listed: "kd \<in> operator_kinds \<Longrightarrow> cl_list E kd ns sel w = (Inr obs, w') \<Longrightarrow>
      ob \<in> set obs \<Longrightarrow> ok (key_of ob)"
begin

lemma ok_key_calls: "ok k \<Longrightarrow> key_calls E R k"
  by unfold_locales (auto intro: ok_get ok_delete ok_create ok_update)

lemmas calls_object = key_calls.keeps_object [OF ok_key_calls]

lemma calls_Get: "ok k \<Longrightarrow> keeps R (Get E k)" and calls_Delete: "ok k \<Longrightarrow> keeps R (Delete E k)"
  by (rule key_calls.keeps_Get key_calls.keeps_Delete, rule ok_key_calls, assumption)+

lemma calls_objects [intro]:
  assumes "fst (key_of ob) \<in> operator_kinds"
  shows "keeps R (apply_to E inst ob)" "keeps R (apply_class E inst ob)"
    "keeps R (applyDeployment E inst ob)" "keeps R (applyDaemonSet E inst ob)"
    "keeps R (applyCSIDriver E inst ob)"
    "keeps R (run_obj ob (applyService E i))" "keeps R (run_obj ob (applyStatefulSet E i))"
    "keeps R (run_obj ob (applyUnstructured E i))" "keeps R (run_obj ob (apply_obj E i))"
  unfolding typed_apply_defs apply_to_def apply_class_def
  by (rule calls_object [OF ok_kinds [OF assms]], rule HOL.refl)+

lemma calls_namespace [intro]: "keeps R (ensureNamespace E n)"
  unfolding ensureNamespace_def
  by (intro keeps_bind keeps_call ok_ensure ok_kinds keeps_ret)
    (simp_all add: privileged_labels_def key_of_def namespace_obj_def operator_kinds_def)

lemma calls_crd_lists [intro]: "keeps R (applyLVMCRDs E i)" "keeps R (applyZFSCRDs E i)"
  "keeps R (applyVolumeSnapshotCRDs E i)"
proof -
  have "keeps R (applyCRD E i f)" for f
    unfolding applyCRD_def
    by (cases "decode_yaml E f") (auto intro!: calls_object [OF ok_crds])
  then have "keeps R (applyCRDs E i fs)" for fs
    unfolding applyCRDs_def by (intro keeps_run_steps) auto
  then show "keeps R (applyLVMCRDs E i)" "keeps R (applyZFSCRDs E i)"
    "keeps R (applyVolumeSnapshotCRDs E i)"
    by (simp_all add: applyLVMCRDs_def applyZFSCRDs_def applyVolumeSnapshotCRDs_def)
qed

lemma calls_rbac [intro]:
  assumes "fst (key_of sa) \<in> operator_kinds" "fst (key_of cr) \<in> operator_kinds"
    and "fst (key_of crb) \<in> operator_kinds"
  shows "keeps R (applyRBAC E i sa cr crb)"
  unfolding applyRBAC_def using assms by (intro keeps_run_steps) auto

lemma calls_delete [intro]: "ok k \<Longrightarrow> keeps R (delete_quietly E k)"
  unfolding delete_quietly_def by (auto intro!: calls_Delete split: sum.split)

lemma calls_health [intro]: "keeps R (etcdHealthCheck E)"
proof -
  have "keeps R (\<lambda>w. case http_get E etcd_health_url w of
      (Inl m, w') \<Rightarrow> fail (f m) w'
    | (Inr code, w') \<Rightarrow> if code \<noteq> 200 then fail (g code) w' else ret () w')" for f g
    using ok_http unfolding keeps_def
    by (auto simp: prog_simps split: prod.splits sum.splits) (metis snd_conv)+
  moreover have "ok etcd_sts_key"
    by (rule ok_kinds) (simp add: etcd_sts_key_def operator_kinds_def)
  ultimately show ?thesis
    unfolding etcdHealthCheck_def by (auto intro!: calls_Get split: sum.split)
qed

lemma calls_deploy_engine:
  "(\<And>p. p \<in> set steps \<Longrightarrow> keeps R p) \<Longrightarrow> keeps R (deploy_engine e msg steps)"
  unfolding deploy_engine_def by (auto intro!: keeps_run_steps split: sum.split)

lemma calls_run_engines:
  "\<forall>(en, nm, dep) \<in> set table. keeps R dep \<Longrightarrow> keeps R (run_engines table acc)"
  by (induction table acc rule: run_engines.induct) auto

lemmas kinds = operator_kinds_def snapshot_class_kind_def schedule_kind_def crd_kind_def key_simps

lemma calls_velero [intro]: "keeps R (reconcileEtcdVeleroSchedule E inst)"
proof -
  have k: "fst (key_of (mayastorEtcdVeleroSchedule inst)) \<in> operator_kinds" by (simp add: kinds)
  show ?thesis
    unfolding reconcileEtcdVeleroSchedule_def Let_def
    using calls_objects [OF k] calls_delete [OF ok_kinds [OF k]]
    by (auto split: sum.split)
qed

lemma calls_etcd [intro!]: "keeps R (bindP (pure (mayastorEtcdStatefulSet E inst)) (\<lambda>sts.
    run_obj sts (applyStatefulSet E (Some inst))))"
proof (rule keeps_bind_value)
  fix w sts w'
  assume "pure (mayastorEtcdStatefulSet E inst) w = (Inr sts, w')"
  then have "mayastorEtcdStatefulSet E inst = Inr sts" by (simp add: pure_def)
  then have "fst (key_of sts) \<in> operator_kinds"
    by (auto simp: mayastorEtcdStatefulSet_def kinds split: if_splits sum.splits)
  from calls_objects(7) [OF this] show "keeps R (run_obj sts (applyStatefulSet E (Some inst)))" .
qed (rule keeps_pure)

lemma calls_deployEngines: "keeps R (deployEngines E inst)"
proof -
  have "keeps R (deployLVM E inst)" unfolding deployLVM_def
    by (rule calls_deploy_engine) (auto simp: lvm_steps_def kinds split: option.splits)
  moreover have "keeps R (deployZFS E inst)" unfolding deployZFS_def
    by (rule calls_deploy_engine) (auto simp: zfs_steps_def kinds split: option.splits)
  moreover have "keeps R (deployHostpath E inst)" unfolding deployHostpath_def
    by (rule calls_deploy_engine) (auto simp: hostpath_steps_def kinds split: option.splits)
  moreover have "keeps R (deployRawfile E inst)" unfolding deployRawfile_def
    by (rule calls_deploy_engine) (auto simp: rawfile_steps_def kinds split: option.splits)
  moreover have "keeps R (deployMayastor E inst)" unfolding deployMayastor_def
    by (rule calls_deploy_engine) (auto simp: mayastor_steps_def kinds split: option.splits)
  ultimately have "\<forall>(en, nm, dep) \<in> set (engine_table E inst). keeps R dep"
    by (simp add: engine_table_def)
  from calls_run_engines [OF this] show ?thesis unfolding deployEngines_def by auto
qed

lemma calls_cleanupOrphans: "keeps R (cleanupOrphans E inst)"
proof -
  have "keeps R (delete_orphans E x sc)" if sc: "fst sc \<in> operator_kinds" for x sc
    unfolding delete_orphans_def
  proof (rule keeps_bind_value)
    show "keeps R (call (cl_list E (fst sc) (snd sc) managed_selector))"
      by (rule keeps_call) (rule ok_list [OF sc])
    fix w obs w'
    assume "call (cl_list E (fst sc) (snd sc) managed_selector) w = (Inr obs, w')"
    then have "ok (key_of ob)" if "ob \<in> set obs" for ob
      using ok_listed [OF sc, of "snd sc" managed_selector w obs w' ob] that
      by (auto simp: call_def split: prod.splits sum.splits)
    then show "keeps R (run_steps (map (\<lambda>ob. if obj_name ob \<notin> set x then Delete E (key_of ob)
        else ret ()) obs))"
      by (auto intro!: keeps_run_steps calls_Delete)
  qed
  moreover have "ok (key_of (mayastorEtcdVeleroSchedule inst))" by (rule ok_kinds) (simp add: kinds)
  ultimately show ?thesis
    unfolding cleanupOrphans_def
    by (intro keeps_run_steps) (auto simp: orphan_scopes_def operator_kinds_def)
qed

lemma calls_cleanup: "keeps R (cleanup E inst)"
proof -
  have "keeps R (run_steps (map (\<lambda>ob. delete_quietly E (key_of ob)) obs))"
    if "cleanup_objects E inst = Inr obs" for obs
  proof (rule keeps_run_steps)
    have "fst ` (cleanup_keys inst) \<subseteq> operator_kinds" by (auto simp: cleanup_keys_def crd_key_def kinds)
    then have "fst (key_of ob) \<in> operator_kinds" if "ob \<in> set obs" for ob
      using cleanup_objects_keys [OF \<open>cleanup_objects E inst = Inr obs\<close>] that by blast
    then show "keeps R p" if "p \<in> set (map (\<lambda>ob. delete_quietly E (key_of ob)) obs)" for p
      using that by (auto intro!: calls_delete ok_kinds)
  qed
  then show ?thesis
    unfolding cleanup_def
    by (cases "cleanup_objects E inst") (auto simp: keeps_def bindP_def pure_def refl)
qed

text \<open>With the calls about the custom resource and the clock, a whole reconcile.\<close>

lemma calls_reconcileNormal:
  assumes "\<And>w. R w (snd (time_now E w))" and "\<And>n w. R w (snd (cr_get E n w))"
    and "\<And>i w. R w (snd (cr_status_update E i w))"
  shows "keeps R (reconcileNormal E inst)"
proof -
  have "R w (snd (metav1_Now E w))" for w
    using assms(1) [of w] by (cases "time_now E w") (simp add: metav1_Now_def)
  then have "keeps R (metav1_Now E)" by (simp add: keeps_def)
  then have "keeps R (write_status E inst es)" for es
    unfolding write_status_def Let_def
    by (auto intro!: keeps_call assms(2,3) split: sum.split)
  then show ?thesis
    unfolding reconcileNormal_def by (auto intro!: calls_deployEngines calls_cleanupOrphans)
qed

lemma calls_reconcile:
  assumes "\<And>w. R w (snd (time_now E w))" and "\<And>n w. R w (snd (cr_get E n w))"
    and "\<And>i w. R w (snd (cr_status_update E i w))" and "\<And>i w. R w (snd (cr_update E i w))"
  shows "keeps R (ReconcileReq E name)"
  unfolding ReconcileReq_def reconcileDelete_def
  by (auto intro!: keeps_call assms(2,4) calls_cleanup calls_reconcileNormal [OF assms(1-3)]
      split: sum.split)

end

end
