(* ===== verification/Reconcile_Correct.thy ===== *)
theory Reconcile_Correct
  imports Object_Calls
begin

text \<open>
  What a reconcile does: how the statuses of the engines make the phase and the conditions of
  the resource, that a reported Running engine is in the cluster, what can stop a reconcile,
  and that the finalizer goes only after the clean-up.
\<close>

section \<open>Phases\<close>

lemma phase_flags_spec:
  "phase_flags (a, f) es =
    (a \<and> (\<forall>e \<in> set es. es_Phase e \<notin> {OpenEBSPhaseFailed, OpenEBSPhaseDegraded,
       OpenEBSPhaseInstalling, OpenEBSPhasePending}),
     f \<or> (\<exists>e \<in> set es. es_Phase e = OpenEBSPhaseFailed))"
  by (induction es arbitrary: a f) (auto simp: phase_names)

lemma derivePhase_range:
  "derivePhase es \<in> {OpenEBSPhasePending, OpenEBSPhaseDegraded, OpenEBSPhaseRunning,
     OpenEBSPhaseInstalling}"
  by (simp add: derivePhase_def split: prod.split)

lemma derivePhase_not_Failed: "derivePhase es \<noteq> OpenEBSPhaseFailed"
  using derivePhase_range [of es] by (auto simp: phase_names)

lemma derivePhase_Degraded:
  "derivePhase es = OpenEBSPhaseDegraded \<longleftrightarrow> (\<exists>e \<in> set es. es_Phase e = OpenEBSPhaseFailed)"
  by (auto simp: derivePhase_def phase_flags_spec phase_names)

text \<open> C24: the phase is Pending without engines, Degraded when an engine failed,
  Running when no engine failed, is degraded, installing or pending, and Installing otherwise; it
  is never Failed, even when every engine has failed.\<close>

theorem derivePhase_spec:
  "(derivePhase es = OpenEBSPhasePending \<longleftrightarrow> es = []) \<and>
   (derivePhase es = OpenEBSPhaseDegraded \<longleftrightarrow> (\<exists>e \<in> set es. es_Phase e = OpenEBSPhaseFailed)) \<and>
   (derivePhase es = OpenEBSPhaseRunning \<longleftrightarrow> es \<noteq> [] \<and>
      (\<forall>e \<in> set es. es_Phase e \<notin> {OpenEBSPhaseFailed, OpenEBSPhaseDegraded,
         OpenEBSPhaseInstalling, OpenEBSPhasePending})) \<and>
   derivePhase es \<in> {OpenEBSPhasePending, OpenEBSPhaseDegraded, OpenEBSPhaseRunning,
     OpenEBSPhaseInstalling} \<and>
   derivePhase es \<noteq> OpenEBSPhaseFailed"
  using derivePhase_range derivePhase_not_Failed derivePhase_Degraded
  by (auto simp: derivePhase_def phase_flags_spec phase_names)

definition cond_true :: "Condition list \<Rightarrow> string \<Rightarrow> bool" where
  "cond_true cs ty \<longleftrightarrow> (\<exists>c \<in> set cs. cond_Type c = ty \<and> cond_Status c = ''True'')"

text \<open>For the phase derived from the engine statuses, the four conditions
  are each present once, Available and Progressing are true in exactly one of the two cases, a
  failed engine makes the resource Degraded and still Available, and Failed is never true.\<close>

theorem conditions_of_phase:
  fixes es now
  defines "cs \<equiv> buildConditions now (derivePhase es)"
  shows "map cond_Type cs =
      [ConditionAvailable, ConditionProgressing, ConditionDegraded, ConditionFailed] \<and>
    (cond_true cs ConditionAvailable \<longleftrightarrow> \<not> cond_true cs ConditionProgressing) \<and>
    (cond_true cs ConditionDegraded \<longleftrightarrow> (\<exists>e \<in> set es. es_Phase e = OpenEBSPhaseFailed)) \<and>
    (cond_true cs ConditionDegraded \<longrightarrow> cond_true cs ConditionAvailable) \<and>
    \<not> cond_true cs ConditionFailed"
proof -
  show ?thesis
    using derivePhase_range [of es]
    unfolding cs_def buildConditions_def Let_def cond_true_def derivePhase_Degraded [symmetric]
    by (elim insertE emptyE) (simp_all add: phase_names condition_names condition_status_def)
qed

section \<open>The statuses of the engines\<close>

text \<open>An engine's result: its own name, and Running or Failed.\<close>

definition reports :: "string \<Rightarrow> ('w, EngineStatus) prog \<Rightarrow> bool" where
  "reports nm dep \<longleftrightarrow> (\<forall>w st w'. dep w = (Inr st, w') \<longrightarrow>
     es_Name st = nm \<and> es_Phase st \<in> {OpenEBSPhaseRunning, OpenEBSPhaseFailed})"

lemma reports_deploy: "nm = e \<Longrightarrow> reports nm (deploy_engine e msg steps)"
  by (auto simp: reports_def elim!: deploy_engine_cases)

lemma engine_reports: "\<forall>(en, nm, dep) \<in> set (engine_table E inst). reports nm dep"
  by (simp add: engine_table_def deployLVM_def deployZFS_def deployHostpath_def
      deployRawfile_def deployMayastor_def engine_names reports_deploy)

definition failure_text :: "EngineStatus \<Rightarrow> string" where
  "failure_text e = es_Name e @ '': '' @ es_Message e"

lemma run_engines_statuses:
  assumes "run_engines table (es0, errs0) w = (Inr (es, errs), w')"
    and "\<forall>(en, nm, dep) \<in> set table. reports nm dep"
  shows "\<exists>new. es = es0 @ new \<and> map es_Name new = map (fst \<circ> snd) (filter fst table) \<and>
    (\<forall>e \<in> set new. es_Phase e \<in> {OpenEBSPhaseRunning, OpenEBSPhaseFailed}) \<and>
    errs = errs0 @ map failure_text (filter (\<lambda>e. es_Phase e = OpenEBSPhaseFailed) new)"
  using assms
proof (induction table arbitrary: es0 errs0 w)
  case Nil
  then show ?case by (simp add: ret_def)
next
  case (Cons t table)
  obtain en nm dep where t: "t = (en, nm, dep)" by (cases t)
  from Cons.prems(2) have rest: "\<forall>(en, nm, dep) \<in> set table. reports nm dep" by simp
  show ?case
  proof (cases en)
    case False
    with Cons.prems(1) t have "run_engines table (es0, errs0) w = (Inr (es, errs), w')" by simp
    from Cons.IH [OF this rest] t False show ?thesis by simp
  next
    case True
    let ?err = "\<lambda>st. if es_Phase st = OpenEBSPhaseFailed then [nm @ '': '' @ es_Message st] else []"
    from Cons.prems(1) t True obtain st w1 where d: "dep w = (Inr st, w1)"
      and r: "run_engines table (es0 @ [st], errs0 @ ?err st) w1 = (Inr (es, errs), w')"
      by (auto elim: bindP_InrE simp del: append.simps)
    from Cons.IH [OF r rest] obtain new where new: "es = (es0 @ [st]) @ new"
      "map es_Name new = map (fst \<circ> snd) (filter fst table)"
      "\<forall>e \<in> set new. es_Phase e \<in> {OpenEBSPhaseRunning, OpenEBSPhaseFailed}"
      "errs = (errs0 @ ?err st) @ map failure_text (filter (\<lambda>e. es_Phase e = OpenEBSPhaseFailed) new)"
      by blast
    from Cons.prems(2) t d
    have "es_Name st = nm" "es_Phase st \<in> {OpenEBSPhaseRunning, OpenEBSPhaseFailed}"
      by (auto simp: reports_def)
    with new t True show ?thesis
      by (intro exI [of _ "st # new"]) (simp add: failure_text_def)
  qed
qed

definition enabled_engines :: "OpenEBS \<Rightarrow> OpenEBSEngine list" where
  "enabled_engines inst = map snd (filter fst [(lvm_on inst, OpenEBSEngineLVM),
     (zfs_on inst, OpenEBSEngineZFS), (hostpath_on inst, OpenEBSEngineHostpath),
     (rawfile_on inst, OpenEBSEngineRawfile), (mayastor_on inst, OpenEBSEngineMayastor)])"

lemma deployEngines_reports:
  assumes "deployEngines E inst w = (Inr (es, err), w')"
  shows "map es_Name es = enabled_engines inst"
    and "\<forall>e \<in> set es. es_Phase e \<in> {OpenEBSPhaseRunning, OpenEBSPhaseFailed}"
    and "err = None \<longleftrightarrow> filter (\<lambda>e. es_Phase e = OpenEBSPhaseFailed) es = []"
proof -
  from assms obtain errs where r: "run_engines (engine_table E inst) ([], []) w = (Inr (es, errs), w')"
    and err: "err = None \<longleftrightarrow> errs = []"
    by (auto simp: deployEngines_def ret_def elim!: bindP_InrE split: if_splits)
  from run_engines_statuses [OF r engine_reports]
  have "map es_Name es = map (fst \<circ> snd) (filter fst (engine_table E inst))"
    and "\<forall>e \<in> set es. es_Phase e \<in> {OpenEBSPhaseRunning, OpenEBSPhaseFailed}"
    and "errs = map failure_text (filter (\<lambda>e. es_Phase e = OpenEBSPhaseFailed) es)" by simp_all
  then show "map es_Name es = enabled_engines inst"
    and "\<forall>e \<in> set es. es_Phase e \<in> {OpenEBSPhaseRunning, OpenEBSPhaseFailed}"
    and "err = None \<longleftrightarrow> filter (\<lambda>e. es_Phase e = OpenEBSPhaseFailed) es = []"
    using err by (simp_all add: enabled_engines_def engine_table_def engine_names)
qed

text \<open>A deployment reports one status for each enabled engine, in the
  order LVM, ZFS, hostpath, rawfile, Mayastor, each of them Running or Failed: a failed engine
  does not keep the later ones from being tried. An error is reported exactly when one failed.\<close>

theorem deployEngines_statuses:
  assumes "deployEngines E inst w = (Inr (es, err), w')"
  shows "map es_Name es = enabled_engines inst \<and>
    (\<forall>e \<in> set es. es_Phase e = OpenEBSPhaseRunning \<or> es_Phase e = OpenEBSPhaseFailed) \<and>
    (err = None \<longleftrightarrow> (\<forall>e \<in> set es. es_Phase e = OpenEBSPhaseRunning))"
  using deployEngines_reports [OF assms] by (auto simp: filter_empty_conv phase_names)

section \<open>The paths of a reconcile\<close>

lemma ReconcileReq_cases:
  assumes "ReconcileReq E name w = (out, w')"
  obtains (unread) e where "cr_get E name w = (Inl e, w')" "\<exists>r. out = Inr r"
  | (deleting) inst w1 where "cr_get E name w = (Inr inst, w1)"
      "om_deletion_timestamp (oe_meta inst) \<noteq> None" "reconcileDelete E inst w1 = (out, w')"
  | (not_added) inst w1 m where "cr_get E name w = (Inr inst, w1)"
      "om_deletion_timestamp (oe_meta inst) = None" "\<not> ContainsFinalizer E inst openebsFinalizer"
      "cr_update E (AddFinalizer E inst openebsFinalizer) w1 = (Inl m, w')" "out = Inr (0, Some m)"
  | (added) inst w1 inst' w2 where "cr_get E name w = (Inr inst, w1)"
      "om_deletion_timestamp (oe_meta inst) = None" "\<not> ContainsFinalizer E inst openebsFinalizer"
      "cr_update E (AddFinalizer E inst openebsFinalizer) w1 = (Inr inst', w2)"
      "reconcileNormal E inst' w2 = (out, w')"
  | (live) inst w1 where "cr_get E name w = (Inr inst, w1)"
      "om_deletion_timestamp (oe_meta inst) = None" "ContainsFinalizer E inst openebsFinalizer"
      "reconcileNormal E inst w1 = (out, w')"
proof (cases "cr_get E name w")
  case (Pair r w1)
  show thesis
  proof (cases r)
    case (Inl e)
    with Pair assms unread show thesis
      by (auto simp: ReconcileReq_def bindP_def attempt_def call_def ret_def split: if_splits)
  next
    case (Inr inst)
    show thesis
    proof (cases "om_deletion_timestamp (oe_meta inst) = None \<and>
        \<not> ContainsFinalizer E inst openebsFinalizer")
      case True
      obtain r2 w2 where u: "cr_update E (AddFinalizer E inst openebsFinalizer) w1 = (r2, w2)"
        by fastforce
      from True Pair Inr u assms not_added added show thesis
        by (cases r2) (simp_all add: ReconcileReq_def bindP_def attempt_def call_def ret_def)
    next
      case False
      with Pair Inr assms deleting live show thesis
        by (simp add: ReconcileReq_def bindP_def attempt_def call_def split: if_splits)
    qed
  qed
qed

lemma reconcileDelete_cases:
  assumes "reconcileDelete E inst w = (out, w')"
  obtains (stopped) x where "cleanup E inst w = (Inl x, w')"
      "(\<exists>e. x = GoError e \<and> out = Inr (requeueAfterError, Some e)) \<or>
       (\<exists>m. x = GoPanic m \<and> out = Inl (GoPanic m))"
  | (released) w1 r where "cleanup E inst w = (Inr (), w1)"
      "cr_update E (RemoveFinalizer E inst openebsFinalizer) w1 = (r, w')" "\<exists>v. out = Inr v"
proof (cases "cleanup E inst w")
  case (Pair c w1)
  show thesis
  proof (cases c)
    case (Inl x)
    with Pair assms stopped show thesis
      by (cases x) (auto simp: reconcileDelete_def bindP_def attempt_def ret_def)
  next
    case (Inr u)
    with Pair assms released show thesis
      by (auto simp: reconcileDelete_def bindP_def attempt_def call_def ret_def
          split: prod.splits sum.splits)
  qed
qed

section \<open>What can stop a reconcile\<close>

context kube_client
begin

lemma no_panic_deploy_engine: "(\<And>p. p \<in> set steps \<Longrightarrow> no_panic p) \<Longrightarrow> no_panic (deploy_engine e msg steps)"
  unfolding deploy_engine_def
  by (intro no_panic_bind no_panic_attempt no_panic_steps) (auto split: sum.split)

lemma no_panic_typed [simp, intro!]:
  "no_panic (apply_to E inst ob)" "no_panic (apply_class E inst ob)"
  "no_panic (applyDeployment E inst ob)" "no_panic (applyDaemonSet E inst ob)"
  "no_panic (applyCSIDriver E inst ob)"
  by (auto simp: typed_apply_defs apply_to_def apply_class_def)

lemma no_panic_crd_lists [simp, intro!]:
  "no_panic (applyLVMCRDs E i)" "no_panic (applyZFSCRDs E i)" "no_panic (applyVolumeSnapshotCRDs E i)"
  by (auto simp: applyLVMCRDs_def applyZFSCRDs_def applyVolumeSnapshotCRDs_def)

lemma no_panic_quiet [simp, intro!]: "no_panic (delete_quietly E k)"
  unfolding delete_quietly_def by (auto split: sum.split)

lemma no_panic_velero [simp, intro!]: "no_panic (reconcileEtcdVeleroSchedule E inst)"
  unfolding reconcileEtcdVeleroSchedule_def Let_def by (auto split: sum.split)

lemma no_panic_health [simp, intro!]: "no_panic (etcdHealthCheck E)"
proof -
  have "no_panic (\<lambda>w. case http_get E etcd_health_url w of
      (Inl m, w') \<Rightarrow> fail (f m) w'
    | (Inr code, w') \<Rightarrow> if code \<noteq> 200 then fail (g code) w' else ret () w')" for f g
    by (auto simp: no_panic_def prog_simps split: prod.splits sum.splits)
  then show ?thesis unfolding etcdHealthCheck_def by (auto split: sum.split)
qed

lemma no_panic_etcd:
  assumes "quantity_ok E (etcd_storage_size inst)"
  shows "no_panic (bindP (pure (mayastorEtcdStatefulSet E inst)) (\<lambda>sts.
    run_obj sts (applyStatefulSet E (Some inst))))"
proof -
  from assms have "mayastorEtcdStatefulSet E inst = Inr (etcd_sts inst)"
    by (simp add: mayastorEtcdStatefulSet_Inr etcd_sts_def)
  then show ?thesis by auto
qed

lemma no_panic_engines:
  "lvm_on inst \<Longrightarrow> no_panic (deployLVM E inst)"
  "zfs_on inst \<Longrightarrow> no_panic (deployZFS E inst)"
  "hostpath_on inst \<Longrightarrow> no_panic (deployHostpath E inst)"
  "rawfile_on inst \<Longrightarrow> no_panic (deployRawfile E inst)"
  "mayastor_on inst \<Longrightarrow> quantity_ok E (etcd_storage_size inst) \<Longrightarrow> no_panic (deployMayastor E inst)"
proof -
  show "no_panic (deployLVM E inst)" if "lvm_on inst"
    using engine_on_Some(1) [OF that] unfolding deployLVM_def
    by (intro no_panic_deploy_engine) (auto simp: lvm_steps_def)
  show "no_panic (deployZFS E inst)" if "zfs_on inst"
    using engine_on_Some(2) [OF that] unfolding deployZFS_def
    by (intro no_panic_deploy_engine) (auto simp: zfs_steps_def)
  show "no_panic (deployHostpath E inst)" if "hostpath_on inst"
    using engine_on_Some(3) [OF that] unfolding deployHostpath_def
    by (intro no_panic_deploy_engine) (auto simp: hostpath_steps_def)
  show "no_panic (deployRawfile E inst)" if "rawfile_on inst"
    using engine_on_Some(4) [OF that] unfolding deployRawfile_def
    by (intro no_panic_deploy_engine) (auto simp: rawfile_steps_def)
  show "no_panic (deployMayastor E inst)"
    if "mayastor_on inst" "quantity_ok E (etcd_storage_size inst)"
    using engine_on_Some(5) [OF that(1)] no_panic_etcd [OF that(2)] unfolding deployMayastor_def
    by (intro no_panic_deploy_engine) (auto simp: mayastor_steps_def)
qed

lemma no_panic_run_engines:
  assumes "\<forall>(en, nm, dep) \<in> set table. en \<longrightarrow> no_panic dep"
  shows "no_panic (run_engines table acc)"
  using assms by (induction table acc rule: run_engines.induct) auto

lemma no_panic_deployEngines:
  assumes "mayastor_on inst \<longrightarrow> quantity_ok E (etcd_storage_size inst)"
  shows "no_panic (deployEngines E inst)"
  unfolding deployEngines_def
proof (intro no_panic_bind no_panic_run_engines)
  show "\<forall>(en, nm, dep) \<in> set (engine_table E inst). en \<longrightarrow> no_panic dep"
    using assms no_panic_engines by (simp add: engine_table_def)
qed auto

lemma no_panic_cleanupOrphans: "no_panic (cleanupOrphans E inst)"
  unfolding cleanupOrphans_def delete_orphans_def
  by (rule no_panic_steps) (auto intro!: no_panic_steps)

lemma no_panic_reconcileNormal:
  assumes "mayastor_on inst \<longrightarrow> quantity_ok E (etcd_storage_size inst)"
  shows "no_panic (reconcileNormal E inst)"
proof -
  have "write_status E inst es w \<noteq> (Inl (GoPanic m), w')" for es w m w'
    by (auto simp: write_status_def metav1_Now_def Let_def bindP_def attempt_def call_def ret_def
        split: prod.splits sum.splits abort.splits)
  then have "no_panic (write_status E inst es)" for es by (simp add: no_panic_def)
  with no_panic_deployEngines [OF assms] no_panic_cleanupOrphans show ?thesis
    unfolding reconcileNormal_def by auto
qed

lemma no_panic_cleanup:
  assumes "quantity_ok E (etcd_storage_size inst)"
  shows "no_panic (cleanup E inst)"
  using cleanup_panics_iff [OF kube_client_axioms] assms by (auto simp: no_panic_def)

end

text \<open>A program whose Go errors are all turned into values.\<close>

definition no_error :: "('w, 'a) prog \<Rightarrow> bool" where
  "no_error p \<longleftrightarrow> (\<forall>w e w'. p w \<noteq> (Inl (GoError e), w'))"

lemma no_error_intros:
  "no_error (ret a)" "no_error (attempt m)"
  "no_error m \<Longrightarrow> (\<And>a. no_error (k a)) \<Longrightarrow> no_error (bindP m k)"
  by (auto simp: no_error_def prog_defs split: prod.splits sum.splits abort.splits)

lemma no_error_run_engines:
  "\<forall>(en, nm, dep) \<in> set table. no_error dep \<Longrightarrow> no_error (run_engines table acc)"
  by (induction table acc rule: run_engines.induct) (auto intro!: no_error_intros)

lemma no_error_engines: "no_error (deployEngines E inst)"
proof -
  have "no_error (deploy_engine e msg steps)" for e msg and steps :: "('a, unit) prog list"
    unfolding deploy_engine_def by (auto intro!: no_error_intros split: sum.split)
  then have "\<forall>(en, nm, dep) \<in> set (engine_table E inst). no_error dep"
    by (simp add: engine_table_def deployLVM_def deployZFS_def deployHostpath_def
        deployRawfile_def deployMayastor_def)
  from no_error_run_engines [OF this] show ?thesis
    unfolding deployEngines_def by (auto intro!: no_error_intros)
qed

lemma no_error_reconcileNormal: "no_error (reconcileNormal E inst)"
proof -
  have "write_status E inst es w \<noteq> (Inl (GoError m), w')" for es w m w'
    by (auto simp: write_status_def metav1_Now_def Let_def bindP_def attempt_def call_def ret_def
        split: prod.splits sum.splits abort.splits)
  then have "no_error (write_status E inst es)" for es by (simp add: no_error_def)
  then show ?thesis
    unfolding reconcileNormal_def by (auto intro!: no_error_intros no_error_engines)
qed

lemma no_error_ReconcileReq: "no_error (ReconcileReq E name)"
  unfolding ReconcileReq_def reconcileDelete_def
  by (auto intro!: no_error_intros no_error_reconcileNormal split: sum.split)

text \<open>The resource a reconcile works on: the one read, or the one stored with the finalizer.\<close>

definition reconciles :: "'w env \<Rightarrow> string \<Rightarrow> 'w \<Rightarrow> OpenEBS \<Rightarrow> bool" where
  "reconciles E name w inst \<longleftrightarrow> (\<exists>w1. cr_get E name w = (Inr inst, w1) \<or>
     (\<exists>inst0 w2. cr_get E name w = (Inr inst0, w1) \<and>
       cr_update E (AddFinalizer E inst0 openebsFinalizer) w1 = (Inr inst, w2)))"

text \<open> C22: every error of the cluster is a returned value; the only
  thing that stops a reconcile is a panic, and the only panic is that of parsing the etcd storage
  size of the resource it works on. In particular no configuration section is dereferenced when
  it is missing.\<close>

theorem reconcile_stops_only_on_quantity:
  assumes "kube_client E" and "ReconcileReq E name w = (Inl x, w')"
  shows "\<exists>m inst. x = GoPanic m \<and> reconciles E name w inst \<and>
    \<not> quantity_ok E (etcd_storage_size inst)"
proof -
  obtain m where x: "x = GoPanic m"
    using no_error_ReconcileReq [of E name] assms(2) by (cases x) (auto simp: no_error_def)
  have normal: "\<not> quantity_ok E (etcd_storage_size inst)"
    if "reconcileNormal E inst w1 = (Inl x, w2)" for inst w1 w2
    using kube_client.no_panic_reconcileNormal [OF assms(1), of inst] that x
    by (auto simp: no_panic_def)
  have delete: "\<not> quantity_ok E (etcd_storage_size inst)"
    if "reconcileDelete E inst w1 = (Inl x, w2)" for inst w1 w2
  proof
    assume "quantity_ok E (etcd_storage_size inst)"
    from kube_client.no_panic_cleanup [OF assms(1) this] have "no_panic (reconcileDelete E inst)"
      unfolding reconcileDelete_def by (auto split: sum.split)
    with that x show False by (auto simp: no_panic_def)
  qed
  from assms(2) show ?thesis
  proof (cases rule: ReconcileReq_cases)
    case (added inst w1 inst' w2)
    with normal x show ?thesis by (auto simp: reconciles_def)
  next
    case (live inst w1)
    with normal x show ?thesis by (auto simp: reconciles_def)
  next
    case (deleting inst w1)
    with delete x show ?thesis by (auto simp: reconciles_def)
  qed auto
qed

text \<open> C23: a resource that is being deleted and whose etcd storage
  size is no quantity makes every reconcile panic before it deletes anything or removes the
  finalizer, whether Mayastor is enabled or not.\<close>

theorem bad_quantity_blocks_deletion:
  assumes "cr_get E name w = (Inr inst, w1)" and "om_deletion_timestamp (oe_meta inst) = Some t"
    and "\<not> quantity_ok E (etcd_storage_size inst)"
  shows "ReconcileReq E name w = (Inl (GoPanic (''cannot parse '' @ etcd_storage_size inst)), w1)"
proof -
  have "cleanup_objects E inst = Inl (GoPanic (''cannot parse '' @ etcd_storage_size inst))"
    using assms(3) by (simp add: cleanup_objects_Inl)
  then show ?thesis
    using assms(1,2)
    by (simp add: ReconcileReq_def reconcileDelete_def cleanup_def bindP_def attempt_def call_def
        pure_def)
qed

section \<open>The result of a reconcile\<close>

lemma reconcileNormal_InrE:
  assumes "reconcileNormal E inst w = (Inr r, w')"
  obtains es err w1 c w2 where "deployEngines E inst w = (Inr (es, err), w1)"
    and "attempt (cleanupOrphans E inst) w1 = (Inr c, w2)"
    and "write_status E inst es w2 = (Inr r, w')"
  using assms unfolding reconcileNormal_def by (auto elim!: bindP_InrE)

text \<open>The three outcomes of the status write.\<close>

lemma write_status_cases:
  assumes "write_status E inst es w = (Inr (s, e), w')"
  obtains (no_read) now m w1 where "time_now E w = (now, w1)"
      "cr_get E (om_name (oe_meta inst)) w1 = (Inl m, w')" "s = 0" "e = Some m"
  | (no_write) latest now w1 w2 m where "time_now E w = (now, w1)"
      "cr_get E (om_name (oe_meta inst)) w1 = (Inr latest, w2)"
      "cr_status_update E (with_status (derivePhase es) es
        (buildConditions now (derivePhase es)) latest) w2 = (Inl m, w')" "s = 0" "e = Some m"
  | (written) latest now w1 w2 stored where "time_now E w = (now, w1)"
      "cr_get E (om_name (oe_meta inst)) w1 = (Inr latest, w2)"
      "cr_status_update E (with_status (derivePhase es) es
        (buildConditions now (derivePhase es)) latest) w2 = (Inr stored, w')"
      "s = requeueAfter" "e = None"
proof -
  have nf: "derivePhase es \<noteq> OpenEBSPhaseFailed" by (rule derivePhase_not_Failed)
  obtain now w1 where t: "time_now E w = (now, w1)" by (cases "time_now E w")
  obtain r w2 where g: "cr_get E (om_name (oe_meta inst)) w1 = (r, w2)"
    by (cases "cr_get E (om_name (oe_meta inst)) w1")
  show thesis
  proof (cases r)
    case (Inl m)
    with t g have "write_status E inst es w = (Inr (0, Some m), w2)"
      by (simp add: write_status_def metav1_Now_def Let_def bindP_def attempt_def call_def ret_def)
    with assms have "w2 = w'" "s = 0" "e = Some m" by simp_all
    with no_read [OF t] g Inl show thesis by simp
  next
    case (Inr latest)
    obtain r2 w3 where u: "cr_status_update E (with_status (derivePhase es) es
        (buildConditions now (derivePhase es)) latest) w2 = (r2, w3)"
      by (cases "cr_status_update E (with_status (derivePhase es) es
        (buildConditions now (derivePhase es)) latest) w2")
    have "write_status E inst es w = (case r2 of Inl e \<Rightarrow> (Inr (0, Some e), w3)
        | Inr _ \<Rightarrow> (Inr (requeueAfter, None), w3))"
      using t g Inr nf u
      by (simp add: write_status_def metav1_Now_def Let_def bindP_def attempt_def call_def ret_def
          split: sum.split)
    with assms u have "(\<exists>m. r2 = Inl m \<and> s = 0 \<and> e = Some m \<and> w3 = w') \<or>
        (\<exists>x. r2 = Inr x \<and> s = requeueAfter \<and> e = None \<and> w3 = w')" by (cases r2) auto
    then show thesis
      using no_write [OF t g [unfolded Inr]] written [OF t g [unfolded Inr]] u by blast
  qed
qed

text \<open>A reconcile of a live resource that returns asks for a requeue
  after 30 seconds when its status write succeeded and returns the error otherwise. The branch
  of the 10-second requeue for a failed resource is never taken.\<close>

theorem reconcileNormal_requeue:
  assumes "reconcileNormal E inst w = (Inr (s, e), w')"
  shows "(s = requeueAfter \<and> e = None) \<or> (s = 0 \<and> e \<noteq> None)"
  by (rule reconcileNormal_InrE [OF assms], drule write_status_cases) auto

section \<open>Which requests a reconcile makes\<close>

text \<open>A request about cluster objects, or the health check: not one about the resource itself.\<close>

fun about_objects :: "request \<Rightarrow> bool" where
  "about_objects (CrGetReq n) = False"
| "about_objects (CrUpdateReq i) = False"
| "about_objects (CrStatusReq i) = False"
| "about_objects r = True"

lemma about_key: "req_key r = Some k \<Longrightarrow> about_objects r"
  by (cases r) simp_all

context audited_client
begin

text \<open>The engines and the clean-ups make no other: the calls they are made of are of this sort.\<close>

lemma logs_object_calls:
  assumes "\<And>r. about_objects r \<Longrightarrow> P r"
  shows "object_calls E (logs_only audit P) (\<lambda>_. True)"
proof unfold_locales
  fix f :: "kobj \<Rightarrow> kobj" and ob w
  assume "\<And>x. key_of (f x) = key_of x"
  from create_or_update_logged [OF this, of ob w] about_key assms
  show "logs_only audit P w (snd (create_or_update E f ob w))"
    by (blast intro: logs_only_mono)
qed (auto intro: logs_onlyI simp: assms get_logged delete_logged create_logged update_logged
    list_logged http_logged)

lemmas cleanup_logs = object_calls.calls_cleanup [OF logs_object_calls [of about_objects]]

end

section \<open>The finalizer\<close>

definition no_cr_update :: "request \<Rightarrow> bool" where
  "no_cr_update r \<longleftrightarrow> (\<forall>i. r \<noteq> CrUpdateReq i)"

context audited_client
begin

lemma reconcileNormal_logs: "keeps (logs_only audit no_cr_update) (reconcileNormal E inst)"
proof (rule object_calls.calls_reconcileNormal [OF logs_object_calls])
  show "logs_only audit no_cr_update w (snd (time_now E w))" for w
    by (rule logs_onlyI [where rs = "[]"]) (simp_all add: time_silent)
  show "logs_only audit no_cr_update w (snd (cr_get E n w))" for n w
    by (rule logs_onlyI [where rs = "[CrGetReq n]"]) (simp_all add: cr_get_logged no_cr_update_def)
  show "logs_only audit no_cr_update w (snd (cr_status_update E i w))" for i w
    by (rule logs_onlyI [where rs = "[CrStatusReq i]"])
      (simp_all add: cr_status_logged no_cr_update_def)
qed (auto simp: no_cr_update_def)

end

text \<open> C9: a live resource without the finalizer is given it before anything else:
  the first request after the read is the update that adds it, and when that fails no further
  request is made and its error is returned.\<close>

theorem finalizer_first:
  assumes "audited_client E audit" and "cr_get E name w = (Inr inst, w1)"
    and "om_deletion_timestamp (oe_meta inst) = None"
    and "\<not> ContainsFinalizer E inst openebsFinalizer"
    and "ReconcileReq E name w = (out, w')"
  shows "\<exists>rs. audit w' = audit w @
      [CrGetReq name, CrUpdateReq (AddFinalizer E inst openebsFinalizer)] @ rs \<and>
    (\<forall>m w2. cr_update E (AddFinalizer E inst openebsFinalizer) w1 = (Inl m, w2) \<longrightarrow>
       rs = [] \<and> out = Inr (0, Some m))"
proof -
  let ?upd = "cr_update E (AddFinalizer E inst openebsFinalizer) w1"
  obtain r w2 where u: "?upd = (r, w2)" by (cases ?upd)
  have a1: "audit w1 = audit w @ [CrGetReq name]"
    using audited_client.cr_get_logged [OF assms(1), of name w] assms(2) by simp
  have a2: "audit w2 = audit w1 @ [CrUpdateReq (AddFinalizer E inst openebsFinalizer)]"
    using audited_client.cr_update_logged [OF assms(1), of _ w1] u by (metis snd_conv)
  show ?thesis
  proof (cases r)
    case (Inl m)
    with assms(2-5) u have "out = Inr (0, Some m)" "w' = w2"
      by (simp_all add: ReconcileReq_def bindP_def attempt_def call_def ret_def)
    with a1 a2 u Inl show ?thesis by simp
  next
    case (Inr inst')
    with assms(2-5) u have "reconcileNormal E inst' w2 = (out, w')"
      by (simp add: ReconcileReq_def bindP_def [of "attempt _"] attempt_def call_def)
    from log.keeps_result [OF audited_client.reconcileNormal_logs [OF assms(1)] this]
    obtain rs where "audit w' = audit w2 @ rs" by (auto simp: logs_only_def)
    with a1 a2 u Inr show ?thesis by simp
  qed
qed

lemma cleanup_clears:
  assumes "cluster_api E view d" and "cleanup E inst w = (Inr (), w')" and "k \<in> cleanup_keys inst"
  shows "view w' k = None"
proof -
  have "quantity_ok E (etcd_storage_size inst)"
    using cleanup_panics_iff [OF cluster_api.axioms(1) [OF assms(1)], of inst w] assms(2) by auto
  from prunes_clears [OF prunes_cleanup [OF assms(1) this] assms(2), of k] assms(3) show ?thesis
    by (cases "view w' k") auto
qed

text \<open>The updates of the resource that a reconcile requests, path by path.\<close>

context audited_client
begin

lemma cr_read_logs: "cr_get E name w = (r, w') \<Longrightarrow> audit w' = audit w @ [CrGetReq name]"
  using cr_get_logged [of name w] by simp

lemma cr_update_logs: "cr_update E i w = (r, w') \<Longrightarrow> audit w' = audit w @ [CrUpdateReq i]"
  using cr_update_logged [of i w] by simp

lemma normal_requests_no_update:
  "reconcileNormal E inst w = (out, w') \<Longrightarrow>
     \<exists>l. audit w' = audit w @ l \<and> (\<forall>i. CrUpdateReq i \<notin> set l)"
  using log.keeps_result [OF reconcileNormal_logs, of inst w out w']
  by (auto simp: logs_only_def list_all_iff no_cr_update_def)

lemma cleanup_requests_no_update:
  "cleanup E inst w = (out, w') \<Longrightarrow> \<exists>l. audit w' = audit w @ l \<and> (\<forall>i. CrUpdateReq i \<notin> set l)"
  using log.keeps_result [OF cleanup_logs, of inst w out w']
  by (fastforce simp: logs_only_def list_all_iff)

lemma reconcile_updates:
  assumes "apimachinery E" and "ReconcileReq E name w = (out, w')"
  obtains (kept) rs where "audit w' = audit w @ rs"
      "\<And>i. CrUpdateReq i \<in> set rs \<Longrightarrow> ContainsFinalizer E i openebsFinalizer"
  | (released) inst w1 w2 l r where "cr_get E name w = (Inr inst, w1)"
      "om_deletion_timestamp (oe_meta inst) \<noteq> None" "cleanup E inst w1 = (Inr (), w2)"
      "cr_update E (RemoveFinalizer E inst openebsFinalizer) w2 = (r, w')"
      "audit w' = audit w @ l @ [CrUpdateReq (RemoveFinalizer E inst openebsFinalizer)]"
      "\<And>i. CrUpdateReq i \<notin> set l"
  using assms(2)
proof (cases rule: ReconcileReq_cases)
  case (unread e)
  from cr_read_logs [OF unread(1)] show thesis by (intro kept [of "[CrGetReq name]"]) simp_all
next
  case (live inst w1)
  from cr_read_logs [OF live(1)] normal_requests_no_update [OF live(4)] obtain l
    where "audit w' = audit w @ CrGetReq name # l" "\<forall>i. CrUpdateReq i \<notin> set l" by auto
  then show thesis by (intro kept [of "CrGetReq name # l"]) simp_all
next
  case (not_added inst w1 m)
  from cr_read_logs [OF not_added(1)] cr_update_logs [OF not_added(4)]
    apimachinery.contains_add [OF assms(1)]
  show thesis
    by (intro kept [of "[CrGetReq name, CrUpdateReq (AddFinalizer E inst openebsFinalizer)]"]) auto
next
  case (added inst w1 inst' w2)
  from cr_read_logs [OF added(1)] cr_update_logs [OF added(4)] normal_requests_no_update [OF added(5)]
  obtain l where "audit w' =
      audit w @ CrGetReq name # CrUpdateReq (AddFinalizer E inst openebsFinalizer) # l"
    "\<forall>i. CrUpdateReq i \<notin> set l" by auto
  with apimachinery.contains_add [OF assms(1)] show thesis
    by (intro kept [of "CrGetReq name # CrUpdateReq (AddFinalizer E inst openebsFinalizer) # l"]) auto
next
  case (deleting inst w1)
  from deleting(3) show thesis
  proof (cases rule: reconcileDelete_cases)
    case (stopped x)
    from cr_read_logs [OF deleting(1)] cleanup_requests_no_update [OF stopped(1)] obtain l
      where "audit w' = audit w @ CrGetReq name # l" "\<forall>i. CrUpdateReq i \<notin> set l" by auto
    then show thesis by (intro kept [of "CrGetReq name # l"]) simp_all
  next
    case (released w2 r)
    from cr_read_logs [OF deleting(1)] cleanup_requests_no_update [OF released(1)]
      cr_update_logs [OF released(2)] obtain l where "audit w' = audit w @ (CrGetReq name # l) @
        [CrUpdateReq (RemoveFinalizer E inst openebsFinalizer)]"
      "\<forall>i. CrUpdateReq i \<notin> set l" by auto
    with that(2) [OF deleting(1,2) released(1,2)] show thesis by auto
  qed
qed

end

text \<open> C8: an update of the resource that takes the finalizer away is the last request
  of a reconcile of a resource being deleted, and it is made only after the clean-up has
  succeeded: none of the objects of the clean-up's list is left in the cluster.\<close>

theorem finalizer_last:
  assumes "cluster_api E view d" and "audited_client E audit" and "apimachinery E"
    and "ReconcileReq E name w = (out, w')" and "audit w' = audit w @ rs"
    and "CrUpdateReq inst' \<in> set rs" and "\<not> ContainsFinalizer E inst' openebsFinalizer"
  shows "\<exists>inst w1. cr_get E name w = (Inr inst, w1) \<and>
    om_deletion_timestamp (oe_meta inst) \<noteq> None \<and>
    inst' = RemoveFinalizer E inst openebsFinalizer \<and> last rs = CrUpdateReq inst' \<and>
    (\<forall>k \<in> cleanup_keys inst. view w' k = None)"
proof (rule audited_client.reconcile_updates [OF assms(2-4)])
  fix rs'
  assume "audit w' = audit w @ rs'"
    and "\<And>i. CrUpdateReq i \<in> set rs' \<Longrightarrow> ContainsFinalizer E i openebsFinalizer"
  with assms(5-7) show ?thesis by auto
next
  fix inst w1 w2 l r
  assume released: "cr_get E name w = (Inr inst, w1)" "om_deletion_timestamp (oe_meta inst) \<noteq> None"
    "cleanup E inst w1 = (Inr (), w2)"
    "cr_update E (RemoveFinalizer E inst openebsFinalizer) w2 = (r, w')"
    "audit w' = audit w @ l @ [CrUpdateReq (RemoveFinalizer E inst openebsFinalizer)]"
    "\<And>i. CrUpdateReq i \<notin> set l"
  with assms(5,6) have "inst' = RemoveFinalizer E inst openebsFinalizer" "last rs = CrUpdateReq inst'"
    by auto
  moreover have "view w' k = None" if "k \<in> cleanup_keys inst" for k
    using cleanup_clears [OF assms(1) released(3) that] released(4)
      cluster_api.cr_update_view [OF assms(1), of _ w2] by (metis snd_conv)
  ultimately show ?thesis using released(1,2) by blast
qed

end
