(* ===== verification/Convergence.thy ===== *)
theory Convergence
  imports Reconcile_Correct
begin

text \<open>
  The engines together.  Each engine owns its keys, up to the shared namespaces and the names of
  the storage classes, which the user chooses; so an engine that was deployed stays deployed
  while the others are, and while the orphans are cleaned up.  This gives the main theorem: an
  engine that the written status reports as Running is in the cluster as it was built.
\<close>

section \<open>The engines as data\<close>

definition engine_parts :: "OpenEBS \<Rightarrow> OpenEBSEngine \<Rightarrow> string \<times> crd_file list \<times> kobj list" where
  "engine_parts inst e =
     (if e = OpenEBSEngineLVM then (openebsNamespace, lvm_crds, lvm_objects inst)
      else if e = OpenEBSEngineZFS then (openebsNamespace, zfs_crds, zfs_objects inst)
      else if e = OpenEBSEngineHostpath then (openebsNamespace, [], hostpath_objects inst)
      else if e = OpenEBSEngineRawfile then (openebsNamespace, [], rawfile_objects inst)
      else (mayastorNamespace, snapshot_crds, mayastor_objects inst))"

definition engine_extra ::
  "(kbody \<Rightarrow> kbody \<Rightarrow> bool) \<Rightarrow> 'l lib_scheme \<Rightarrow> OpenEBS \<Rightarrow> OpenEBSEngine \<Rightarrow> part" where
  "engine_extra d L inst e =
     (if e = OpenEBSEngineMayastor then etcd_part d L inst else ([], []))"

definition engine_steps :: "'w env \<Rightarrow> OpenEBS \<Rightarrow> OpenEBSEngine \<Rightarrow> ('w, unit) prog list" where
  "engine_steps E inst e =
     (if e = OpenEBSEngineLVM then lvm_steps E inst
      else if e = OpenEBSEngineZFS then zfs_steps E inst
      else if e = OpenEBSEngineHostpath then hostpath_steps E inst
      else if e = OpenEBSEngineRawfile then rawfile_steps E inst
      else mayastor_steps E inst)"

text \<open>
  An engine is in the cluster: its namespace, its definitions and its objects; for Mayastor also
  the etcd StatefulSet.
\<close>

definition engine_deployed :: "('w \<Rightarrow> objkey \<Rightarrow> kobj option) \<Rightarrow> (kbody \<Rightarrow> kbody \<Rightarrow> bool) \<Rightarrow>
    'l lib_scheme \<Rightarrow> OpenEBS \<Rightarrow> OpenEBSEngine \<Rightarrow> 'w \<Rightarrow> bool" where
  "engine_deployed view d L inst e w \<longleftrightarrow>
     (case engine_parts inst e of (n, files, obs) \<Rightarrow> deployed view d L inst n files obs w) \<and>
     (e = OpenEBSEngineMayastor \<longrightarrow>
       (\<exists>st. view w etcd_sts_key = Some st \<and> sts_as_built d L inst (etcd_sts inst) st))"

lemma engine_programs:
  "deployLVM E inst = deploy_engine OpenEBSEngineLVM ''LVM engine deployed''
     (engine_steps E inst OpenEBSEngineLVM)"
  "deployZFS E inst = deploy_engine OpenEBSEngineZFS ''ZFS engine deployed''
     (engine_steps E inst OpenEBSEngineZFS)"
  "deployHostpath E inst = deploy_engine OpenEBSEngineHostpath ''Hostpath engine deployed''
     (engine_steps E inst OpenEBSEngineHostpath)"
  "deployRawfile E inst = deploy_engine OpenEBSEngineRawfile ''Rawfile engine deployed''
     (engine_steps E inst OpenEBSEngineRawfile)"
  "deployMayastor E inst = deploy_engine OpenEBSEngineMayastor ''Mayastor engine deployed''
     (engine_steps E inst OpenEBSEngineMayastor)"
  by (simp_all add: deployLVM_def deployZFS_def deployHostpath_def deployRawfile_def
      deployMayastor_def engine_steps_def engine_names)

lemma engine_table_steps:
  assumes "(True, e, dep) \<in> set (engine_table E inst)"
  shows "e \<in> set (enabled_engines inst) \<and> (\<exists>msg. dep = deploy_engine e msg (engine_steps E inst e))"
proof -
  from assms have "lvm_on inst \<and> e = OpenEBSEngineLVM \<and> dep = deployLVM E inst \<or>
      zfs_on inst \<and> e = OpenEBSEngineZFS \<and> dep = deployZFS E inst \<or>
      hostpath_on inst \<and> e = OpenEBSEngineHostpath \<and> dep = deployHostpath E inst \<or>
      rawfile_on inst \<and> e = OpenEBSEngineRawfile \<and> dep = deployRawfile E inst \<or>
      mayastor_on inst \<and> e = OpenEBSEngineMayastor \<and> dep = deployMayastor E inst"
    unfolding engine_table_def engine_names by simp
  then show ?thesis
    unfolding engine_programs by (elim disjE conjE) (simp_all add: enabled_engines_def, blast+)
qed

lemma installs_enabled:
  assumes "cluster_api E view d" and "apimachinery E" and "e \<in> set (enabled_engines inst)"
  shows "case engine_parts inst e of (n, files, obs) \<Rightarrow>
    installs_engine view d E inst n files obs (engine_extra d E inst e) (engine_steps E inst e)"
proof -
  note C = cluster_api.installs_lvm [OF assms(1,2)] cluster_api.installs_zfs [OF assms(1,2)]
    cluster_api.installs_hostpath [OF assms(1)] cluster_api.installs_rawfile [OF assms(1)]
    cluster_api.installs_mayastor [OF assms(1,2)]
  from assms(3) consider "e = OpenEBSEngineLVM" "lvm_on inst" | "e = OpenEBSEngineZFS" "zfs_on inst"
    | "e = OpenEBSEngineHostpath" "hostpath_on inst" | "e = OpenEBSEngineRawfile" "rawfile_on inst"
    | "e = OpenEBSEngineMayastor" "mayastor_on inst"
    by (auto simp: enabled_engines_def split: if_splits)
  then show ?thesis
    using C engine_on_Some [of inst]
    by cases (fastforce simp: engine_parts_def engine_extra_def engine_steps_def engine_names)+
qed

section \<open>Who owns which key\<close>

definition engine_names_of :: "OpenEBSEngine \<Rightarrow> string list" where
  "engine_names_of e =
     (if e = OpenEBSEngineLVM then [''openebs-lvm-controller'', ''openebs-lvm-role'',
        ''openebs-lvm-binding'', ''openebs-lvm-node'', ''local.csi.openebs.io'',
        ''lvmnodes.local.openebs.io'', ''lvmvolumes.local.openebs.io'',
        ''lvmsnapshots.local.openebs.io'']
      else if e = OpenEBSEngineZFS then [''openebs-zfs-controller'', ''openebs-zfs-role'',
        ''openebs-zfs-binding'', ''openebs-zfs-node'', ''zfs.csi.openebs.io'',
        ''zfsnodes.zfs.openebs.io'', ''zfsvolumes.zfs.openebs.io'',
        ''zfssnapshots.zfs.openebs.io'', ''openebs-zfspv-bin'']
      else if e = OpenEBSEngineHostpath then [''openebs-localpv-provisioner'']
      else if e = OpenEBSEngineRawfile then [''openebs-rawfile-provisioner'',
        ''openebs-rawfile-role'', ''openebs-rawfile-binding'']
      else [])"

definition owner_of :: "objkey \<Rightarrow> OpenEBSEngine" where
  "owner_of k = (if fst k = snapshot_class_kind \<or> fst k = schedule_kind then OpenEBSEngineMayastor
     else case find (\<lambda>e. snd (snd k) \<in> set (engine_names_of e)) [OpenEBSEngineLVM,
        OpenEBSEngineZFS, OpenEBSEngineHostpath, OpenEBSEngineRawfile] of
       Some e \<Rightarrow> e | None \<Rightarrow> OpenEBSEngineMayastor)"

definition class_name :: "OpenEBS \<Rightarrow> OpenEBSEngine \<Rightarrow> string" where
  "class_name inst e =
     (if e = OpenEBSEngineLVM then
        (case spec_LVM (oe_Spec inst) of None \<Rightarrow> '''' | Some c \<Rightarrow>
           name_or (lvm_StorageClassName c) lvmSCName)
      else if e = OpenEBSEngineZFS then
        (case spec_ZFS (oe_Spec inst) of None \<Rightarrow> '''' | Some c \<Rightarrow>
           name_or (zfs_StorageClassName c) zfsSCName)
      else if e = OpenEBSEngineHostpath then
        (case spec_Hostpath (oe_Spec inst) of None \<Rightarrow> '''' | Some c \<Rightarrow>
           name_or (hp_StorageClassName c) hostpathSCName)
      else if e = OpenEBSEngineRawfile then rawfileSCName
      else (case spec_Mayastor (oe_Spec inst) of None \<Rightarrow> '''' | Some c \<Rightarrow>
           name_or (ms_StorageClassName c) mayastorSCName))"

definition own_keys :: "OpenEBS \<Rightarrow> OpenEBSEngine \<Rightarrow> objkey set" where
  "own_keys inst e = (case engine_parts inst e of (n, files, obs) \<Rightarrow>
     crd_key ` set files \<union> key_of ` set obs \<union>
     (if e = OpenEBSEngineMayastor
      then {etcd_sts_key, key_of (mayastorEtcdVeleroSchedule inst)} else {}))"

definition owned :: "OpenEBS \<Rightarrow> OpenEBSEngine \<Rightarrow> objkey \<Rightarrow> bool" where
  "owned inst e k \<longleftrightarrow> fst k \<noteq> KNamespace \<and>
     (if fst k = KStorageClass then snd (snd k) = class_name inst e else owner_of k = e)"

lemmas ownership = engine_parts_def engine_names owned_def class_name_def key_simps
  crd_key_def crd_kind_def all_names owner_of_def engine_names_of_def
  snapshot_class_kind_def schedule_kind_def etcd_sts_key_def

lemma owned_objects:
  "list_all (owned inst OpenEBSEngineLVM) (map key_of (lvm_objects inst) @ map crd_key lvm_crds)"
  "list_all (owned inst OpenEBSEngineZFS) (map key_of (zfs_objects inst) @ map crd_key zfs_crds)"
  "list_all (owned inst OpenEBSEngineHostpath) (map key_of (hostpath_objects inst))"
  "list_all (owned inst OpenEBSEngineRawfile) (map key_of (rawfile_objects inst))"
  by (simp add: ownership lvm_objects_def lvm_crds_def split: option.split,
      simp add: ownership zfs_objects_def zfs_crds_def split: option.split,
      simp add: ownership hostpath_objects_def split: option.split,
      simp add: ownership rawfile_objects_def split: option.split)

lemma owned_mayastor_objects:
  "list_all (owned inst OpenEBSEngineMayastor) (map key_of (mayastor_objects inst))"
  by (simp add: ownership mayastor_objects_def split: option.split)

lemma owned_mayastor_extra:
  "list_all (owned inst OpenEBSEngineMayastor) (etcd_sts_key #
     key_of (mayastorEtcdVeleroSchedule inst) # map crd_key snapshot_crds)"
  by (simp add: ownership snapshot_crds_def)

lemma own_keys_owned:
  assumes "e \<in> set (enabled_engines inst)" and "k \<in> own_keys inst e"
  shows "owned inst e k"
proof -
  from assms(1) consider "e = OpenEBSEngineLVM" | "e = OpenEBSEngineZFS"
    | "e = OpenEBSEngineHostpath" | "e = OpenEBSEngineRawfile" | "e = OpenEBSEngineMayastor"
    by (auto simp: enabled_engines_def split: if_splits)
  then show ?thesis
    using assms(2) owned_objects [of inst] owned_mayastor_objects [of inst]
      owned_mayastor_extra [of inst]
    by cases (auto simp: own_keys_def engine_parts_def list_all_iff engine_names)
qed

lemma own_keys_disjoint:
  assumes "e \<in> set (enabled_engines inst)" and "e' \<in> set (enabled_engines inst)" and "e \<noteq> e'"
    and "class_name inst e \<noteq> class_name inst e'" and "k \<in> own_keys inst e"
  shows "k \<notin> own_keys inst e'"
  using own_keys_owned [OF assms(1,5)] own_keys_owned [OF assms(2), of k] assms(3,4)
  by (auto simp: owned_def split: if_splits)

section \<open>Deployed engines stay deployed\<close>

text \<open>A change of the cluster that spares the keys of an engine and its namespace.\<close>

lemma engine_deployed_kept:
  assumes "engine_deployed view d L inst e w"
    and "\<And>k. k \<in> own_keys inst e \<Longrightarrow> view w' k = view w k"
    and "\<And>n. namespace_kept view n w w'"
  shows "engine_deployed view d L inst e w'"
proof -
  obtain n files obs where p: "engine_parts inst e = (n, files, obs)"
    by (cases "engine_parts inst e") auto
  have same: "view w' k = view w k"
    if "k \<in> crd_key ` set files \<union> key_of ` set obs \<union>
      (if e = OpenEBSEngineMayastor then {etcd_sts_key} else {})" for k
    by (rule assms(2)) (use that p in \<open>auto simp: own_keys_def split: if_splits\<close>)
  from assms(1) p have d: "deployed view d L inst n files obs w"
    and m: "e = OpenEBSEngineMayastor \<longrightarrow>
      (\<exists>st. view w etcd_sts_key = Some st \<and> sts_as_built d L inst (etcd_sts inst) st)"
    by (simp_all add: engine_deployed_def)
  from d same assms(3) [of n] have "deployed view d L inst n files obs w'"
    by (simp add: deployed_def namespace_kept_def namespace_ok_def)
  moreover from m same have "e = OpenEBSEngineMayastor \<longrightarrow>
      (\<exists>st. view w' etcd_sts_key = Some st \<and> sts_as_built d L inst (etcd_sts inst) st)"
    by (cases "e = OpenEBSEngineMayastor") simp_all
  ultimately show ?thesis using p by (simp add: engine_deployed_def)
qed

lemma deployment_of:
  assumes api: "cluster_api E view d" and lib: "apimachinery E"
    and t: "(True, e, dep) \<in> set (engine_table E inst)"
  obtains msg n files obs where "dep = deploy_engine e msg (engine_steps E inst e)"
    and "e \<in> set (enabled_engines inst)" and "engine_parts inst e = (n, files, obs)"
    and "installs_engine view d E inst n files obs (engine_extra d E inst e) (engine_steps E inst e)"
proof -
  obtain n files obs where p: "engine_parts inst e = (n, files, obs)"
    by (cases "engine_parts inst e") auto
  from engine_table_steps [OF t] obtain msg where
    m: "dep = deploy_engine e msg (engine_steps E inst e)" and e: "e \<in> set (enabled_engines inst)"
    by blast
  from installs_enabled [OF api lib e] p that [OF m e p] show thesis by simp
qed

lemma engine_running_deployed:
  assumes "cluster_api E view d" and "apimachinery E"
    and "(True, e, dep) \<in> set (engine_table E inst)"
    and "dep w = (Inr st, w')" and "es_Phase st = OpenEBSPhaseRunning"
  shows "engine_deployed view d E inst e w'"
proof -
  from assms(1-3) obtain msg n files obs
    where dep: "dep = deploy_engine e msg (engine_steps E inst e)"
    and p: "engine_parts inst e = (n, files, obs)"
    and i: "installs_engine view d E inst n files obs (engine_extra d E inst e)
      (engine_steps E inst e)"
    by (rule deployment_of)
  from assms(4) dep have run: "deploy_engine e msg (engine_steps E inst e) w = (Inr st, w')" by simp
  note ok = installs_engine_deployed [OF i run assms(5)]
  have "\<exists>st. view w' etcd_sts_key = Some st \<and> sts_as_built d E inst (etcd_sts inst) st"
    if "e = OpenEBSEngineMayastor"
    by (rule ok(2)) (simp add: that engine_extra_def etcd_part_def)
  with ok(1) p show ?thesis by (simp add: engine_deployed_def)
qed

text \<open>A deployment touches the keys of its engine and its namespace only.\<close>

lemma engine_frame:
  assumes "cluster_api E view d" and "apimachinery E"
    and "(True, e, dep) \<in> set (engine_table E inst)" and "dep w = (r, w')"
    and "k \<notin> own_keys inst e" and "k \<noteq> namespace_key (fst (engine_parts inst e))"
  shows "view w' k = view w k"
proof -
  from assms(1-3) obtain msg n files obs
    where dep: "dep = deploy_engine e msg (engine_steps E inst e)"
    and p: "engine_parts inst e = (n, files, obs)"
    and i: "installs_engine view d E inst n files obs (engine_extra d E inst e)
      (engine_steps E inst e)"
    by (rule deployment_of)
  show ?thesis
  proof (rule installs_engine_frame [OF i])
    show "deploy_engine e msg (engine_steps E inst e) w = (r, w')" using assms(4) dep by simp
    show "k \<notin> footprint n files obs" using assms(5,6) p by (auto simp: own_keys_def footprint_def)
    show "k \<notin> set (fst (engine_extra d E inst e))"
      using assms(5) p by (auto simp: own_keys_def engine_extra_def etcd_part_def split: if_splits)
  qed
qed

lemma other_engine_kept:
  assumes "cluster_api E view d" and "apimachinery E"
    and "(True, e', dep) \<in> set (engine_table E inst)" and "dep w = (r, w')"
    and "e \<in> set (enabled_engines inst)" and "e \<noteq> e'"
    and "class_name inst e \<noteq> class_name inst e'"
    and "engine_deployed view d E inst e w"
  shows "engine_deployed view d E inst e w'"
proof (rule engine_deployed_kept [OF assms(8)])
  from assms(1-3) obtain msg n files obs
    where dep: "dep = deploy_engine e' msg (engine_steps E inst e')"
    and e': "e' \<in> set (enabled_engines inst)" and p: "engine_parts inst e' = (n, files, obs)"
    and i: "installs_engine view d E inst n files obs (engine_extra d E inst e')
      (engine_steps E inst e')"
    by (rule deployment_of)
  from assms(4) dep have run: "deploy_engine e' msg (engine_steps E inst e') w = (r, w')" by simp
  show "view w' k = view w k" if k: "k \<in> own_keys inst e" for k
  proof (rule engine_frame [OF assms(1-4)])
    show "k \<notin> own_keys inst e'" by (rule own_keys_disjoint [OF assms(5) e' assms(6,7) k])
    show "k \<noteq> namespace_key (fst (engine_parts inst e'))"
      using own_keys_owned [OF assms(5) k] by (auto simp: owned_def namespace_key_def)
  qed
  show "namespace_kept view m w w'" for m
  proof -
    from i have "keeps (namespace_kept view m) (run_steps (engine_steps E inst e'))"
      by (simp add: installs_engine_def)
    with run deploy_engine_snd [of e' msg "engine_steps E inst e'" w] show ?thesis
      by (metis keeps_def snd_conv)
  qed
qed

text \<open>
  A deployment that makes \<open>H\<close> true of its engine when it reports Running, and keeps it true of
  every other engine.
\<close>

definition promises :: "string set \<Rightarrow> (string \<Rightarrow> 'w \<Rightarrow> bool) \<Rightarrow> string \<Rightarrow>
    ('w, EngineStatus) prog \<Rightarrow> bool" where
  "promises N H e dep \<longleftrightarrow> e \<in> N \<and> reports e dep \<and>
      (\<forall>w st w'. dep w = (Inr st, w') \<and> es_Phase st = OpenEBSPhaseRunning \<longrightarrow> H e w') \<and>
      (\<forall>e' w r w'. e' \<in> N \<and> e' \<noteq> e \<and> H e' w \<and> dep w = (r, w') \<longrightarrow> H e' w')"

text \<open>The loop over the engines: what a Running status promises still holds at the end.\<close>

lemma run_engines_deployed:
  assumes "run_engines table (es0, errs0) w = (Inr (es, errs), w')"
    and "\<forall>e dep. (True, e, dep) \<in> set table \<longrightarrow> promises N H e dep"
    and "distinct (map (fst \<circ> snd) (filter fst table))"
    and "\<forall>s \<in> set es0. es_Name s \<in> N \<and> es_Name s \<notin> set (map (fst \<circ> snd) (filter fst table)) \<and>
      (es_Phase s = OpenEBSPhaseRunning \<longrightarrow> H (es_Name s) w)"
  shows "\<forall>s \<in> set es. es_Phase s = OpenEBSPhaseRunning \<longrightarrow> H (es_Name s) w'"
  using assms
proof (induction table arbitrary: es0 errs0 w)
  case Nil
  then show ?case by (simp add: ret_def)
next
  case (Cons t table)
  obtain en e dep where t: "t = (en, e, dep)" by (cases t)
  from Cons.prems(2) have rest: "\<forall>e dep. (True, e, dep) \<in> set table \<longrightarrow> promises N H e dep" by simp
  show ?case
  proof (cases en)
    case False
    with Cons.prems(1) t have r: "run_engines table (es0, errs0) w = (Inr (es, errs), w')" by simp
    from Cons.IH [OF r rest] Cons.prems(3,4) t False show ?thesis by simp
  next
    case True
    from Cons.prems(1) t True obtain st w1 where d: "dep w = (Inr st, w1)"
      and r: "run_engines table (es0 @ [st], errs0 @ (if es_Phase st = OpenEBSPhaseFailed
        then [e @ '': '' @ es_Message st] else [])) w1 = (Inr (es, errs), w')"
      by (auto elim: bindP_InrE)
    from Cons.prems(2) t True have "promises N H e dep" by simp
    then have e: "e \<in> N" "reports e dep"
      and run: "\<And>w st w'. dep w = (Inr st, w') \<Longrightarrow> es_Phase st = OpenEBSPhaseRunning \<Longrightarrow> H e w'"
      and keep: "\<And>e' w r w'. e' \<in> N \<Longrightarrow> e' \<noteq> e \<Longrightarrow> H e' w \<Longrightarrow> dep w = (r, w') \<Longrightarrow> H e' w'"
      unfolding promises_def by blast+
    from e(2) d have name: "es_Name st = e" by (auto simp: reports_def)
    have new: "\<forall>s \<in> set (es0 @ [st]). es_Name s \<in> N \<and>
        es_Name s \<notin> set (map (fst \<circ> snd) (filter fst table)) \<and>
        (es_Phase s = OpenEBSPhaseRunning \<longrightarrow> H (es_Name s) w1)"
    proof
      fix s
      assume "s \<in> set (es0 @ [st])"
      then consider "s \<in> set es0" | "s = st" by auto
      then show "es_Name s \<in> N \<and> es_Name s \<notin> set (map (fst \<circ> snd) (filter fst table)) \<and>
          (es_Phase s = OpenEBSPhaseRunning \<longrightarrow> H (es_Name s) w1)"
      proof cases
        case 1
        with Cons.prems(4) t True have "es_Name s \<in> N" "es_Name s \<noteq> e"
          "es_Name s \<notin> set (map (fst \<circ> snd) (filter fst table))"
          "es_Phase s = OpenEBSPhaseRunning \<longrightarrow> H (es_Name s) w" by auto
        with keep [OF _ _ _ d] show ?thesis by blast
      next
        case 2
        with name e(1) run [OF d] Cons.prems(3) t True show ?thesis by auto
      qed
    qed
    have "distinct (map (fst \<circ> snd) (filter fst table))"
      using Cons.prems(3) t True by (simp add: comp_def)
    from Cons.IH [OF r rest this new] show ?thesis .
  qed
qed

text \<open>The user gives the enabled engines storage classes of different names.\<close>

definition distinct_classes :: "OpenEBS \<Rightarrow> bool" where
  "distinct_classes inst \<longleftrightarrow> distinct (map (class_name inst) (enabled_engines inst))"

lemma deployEngines_deployed:
  assumes "cluster_api E view d" and "apimachinery E" and "distinct_classes inst"
    and "deployEngines E inst w = (Inr (es, err), w')"
  shows "\<forall>s \<in> set es. es_Phase s = OpenEBSPhaseRunning \<longrightarrow> engine_deployed view d E inst (es_Name s) w'"
proof -
  from assms(4) obtain errs where
    r: "run_engines (engine_table E inst) ([], []) w = (Inr (es, errs), w')"
    by (auto simp: deployEngines_def ret_def elim!: bindP_InrE)
  have cn: "class_name inst e \<noteq> class_name inst e'"
    if "e \<in> set (enabled_engines inst)" "e' \<in> set (enabled_engines inst)" "e \<noteq> e'" for e e'
    using assms(3) that by (auto simp: distinct_classes_def distinct_map inj_on_def)
  show ?thesis
  proof (rule run_engines_deployed [OF r, where N = "set (enabled_engines inst)"
        and H = "engine_deployed view d E inst"], intro allI impI)
    fix e dep
    assume t: "(True, e, dep) \<in> set (engine_table E inst)"
    from engine_table_steps [OF t] have e: "e \<in> set (enabled_engines inst)" by blast
    from t engine_reports [of E inst] have "reports e dep" by blast
    with e engine_running_deployed [OF assms(1,2) t] other_engine_kept [OF assms(1,2) t] cn
    show "promises (set (enabled_engines inst)) (engine_deployed view d E inst) e dep"
      unfolding promises_def by blast
  next
    show "distinct (map (fst \<circ> snd) (filter fst (engine_table E inst)))"
      by (simp add: engine_table_def)
  qed simp
qed

section \<open>The written status is true\<close>

lemma enabled_inventory:
  assumes "e \<in> set (enabled_engines inst)" and "engine_parts inst e = (n, files, obs)"
  obtains all where "(True, all) \<in> set (inventories inst)" "set obs \<subseteq> set all"
    "e = OpenEBSEngineMayastor \<longrightarrow> etcd_sts inst \<in> set all"
proof -
  from assms(1) consider "e = OpenEBSEngineLVM" "lvm_on inst" | "e = OpenEBSEngineZFS" "zfs_on inst"
    | "e = OpenEBSEngineHostpath" "hostpath_on inst" | "e = OpenEBSEngineRawfile" "rawfile_on inst"
    | "e = OpenEBSEngineMayastor" "mayastor_on inst"
    by (auto simp: enabled_engines_def split: if_splits)
  then have "\<exists>all. (True, all) \<in> set (inventories inst) \<and> set obs \<subseteq> set all \<and>
      (e = OpenEBSEngineMayastor \<longrightarrow> etcd_sts inst \<in> set all)"
    using assms(2) by cases (auto simp: engine_parts_def inventories_def engine_names)
  with that show thesis by blast
qed

lemma cleanup_keeps_engines:
  assumes "cluster_api E view d" and "cleanupOrphans E inst w = (r, w')"
    and "e \<in> set (enabled_engines inst)" and "engine_deployed view d E inst e w"
  shows "engine_deployed view d E inst e w'"
proof -
  have keep: "view w' k = view w k" if "\<not> in_scope k" "fst k \<noteq> schedule_kind" for k
    using that cluster_api.view_key [OF assms(1), of w k]
    by (intro cleanupOrphans_keeps [OF assms(1,2)])
      (auto simp: unwanted_def orphan_def key_simps)
  have crd: "view w' (crd_key f) = view w (crd_key f)" for f
    by (rule keep) (simp_all add: crd_key_def crd_kind_def schedule_kind_def)
  have ns: "view w' (namespace_key n) = view w (namespace_key n)" for n
    by (rule keep) (simp_all add: namespace_key_def schedule_kind_def)
  have obj: "view w' (key_of ob) = view w (key_of ob)"
    if "(True, obs) \<in> set (inventories inst)" "ob \<in> set obs" for ob obs
    using cleanupOrphans_keeps [OF assms(1,2)] inventory_wanted [OF that]
      cluster_api.view_key [OF assms(1)] by metis
  obtain n files obs where p: "engine_parts inst e = (n, files, obs)"
    by (cases "engine_parts inst e") auto
  from enabled_inventory [OF assms(3) p] obtain all where
    all: "(True, all) \<in> set (inventories inst)" "set obs \<subseteq> set all"
    "e = OpenEBSEngineMayastor \<longrightarrow> etcd_sts inst \<in> set all" .
  with obj have o1: "view w' (key_of ob) = view w (key_of ob)" if "ob \<in> set obs" for ob
    using that by blast
  have o2: "view w' etcd_sts_key = view w etcd_sts_key" if "e = OpenEBSEngineMayastor"
    using obj [OF all(1), of "etcd_sts inst"] all(3) that by (simp add: etcd_sts_key_of)
  show ?thesis
    using assms(4) p crd ns o1 o2
    by (cases "e = OpenEBSEngineMayastor") (simp_all add: engine_deployed_def deployed_def)
qed

lemma engine_deployed_view:
  "view w' = view w \<Longrightarrow> engine_deployed view d L inst e w' = engine_deployed view d L inst e w"
  by (simp add: engine_deployed_def deployed_def split: prod.split)


section \<open>The etcd guard\<close>

lemma etcdHealthCheck_unhealthy:
  assumes "cluster_api E view d" and "view w etcd_sts_key = Some sts" and "sts_ReadyReplicas sts \<noteq> 0"
    and "\<And>w. fst (http_get E etcd_health_url w) \<noteq> Inr 200"
  shows "\<exists>e w'. etcdHealthCheck E w = (Inl (GoError e), w') \<and> view w' = view w"
proof (cases rule: cluster_api.get_cases [OF assms(1), of etcd_sts_key w])
  case (1 ex w1)
  note found = 1
  with assms(2) have ex: "ex = sts" by simp
  obtain r w2 where h: "http_get E etcd_health_url w1 = (r, w2)"
    by (cases "http_get E etcd_health_url w1")
  with cluster_api.http_view [OF assms(1), of etcd_health_url w1] have v: "view w2 = view w1" by simp
  from assms(4) [of w1] h have "r \<noteq> Inr 200" by simp
  with found ex h assms(3) v show ?thesis
    by (cases r) (auto simp: etcdHealthCheck_def bindP_def attempt_def Get_def call_def fail_def)
next
  case (2 e w1)
  with assms(2) show ?thesis by simp
next
  case (3 e w1)
  then show ?thesis
    by (auto simp: etcdHealthCheck_def bindP_def attempt_def Get_def call_def fail_def)
qed

text \<open>What Mayastor's deployment writes before it asks after the health of etcd.\<close>

definition mayastor_prelude :: "kobj list" where
  "mayastor_prelude = [mayastorServiceAccount, mayastorClusterRole, mayastorClusterRoleBinding,
     mayastorEtcdService]"

lemma mayastor_prelude_frame:
  assumes "cluster_api E view d" and "apimachinery E"
    and "run_steps (take 4 (mayastor_steps E inst)) w = (r, w')"
    and "k \<notin> footprint mayastorNamespace snapshot_crds mayastor_prelude"
  shows "view w' k = view w k"
proof -
  let ?o = "objects_part d E inst"
  let ?parts = "[namespace_part mayastorNamespace, crds_part d E inst snapshot_crds,
    ?o [mayastorServiceAccount, mayastorClusterRole, mayastorClusterRoleBinding],
    ?o [mayastorEtcdService]]"
  have "list_all2 (installs_part view) ?parts (take 4 (mayastor_steps E inst))"
    using cluster_api.object_steps [OF assms(1)] cluster_api.installs_rbac_lists [OF assms(1)]
      cluster_api.installs_crd_lists [OF assms(1,2)]
    by (simp add: mayastor_steps_def)
  moreover have "distinct (concat (map fst ?parts))"
    by (simp add: part_keys snapshot_crds_def mayastor_names)
  ultimately have "installs view (concat (map fst ?parts)) (concat (map snd ?parts))
      (run_steps (take 4 (mayastor_steps E inst)))" by (rule installs_steps)
  moreover have "k \<notin> set (concat (map fst ?parts))"
    using assms(4) by (auto simp: footprint_def mayastor_prelude_def part_defs)
  ultimately show ?thesis
    using installs_frame [of view _ _ "run_steps (take 4 (mayastor_steps E inst))" w r w' k] assms(3)
    by blast
qed

text \<open> C12: when the etcd StatefulSet has ready replicas and its health
  endpoint does not answer 200, the deployment of Mayastor reports Failed and changes nothing in
  the cluster beyond the namespace, the snapshot definitions, the RBAC objects and the etcd
  Service: the StatefulSet and every workload that depends on etcd are left as they were.\<close>

theorem unhealthy_etcd_blocks_mayastor:
  assumes "cluster_api E view d" and "apimachinery E"
    and "view w etcd_sts_key = Some sts" and "sts_ReadyReplicas sts \<noteq> 0"
    and "\<And>w. fst (http_get E etcd_health_url w) \<noteq> Inr 200"
    and "deployMayastor E inst w = (r, w')"
  shows "(\<exists>err. r = Inr (engineFailed OpenEBSEngineMayastor err)) \<and>
    (\<forall>k. k \<notin> footprint mayastorNamespace snapshot_crds mayastor_prelude \<longrightarrow> view w' k = view w k)"
proof -
  let ?pre = "take 4 (mayastor_steps E inst)" and ?post = "drop 5 (mayastor_steps E inst)"
  have steps: "mayastor_steps E inst = ?pre @ etcdHealthCheck E # ?post"
    by (simp add: mayastor_steps_def)
  obtain r1 w1 where p: "run_steps ?pre w = (r1, w1)" by (cases "run_steps ?pre w")
  note frame = mayastor_prelude_frame [OF assms(1,2) p]
  have "etcd_sts_key \<notin> footprint mayastorNamespace snapshot_crds mayastor_prelude"
    by (simp add: footprint_def snapshot_crds_def mayastor_prelude_def part_keys etcd_sts_key_def)
  with frame assms(3) have s: "view w1 etcd_sts_key = Some sts" by simp
  have np: "no_panic (run_steps ?pre)"
    using kube_client.no_panic_ensureNamespace kube_client.no_panic_crd_lists
      kube_client.no_panic_applyRBAC kube_client.no_panic_applyService
      cluster_api.axioms(1) [OF assms(1)]
    by (intro no_panic_steps) (auto simp: mayastor_steps_def)
  have "\<exists>e w2. run_steps (mayastor_steps E inst) w = (Inl (GoError e), w2) \<and> view w2 = view w1"
  proof (cases r1)
    case (Inl x)
    with np p obtain e where "x = GoError e" by (cases x) (auto simp: no_panic_def)
    with p Inl show ?thesis
      by (subst steps, subst run_steps_append) (simp add: prog_simps)
  next
    case (Inr u)
    from etcdHealthCheck_unhealthy [OF assms(1) s assms(4,5)] obtain e w2
      where "etcdHealthCheck E w1 = (Inl (GoError e), w2)" "view w2 = view w1" by blast
    with p Inr show ?thesis
      by (subst steps, subst run_steps_append) (simp add: prog_simps)
  qed
  then obtain e w2 where "run_steps (mayastor_steps E inst) w = (Inl (GoError e), w2)"
    and v: "view w2 = view w1" by blast
  with assms(6) have "r = Inr (engineFailed OpenEBSEngineMayastor e)" "w' = w2"
    by (auto simp: deployMayastor_def deploy_engine_def bindP_def attempt_def ret_def)
  with v frame show ?thesis by auto
qed

section \<open>A deployment that fails\<close>

text \<open>The parts of an engine, in the order of its deployment.\<close>

definition engine_plan :: "(kbody \<Rightarrow> kbody \<Rightarrow> bool) \<Rightarrow> 'l lib_scheme \<Rightarrow> OpenEBS \<Rightarrow> OpenEBSEngine \<Rightarrow>
    part list" where
  "engine_plan d L inst e = (if e = OpenEBSEngineMayastor then mayastor_plan d L inst
     else case engine_parts inst e of (n, files, obs) \<Rightarrow> plan d L inst n files obs)"

lemma engine_plan_steps:
  assumes "cluster_api E view d" and "apimachinery E" and "e \<in> set (enabled_engines inst)"
  shows "list_all2 (installs_part view) (engine_plan d E inst e) (engine_steps E inst e)"
    and "distinct (concat (map fst (engine_plan d E inst e)))"
proof -
  note plans = cluster_api.lvm_plan [OF assms(1,2)] cluster_api.zfs_plan [OF assms(1,2)]
    cluster_api.hostpath_plan [OF assms(1)] cluster_api.rawfile_plan [OF assms(1)]
    cluster_api.mayastor_plan [OF assms(1,2)]
  from assms(3) consider "e = OpenEBSEngineLVM" "lvm_on inst" | "e = OpenEBSEngineZFS" "zfs_on inst"
    | "e = OpenEBSEngineHostpath" "hostpath_on inst" | "e = OpenEBSEngineRawfile" "rawfile_on inst"
    | "e = OpenEBSEngineMayastor" "mayastor_on inst"
    by (auto simp: enabled_engines_def split: if_splits)
  then have "list_all2 (installs_part view) (engine_plan d E inst e) (engine_steps E inst e) \<and>
      distinct (concat (map fst (engine_plan d E inst e)))"
    using plans engine_on_Some [of inst]
    by cases (fastforce simp: engine_plan_def engine_parts_def engine_steps_def engine_names)+
  then show "list_all2 (installs_part view) (engine_plan d E inst e) (engine_steps E inst e)"
    and "distinct (concat (map fst (engine_plan d E inst e)))" by blast+
qed

text \<open>A chain of steps that stops: what it has installed, and what it has not reached.\<close>

lemma stopped_steps:
  assumes "list_all2 (installs_part view) parts ps" and "distinct (concat (map fst parts))"
    and "run_steps ps w = (Inl x, w')"
  obtains pre part post p w1 where "parts = pre @ part # post" "p = ps ! length pre"
    "run_steps (take (length pre) ps) w = (Inr (), w1)" "p w1 = (Inl x, w')"
    "\<And>k P. (k, P) \<in> set (concat (map snd pre)) \<Longrightarrow> \<exists>st. view w' k = Some st \<and> P st"
    "\<And>k. k \<notin> set (concat (map fst (pre @ [part]))) \<Longrightarrow> view w' k = view w k"
proof -
  from run_steps_Inl [OF assms(3)] obtain i w1 where i: "i < length ps"
    and r: "run_steps (take i ps) w = (Inr (), w1)" and f: "(ps ! i) w1 = (Inl x, w')" by blast
  from assms(1) have len: "length parts = length ps" by (rule list_all2_lengthD)
  obtain pre part post where split: "parts = pre @ part # post"
    and pre: "pre = take i parts" and part: "part = parts ! i"
    using id_take_nth_drop [of i parts] i len by metis
  have d: "distinct (concat (map fst pre))"
    and apart: "set (concat (map fst pre)) \<inter> set (fst part) = {}"
    using assms(2) by (auto simp: split)
  have n: "length pre = i" using pre i len by simp
  have landed: "installs view (concat (map fst pre)) (concat (map snd pre)) (run_steps (take i ps))"
    using list_all2_takeI [OF assms(1)] d by (intro installs_steps) (simp_all add: pre)
  have last: "installs_part view part (ps ! i)"
    using assms(1) i len by (simp add: list_all2_conv_all_nth part)
  have kept: "view w' k = view w1 k" if "k \<notin> set (fst part)" for k
    by (rule installs_frame [OF last f that])
  show thesis
  proof (rule that [OF split])
    show "ps ! i = ps ! length pre" "run_steps (take (length pre) ps) w = (Inr (), w1)"
      "(ps ! i) w1 = (Inl x, w')" using r f n by simp_all
    show "\<exists>st. view w' k = Some st \<and> P st" if "(k, P) \<in> set (concat (map snd pre))" for k P
    proof -
      from landed that have "k \<in> set (concat (map fst pre))" by (force simp: installs_def)
      with apart have "k \<notin> set (fst part)" by blast
      with kept installs_ok [OF landed r that] show ?thesis by simp
    qed
    show "view w' k = view w k" if "k \<notin> set (concat (map fst (pre @ [part])))" for k
      using kept installs_frame [OF landed r] that by auto
  qed
qed


end
