(* ===== verification/Footprint.thy ===== *)
theory Footprint
  imports Convergence
begin

text \<open>
  The footprint of a whole reconcile: which objects it can change at all, whatever its result,
  and what follows for an object outside it, such as a Velero Schedule in a namespace that the
  resource no longer names.
\<close>

text \<open>The keys a deployment of the enabled engines may write.\<close>

definition engine_keys :: "OpenEBS \<Rightarrow> objkey set" where
  "engine_keys inst = (\<Union>e \<in> set (enabled_engines inst).
     insert (namespace_key (fst (engine_parts inst e))) (own_keys inst e))"

lemma run_engines_keeps:
  assumes "world_relation R" and "\<forall>e dep. (True, e, dep) \<in> set table \<longrightarrow> keeps R dep"
  shows "keeps R (run_engines table acc)"
  using assms(2)
proof (induction table acc rule: run_engines.induct)
  case (1 acc)
  show ?case using world_relation.keeps_ret [OF assms(1)] by simp
next
  case (2 enabled name deploy rest engines errs)
  then show ?case
    by (cases enabled) (auto intro!: world_relation.keeps_bind [OF assms(1)])
qed

lemma deployEngines_frame:
  assumes "cluster_api E view d" and "apimachinery E"
  shows "keeps (same_outside view (engine_keys inst)) (deployEngines E inst)"
proof -
  have "keeps (same_outside view (engine_keys inst)) dep"
    if t: "(True, e, dep) \<in> set (engine_table E inst)" for e dep
  proof -
    from engine_table_steps [OF t] have e: "e \<in> set (enabled_engines inst)" by blast
    have "view (snd (dep w)) k = view w k" if "k \<notin> engine_keys inst" for w k
      using engine_frame [OF assms t prod.collapse [symmetric], of k w] that e
      by (auto simp: engine_keys_def)
    then show ?thesis by (simp add: keeps_def same_outside_def)
  qed
  then have "keeps (same_outside view (engine_keys inst)) (run_engines (engine_table E inst) ([], []))"
    by (intro run_engines_keeps frame.world_relation_axioms) blast
  then show ?thesis
    unfolding deployEngines_def by (auto intro!: frame.keeps_bind)
qed

lemma write_status_view:
  assumes "cluster_api E view d"
  shows "keeps (same_outside view {}) (write_status E inst es)"
proof -
  have "keeps (same_outside view {}) (metav1_Now E)"
    using cluster_api.time_view [OF assms]
    by (auto simp: keeps_def metav1_Now_def same_outside_def split: prod.split) (metis snd_conv)
  then show ?thesis
    unfolding write_status_def Let_def
    using cluster_api.cr_get_view [OF assms] cluster_api.cr_status_view [OF assms]
    by (auto intro!: frame.keeps_bind frame.keeps_attempt frame.keeps_call
        simp: same_outside_def split: sum.split)
qed

lemma reconcileNormal_touches:
  assumes "cluster_api E view d" and "apimachinery E"
    and "reconcileNormal E inst w = (out, w')" and "k \<notin> engine_keys inst"
    and "view w' k \<noteq> view w k"
  shows "view w' k = None \<and> (\<exists>ob. view w k = Some ob \<and> unwanted inst k ob)"
proof -
  obtain r1 w1 where d: "deployEngines E inst w = (r1, w1)" by fastforce
  from same_outsideD [OF frame.keeps_result [OF deployEngines_frame [OF assms(1,2)] d] assms(4)]
  have v1: "view w1 k = view w k" .
  show ?thesis
  proof (cases r1)
    case (Inl x)
    with d assms(3) have "w' = w1" by (simp add: reconcileNormal_def bindP_def)
    with v1 assms(5) show ?thesis by simp
  next
    case (Inr es)
    obtain r2 w2 where c: "cleanupOrphans E inst w1 = (r2, w2)" by fastforce
    have "view w' k = view w2 k"
    proof (cases "\<exists>m. r2 = Inl (GoPanic m)")
      case True
      with d Inr c assms(3) show ?thesis
        by (auto simp: reconcileNormal_def bindP_def attempt_def split: prod.splits)
    next
      case False
      then obtain v where "attempt (cleanupOrphans E inst) w1 = (Inr v, w2)"
        using c by (cases r2; cases "projl r2") (auto simp: attempt_def)
      with d Inr assms(3) have "write_status E inst (fst es) w2 = (out, w')"
        by (auto simp: reconcileNormal_def bindP_def split: prod.splits)
      from same_outsideD [OF frame.keeps_result [OF write_status_view [OF assms(1)] this]]
      show ?thesis by simp
    qed
    moreover from prunes_deletes [OF cluster_api.prunes_cleanupOrphans [OF assms(1)] c]
    have "view w2 k = view w1 k \<or>
        (view w2 k = None \<and> (\<exists>ob. view w1 k = Some ob \<and> unwanted inst k ob))"
      unfolding only_deletes_def by blast
    ultimately show ?thesis using v1 assms(5) by auto
  qed
qed

text \<open>
  What a reconcile may do to the object under a key: engines are deployed and orphans deleted for a
  resource that was read as live, and is either held by the finalizer already or has just got it;
  only the clean-up's list is deleted for one that was read as being deleted.
\<close>

definition live_reach :: "('w \<Rightarrow> objkey \<Rightarrow> kobj option) \<Rightarrow> OpenEBS \<Rightarrow> objkey \<Rightarrow> 'w \<Rightarrow> 'w \<Rightarrow> bool" where
  "live_reach view inst k w w' \<longleftrightarrow> k \<in> engine_keys inst \<or>
     (view w' k = None \<and> (\<exists>ob. view w k = Some ob \<and> unwanted inst k ob))"

definition takes_up :: "'w env \<Rightarrow> OpenEBS \<Rightarrow> 'w \<Rightarrow> OpenEBS \<Rightarrow> bool" where
  "takes_up E i w1 inst \<longleftrightarrow> (if ContainsFinalizer E i openebsFinalizer then inst = i
     else \<exists>w2. cr_update E (AddFinalizer E i openebsFinalizer) w1 = (Inr inst, w2))"

lemma reconcile_reach:
  assumes "cluster_api E view d" and "apimachinery E" and "ReconcileReq E name w = (out, w')"
    and "view w' k \<noteq> view w k"
  obtains (live) i w1 inst where "cr_get E name w = (Inr i, w1)"
      "om_deletion_timestamp (oe_meta i) = None" "takes_up E i w1 inst" "live_reach view inst k w w'"
  | (deleting) i w1 where "cr_get E name w = (Inr i, w1)"
      "om_deletion_timestamp (oe_meta i) \<noteq> None" "k \<in> cleanup_keys i" "view w' k = None"
proof -
  have get: "view w1 = view w" if "cr_get E name w = (r, w1)" for r w1
    using cluster_api.cr_get_view [OF assms(1), of name w] that by simp
  have upd: "view w2 = view w1" if "cr_update E i w1 = (r, w2)" for i w1 r w2
    using cluster_api.cr_update_view [OF assms(1), of i w1] that by simp
  from assms(3) show thesis
  proof (cases rule: ReconcileReq_cases)
    case (unread e)
    with get assms(4) show thesis by simp
  next
    case (not_added inst w1 m)
    with get upd assms(4) show thesis by metis
  next
    case (added i w1 inst w2)
    have v: "view w2 = view w" using get [OF added(1)] upd [OF added(4)] by simp
    from added(3,4) have "takes_up E i w1 inst" by (auto simp: takes_up_def)
    moreover have "live_reach view inst k w w'"
      using reconcileNormal_touches [OF assms(1,2) added(5), of k] v assms(4)
      unfolding live_reach_def by metis
    ultimately show thesis by (rule that(1) [OF added(1,2)])
  next
    case (live i w1)
    have v: "view w1 = view w" by (rule get [OF live(1)])
    from live(3) have "takes_up E i w1 i" by (simp add: takes_up_def)
    moreover have "live_reach view i k w w'"
      using reconcileNormal_touches [OF assms(1,2) live(4), of k] v assms(4)
      unfolding live_reach_def by metis
    ultimately show thesis by (rule that(1) [OF live(1,2)])
  next
    case (deleting inst w1)
    have v: "view w1 = view w" by (rule get [OF deleting(1)])
    from deleting(3) obtain c w2 where c: "cleanup E inst w1 = (c, w2)" and "view w' = view w2"
      by (cases rule: reconcileDelete_cases) (auto dest: upd)
    with v assms(4) have k: "view w2 k \<noteq> view w1 k" "view w' k = view w2 k" by simp_all
    from cleanup_touches [OF assms(1) c k(1)] k(2) show thesis
      by (intro that(2) [OF deleting(1,2)]) simp_all
  qed
qed

text \<open> C6: a reconcile, whatever its result, changes no object of the cluster but these. When it
  read a resource that is being deleted: objects of the clean-up's list, which it deletes; it
  deploys nothing and prunes no orphans. When it read a live resource: the objects, definitions and
  namespaces of the enabled engines, and unwanted objects (orphans, and a Velero Schedule that is no
  longer configured), which it deletes; and then only if the resource held the operator's finalizer
  or the reconcile's update that adds it was accepted. When the resource could not be read,
  nothing.\<close>

theorem reconcile_footprint:
  assumes "cluster_api E view d" and "apimachinery E" and "ReconcileReq E name w = (out, w')"
    and "view w' k \<noteq> view w k"
  shows "\<exists>i w1. cr_get E name w = (Inr i, w1) \<and>
    (if om_deletion_timestamp (oe_meta i) \<noteq> None
     then k \<in> cleanup_keys i \<and> view w' k = None
     else \<exists>inst. takes_up E i w1 inst \<and>
       (k \<in> engine_keys inst \<or>
        (view w' k = None \<and> (\<exists>ob. view w k = Some ob \<and> unwanted inst k ob))))"
  using assms
proof (cases rule: reconcile_reach)
  case (live i w1 inst)
  then show ?thesis unfolding live_reach_def by auto
next
  case (deleting i w1)
  then show ?thesis by auto
qed

lemma own_schedule:
  assumes "k \<in> own_keys inst e" and "fst k = schedule_kind"
  shows "k = key_of (mayastorEtcdVeleroSchedule inst)"
proof -
  have "fst k \<noteq> schedule_kind"
    if "k \<in> crd_key ` fs \<union> key_of ` set (lvm_objects inst @ zfs_objects inst @
      hostpath_objects inst @ rawfile_objects inst @ mayastor_objects inst) \<union> {etcd_sts_key}" for fs
    using that
    by (auto simp: lvm_objects_def zfs_objects_def hostpath_objects_def rawfile_objects_def
        mayastor_objects_def key_simps schedule_kind_def snapshot_class_kind_def crd_key_def
        crd_kind_def etcd_sts_key_def split: option.splits)
  with assms show ?thesis
    unfolding own_keys_def engine_parts_def by (auto split: if_splits)
qed

text \<open> C19: a Velero Schedule that the operator created in one namespace is out of its reach as
  soon as the resource names another: no reconcile of the resource, alive or being deleted, updates
  or deletes it.\<close>

theorem stale_schedule_kept:
  assumes "cluster_api E view d" and "apimachinery E" and "ReconcileReq E name w = (out, w')"
    and "view w (schedule_kind, ns, mayastorEtcdName) = Some ob"
    and "\<forall>inst. reconciles E name w inst \<longrightarrow> velero_namespace inst \<noteq> ns"
  shows "view w' (schedule_kind, ns, mayastorEtcdName) = Some ob"
proof (rule ccontr)
  let ?k = "(schedule_kind, ns, mayastorEtcdName)"
  assume "view w' ?k \<noteq> Some ob"
  with assms(4) have "view w' ?k \<noteq> view w ?k" by simp
  from assms(1-3) this obtain inst where r: "reconciles E name w inst"
    and c: "?k \<in> engine_keys inst \<or> unwanted inst ?k ob \<or> ?k \<in> cleanup_keys inst"
  proof (cases rule: reconcile_reach)
    case (live i w1 inst)
    then have "reconciles E name w inst"
      by (auto simp: takes_up_def reconciles_def split: if_splits)
    moreover have "?k \<in> engine_keys inst \<or> unwanted inst ?k ob"
      using live(4) assms(4) by (auto simp: live_reach_def)
    ultimately show ?thesis using that by blast
  next
    case (deleting i w1)
    then have "reconciles E name w i" by (auto simp: reconciles_def)
    with deleting(3) show ?thesis using that by blast
  qed
  have "?k \<noteq> key_of (mayastorEtcdVeleroSchedule inst)" using r assms(5) by (auto simp: key_simps)
  moreover have "?k \<notin> engine_keys inst"
    using own_schedule [of ?k inst] calculation
    by (auto simp: engine_keys_def namespace_key_def schedule_kind_def)
  moreover have "\<not> unwanted inst ?k ob"
  proof -
    have "key_of ob = ?k" by (rule cluster_api.view_key [OF assms(1,4)])
    then have "\<not> in_scope (key_of ob)"
      by (simp add: in_scope_def orphan_scopes_def schedule_kind_def)
    with calculation show ?thesis by (simp add: unwanted_def orphan_def)
  qed
  moreover have "?k \<notin> cleanup_keys inst"
    using cleanup_keys_schedule [of ?k inst] calculation by auto
  ultimately show False using c by blast
qed

end
