(* ===== verification/Workloads.thy ===== *)
theory Workloads
  imports Engines_Correct
begin

text \<open>
  The objects of an engine fit together: every workload's selector matches its own pods and no
  other workload's, containers mount declared volumes and refer to declared environment
  variables, Services lead to ports their pods open, and each pod runs under a service account
  that the engine creates and binds to its role.
\<close>

section \<open>Well-formed workloads\<close>

text \<open>The names inside \<open>$(...)\<close> of an argument, which the kubelet replaces.\<close>

fun var_refs :: "string \<Rightarrow> string list" where
  "var_refs [] = []"
| "var_refs [c] = []"
| "var_refs (c # d # cs) = (if c = CHR ''$'' \<and> d = CHR ''(''
     then takeWhile (\<lambda>x. x \<noteq> CHR '')'') cs # var_refs cs else var_refs (d # cs))"

definition container_ok :: "string list \<Rightarrow> container \<Rightarrow> bool" where
  "container_ok volumes c \<longleftrightarrow> c_name c \<noteq> '''' \<and> c_image c \<noteq> '''' \<and>
     distinct (map ev_name (c_env c)) \<and>
     list_all (\<lambda>a. list_all (\<lambda>v. v \<in> set (map ev_name (c_env c))) (var_refs a))
       (c_args c) \<and>
     list_all (\<lambda>m. vm_name m \<in> set volumes) (c_volume_mounts c) \<and>
     distinct (map vm_mount_path (c_volume_mounts c))"

text \<open>The selector of a workload, its pods, and the names of its claim templates.\<close>

fun workload_of :: "kbody \<Rightarrow> (str_map \<times> pod_template \<times> string list) option" where
  "workload_of (DeploymentBody s) = Some (dep_selector s, dep_template s, [])"
| "workload_of (DaemonSetBody s) = Some (ds_selector s, ds_template s, [])"
| "workload_of (StatefulSetBody s) = Some (sts_selector s, sts_template s,
     map (om_name \<circ> pvc_meta) (sts_volume_claim_templates s))"
| "workload_of _ = None"

definition pods_ok :: "str_map \<Rightarrow> pod_template \<Rightarrow> string list \<Rightarrow> bool" where
  "pods_ok sel tmpl claims \<longleftrightarrow> (let spec = pt_spec tmpl;
     volumes = map vol_name (ps_volumes spec) @ claims
   in sel \<noteq> [] \<and> has_labels sel (pt_labels tmpl) \<and> ps_containers spec \<noteq> [] \<and> distinct volumes \<and>
     distinct (map c_name (ps_init_containers spec @ ps_containers spec)) \<and>
     list_all (container_ok volumes) (ps_init_containers spec @ ps_containers spec))"

definition workload_ok :: "kobj \<Rightarrow> bool" where
  "workload_ok ob \<longleftrightarrow> has_labels managed_selector (om_labels (meta ob)) \<and>
     (case workload_of (body ob) of
        None \<Rightarrow> False
      | Some (sel, tmpl, claims) \<Rightarrow> pods_ok sel tmpl claims)"

lemma image_of_nonempty [simp]: "deflt \<noteq> '''' \<Longrightarrow> image_of inst field deflt \<noteq> ''''"
  by (simp add: image_of_def resolveImage_def split: option.split)

lemma mayastorImage_nonempty [simp]: "mayastorImage tag c \<noteq> ''''"
  by (simp add: mayastorImage_def)

lemmas default_images = defaultLVMImage_def defaultHostpathImage_def defaultZFSImage_def
  defaultRawfileImage_def defaultHelperImage_def defaultCSIProvisioner_def defaultCSIResizer_def
  defaultCSISnapshotter_def defaultCSINodeRegistrar_def defaultCSIAttacher_def
  defaultCSISnapshotController_def defaultEtcdImage_def

lemmas workload_defs = workload_ok_def pods_ok_def container_ok_def template_def pod_spec0_def
  container0_def Mount_def Volume_def Port_def csi_socket_mount_def csi_pod_socket_def Let_def
  has_labels_managed default_images

lemma labels_self [simp]: "has_labels (labels c) (labels c)" "labels c \<noteq> []"
  by (simp_all add: labels_select_own) (simp add: labels_def)

lemma lvm_workloads_ok:
  "workload_ok (lvmControllerDeployment inst)" "workload_ok (lvmNodeDaemonSet inst)"
  by (simp add: lvmControllerDeployment_def workload_defs openebs_names,
      simp add: lvmNodeDaemonSet_def workload_defs openebs_names)

lemma hostpath_workload_ok: "workload_ok (hostpathDeployment inst)"
  by (simp add: hostpathDeployment_def workload_defs openebs_names)

lemma zfs_workloads_ok:
  "workload_ok (zfsControllerDeployment inst)" "workload_ok (zfsNodeDaemonSet inst)"
  by (simp add: zfsControllerDeployment_def workload_defs openebs_names,
      simp add: zfsNodeDaemonSet_def workload_defs openebs_names)

lemma rawfile_workload_ok: "workload_ok (rawfileDeployment inst)"
  by (simp add: rawfileDeployment_def workload_defs openebs_names)

text \<open>The names that occur inside arguments.\<close>

lemmas argument_names = mayastorAgentCoreName_def mayastorAPIRestName_def mayastorNamespace_def

lemma agent_core_workload_ok: "workload_ok (mayastorAgentCoreDeployment inst)"
  by (simp add: mayastorAgentCoreDeployment_def workload_defs argument_names
      security_context0_def)

lemma api_rest_workload_ok: "workload_ok (mayastorAPIRestDeployment inst)"
  by (simp add: mayastorAPIRestDeployment_def workload_defs argument_names
      security_context0_def)

lemma csi_controller_workload_ok: "workload_ok (mayastorCSIControllerDeployment inst)"
  by (simp add: mayastorCSIControllerDeployment_def workload_defs argument_names
      security_context0_def)

lemma csi_node_workload_ok: "workload_ok (mayastorCSINodeDaemonSet inst)"
  by (simp add: mayastorCSINodeDaemonSet_def workload_defs argument_names
      security_context0_def)

lemma ha_node_workload_ok: "workload_ok (mayastorHANodeDaemonSet inst)"
  by (simp add: mayastorHANodeDaemonSet_def workload_defs argument_names
      security_context0_def)

lemma diskpool_workload_ok: "workload_ok (mayastorOperatorDiskpoolDeployment inst)"
  by (simp add: mayastorOperatorDiskpoolDeployment_def workload_defs argument_names
      security_context0_def)

lemmas mayastor_workloads_ok = agent_core_workload_ok api_rest_workload_ok
  csi_controller_workload_ok csi_node_workload_ok ha_node_workload_ok diskpool_workload_ok

text \<open>
  The etcd container has a shell script for a command, where \<open>$(...)\<close> is a substitution of the
  shell; it has no arguments of the kind the kubelet expands.
\<close>

lemma etcd_workload_ok: "workload_ok (etcd_statefulset inst q)"
  by (simp add: etcd_statefulset_def workload_defs security_context0_def object_meta_def)

text \<open>
  The arguments of the I/O engine hold a text the user configures; a dollar sign there would be
  the user's own reference.
\<close>

definition plain_env_context :: "OpenEBS \<Rightarrow> bool" where
  "plain_env_context inst \<longleftrightarrow> (case spec_Mayastor (oe_Spec inst) of
     None \<Rightarrow> True | Some c \<Rightarrow> CHR ''$'' \<notin> set (ms_IoEngineEnvContext c))"

lemma var_refs_plain: "CHR ''$'' \<notin> set s \<Longrightarrow> var_refs s = []"
  by (induction s rule: var_refs.induct) auto

lemma refs_mono:
  "list_all (\<lambda>a. list_all (\<lambda>v. v \<in> S) (f a)) xs \<Longrightarrow> S \<subseteq> T \<Longrightarrow>
     list_all (\<lambda>a. list_all (\<lambda>v. v \<in> T) (f a)) xs"
  by (auto simp: list_all_iff)

lemma io_engine_workload_ok:
  assumes "plain_env_context inst"
  shows "workload_ok (mayastorIOEngineDaemonSet inst)"
proof -
  have "list_all (\<lambda>a. list_all (\<lambda>v. v \<in> {''MY_NODE_NAME'', ''MY_POD_IP''}) (var_refs a))
      (ioEngineArgs inst)"
    using assms
    by (simp add: ioEngineArgs_def argument_names plain_env_context_def var_refs_plain
        split: option.splits)
  then have "list_all (\<lambda>a. list_all (\<lambda>v. v \<in> set [''RUST_LOG'', ''NVMF_TCP_NUM_SHARED_BUF'',
      ''NVMF_TCP_BUF_CACHE_SIZE'', ''NVMF_TCP_MAX_QPAIRS_PER_CTRL'', ''NVMF_TCP_MAX_QUEUE_DEPTH'',
      ''NVMF_TCP_IN_CAPSULE_DATA_SIZE'', ''NVMF_TCP_MAX_IO_SIZE'', ''NVMF_TCP_IO_UNIT_SIZE'',
      ''NVME_TIMEOUT'', ''NVME_TIMEOUT_ADMIN'', ''NVME_KATO'', ''NVME_MAX_NAMESPACES'',
      ''MY_NODE_NAME'', ''MY_POD_IP'', ''NEXUS_NVMF_ANA_ENABLE'', ''NEXUS_NVMF_RESV_ENABLE'',
      ''POOL_HANDLE_RESCAN_PERIOD'']) (var_refs a)) (ioEngineArgs inst)"
    by (rule refs_mono) simp
  then show ?thesis
    by (simp add: mayastorIOEngineDaemonSet_def workload_defs argument_names security_context0_def)
qed

section \<open>All the workloads\<close>

definition workloads :: "OpenEBS \<Rightarrow> kobj list" where
  "workloads inst = [lvmControllerDeployment inst, lvmNodeDaemonSet inst,
     hostpathDeployment inst, zfsControllerDeployment inst, zfsNodeDaemonSet inst,
     rawfileDeployment inst, etcd_sts inst, mayastorAgentCoreDeployment inst,
     mayastorAPIRestDeployment inst, mayastorCSIControllerDeployment inst,
     mayastorIOEngineDaemonSet inst, mayastorCSINodeDaemonSet inst,
     mayastorHANodeDaemonSet inst, mayastorOperatorDiskpoolDeployment inst]"

text \<open> C33: every Deployment, DaemonSet and StatefulSet the operator builds is
  well formed for every resource, the DaemonSet of the I/O engine for every resource whose
  \<open>ioEngineEnvContext\<close> has no dollar sign: it carries the managed-by label, its selector selects its
  own pods, its containers have distinct names, an image, distinct environment variables and mount
  paths, they mount only declared volumes or claim templates, and every variable an argument
  refers to is declared in its container.\<close>

theorem workloads_well_formed:
  assumes "ob \<in> set (workloads inst)"
    and "ob = mayastorIOEngineDaemonSet inst \<Longrightarrow> plain_env_context inst"
  shows "workload_ok ob"
  using assms(1) lvm_workloads_ok hostpath_workload_ok zfs_workloads_ok rawfile_workload_ok
    etcd_workload_ok mayastor_workloads_ok io_engine_workload_ok [OF assms(2)]
  by (auto simp: workloads_def etcd_sts_def)

definition pod_labels :: "kobj \<Rightarrow> str_map" where
  "pod_labels ob = (case workload_of (body ob) of None \<Rightarrow> [] | Some (sel, tmpl, _) \<Rightarrow> pt_labels tmpl)"

definition pod_selector :: "kobj \<Rightarrow> str_map" where
  "pod_selector ob = (case workload_of (body ob) of None \<Rightarrow> [] | Some (sel, tmpl, _) \<Rightarrow> sel)"

text \<open>The labels of the pods of a workload, which are also its selector.\<close>

definition runs_as :: "kobj \<Rightarrow> string \<Rightarrow> bool" where
  "runs_as ob component \<longleftrightarrow>
     pod_selector ob = labels component \<and> pod_labels ob = labels component"

lemmas runs_as_defs = runs_as_def pod_selector_def pod_labels_def template_def Let_def

lemma runs_lvm_controller: "runs_as (lvmControllerDeployment inst) ''lvm-controller''"
  by (simp add: runs_as_defs lvmControllerDeployment_def)

lemma runs_lvm_node: "runs_as (lvmNodeDaemonSet inst) ''lvm-node''"
  by (simp add: runs_as_defs lvmNodeDaemonSet_def)

lemma runs_hostpath_provisioner: "runs_as (hostpathDeployment inst) ''hostpath-provisioner''"
  by (simp add: runs_as_defs hostpathDeployment_def)

lemma runs_zfs_controller: "runs_as (zfsControllerDeployment inst) ''zfs-controller''"
  by (simp add: runs_as_defs zfsControllerDeployment_def)

lemma runs_zfs_node: "runs_as (zfsNodeDaemonSet inst) ''zfs-node''"
  by (simp add: runs_as_defs zfsNodeDaemonSet_def)

lemma runs_rawfile_provisioner: "runs_as (rawfileDeployment inst) ''rawfile-provisioner''"
  by (simp add: runs_as_defs rawfileDeployment_def)

lemma runs_mayastor_etcd: "runs_as (etcd_sts inst) ''mayastor-etcd''"
  by (simp add: runs_as_defs etcd_sts_def etcd_statefulset_def)

lemma runs_mayastor_agent_core: "runs_as (mayastorAgentCoreDeployment inst) ''mayastor-agent-core''"
  by (simp add: runs_as_defs mayastorAgentCoreDeployment_def)

lemma runs_mayastor_api_rest: "runs_as (mayastorAPIRestDeployment inst) ''mayastor-api-rest''"
  by (simp add: runs_as_defs mayastorAPIRestDeployment_def)

lemma runs_mayastor_csi_controller: "runs_as (mayastorCSIControllerDeployment inst) ''mayastor-csi-controller''"
  by (simp add: runs_as_defs mayastorCSIControllerDeployment_def)

lemma runs_mayastor_io_engine: "runs_as (mayastorIOEngineDaemonSet inst) ''mayastor-io-engine''"
  by (simp add: runs_as_defs mayastorIOEngineDaemonSet_def)

lemma runs_mayastor_csi_node: "runs_as (mayastorCSINodeDaemonSet inst) ''mayastor-csi-node''"
  by (simp add: runs_as_defs mayastorCSINodeDaemonSet_def)

lemma runs_mayastor_ha_node: "runs_as (mayastorHANodeDaemonSet inst) ''mayastor-ha-node''"
  by (simp add: runs_as_defs mayastorHANodeDaemonSet_def)

lemma runs_mayastor_operator_diskpool: "runs_as (mayastorOperatorDiskpoolDeployment inst) ''mayastor-operator-diskpool''"
  by (simp add: runs_as_defs mayastorOperatorDiskpoolDeployment_def)

lemmas workload_components = runs_lvm_controller runs_lvm_node runs_hostpath_provisioner runs_zfs_controller
  runs_zfs_node runs_rawfile_provisioner runs_mayastor_etcd runs_mayastor_agent_core
  runs_mayastor_api_rest runs_mayastor_csi_controller runs_mayastor_io_engine runs_mayastor_csi_node
  runs_mayastor_ha_node runs_mayastor_operator_diskpool

definition component_names :: "string list" where
  "component_names = [''lvm-controller'', ''lvm-node'', ''hostpath-provisioner'',
     ''zfs-controller'', ''zfs-node'', ''rawfile-provisioner'', ''mayastor-etcd'',
     ''mayastor-agent-core'', ''mayastor-api-rest'', ''mayastor-csi-controller'',
     ''mayastor-io-engine'', ''mayastor-csi-node'', ''mayastor-ha-node'',
     ''mayastor-operator-diskpool'']"

lemma component_names_distinct: "distinct component_names"
  by (simp add: component_names_def)

lemma workloads_run_as: "list_all2 runs_as (workloads inst) component_names"
  by (simp add: workloads_def component_names_def workload_components)

text \<open> C34: the selector of a workload matches the pods of that workload and of no
  other workload of the operator, so that no controller adopts or deletes pods of another.\<close>

theorem selectors_disjoint:
  assumes "i < length (workloads inst)" and "j < length (workloads inst)"
  shows "has_labels (pod_selector (workloads inst ! i)) (pod_labels (workloads inst ! j)) \<longleftrightarrow> i = j"
proof -
  have l: "length component_names = length (workloads inst)"
    using list_all2_lengthD [OF workloads_run_as] by simp
  have r: "runs_as (workloads inst ! k) (component_names ! k)" if "k < length (workloads inst)" for k
    using list_all2_nthD [OF workloads_run_as that] .
  from r [OF assms(1)] r [OF assms(2)]
  have "has_labels (pod_selector (workloads inst ! i)) (pod_labels (workloads inst ! j)) \<longleftrightarrow>
      component_names ! i = component_names ! j"
    by (simp add: runs_as_def labels_select_own)
  with nth_eq_iff_index_eq [OF component_names_distinct, of i j] assms l show ?thesis by simp
qed

section \<open>Services\<close>

definition pod_ports :: "kobj \<Rightarrow> int list" where
  "pod_ports ob = (case workload_of (body ob) of None \<Rightarrow> []
     | Some (sel, tmpl, _) \<Rightarrow> concat (map (\<lambda>c. map cp_port (c_ports c)) (ps_containers (pt_spec tmpl))))"

fun target_port :: "service_port \<Rightarrow> int option" where
  "target_port p = (case sp_target_port p of None \<Rightarrow> Some (sp_port p) | Some (IntVal n) \<Rightarrow> Some n
     | Some (StrVal s) \<Rightarrow> None)"

text \<open>A Service leads to a workload: it selects its pods and every port of it is open there.\<close>

definition serves :: "kobj \<Rightarrow> kobj \<Rightarrow> bool" where
  "serves svc ob \<longleftrightarrow> om_namespace (meta svc) = om_namespace (meta ob) \<and> (case body svc of
     ServiceBody s \<Rightarrow> has_labels (svc_selector s) (pod_labels ob) \<and> svc_ports s \<noteq> [] \<and>
       list_all (\<lambda>p. case target_port p of None \<Rightarrow> False | Some n \<Rightarrow> n \<in> set (pod_ports ob))
         (svc_ports s)
   | _ \<Rightarrow> False)"

definition service_backends :: "OpenEBS \<Rightarrow> (kobj \<times> kobj) list" where
  "service_backends inst = [(mayastorEtcdService, etcd_sts inst),
     (mayastorAgentCoreService, mayastorAgentCoreDeployment inst),
     (mayastorAPIRestService, mayastorAPIRestDeployment inst),
     (mayastorMetricsExporterService, mayastorIOEngineDaemonSet inst)]"

lemmas service_defs = serves_def pod_ports_def pod_labels_def template_def Let_def Port_def
  mayastorEtcdService_def mayastorAgentCoreService_def mayastorAPIRestService_def
  mayastorMetricsExporterService_def

text \<open> C35: each of the four Services of Mayastor selects the pods of its
  workload, in the same namespace, and every port it offers is one a container there opens; and
  the headless Service of etcd is the one its StatefulSet names as its governing Service.\<close>

theorem services_reach_pods:
  assumes "(svc, ob) \<in> set (service_backends inst)"
  shows "serves svc ob \<and>
    (\<forall>s. body ob = StatefulSetBody s \<longrightarrow> sts_service_name s = om_name (meta svc))"
proof -
  have "serves mayastorEtcdService (etcd_sts inst)"
    by (simp add: service_defs etcd_sts_def etcd_statefulset_def)
  moreover have "serves mayastorAgentCoreService (mayastorAgentCoreDeployment inst)"
    by (simp add: service_defs mayastorAgentCoreDeployment_def)
  moreover have "serves mayastorAPIRestService (mayastorAPIRestDeployment inst)"
    by (simp add: service_defs mayastorAPIRestDeployment_def)
  moreover have "serves mayastorMetricsExporterService (mayastorIOEngineDaemonSet inst)"
    by (simp add: service_defs mayastorIOEngineDaemonSet_def)
  moreover have "body (etcd_sts inst) = StatefulSetBody s \<Longrightarrow>
      sts_service_name s = om_name (meta mayastorEtcdService)" for s
    by (auto simp: etcd_sts_def etcd_statefulset_def mayastorEtcdService_def Let_def)
  moreover have "body ob' \<noteq> StatefulSetBody s" if "ob' \<in> {mayastorAgentCoreDeployment inst,
      mayastorAPIRestDeployment inst, mayastorIOEngineDaemonSet inst}" for ob' s
    using that by (auto simp: mayastorAgentCoreDeployment_def mayastorAPIRestDeployment_def
        mayastorIOEngineDaemonSet_def Let_def)
  ultimately show ?thesis using assms by (auto simp: service_backends_def)
qed

section \<open>Service accounts and roles\<close>

fun pod_account :: "kbody \<Rightarrow> string" where
  "pod_account b = (case workload_of b of None \<Rightarrow> ''''
     | Some (sel, tmpl, _) \<Rightarrow> ps_service_account (pt_spec tmpl))"

text \<open>The rules that a binding among \<open>obs\<close> gives the pods of a workload.\<close>

definition granted :: "kobj list \<Rightarrow> kobj \<Rightarrow> policy_rule list" where
  "granted obs ob = concat (map (\<lambda>crb. case body crb of
     ClusterRoleBindingBody r subjects \<Rightarrow>
       if rr_kind r = ''ClusterRole'' \<and> list_ex (\<lambda>s. sj_kind s = ''ServiceAccount'' \<and>
         sj_name s = pod_account (body ob) \<and> sj_namespace s = om_namespace (meta ob)) subjects
       then concat (map (\<lambda>cr. case body cr of
           ClusterRoleBody rules \<Rightarrow> if obj_name cr = rr_name r then rules else []
         | _ \<Rightarrow> []) obs)
       else []
   | _ \<Rightarrow> []) obs)"

text \<open>
  The contract of an engine's RBAC objects: the binding joins the account to the role, and the
  pods of the engine run under the account, in its namespace.
\<close>

locale rbac_objects =
  fixes sa cr crb :: kobj and rules :: "policy_rule list" and pods :: "OpenEBS \<Rightarrow> kobj list"
  assumes account: "body sa = ServiceAccountBody"
    and role: "body cr = ClusterRoleBody rules"
    and binding: "body crb = ClusterRoleBindingBody (cluster_role_ref (obj_name cr))
      [service_account_subject (obj_name sa) (om_namespace (meta sa))]"
    and runs_under: "ob \<in> set (pods inst) \<Longrightarrow> pod_account (body ob) = obj_name sa \<and>
      om_namespace (meta ob) = om_namespace (meta sa)"
begin

lemma pods_granted: "ob \<in> set (pods inst) \<Longrightarrow> granted [sa, cr, crb] ob = rules"
  using runs_under account role binding
  by (simp add: granted_def cluster_role_ref_def service_account_subject_def)

end

definition rules_of :: "kobj \<Rightarrow> policy_rule list" where
  "rules_of cr = (case body cr of ClusterRoleBody rs \<Rightarrow> rs | _ \<Rightarrow> [])"

lemmas pod_account_defs = template_def Let_def openebs_names obj_name_def rules_of_def

interpretation lvm_rbac: rbac_objects lvmServiceAccount lvmClusterRole lvmClusterRoleBinding
  "rules_of lvmClusterRole" "\<lambda>inst. [lvmControllerDeployment inst, lvmNodeDaemonSet inst]"
  by unfold_locales
    (auto simp: lvmServiceAccount_def lvmClusterRole_def lvmClusterRoleBinding_def
      lvmControllerDeployment_def lvmNodeDaemonSet_def pod_account_defs)

interpretation hostpath_rbac: rbac_objects hostpathServiceAccount hostpathClusterRole
  hostpathClusterRoleBinding "rules_of hostpathClusterRole" "\<lambda>inst. [hostpathDeployment inst]"
  by unfold_locales
    (auto simp: hostpathServiceAccount_def hostpathClusterRole_def
      hostpathClusterRoleBinding_def hostpathDeployment_def pod_account_defs)

interpretation zfs_rbac: rbac_objects zfsServiceAccount zfsClusterRole zfsClusterRoleBinding
  "rules_of zfsClusterRole" "\<lambda>inst. [zfsControllerDeployment inst, zfsNodeDaemonSet inst]"
  by unfold_locales
    (auto simp: zfsServiceAccount_def zfsClusterRole_def zfsClusterRoleBinding_def
      zfsControllerDeployment_def zfsNodeDaemonSet_def pod_account_defs)

interpretation rawfile_rbac: rbac_objects rawfileServiceAccount rawfileClusterRole
  rawfileClusterRoleBinding "rules_of rawfileClusterRole" "\<lambda>inst. [rawfileDeployment inst]"
  by unfold_locales
    (auto simp: rawfileServiceAccount_def rawfileClusterRole_def rawfileClusterRoleBinding_def
      rawfileDeployment_def pod_account_defs)

text \<open>etcd runs under the default account of the namespace; it needs no rules.\<close>

definition mayastor_pods :: "OpenEBS \<Rightarrow> kobj list" where
  "mayastor_pods inst = [mayastorAgentCoreDeployment inst, mayastorAPIRestDeployment inst,
     mayastorCSIControllerDeployment inst, mayastorIOEngineDaemonSet inst,
     mayastorCSINodeDaemonSet inst, mayastorHANodeDaemonSet inst,
     mayastorOperatorDiskpoolDeployment inst]"

lemma mayastor_accounts:
  "list_all (\<lambda>ob. pod_account (body ob) = mayastorServiceAccountName \<and>
     om_namespace (meta ob) = mayastorNamespace) (mayastor_pods inst)"
  by (simp add: mayastor_pods_def mayastorAgentCoreDeployment_def mayastorAPIRestDeployment_def
      mayastorCSIControllerDeployment_def mayastorIOEngineDaemonSet_def
      mayastorCSINodeDaemonSet_def mayastorHANodeDaemonSet_def
      mayastorOperatorDiskpoolDeployment_def template_def Let_def)

interpretation mayastor_rbac: rbac_objects mayastorServiceAccount mayastorClusterRole
  mayastorClusterRoleBinding "rules_of mayastorClusterRole" mayastor_pods
proof unfold_locales
  show "pod_account (body ob) = obj_name mayastorServiceAccount \<and>
      om_namespace (meta ob) = om_namespace (meta mayastorServiceAccount)"
    if "ob \<in> set (mayastor_pods inst)" for ob inst
    using that mayastor_accounts [of inst]
    by (auto simp: list_all_iff mayastorServiceAccount_def obj_name_def)
qed (simp_all add: mayastorServiceAccount_def mayastorClusterRole_def
    mayastorClusterRoleBinding_def obj_name_def rules_of_def)

definition rbac_table :: "OpenEBS \<Rightarrow> (kobj \<times> kobj \<times> kobj \<times> kobj list) list" where
  "rbac_table inst = [
     (lvmServiceAccount, lvmClusterRole, lvmClusterRoleBinding,
      [lvmControllerDeployment inst, lvmNodeDaemonSet inst]),
     (hostpathServiceAccount, hostpathClusterRole, hostpathClusterRoleBinding,
      [hostpathDeployment inst]),
     (zfsServiceAccount, zfsClusterRole, zfsClusterRoleBinding,
      [zfsControllerDeployment inst, zfsNodeDaemonSet inst]),
     (rawfileServiceAccount, rawfileClusterRole, rawfileClusterRoleBinding,
      [rawfileDeployment inst]),
     (mayastorServiceAccount, mayastorClusterRole, mayastorClusterRoleBinding,
      mayastor_pods inst)]"

text \<open> C36: for each engine, the service account, ClusterRole and
  ClusterRoleBinding it creates give the pods of every one of its workloads (etcd apart) exactly
  the rules of the engine's role: the account the pods name, in their namespace, is the one that
  is created and bound.\<close>

theorem pods_get_their_role:
  assumes "(sa, cr, crb, pods) \<in> set (rbac_table inst)" and "ob \<in> set pods"
  shows "granted [sa, cr, crb] ob = rules_of cr \<and> body sa = ServiceAccountBody \<and>
    obj_name sa = pod_account (body ob) \<and> om_namespace (meta sa) = om_namespace (meta ob)"
proof -
  from assms(1) consider
      "sa = lvmServiceAccount" "cr = lvmClusterRole" "crb = lvmClusterRoleBinding"
        "pods = [lvmControllerDeployment inst, lvmNodeDaemonSet inst]"
    | "sa = hostpathServiceAccount" "cr = hostpathClusterRole" "crb = hostpathClusterRoleBinding"
        "pods = [hostpathDeployment inst]"
    | "sa = zfsServiceAccount" "cr = zfsClusterRole" "crb = zfsClusterRoleBinding"
        "pods = [zfsControllerDeployment inst, zfsNodeDaemonSet inst]"
    | "sa = rawfileServiceAccount" "cr = rawfileClusterRole" "crb = rawfileClusterRoleBinding"
        "pods = [rawfileDeployment inst]"
    | "sa = mayastorServiceAccount" "cr = mayastorClusterRole" "crb = mayastorClusterRoleBinding"
        "pods = mayastor_pods inst"
    unfolding rbac_table_def by auto
  then show ?thesis
  proof cases
    case 1
    with assms(2) lvm_rbac.pods_granted [of ob inst] lvm_rbac.runs_under [of ob inst]
    show ?thesis by (simp add: lvm_rbac.account)
  next
    case 2
    with assms(2) hostpath_rbac.pods_granted [of ob inst] hostpath_rbac.runs_under [of ob inst]
    show ?thesis by (simp add: hostpath_rbac.account)
  next
    case 3
    with assms(2) zfs_rbac.pods_granted [of ob inst] zfs_rbac.runs_under [of ob inst]
    show ?thesis by (simp add: zfs_rbac.account)
  next
    case 4
    with assms(2) rawfile_rbac.pods_granted [of ob inst] rawfile_rbac.runs_under [of ob inst]
    show ?thesis by (simp add: rawfile_rbac.account)
  next
    case 5
    with assms(2) mayastor_rbac.pods_granted [of ob inst] mayastor_rbac.runs_under [of ob inst]
    show ?thesis by (simp add: mayastor_rbac.account)
  qed
qed

section \<open>Bounds of the configuration\<close>

lemma ucast_int32: "(ucast (x :: 64 word) :: 32 word) = word_of_int (sint x)"
  by transfer (simp add: take_bit_signed_take_bit)

lemma sint_int32: "sint (word_of_int k :: 32 word) = signed_take_bit 31 k"
  by transfer simp

lemma int32_of_int: "sint (ucast (x :: 64 word) :: 32 word) = signed_take_bit 31 (sint x)"
  by (simp only: ucast_int32 sint_int32)

lemma int32_small: "0 < k \<Longrightarrow> k < 2 ^ 31 \<Longrightarrow> signed_take_bit 31 k = (k :: int)"
  by (rule signed_take_bit_int_eq_self) simp_all

text \<open>The count in the StatefulSet as a function of the configured one.\<close>

lemma etcd_replicas_value:
  assumes "spec_Mayastor (oe_Spec inst) = Some c"
  shows "sint (ms_EtcdReplicaCount c) \<le> 0 \<Longrightarrow> etcd_replicas inst = 1"
    and "0 < sint (ms_EtcdReplicaCount c) \<Longrightarrow>
      sint (etcd_replicas inst) = signed_take_bit 31 (sint (ms_EtcdReplicaCount c))"
  using assms by (simp add: etcd_replicas_def, simp only: etcd_replicas_def option.case if_True
    int32_of_int)

lemma signed_wrap: "signed_take_bit 31 (k :: int) = (k + 2 ^ 31) mod 2 ^ 32 - 2 ^ 31"
  by (simp add: signed_take_bit_eq_take_bit_shift take_bit_eq_mod)

text \<open> C37: the etcd StatefulSet that the operator builds asks for 1 replica without a Mayastor
  section or with a configured count that is not positive. A positive count, read as 64 bits, is
  converted to \<open>int32\<close>: it is kept as long as it fits in 32 signed bits, and wraps beyond that, so
  that some positive counts become zero or negative ones.\<close>

theorem etcd_replicas_bounds:
  assumes "mayastorEtcdStatefulSet L inst = Inr ob"
  shows "\<exists>s. body ob = StatefulSetBody s \<and>
    (case spec_Mayastor (oe_Spec inst) of
       None \<Rightarrow> sts_replicas s = 1
     | Some c \<Rightarrow> let n = sint (ms_EtcdReplicaCount c) in
         (n \<le> 0 \<longrightarrow> sts_replicas s = 1) \<and>
         (0 < n \<longrightarrow> sint (sts_replicas s) = (n + 2 ^ 31) mod 2 ^ 32 - 2 ^ 31) \<and>
         (0 < n \<and> n < 2 ^ 31 \<longrightarrow> sint (sts_replicas s) = n) \<and>
         (n = 2 ^ 32 \<longrightarrow> sint (sts_replicas s) = 0) \<and>
         (n = 2 ^ 31 \<longrightarrow> sint (sts_replicas s) < 0))"
proof -
  from assms obtain s where s: "body ob = StatefulSetBody s" "sts_replicas s = etcd_replicas inst"
    by (auto simp: mayastorEtcdStatefulSet_Inr etcd_statefulset_def Let_def)
  show ?thesis
  proof (cases "spec_Mayastor (oe_Spec inst)")
    case None
    with s show ?thesis by (simp add: etcd_replicas_def)
  next
    case (Some c)
    note v = etcd_replicas_value [OF Some, folded s(2)]
    let ?n = "sint (ms_EtcdReplicaCount c)"
    have "sint (sts_replicas s) = ?n" if "0 < ?n \<and> ?n < 2 ^ 31"
      using that v(2) int32_small [of ?n] by (simp only:)
    moreover have "sint (sts_replicas s) = 0" if "?n = 2 ^ 32" using v(2) that by simp
    moreover have "sint (sts_replicas s) < 0" if "?n = 2 ^ 31" using v(2) that by simp
    moreover have "sint (sts_replicas s) = (?n + 2 ^ 31) mod 2 ^ 32 - 2 ^ 31" if "0 < ?n"
      using v(2) [OF that] by (simp only: signed_wrap)
    ultimately show ?thesis
      unfolding Some option.case Let_def
      using s(1) v(1) by (intro exI [of _ s] conjI impI) blast+
  qed
qed

end
