(* ===== verification/Lifecycle.thy ===== *)
theory Lifecycle
  imports Reconcile_Correct
begin

text \<open>
  The life of the custom resources over many reconciles, as a state machine: users create, edit
  and delete resources, other controllers and the garbage collector change and delete objects, and
  the operator reconciles.  Users also act in the middle of a reconcile: the contract \<open>cr_api\<close> lets
  the stored resources move between any two calls of the client.  The invariant is that no object
  of the clean-up's list outlives the resources that hold the operator's finalizer.
\<close>

section \<open>How the resources move\<close>

type_synonym cr_store = "string \<Rightarrow> OpenEBS option"

definition cr_name :: "OpenEBS \<Rightarrow> string" where
  "cr_name inst = om_name (oe_meta inst)"

definition finalized :: "OpenEBS \<Rightarrow> bool" where
  "finalized inst \<longleftrightarrow> openebsFinalizer \<in> set (om_finalizers (oe_meta inst))"

text \<open>
  What others do to a resource. A request to delete it marks it when it has finalizers; it goes
  away when it has none. The operator's finalizer is its own: nobody else takes it away. A write
  of the status is an edit.
\<close>

inductive user_move :: "cr_store \<Rightarrow> cr_store \<Rightarrow> bool" where
  creates: "m (cr_name i) = None \<Longrightarrow> om_deletion_timestamp (oe_meta i) = None \<Longrightarrow>
    user_move m (m(cr_name i \<mapsto> i))"
| edits: "m (cr_name j) = Some i \<Longrightarrow>
    om_deletion_timestamp (oe_meta j) = om_deletion_timestamp (oe_meta i) \<Longrightarrow>
    (finalized i \<Longrightarrow> finalized j) \<Longrightarrow> user_move m (m(cr_name j \<mapsto> j))"
| marks: "m n = Some i \<Longrightarrow> om_finalizers (oe_meta i) \<noteq> [] \<Longrightarrow>
    user_move m (m(n \<mapsto> i\<lparr>oe_meta := (oe_meta i)\<lparr>om_deletion_timestamp := Some t\<rparr>\<rparr>))"
| removes: "m n = Some i \<Longrightarrow> om_finalizers (oe_meta i) = [] \<Longrightarrow> user_move m (m(n := None))"

abbreviation users :: "cr_store \<Rightarrow> cr_store \<Rightarrow> bool" where
  "users \<equiv> user_move\<^sup>*\<^sup>*"

definition held :: "cr_store \<Rightarrow> string \<Rightarrow> bool" where
  "held m n \<longleftrightarrow> (\<exists>i. m n = Some i \<and> finalized i)"

lemma user_move_held: "user_move m m' \<Longrightarrow> held m n \<Longrightarrow> held m' n"
  by (induction rule: user_move.induct) (auto simp: held_def finalized_def)

lemma users_held: "users m m' \<Longrightarrow> held m n \<Longrightarrow> held m' n"
  by (induction rule: rtranclp_induct) (auto intro: user_move_held)

text \<open>What the store holds after an update of \<open>i\<close> that found \<open>old\<close>.\<close>

definition persists :: "OpenEBS \<Rightarrow> OpenEBS \<Rightarrow> OpenEBS option \<Rightarrow> bool" where
  "persists old i st \<longleftrightarrow>
     (if om_deletion_timestamp (oe_meta old) \<noteq> None \<and> om_finalizers (oe_meta i) = []
      then st = None
      else \<exists>s. st = Some s \<and> cr_name s = cr_name i \<and>
        om_finalizers (oe_meta s) = om_finalizers (oe_meta i) \<and>
        om_deletion_timestamp (oe_meta s) = om_deletion_timestamp (oe_meta old))"

section \<open>The contract\<close>

locale cr_api = cluster_api E view defaulted + apimachinery E
  for E :: "'a env" and view defaulted +
  fixes crs :: "'a \<Rightarrow> cr_store"
  assumes contains_iff: "ContainsFinalizer E i f \<longleftrightarrow> f \<in> set (om_finalizers (oe_meta i))"
    and add_name: "cr_name (AddFinalizer E i f) = cr_name i"
    and get_crs: "users (crs w) (crs (snd (cl_get E k w)))"
    and create_crs: "users (crs w) (crs (snd (cl_create E ob w)))"
    and update_crs: "users (crs w) (crs (snd (cl_update E ob w)))"
    and delete_crs: "users (crs w) (crs (snd (cl_delete E k w)))"
    and list_crs: "users (crs w) (crs (snd (cl_list E kd ns sel w)))"
    and ensure_crs: "users (crs w) (crs (snd (create_or_update E g ob w)))"
    and http_crs: "users (crs w) (crs (snd (http_get E url w)))"
    and time_crs: "users (crs w) (crs (snd (time_now E w)))"
    and status_crs: "users (crs w) (crs (snd (cr_status_update E i w)))"
    and cr_get_crs: "users (crs w) (crs (snd (cr_get E n w)))"
    and cr_get_read: "cr_get E n w = (Inr i, w') \<Longrightarrow>
      \<exists>m. users (crs w) m \<and> m n = Some i \<and> users m (crs w')"
    and cr_update_ok: "cr_update E i w = (Inr j, w') \<Longrightarrow>
      \<exists>m old st. users (crs w) m \<and> m (cr_name i) = Some old \<and> persists old i st \<and>
        users (m(cr_name i := st)) (crs w')"
    and cr_update_failed: "cr_update E i w = (Inl e, w') \<Longrightarrow> users (crs w) (crs w')"

sublocale cr_api \<subseteq> moved: object_calls E "\<lambda>w w'. users (crs w) (crs w')" "\<lambda>_. True"
  by unfold_locales
    (auto simp: get_crs create_crs update_crs delete_crs list_crs ensure_crs http_crs)

section \<open>One reconcile\<close>

text \<open>The part of the clean-up's list that does not depend on the resource.\<close>

definition swept_keys :: "objkey set" where
  "swept_keys = {k. \<forall>inst. k \<in> cleanup_keys inst}"

text \<open>The invariant: while such an object is in the cluster, some resource holds the finalizer.\<close>

definition guarded :: "('w \<Rightarrow> objkey \<Rightarrow> kobj option) \<Rightarrow> ('w \<Rightarrow> cr_store) \<Rightarrow> 'w \<Rightarrow> bool" where
  "guarded view crs w \<longleftrightarrow> (\<exists>k \<in> swept_keys. view w k \<noteq> None) \<longrightarrow> (\<exists>n. held (crs w) n)"

context cr_api
begin

lemmas reconcileNormal_moves = moved.calls_reconcileNormal [OF time_crs cr_get_crs status_crs]

text \<open>A resource that holds the finalizer when the engines are deployed holds it afterwards.\<close>

lemma normal_held: "held (crs w) n \<Longrightarrow> reconcileNormal E inst w = (out, w') \<Longrightarrow> held (crs w') n"
  using users_held [OF moved.keeps_result [OF reconcileNormal_moves]] .

lemma read_held:
  assumes "cr_get E n w = (Inr i, w')" and "ContainsFinalizer E i openebsFinalizer"
  shows "held (crs w') n"
proof -
  from cr_get_read [OF assms(1)] obtain m where m: "m n = Some i" "users m (crs w')" by blast
  with assms(2) have "held m n" by (simp add: contains_iff held_def finalized_def)
  from users_held [OF m(2) this] show ?thesis .
qed

lemma added_held:
  assumes "cr_update E (AddFinalizer E i openebsFinalizer) w = (Inr j, w')"
  shows "held (crs w') (cr_name i)"
proof -
  let ?i = "AddFinalizer E i openebsFinalizer"
  have f: "openebsFinalizer \<in> set (om_finalizers (oe_meta ?i))"
    using contains_add contains_iff by blast
  from cr_update_ok [OF assms] obtain m old st where "persists old ?i st"
    and u: "users (m(cr_name i := st)) (crs w')" by (auto simp: add_name)
  with f have "held (m(cr_name i := st)) (cr_name i)"
    by (auto simp: persists_def held_def finalized_def split: if_splits)
  from users_held [OF u this] show ?thesis .
qed

lemma reconcile_guarded:
  assumes "ReconcileReq E name w = (out, w')" and "guarded view crs w"
  shows "guarded view crs w'"
  using assms(1)
proof (cases rule: ReconcileReq_cases)
  case (unread e)
  then show ?thesis
    using assms(2) cr_get_view [of name w] users_held [OF cr_get_crs [of w name]]
    by (auto simp: guarded_def)
next
  case (live inst w1)
  from normal_held [OF read_held [OF live(1,3)] live(4)] show ?thesis by (auto simp: guarded_def)
next
  case (added inst w1 inst' w2)
  from normal_held [OF added_held [OF added(4)] added(5)] show ?thesis by (auto simp: guarded_def)
next
  case (not_added inst w1 m)
  have "view w' = view w"
    using cr_get_view [of name w] cr_update_view [of _ w1] not_added(1,4) by (metis snd_conv)
  moreover have "held (crs w') n" if "held (crs w) n" for n
    using users_held [OF cr_get_crs [of w name]] users_held [OF cr_update_failed [OF not_added(4)]]
      not_added(1) that by simp
  ultimately show ?thesis using assms(2) unfolding guarded_def by metis
next
  case (deleting inst w1)
  from deleting(3) show ?thesis
  proof (cases rule: reconcileDelete_cases)
    case (released w2 r)
    have "view w' k = None" if "k \<in> swept_keys" for k
      using cleanup_clears [OF cluster_api_axioms released(1), of k] that released(2)
        cr_update_view [of _ w2] by (auto simp: swept_keys_def) (metis snd_conv)
    then show ?thesis by (auto simp: guarded_def)
  next
    case (stopped x)
    have v: "view w1 = view w" using cr_get_view [of name w] deleting(1) by simp
    have "view w' k = view w1 k \<or> view w' k = None" for k
      using cleanup_touches [OF cluster_api_axioms stopped(1), of k]
      by (cases "view w' k = view w1 k") simp_all
    moreover have "held (crs w') n" if "held (crs w) n" for n
      using users_held [OF moved.keeps_result [OF moved.calls_cleanup stopped(1)]]
        users_held [OF cr_get_crs [of w name]] deleting(1) that by simp
    ultimately show ?thesis using assms(2) v unfolding guarded_def by metis
  qed
qed

end

section \<open>All reachable states\<close>

text \<open>
  Between two reconciles the resources move, and the objects may change or go away in any way:
  other controllers and the garbage collector do that, but they create none of the operator's.
  A reconcile may be of any name, and may stop anywhere by an error or a panic.
\<close>

inductive reachable :: "'w env \<Rightarrow> ('w \<Rightarrow> objkey \<Rightarrow> kobj option) \<Rightarrow> ('w \<Rightarrow> cr_store) \<Rightarrow> 'w \<Rightarrow> bool"
  for E view crs where
  start: "(\<And>k. k \<in> swept_keys \<Longrightarrow> view w k = None) \<Longrightarrow> reachable E view crs w"
| others: "reachable E view crs w \<Longrightarrow> users (crs w) (crs w') \<Longrightarrow> dom (view w') \<subseteq> dom (view w) \<Longrightarrow>
    reachable E view crs w'"
| reconciles: "reachable E view crs w \<Longrightarrow> ReconcileReq E name w = (out, w') \<Longrightarrow>
    reachable E view crs w'"

lemma reachable_guarded:
  assumes "cr_api E view defaulted crs" and "reachable E view crs w"
  shows "guarded view crs w"
  using assms(2)
proof (induction rule: reachable.induct)
  case (start w)
  then show ?case by (auto simp: guarded_def)
next
  case (others w w')
  then show ?case using users_held [OF others.hyps(2)] by (fastforce simp: guarded_def)
next
  case (reconciles w name out w')
  from cr_api.reconcile_guarded [OF assms(1) reconciles.hyps(2) reconciles.IH] show ?case .
qed


section \<open>The reference cluster\<close>

lemma move_users: "user_move m m' \<Longrightarrow> users m m'"
  by (rule r_into_rtranclp)

lemma ref_status_crs: "users (cluster_crs c) (cluster_crs (snd (mem_cr_status_update inst c)))"
proof (cases "cluster_crs c (om_name (oe_meta inst))")
  case (Some old)
  let ?st = "old\<lparr>oe_Status := oe_Status inst\<rparr>"
  from cluster_crs_name [OF Some] Some
  have "user_move (cluster_crs c) ((cluster_crs c)(cr_name ?st \<mapsto> ?st))"
    by (intro edits [of _ _ old]) (simp_all add: cr_name_def finalized_def)
  with Some show ?thesis
    by (auto simp: mem_cr_status_update_def Let_def cr_name_def intro: move_users)
qed (simp add: mem_cr_status_update_def Let_def)

lemma ref_same_crs [simp]:
  "cluster_crs (snd (mem_get k c)) = cluster_crs c"
  "cluster_crs (snd (mem_create ob c)) = cluster_crs c"
  "cluster_crs (snd (mem_update ob c)) = cluster_crs c"
  "cluster_crs (snd (mem_delete k c)) = cluster_crs c"
  "cluster_crs (snd (mem_list kd ns sel c)) = cluster_crs c"
  "cluster_crs (snd (mem_cr_get n c)) = cluster_crs c"
  by (simp_all add: mem_ops Let_def split: option.split)

lemma ref_ensure_crs [simp]: "cluster_crs (snd (mem_create_or_update f ob c)) = cluster_crs c"
  by (auto simp: mem_create_or_update_def mem_get_def split: option.splits)

interpretation ref_cr: cr_api ref_env cluster_view "(=)" cluster_crs
proof unfold_locales
  show "ContainsFinalizer ref_env i f \<longleftrightarrow> f \<in> set (om_finalizers (oe_meta i))" for i f
    by (simp add: ref_env_def)
  show "cr_name (AddFinalizer ref_env i f) = cr_name i" for i f
    by (simp add: ref_env_def cr_name_def)
  show "users (cluster_crs w) (cluster_crs (snd (cr_status_update ref_env i w)))" for w i
    by (simp add: ref_status_crs)
  show "\<exists>m old st. users (cluster_crs w) m \<and> m (cr_name i) = Some old \<and> persists old i st \<and>
      users (m(cr_name i := st)) (cluster_crs w')" if "cr_update ref_env i w = (Inr j, w')" for i w j w'
  proof -
    from that obtain old where old: "cluster_crs w (cr_name i) = Some old"
      by (auto simp: mem_cr_update_def Let_def cr_name_def split: option.splits)
    let ?t = "om_deletion_timestamp (oe_meta old)"
    let ?st = "if ?t \<noteq> None \<and> om_finalizers (oe_meta i) = [] then None
      else Some (i\<lparr>oe_meta := (oe_meta i)\<lparr>om_deletion_timestamp := ?t\<rparr>\<rparr>)"
    have "persists old i ?st" by (simp add: persists_def cr_name_def)
    moreover have "cluster_crs w' = (cluster_crs w)(cr_name i := ?st)"
      using that old by (auto simp: mem_cr_update_def Let_def cr_name_def)
    ultimately show ?thesis using old by (intro exI [of _ "cluster_crs w"] exI [of _ old] exI [of _ ?st]) simp
  qed
next
  show "\<exists>m. users (cluster_crs w) m \<and> m n = Some i \<and> users m (cluster_crs w')"
    if "cr_get ref_env n w = (Inr i, w')" for n w i w'
    using that by (intro exI [of _ "cluster_crs w"]) (auto simp: mem_cr_get_def split: option.splits)
  show "users (cluster_crs w) (cluster_crs w')" if "cr_update ref_env i w = (Inl e, w')" for i w e w'
    using that by (auto simp: mem_cr_update_def Let_def split: option.splits if_splits)
  show "users (cluster_crs w) (cluster_crs (snd (http_get ref_env url w)))"
    "users (cluster_crs w) (cluster_crs (snd (time_now ref_env w)))" for url w
    by (simp_all add: ref_env_def)
qed (simp_all add: ref_same_crs)

end
