(* ===== verification/Permissions.thy ===== *)
theory Permissions
  imports Reconcile_Correct
begin

text \<open>
  What the operator is allowed to do, and what it does: the rules of the kubebuilder markers in
  src/internal/controller/openebs_controller.go, from which the role is generated, and those of the
  role that is deployed (src/config/rbac/role.yaml), against the requests of a reconcile.
\<close>

section \<open>The rules\<close>

definition crud_verbs :: "string list" where
  "crud_verbs = [''get'', ''list'', ''watch'', ''create'', ''update'', ''patch'', ''delete'']"

definition operator_group :: string where
  "operator_group = ''storage.aldershaab-it.dk''"

definition rbac_markers :: "policy_rule list" where
  "rbac_markers = [
     Rule [operator_group] [''openebs''] crud_verbs,
     Rule [operator_group] [''openebs/status''] [''get'', ''update'', ''patch''],
     Rule [operator_group] [''openebs/finalizers''] [''update''],
     Rule [''''] [''namespaces'', ''serviceaccounts''] crud_verbs,
     Rule [''''] [''pods'', ''nodes'', ''events'', ''persistentvolumes'', ''persistentvolumeclaims'',
       ''configmaps'', ''secrets'', ''services''] [''*''],
     Rule [''apps''] [''deployments'', ''daemonsets'', ''statefulsets''] [''*''],
     Rule [''rbac.authorization.k8s.io''] [''clusterroles'', ''clusterrolebindings''] [''*''],
     Rule [''storage.k8s.io''] [''csidrivers'', ''storageclasses'', ''csinodes'',
       ''volumeattachments'', ''csistoragecapacities''] [''*''],
     Rule [''coordination.k8s.io''] [''leases''] [''*''],
     Rule [''apiextensions.k8s.io''] [''customresourcedefinitions''] [''*''],
     Rule [''snapshot.storage.k8s.io''] [''volumesnapshotclasses''] [''*''],
     Rule [''local.openebs.io''] [''lvmnodes'', ''lvmsnapshots'', ''lvmvolumes'',
       ''lvmvolumes/status''] [''*''],
     Rule [''zfs.openebs.io''] [''zfsnodes'', ''zfssnapshots'', ''zfsvolumes'',
       ''zfsvolumes/status''] [''*'']]"

definition manager_role :: "policy_rule list" where
  "manager_role = [
     Rule [operator_group] [''openebs'']
       [''create'', ''delete'', ''get'', ''list'', ''patch'', ''update'', ''watch''],
     Rule [operator_group] [''openebs/finalizers''] [''update''],
     Rule [operator_group] [''openebs/status''] [''get'', ''patch'', ''update''],
     Rule [''''] [''namespaces'', ''serviceaccounts'', ''pods'', ''nodes'', ''events'',
       ''persistentvolumes'', ''persistentvolumeclaims'', ''configmaps'', ''secrets'',
       ''services''] [''*''],
     Rule [''apps''] [''deployments'', ''daemonsets'', ''statefulsets''] [''*''],
     Rule [''rbac.authorization.k8s.io''] [''clusterroles'', ''clusterrolebindings''] [''*''],
     Rule [''storage.k8s.io''] [''csidrivers'', ''storageclasses'', ''csinodes'',
       ''volumeattachments'', ''csistoragecapacities''] [''*''],
     Rule [''apiextensions.k8s.io''] [''customresourcedefinitions''] [''*''],
     Rule [''snapshot.storage.k8s.io''] [''volumesnapshotclasses''] [''*''],
     Rule [''coordination.k8s.io''] [''leases''] [''*''],
     Rule [''local.openebs.io''] [''lvmnodes'', ''lvmsnapshots'', ''lvmvolumes'',
       ''lvmvolumes/status''] [''*''],
     Rule [''zfs.openebs.io''] [''zfsnodes'', ''zfssnapshots'', ''zfsvolumes'',
       ''zfsvolumes/status''] [''*''],
     Rule [''velero.io''] [''schedules'']
       [''create'', ''delete'', ''get'', ''list'', ''update'', ''watch'']]"

section \<open>What a request needs\<close>

text \<open>
  An API server allows an access when one rule names its group, resource and verb, or has the
  wildcard in its place.
\<close>

type_synonym access = "string \<times> string \<times> string"

definition rule_allows :: "policy_rule \<Rightarrow> access \<Rightarrow> bool" where
  "rule_allows r a = (case a of (g, res, v) \<Rightarrow>
     (g \<in> set (api_groups r) \<or> ''*'' \<in> set (api_groups r)) \<and>
     (res \<in> set (resources r) \<or> ''*'' \<in> set (resources r)) \<and>
     (v \<in> set (verbs r) \<or> ''*'' \<in> set (verbs r)))"

definition allows :: "policy_rule list \<Rightarrow> access \<Rightarrow> bool" where
  "allows rules a = list_ex (\<lambda>r. rule_allows r a) rules"

text \<open>
  A read may be served directly or from the client's cache, which lists and watches. An object
  that is written with an owner reference needs an update permission on the owner's finalizers.
  The group and the resource of a kind come from the API server's discovery: the parameter \<open>rest\<close>.
\<close>

definition read_access :: "string \<times> string \<Rightarrow> access list" where
  "read_access gr = map (\<lambda>v. (fst gr, snd gr, v)) [''get'', ''list'', ''watch'']"

definition owner_access :: access where
  "owner_access = (operator_group, ''openebs/finalizers'', ''update'')"

definition verb_on :: "string \<Rightarrow> string \<times> string \<Rightarrow> access" where
  "verb_on v gr = (fst gr, snd gr, v)"

fun accesses :: "(kind \<Rightarrow> string \<times> string) \<Rightarrow> request \<Rightarrow> access list" where
  "accesses rest (GetReq k) = read_access (rest (fst k))"
| "accesses rest (ListReq kd ns) = read_access (rest kd)"
| "accesses rest (CreateReq ob) = [verb_on ''create'' (rest (fst (key_of ob))), owner_access]"
| "accesses rest (UpdateReq ob) = [verb_on ''update'' (rest (fst (key_of ob))), owner_access]"
| "accesses rest (DeleteReq k) = [verb_on ''delete'' (rest (fst k))]"
| "accesses rest (CrGetReq n) = read_access (operator_group, ''openebs'')"
| "accesses rest (CrUpdateReq i) = [(operator_group, ''openebs'', ''update'')]"
| "accesses rest (CrStatusReq i) = [(operator_group, ''openebs/status'', ''update'')]"
| "accesses rest (HttpReq url) = []"

text \<open>The kind of the objects a request is about.\<close>

fun req_kind :: "request \<Rightarrow> kind option" where
  "req_kind (ListReq kd ns) = Some kd"
| "req_kind r = map_option fst (req_key r)"

lemma req_kind_key: "req_key r = Some k \<Longrightarrow> req_kind r = Some (fst k)"
  by (cases r) simp_all

definition object_verbs :: "string list" where
  "object_verbs = [''get'', ''list'', ''watch'', ''create'', ''update'', ''delete'']"

definition permitted ::
  "policy_rule list \<Rightarrow> (kind \<Rightarrow> string \<times> string) \<Rightarrow> request \<Rightarrow> bool" where
  "permitted rules rest r = list_all (allows rules) (accesses rest r)"

text \<open>Where Kubernetes and Velero serve the kinds the operator handles.\<close>

fun kubernetes_rest :: "kind \<Rightarrow> string \<times> string" where
  "kubernetes_rest KNamespace = ('''', ''namespaces'')"
| "kubernetes_rest KService = ('''', ''services'')"
| "kubernetes_rest KServiceAccount = ('''', ''serviceaccounts'')"
| "kubernetes_rest KConfigMap = ('''', ''configmaps'')"
| "kubernetes_rest KDeployment = (''apps'', ''deployments'')"
| "kubernetes_rest KDaemonSet = (''apps'', ''daemonsets'')"
| "kubernetes_rest KStatefulSet = (''apps'', ''statefulsets'')"
| "kubernetes_rest KClusterRole = (''rbac.authorization.k8s.io'', ''clusterroles'')"
| "kubernetes_rest KClusterRoleBinding = (''rbac.authorization.k8s.io'', ''clusterrolebindings'')"
| "kubernetes_rest KCSIDriver = (''storage.k8s.io'', ''csidrivers'')"
| "kubernetes_rest KStorageClass = (''storage.k8s.io'', ''storageclasses'')"
| "kubernetes_rest (KUnstructured v k) =
     (if KUnstructured v k = crd_kind then (''apiextensions.k8s.io'', ''customresourcedefinitions'')
      else if KUnstructured v k = snapshot_class_kind
        then (''snapshot.storage.k8s.io'', ''volumesnapshotclasses'')
      else if KUnstructured v k = schedule_kind then (''velero.io'', ''schedules'')
      else (v, k))"

lemma role_check: "\<forall>kd \<in> operator_kinds. \<forall>v \<in> set object_verbs.
    allows manager_role (verb_on v (kubernetes_rest kd))"
  by code_simp

lemma markers_check: "\<forall>kd \<in> operator_kinds. \<forall>v \<in> set object_verbs.
    allows rbac_markers (verb_on v (kubernetes_rest kd)) \<longleftrightarrow> kd \<noteq> schedule_kind"
  by code_simp

definition own_accesses :: "access list" where
  "own_accesses = read_access (operator_group, ''openebs'') @
     [owner_access, (operator_group, ''openebs'', ''update''),
      (operator_group, ''openebs/status'', ''update'')]"

lemma own_check: "list_all (allows manager_role) own_accesses"
    "list_all (allows rbac_markers) own_accesses"
  by code_simp+

definition operator_request :: "request \<Rightarrow> bool" where
  "operator_request r \<longleftrightarrow> (case req_kind r of None \<Rightarrow> True | Some kd \<Rightarrow> kd \<in> operator_kinds)"

locale rest_mapping =
  fixes rest :: "kind \<Rightarrow> string \<times> string"
  assumes mapping: "kd \<in> operator_kinds \<Longrightarrow> rest kd = kubernetes_rest kd"
begin

lemma role_permits:
  assumes "operator_request r"
  shows "permitted manager_role rest r"
  using assms role_check own_check(1)
  by (cases r) (auto simp: permitted_def operator_request_def mapping object_verbs_def
      read_access_def verb_on_def own_accesses_def)

lemma markers_permit:
  assumes "operator_request r"
  shows "permitted rbac_markers rest r \<longleftrightarrow> req_kind r \<noteq> Some schedule_kind"
  using assms markers_check own_check(2)
  by (cases r) (auto simp: permitted_def operator_request_def mapping object_verbs_def
      read_access_def verb_on_def own_accesses_def)

end

interpretation served: rest_mapping kubernetes_rest
  by unfold_locales (rule refl)

section \<open>The requests of a reconcile\<close>

locale operator_client = audited_client E audit + cluster_api E view defaulted + apimachinery E
  for E :: "'a env" and audit view defaulted

sublocale operator_client \<subseteq> known: object_calls E "logs_only audit operator_request"
  "\<lambda>k. fst k \<in> operator_kinds"
proof unfold_locales
  fix f :: "kobj \<Rightarrow> kobj" and ob w
  assume "\<And>x. key_of (f x) = key_of x" and "fst (key_of ob) \<in> operator_kinds"
  then show "logs_only audit operator_request w (snd (create_or_update E f ob w))"
    using logs_only_mono [OF create_or_update_logged [of f ob w], of operator_request] req_kind_key
    by (auto simp: operator_request_def)
next
  show "fst (key_of ob) \<in> operator_kinds" if "decode_yaml E cf = Inr ob" for cf ob
    using decoded [OF that] by (simp add: crd_key_def operator_kinds_def)
  show "fst (key_of ob) \<in> operator_kinds"
    if "kd \<in> operator_kinds" "cl_list E kd ns sel w = (Inr obs, w')" "ob \<in> set obs"
    for kd ns sel w obs w' ob
    using list_ok [OF that(2)] that(1,3) by (auto simp: listed_def key_of_def)
qed (auto intro: logs_onlyI simp: operator_request_def get_logged delete_logged create_logged
    update_logged list_logged http_logged)

context operator_client
begin

lemma reconcile_requests: "keeps (logs_only audit operator_request) (ReconcileReq E name)"
proof (rule known.calls_reconcile)
  show "logs_only audit operator_request w (snd (time_now E w))" for w
    by (rule logs_onlyI [where rs = "[]"]) (simp_all add: time_silent)
  show "logs_only audit operator_request w (snd (cr_get E n w))" for n w
    by (rule logs_onlyI [where rs = "[CrGetReq n]"])
      (simp_all add: cr_get_logged operator_request_def)
  show "logs_only audit operator_request w (snd (cr_status_update E i w))" for i w
    by (rule logs_onlyI [where rs = "[CrStatusReq i]"])
      (simp_all add: cr_status_logged operator_request_def)
  show "logs_only audit operator_request w (snd (cr_update E i w))" for i w
    by (rule logs_onlyI [where rs = "[CrUpdateReq i]"])
      (simp_all add: cr_update_logged operator_request_def)
qed

end

text \<open> C7: every request a reconcile makes is permitted by the role that is deployed, the reads
  behind a cache and the writes of owner references included. By the markers in the source, from
  which a generated role takes its rules, exactly those about Velero Schedules are forbidden.\<close>

theorem requests_permitted:
  assumes "audited_client E audit" and "cluster_api E view d" and "apimachinery E"
    and "rest_mapping rest" and "ReconcileReq E name w = (out, w')"
    and "audit w' = audit w @ rs" and "r \<in> set rs"
  shows "permitted manager_role rest r \<and>
    (permitted rbac_markers rest r \<longleftrightarrow> req_kind r \<noteq> Some schedule_kind)"
proof -
  have "operator_client E audit view d"
    using assms(1-3) by (simp add: operator_client_def)
  from log.keeps_result [OF operator_client.reconcile_requests [OF this] assms(5)] assms(6,7)
  have "operator_request r" by (auto simp: logs_only_def list_all_iff)
  then show ?thesis
    using rest_mapping.role_permits [OF assms(4)] rest_mapping.markers_permit [OF assms(4)] by blast
qed

interpretation ref_operator: operator_client ref_env request_log cluster_view "(=)"
  by unfold_locales

end
