(* ===== verification/Reliable.thy ===== *)
theory Reliable
  imports Convergence
begin

text \<open>
  A cluster in a calm phase: as long as the world is \<open>calm\<close>, requests do not fail for reasons of
  their own.  What is stored can be read and deleted, an object that is absent can be created when
  its namespace and its definition are there, and the server takes an update when it \<open>accepts\<close> the
  change (some fields are immutable).  Under this contract the operations of the \<open>apply\<close> family are
  shown to succeed, which the theorems about what a success means leave open.
\<close>

section \<open>The contract\<close>

text \<open>What must be stored before an object under the key can be.\<close>

definition prerequisites :: "objkey \<Rightarrow> objkey set" where
  "prerequisites k =
     (if fst (snd k) = '''' then {} else {namespace_key (fst (snd k))}) \<union>
     (if fst k = snapshot_class_kind then {crd_key VolumeSnapshotClassCRD} else {})"

definition hosted :: "('w \<Rightarrow> objkey \<Rightarrow> kobj option) \<Rightarrow> 'w \<Rightarrow> objkey \<Rightarrow> bool" where
  "hosted view w k \<longleftrightarrow> (\<forall>j \<in> prerequisites k. view w j \<noteq> None) \<and> fst k \<noteq> schedule_kind"

text \<open>
  What holds of deletions is said of the keys that \<open>may\<close> be deleted only, a Schedule among them:
  with a world that is \<open>calm\<close> no longer after the deletion of another key, a run that stays calm is
  one that deletes no such key.
\<close>

locale guarded_cluster = cluster_api E view defaulted + apimachinery E
  for E :: "'a env" and view defaulted +
  fixes calm :: "'a \<Rightarrow> bool" and accepts :: "kobj \<Rightarrow> kobj \<Rightarrow> bool" and may :: "objkey \<Rightarrow> bool"
  assumes may_schedule: "fst k = schedule_kind \<Longrightarrow> may k"
    and get_present: "calm w \<Longrightarrow> view w k = Some ob \<Longrightarrow> fst (cl_get E k w) = Inr ob"
    and get_absent: "calm w \<Longrightarrow> view w k = None \<Longrightarrow> hosted view w k \<Longrightarrow>
      \<exists>e. fst (cl_get E k w) = Inl e \<and> IsNotFound e"
    and create_absent: "calm w \<Longrightarrow> view w (key_of ob) = None \<Longrightarrow> hosted view w (key_of ob) \<Longrightarrow>
      resource_version ob = '''' \<Longrightarrow> \<exists>st. fst (cl_create E ob w) = Inr st"
    and update_accepted: "calm w \<Longrightarrow> view w (key_of ob) = Some old \<Longrightarrow> accepts old ob \<Longrightarrow>
      resource_version ob = resource_version old \<Longrightarrow> \<exists>st. fst (cl_update E ob w) = Inr st"
    and accepts_version: "accepts old (SetResourceVersion v ob) = accepts old ob"
    and delete_done: "calm w \<Longrightarrow> may k \<Longrightarrow> fst (cl_delete E k w) = Inr () \<or>
      (\<exists>e. fst (cl_delete E k w) = Inl e \<and> (IsNotFound e \<or> IsNoMatchError e))"
    and delete_present: "calm w \<Longrightarrow> may k \<Longrightarrow> view w k \<noteq> None \<Longrightarrow> fst (cl_delete E k w) = Inr ()"
    and list_answered: "calm w \<Longrightarrow> 
      \<exists>obs. fst (cl_list E kd ns sel w) = Inr obs \<and> distinct (map key_of obs)"
    and ensure_done: "calm w \<Longrightarrow>
      \<exists>st. fst (create_or_update E privileged_labels (namespace_obj n) w) = Inr st"
    and health_answered: "calm w \<Longrightarrow> fst (http_get E etcd_health_url w) = Inr 200"
    and decodes: "\<exists>ob. decode_yaml E cf = Inr ob \<and> resource_version ob = ''''"
    and calm_get: "calm w \<Longrightarrow> calm (snd (cl_get E k w))"
    and calm_create: "calm w \<Longrightarrow> calm (snd (cl_create E ob w))"
    and calm_update: "calm w \<Longrightarrow> calm (snd (cl_update E ob w))"
    and calm_delete: "calm w \<Longrightarrow> may k \<Longrightarrow> calm (snd (cl_delete E k w))"
    and calm_list: "calm w \<Longrightarrow> calm (snd (cl_list E kd ns sel w))"
    and calm_ensure: "(\<And>x. key_of (f x) = key_of x) \<Longrightarrow> calm w \<Longrightarrow>
      calm (snd (create_or_update E f ob w))"
    and calm_http: "calm w \<Longrightarrow> calm (snd (http_get E url w))"

text \<open>The usual case: every key may be deleted.\<close>

locale reliable_cluster = guarded_cluster E view defaulted calm accepts "\<lambda>_. True"
  for E :: "'a env" and view defaulted calm accepts

section \<open>Programs that succeed\<close>

text \<open>
  \<open>lands P Q reqs p\<close>: from a world that satisfies \<open>P\<close>, and in which what is stored under each key
  of \<open>reqs\<close> satisfies its condition, \<open>p\<close> succeeds and \<open>Q\<close> holds.
\<close>

definition lands :: "('w \<Rightarrow> objkey \<Rightarrow> kobj option) \<Rightarrow> ('w \<Rightarrow> bool) \<Rightarrow> ('w \<Rightarrow> bool) \<Rightarrow>
    (objkey \<times> (kobj option \<Rightarrow> bool)) list \<Rightarrow> ('w, unit) prog \<Rightarrow> bool" where
  "lands view P Q reqs p \<longleftrightarrow> (\<forall>w. P w \<and> (\<forall>(k, C) \<in> set reqs. C (view w k)) \<longrightarrow>
     (\<exists>w'. p w = (Inr (), w') \<and> Q w'))"

lemma landsI:
  assumes "\<And>w. P w \<Longrightarrow> (\<And>k C. (k, C) \<in> set reqs \<Longrightarrow> C (view w k)) \<Longrightarrow> \<exists>w'. p w = (Inr (), w') \<and> Q w'"
  shows "lands view P Q reqs p"
  using assms unfolding lands_def by blast

lemma lands_ret: "lands view P P [] (ret ())"
  by (simp add: lands_def prog_simps)

lemma lands_wrap: "lands view P Q reqs p \<Longrightarrow> lands view P Q reqs (wrap_err m p)"
  unfolding lands_def wrap_err_def by fastforce

lemma lands_pre: "lands view P Q reqs p \<Longrightarrow> (\<And>w. P' w \<Longrightarrow> P w) \<Longrightarrow> lands view P' Q reqs p"
  unfolding lands_def by blast

text \<open>A step after another that does not touch the keys the second one depends on.\<close>

lemma lands_bind:
  assumes p: "lands view P Q r1 p" and q: "lands view Q R r2 q"
    and "keeps (same_outside view (set ks)) p" and "set ks \<inter> fst ` set r2 = {}"
  shows "lands view P R (r1 @ r2) (bindP p (\<lambda>_. q))"
proof (rule landsI)
  fix w
  assume w: "P w" and c: "\<And>k C. (k, C) \<in> set (r1 @ r2) \<Longrightarrow> C (view w k)"
  have "C (view w k)" if "(k, C) \<in> set r1" for k C
    by (rule c) (use that in simp)
  with p w obtain w1 where w1: "p w = (Inr (), w1)" "Q w1" unfolding lands_def by blast
  have "C (view w1 k)" if "(k, C) \<in> set r2" for k C
  proof -
    from that assms(4) have "k \<notin> set ks" by force
    from same_outsideD [OF frame.keeps_result [OF assms(3) w1(1)] this]
    have "view w1 k = view w k" .
    moreover have "C (view w k)" by (rule c) (use that in simp)
    ultimately show ?thesis by simp
  qed
  with q w1(2) obtain w' where "q w1 = (Inr (), w')" "R w'" unfolding lands_def by blast
  with w1(1) show "\<exists>w'. bindP p (\<lambda>_. q) w = (Inr (), w') \<and> R w'" by (simp add: prog_simps)
qed

text \<open>A step of a chain: the keys it may touch, and its conditions, which are about these keys.\<close>

type_synonym step_spec = "objkey list \<times> (objkey \<times> (kobj option \<Rightarrow> bool)) list"

definition lands_step :: "('w \<Rightarrow> objkey \<Rightarrow> kobj option) \<Rightarrow> ('w \<Rightarrow> bool) \<Rightarrow> step_spec \<Rightarrow>
    ('w, unit) prog \<Rightarrow> bool" where
  "lands_step view P s p \<longleftrightarrow> keeps (same_outside view (set (fst s))) p \<and>
     fst ` set (snd s) \<subseteq> set (fst s) \<and> lands view P P (snd s) p"

lemma lands_steps:
  assumes "list_all2 (lands_step view P) specs ps" and "distinct (concat (map fst specs))"
  shows "lands view P P (concat (map snd specs)) (run_steps ps)"
  using assms
proof (induction rule: list_all2_induct)
  case Nil
  show ?case by (simp add: lands_ret)
next
  case (Cons s specs p ps)
  then have rest: "lands view P P (concat (map snd specs)) (run_steps ps)" by simp
  have "fst ` set (snd t) \<subseteq> set (fst t)" if "t \<in> set specs" for t
    using that Cons.hyps(2) by (metis in_set_conv_nth list_all2_conv_all_nth lands_step_def)
  then have "fst ` set (concat (map snd specs)) \<subseteq> set (concat (map fst specs))"
    by (auto simp: image_subset_iff)
  with Cons.prems have "set (fst s) \<inter> fst ` set (concat (map snd specs)) = {}" by auto
  with Cons.hyps(1) lands_bind [OF _ rest, of P "snd s" p "fst s"] show ?case
    by (simp add: lands_step_def)
qed

lemma keeps_steps_frame:
  assumes "list_all2 (lands_step view P) specs ps"
  shows "keeps (same_outside view (set (concat (map fst specs)))) (run_steps ps)"
  using assms
proof (induction rule: list_all2_induct)
  case Nil
  show ?case by auto
next
  case (Cons s specs p ps)
  have "keeps (same_outside view (set (concat (map fst (s # specs))))) q"
    if "keeps (same_outside view K) q" "K \<subseteq> set (concat (map fst (s # specs)))" for q K
    using that unfolding keeps_def by (blast intro: same_outside_mono)
  from this [of "set (fst s)" p] this [of "set (concat (map fst specs))" "run_steps ps"]
    Cons.hyps(1) Cons.IH
  show ?case by (simp add: lands_step_def frame.keeps_bind)
qed

section \<open>The apply family succeeds\<close>

lemma attempts_success:
  assumes "attempts f s out" and "f s = (Inr u, s')"
  shows "out = (Inr u, s')"
  using assms by (cases rule: attempts.cases) auto

lemma resource_version_Obj [simp]: "resource_version (Obj name ns lbls b) = ''''"
  by (simp add: resource_version_def Obj_def object_meta_def)

lemma resource_version_owner [simp]: "resource_version (set_owner L inst ob) = resource_version ob"
  by (simp add: set_owner_def split: option.split)

lemma resource_version_kept [simp]:
  "resource_version (keep_claim_templates a b) = resource_version b"
  by (auto simp: keep_claim_templates_def resource_version_def split: option.splits)

text \<open>What the operations need of the stored object, if there is one.\<close>

definition updatable ::
  "(kobj \<Rightarrow> kobj \<Rightarrow> bool) \<Rightarrow> 'l lib_scheme \<Rightarrow> OpenEBS \<Rightarrow> kobj \<Rightarrow> kobj option \<Rightarrow> bool" where
  "updatable accepts L inst ob v \<longleftrightarrow>
     (case v of None \<Rightarrow> True | Some old \<Rightarrow> accepts old (set_owner L (Some inst) ob))"

definition service_updatable ::
  "(kobj \<Rightarrow> kobj \<Rightarrow> bool) \<Rightarrow> 'l lib_scheme \<Rightarrow> OpenEBS \<Rightarrow> kobj \<Rightarrow> kobj option \<Rightarrow> bool" where
  "service_updatable accepts L inst ob v \<longleftrightarrow> updatable accepts L inst ob v \<and>
     (case v of None \<Rightarrow> True | Some old \<Rightarrow> svc_ClusterIP old = svc_ClusterIP ob)"

definition sts_updatable ::
  "(kobj \<Rightarrow> kobj \<Rightarrow> bool) \<Rightarrow> 'l lib_scheme \<Rightarrow> OpenEBS \<Rightarrow> kobj \<Rightarrow> kobj option \<Rightarrow> bool" where
  "sts_updatable accepts L inst ob v \<longleftrightarrow> (case v of None \<Rightarrow> True | Some old \<Rightarrow>
     sts_drift L old (set_owner L (Some inst) ob) = [] \<and>
     accepts old (keep_claim_templates old (set_owner L (Some inst) ob)))"

text \<open>The conditions on the world under which the keys \<open>C\<close> are there.\<close>

definition based :: "('w \<Rightarrow> objkey \<Rightarrow> kobj option) \<Rightarrow> ('w \<Rightarrow> bool) \<Rightarrow> objkey set \<Rightarrow> 'w \<Rightarrow> bool" where
  "based view calm C w \<longleftrightarrow> calm w \<and> (\<forall>k \<in> C. view w k \<noteq> None)"

context guarded_cluster
begin

lemma get_cases:
  assumes "calm w" and "hosted view w k"
  obtains (there) ob w1 where "view w k = Some ob" "cl_get E k w = (Inr ob, w1)"
      "view w1 = view w" "calm w1"
  | (missing) e w1 where "view w k = None" "cl_get E k w = (Inl e, w1)" "IsNotFound e"
      "view w1 = view w" "calm w1"
proof (cases "cl_get E k w")
  case (Pair r w1)
  note calm_get [OF assms(1), of k]
  with Pair get_ok [of k w _ w1] get_err [of k w _ w1] get_present [OF assms(1), of k]
    get_absent [OF assms(1) _ assms(2)] that
  show thesis by (cases "view w k"; cases r) fastforce+
qed

text \<open>Creating an absent object, and updating a stored one.\<close>

lemma Create_lands:
  assumes "calm w" and "view w (key_of ob) = None" and "hosted view w (key_of ob)"
    and "resource_version ob = ''''"
  shows "\<exists>st w'. Create E (ob, w) = (Inr (), (st, w')) \<and> calm w' \<and> view w' = (view w)(key_of ob \<mapsto> st)"
proof -
  from create_absent [OF assms] obtain st w' where c: "cl_create E ob w = (Inr st, w')"
    by (metis prod.collapse)
  with create_ok [OF c] calm_create [OF assms(1), of ob] show ?thesis by (simp add: Create_def)
qed

lemma Update_lands:
  assumes "calm w" and "view w (key_of ob) = Some old" and "accepts old ob"
  shows "\<exists>st w'. Update E (SetResourceVersion (resource_version old) ob, w) = (Inr (), (st, w')) \<and>
    calm w' \<and> view w' = (view w)(key_of ob \<mapsto> st)"
proof -
  let ?ob = "SetResourceVersion (resource_version old) ob"
  have "\<exists>st. fst (cl_update E ?ob w) = Inr st"
    by (rule update_accepted [OF assms(1), where old = old])
      (simp_all add: assms(2,3) accepts_version)
  then obtain st w' where c: "cl_update E ?ob w = (Inr st, w')" by (metis prod.collapse)
  with update_ok [OF c] calm_update [OF assms(1), of ?ob] show ?thesis by (simp add: Update_def)
qed

text \<open>An outcome: success, calm, and an object stored under the key.\<close>

abbreviation landed :: "'a \<Rightarrow> objkey \<Rightarrow> unit result \<times> kobj \<times> 'a \<Rightarrow> bool" where
  "landed w k out \<equiv> \<exists>ob st w'. out = (Inr (), (ob, w')) \<and> calm w' \<and> view w' = (view w)(k \<mapsto> st)"

lemma apply_once_lands:
  assumes "calm w" and "hosted view w (key_of ob)" and "resource_version ob = ''''"
    and "\<And>old. view w (key_of ob) = Some old \<Longrightarrow> accepts old ob"
  shows "landed w (key_of ob) (apply_once E (key_of ob) (ob, w))"
  using assms(1,2)
proof (cases rule: get_cases)
  case (there old w1)
  then have "accepts old ob" "view w1 (key_of ob) = Some old" using assms(4) by simp_all
  from Update_lands [OF there(4) this(2,1)] there show ?thesis
    by (auto simp: apply_once_def bindP_def attempt_def lift_w_def Get_def call_def upd_obj_def)
next
  case (missing e w1)
  have "hosted view w1 (key_of ob)" using assms(2) missing by (simp add: hosted_def)
  from Create_lands [OF missing(5) _ this assms(3)] missing show ?thesis
    by (auto simp: apply_once_def bindP_def attempt_def lift_w_def Get_def call_def)
qed

lemma retry_lands:
  assumes "landed w k (f s)"
  shows "landed w k (retry_on_conflict E f s)"
proof -
  from assms obtain s' where "f s = (Inr (), s')" by blast
  from attempts_success [of f s, OF retry_attempts this] this have "retry_on_conflict E f s = f s" by simp
  with assms show ?thesis by simp
qed

lemma apply_lands:
  assumes "calm w" and "hosted view w (key_of ob)" and "resource_version ob = ''''"
    and "updatable accepts E inst ob (view w (key_of ob))"
  shows "landed w (key_of ob) (apply_obj E (Some inst) (ob, w))"
proof -
  let ?ob = "set_owner E (Some inst) ob"
  have "landed w (key_of ?ob) (apply_once E (key_of ?ob) (?ob, w))"
    by (rule apply_once_lands) (use assms in \<open>simp_all add: updatable_def\<close>)
  from retry_lands [where w = w and k = "key_of ?ob" and f = "apply_once E (key_of ?ob)" and s = "(?ob, w)", OF this] show ?thesis
    by (simp add: apply_obj_def bindP_def upd_obj_def with_obj_def)
qed

lemma applyStorageClass_lands:
  assumes "calm w" and "hosted view w (key_of ob)" and "resource_version ob = ''''"
    and "updatable accepts E inst ob (view w (key_of ob))"
  shows "landed w (key_of ob) (applyStorageClass E (Some inst) (ob, w))"
  using apply_lands [OF assms] by (auto simp: applyStorageClass_def bindP_def attempt_def ret_def)

lemma applyUnstructured_lands:
  assumes "calm w" and "hosted view w (key_of ob)" and "resource_version ob = ''''"
    and "updatable accepts E inst ob (view w (key_of ob))"
  shows "landed w (key_of ob) (applyUnstructured E (Some inst) (ob, w))"
proof -
  let ?ob = "set_owner E (Some inst) ob"
  have "landed w (key_of ?ob) (apply_once E (key_of ?ob) (?ob, w))"
    by (rule apply_once_lands) (use assms in \<open>simp_all add: updatable_def\<close>)
  moreover have "applyUnstructured E (Some inst) (ob, w) = apply_once E (key_of ?ob) (?ob, w)"
    by (auto simp: applyUnstructured_def apply_once_def bindP_def upd_obj_def with_obj_def
        split: prod.splits sum.splits)
  ultimately show ?thesis by simp
qed

lemma applyService_lands:
  assumes "calm w" and "hosted view w (key_of ob)" and "resource_version ob = ''''"
    and "service_updatable accepts E inst ob (view w (key_of ob))"
  shows "landed w (key_of ob) (applyService E (Some inst) (ob, w))"
proof -
  let ?ob = "set_owner E (Some inst) ob"
  have ip: "svc_ClusterIP ?ob = svc_ClusterIP ob" by (simp add: svc_ClusterIP_def)
  have "landed w (key_of ?ob) (applyService_once E (Some inst) (key_of ?ob) (?ob, w))"
    using assms(1,2)
  proof (cases rule: get_cases)
    case (there old w1)
    with assms(4) have "accepts old ?ob" "svc_ClusterIP old = svc_ClusterIP ?ob"
      by (simp_all add: service_updatable_def updatable_def ip)
    with Update_lands [OF there(4), of ?ob old] there show ?thesis
      by (auto simp: applyService_once_def bindP_def attempt_def lift_w_def Get_def call_def
          upd_obj_def with_obj_def)
  next
    case (missing e w1)
    have "hosted view w1 (key_of ?ob)" using assms(2) missing by (simp add: hosted_def)
    from Create_lands [OF missing(5) _ this] assms(3) missing show ?thesis
      by (auto simp: applyService_once_def bindP_def attempt_def lift_w_def Get_def call_def)
  qed
  from retry_lands [where w = w and k = "key_of ?ob" and f = "applyService_once E (Some inst) (key_of ?ob)" and
      s = "(?ob, w)", OF this] show ?thesis
    by (simp add: applyService_def bindP_def upd_obj_def with_obj_def)
qed

lemma applyStatefulSet_lands:
  assumes "calm w" and "hosted view w (key_of ob)" and "resource_version ob = ''''"
    and "sts_updatable accepts E inst ob (view w (key_of ob))"
  shows "landed w (key_of ob) (applyStatefulSet E (Some inst) (ob, w))"
proof -
  let ?ob = "set_owner E (Some inst) ob"
  have "landed w (key_of ?ob) (applyStatefulSet_once E (Some inst) (key_of ?ob) (?ob, w))"
    using assms(1,2)
  proof (cases rule: get_cases)
    case (there old w1)
    let ?t = "keep_claim_templates old ?ob"
    from there assms(4) have d: "sts_drift E old ?ob = []" and "accepts old ?t"
      by (simp_all add: sts_updatable_def)
    have t: "keep_claim_templates old (SetResourceVersion (resource_version old) ?ob) =
        SetResourceVersion (resource_version old) ?t"
      by (auto simp: keep_claim_templates_def sts_spec_of_def SetResourceVersion_def
          split: option.splits kbody.splits)
    from Update_lands [OF there(4) _ \<open>accepts old ?t\<close>] there d t show ?thesis
      by (auto simp: applyStatefulSet_once_def bindP_def attempt_def lift_w_def Get_def call_def
          upd_obj_def with_obj_def Let_def)
  next
    case (missing e w1)
    have "hosted view w1 (key_of ?ob)" using assms(2) missing by (simp add: hosted_def)
    from Create_lands [OF missing(5) _ this] assms(3) missing show ?thesis
      by (auto simp: applyStatefulSet_once_def bindP_def attempt_def lift_w_def Get_def call_def)
  qed
  from retry_lands [where w = w and k = "key_of ?ob" and f = "applyStatefulSet_once E (Some inst) (key_of ?ob)"
      and s = "(?ob, w)", OF this] show ?thesis
    by (simp add: applyStatefulSet_def bindP_def upd_obj_def with_obj_def)
qed

end

end
