(* ===== verification/Progress.thy ===== *)
theory Progress
  imports Reliable Footprint
begin

text \<open>
  What a reconcile achieves in a calm phase: when nothing foreign or immutable stands in the way of
  an engine (\<open>way_clear\<close>), every step of its deployment succeeds, so the engine is reported Running;
  the orphans are deleted and the status is written.
\<close>

section \<open>Nothing in the way\<close>

text \<open>
  What is stored under the keys of an engine can be updated to what the engine wants: the server
  accepts the change, the etcd Service keeps its cluster IP, and the etcd StatefulSet does not
  differ in an immutable field.
\<close>

definition way_clear :: "('w \<Rightarrow> objkey \<Rightarrow> kobj option) \<Rightarrow> (kobj \<Rightarrow> kobj \<Rightarrow> bool) \<Rightarrow>
    'l lib_scheme \<Rightarrow> OpenEBS \<Rightarrow> OpenEBSEngine \<Rightarrow> 'w \<Rightarrow> bool" where
  "way_clear view accepts L inst e w \<longleftrightarrow> (case engine_parts inst e of (n, files, obs) \<Rightarrow>
     (\<forall>f \<in> set files. \<forall>ob. decode_yaml L f = Inr ob \<longrightarrow>
       updatable accepts L inst ob (view w (crd_key f))) \<and>
     (\<forall>ob \<in> set obs. updatable accepts L inst ob (view w (key_of ob)))) \<and>
     (e = OpenEBSEngineMayastor \<longrightarrow>
       service_updatable accepts L inst mayastorEtcdService (view w (key_of mayastorEtcdService)) \<and>
       sts_updatable accepts L inst (etcd_sts inst) (view w etcd_sts_key))"

text \<open>An object that can be stored where the keys \<open>C\<close> are there.\<close>

definition fits :: "objkey set \<Rightarrow> kobj \<Rightarrow> bool" where
  "fits C ob \<longleftrightarrow> prerequisites (key_of ob) \<subseteq> C \<and> fst (key_of ob) \<noteq> schedule_kind \<and>
     resource_version ob = ''''"

text \<open>The objects of the engines need their namespace, and the snapshot class its definition.\<close>

lemma resource_version_class [simp]: "resource_version (storage_class n l a p ps) = ''''"
  by (simp add: storage_class_def resource_version_def object_meta_def)

lemmas fit_simps = fits_def prerequisites_def namespace_key_def snapshot_class_kind_def
  schedule_kind_def key_simps

lemma lvm_fits: "list_all (fits (insert (namespace_key openebsNamespace) C)) (lvm_objects inst)"
  by (simp add: fit_simps lvm_objects_def lvmServiceAccount_def lvmClusterRole_def
      lvmClusterRoleBinding_def lvmControllerDeployment_def lvmNodeDaemonSet_def lvmCSIDriver_def
      csi_driver_def lvm_class_def lvmStorageClass_def Let_def split: option.split)

lemma zfs_fits: "list_all (fits (insert (namespace_key openebsNamespace) C)) (zfs_objects inst)"
  by (simp add: fit_simps zfs_objects_def zfsServiceAccount_def zfsClusterRole_def
      zfsClusterRoleBinding_def zfsControllerDeployment_def zfsBinConfigMap_def
      zfsNodeDaemonSet_def zfsCSIDriver_def csi_driver_def zfs_class_def zfsStorageClass_def
      Let_def split: option.split)

lemma hostpath_fits:
  "list_all (fits (insert (namespace_key openebsNamespace) C)) (hostpath_objects inst)"
  by (simp add: fit_simps hostpath_objects_def hostpathServiceAccount_def hostpathClusterRole_def
      hostpathClusterRoleBinding_def hostpathDeployment_def hostpath_class_def
      hostpathStorageClass_def Let_def split: option.split)

lemma rawfile_fits:
  "list_all (fits (insert (namespace_key openebsNamespace) C)) (rawfile_objects inst)"
  by (simp add: fit_simps rawfile_objects_def rawfileServiceAccount_def rawfileClusterRole_def
      rawfileClusterRoleBinding_def rawfileDeployment_def rawfile_class_def
      rawfileStorageClass_def Let_def split: option.split)

lemma mayastor_fits:
  assumes "crd_key VolumeSnapshotClassCRD \<in> C"
  shows "list_all (fits (insert (namespace_key mayastorNamespace) C))
    (etcd_sts inst # mayastor_objects inst)"
  using assms
  by (simp add: fit_simps mayastor_objects_def etcd_sts_def etcd_statefulset_def
      mayastorServiceAccount_def mayastorClusterRole_def mayastorClusterRoleBinding_def
      mayastorEtcdService_def mayastorAgentCoreDeployment_def mayastorAgentCoreService_def
      mayastorAPIRestService_def mayastorAPIRestDeployment_def
      mayastorCSIControllerDeployment_def mayastorIOEngineDaemonSet_def
      mayastorMetricsExporterService_def mayastorCSINodeDaemonSet_def
      mayastorHANodeDaemonSet_def mayastorOperatorDiskpoolDeployment_def
      mayastorCSIDriver_def csi_driver_def mayastor_class_def mayastor_snapshot_class_def
      mayastorStorageClass_def mayastorVolumeSnapshotClass_def Let_def split: option.split)

section \<open>Steps\<close>

context guarded_cluster
begin

abbreviation "base \<equiv> based view calm"

definition objects_spec :: "OpenEBS \<Rightarrow> kobj list \<Rightarrow> step_spec" where
  "objects_spec inst obs =
     (map key_of obs, map (\<lambda>ob. (key_of ob, updatable accepts E inst ob)) obs)"

definition crds_spec :: "OpenEBS \<Rightarrow> crd_file list \<Rightarrow> step_spec" where
  "crds_spec inst fs = (map crd_key fs, map (\<lambda>f. (crd_key f, \<lambda>v.
     \<forall>ob. decode_yaml E f = Inr ob \<longrightarrow> updatable accepts E inst ob v)) fs)"

lemma hosted_base: "base C w \<Longrightarrow> prerequisites k \<subseteq> C \<Longrightarrow> fst k \<noteq> schedule_kind \<Longrightarrow> hosted view w k"
  by (auto simp: based_def hosted_def)

text \<open>An operation that lands on an object it was given keeps the base.\<close>

lemma landed_base:
  assumes "landed w k (p (ob, w))" and "base C w"
  shows "\<exists>w'. run_obj ob p w = (Inr (), w') \<and> base C w'"
  using assms by (auto simp: run_obj_def based_def)

lemma object_lands:
  assumes "fits C ob"
  shows "lands_step view (base C) (objects_spec inst [ob]) (apply_to E inst ob)"
    and "lands_step view (base C) (objects_spec inst [ob]) (apply_class E inst ob)"
    and "lands_step view (base C) (objects_spec inst [ob])
      (run_obj ob (applyUnstructured E (Some inst)))"
    and "lands_step view (base C) ([key_of ob], [(key_of ob, service_updatable accepts E inst ob)])
      (run_obj ob (applyService E (Some inst)))"
    and "lands_step view (base C) ([key_of ob], [(key_of ob, sts_updatable accepts E inst ob)])
      (run_obj ob (applyStatefulSet E (Some inst)))"
proof -
  from assms have v: "resource_version ob = ''''" by (simp add: fits_def)
  have c: "calm w \<and> hosted view w (key_of ob)" if "base C w" for w
    using that hosted_base [OF that, of "key_of ob"] assms by (simp add: based_def fits_def)
  show "lands_step view (base C) (objects_spec inst [ob]) (apply_to E inst ob)"
    using c apply_lands [OF _ _ v, of _ inst] framed.keeps_object(1) [of ob "key_of ob"]
    by (auto simp: lands_step_def objects_spec_def apply_to_def intro!: landsI landed_base [where k = "key_of ob"])
  show "lands_step view (base C) (objects_spec inst [ob]) (apply_class E inst ob)"
    using c applyStorageClass_lands [OF _ _ v, of _ inst] framed.keeps_object(2) [of ob "key_of ob"]
    by (auto simp: lands_step_def objects_spec_def apply_class_def intro!: landsI landed_base [where k = "key_of ob"])
  show "lands_step view (base C) (objects_spec inst [ob])
      (run_obj ob (applyUnstructured E (Some inst)))"
    using c applyUnstructured_lands [OF _ _ v, of _ inst] framed.keeps_object(5) [of ob "key_of ob"]
    by (auto simp: lands_step_def objects_spec_def intro!: landsI landed_base [where k = "key_of ob"])
  show "lands_step view (base C) ([key_of ob], [(key_of ob, service_updatable accepts E inst ob)])
      (run_obj ob (applyService E (Some inst)))"
    using c applyService_lands [OF _ _ v, of _ inst] framed.keeps_object(3) [of ob "key_of ob"]
    by (auto simp: lands_step_def intro!: landsI landed_base [where k = "key_of ob"])
  show "lands_step view (base C) ([key_of ob], [(key_of ob, sts_updatable accepts E inst ob)])
      (run_obj ob (applyStatefulSet E (Some inst)))"
    using c applyStatefulSet_lands [OF _ _ v, of _ inst] framed.keeps_object(4) [of ob "key_of ob"]
    by (auto simp: lands_step_def intro!: landsI landed_base [where k = "key_of ob"])
qed

lemma lands_step_run:
  assumes "list_all2 (lands_step view P) specs ps" and "distinct (concat (map fst specs))"
    and "s = (concat (map fst specs), concat (map snd specs))"
  shows "lands_step view P s (run_steps ps)"
proof -
  have "fst ` set (snd t) \<subseteq> set (fst t)" if "t \<in> set specs" for t
    using that assms(1) by (metis in_set_conv_nth list_all2_conv_all_nth lands_step_def)
  then have "fst ` set (concat (map snd specs)) \<subseteq> set (concat (map fst specs))"
    by (auto simp: image_subset_iff)
  with lands_steps [OF assms(1,2)] keeps_steps_frame [OF assms(1)] show ?thesis
    by (simp add: lands_step_def assms(3))
qed

lemma lands_step_wrap: "lands_step view P s p \<Longrightarrow> lands_step view P s (wrap_err m p)"
  by (simp add: lands_step_def lands_wrap frame.keeps_wrap_err)

lemma rbac_lands:
  assumes "fits C sa" "fits C cr" "fits C crb" and "distinct (map key_of [sa, cr, crb])"
  shows "lands_step view (base C) (objects_spec inst [sa, cr, crb])
    (applyRBAC E (Some inst) sa cr crb)"
  unfolding applyRBAC_def
proof (rule lands_step_run)
  show "list_all2 (lands_step view (base C)) (map (\<lambda>ob. objects_spec inst [ob]) [sa, cr, crb])
      [wrap_err (''serviceaccount '' @ obj_name sa) (run_obj sa (apply_obj E (Some inst))),
       wrap_err (''clusterrole '' @ obj_name cr) (run_obj cr (apply_obj E (Some inst))),
       wrap_err (''clusterrolebinding '' @ obj_name crb) (run_obj crb (apply_obj E (Some inst)))]"
    using assms(1-3) object_lands(1) [unfolded apply_to_def] by (simp add: lands_step_wrap)
qed (use assms(4) in \<open>simp_all add: objects_spec_def\<close>)

text \<open>The definitions, which are there for the steps after them.\<close>

lemma crd_lands:
  "lands view (base C) (base (insert (crd_key f) C)) (snd (crds_spec inst [f]))
     (applyCRD E (Some inst) f)"
  "keeps (same_outside view {crd_key f}) (applyCRD E (Some inst) f)"
proof -
  obtain ob where d: "decode_yaml E f = Inr ob" and v: "resource_version ob = ''''"
    using decodes by blast
  have k: "key_of ob = crd_key f" by (rule decoded [OF d])
  have "landed w (crd_key f) (applyUnstructured E (Some inst) (ob, w))"
    if "base C w" "updatable accepts E inst ob (view w (crd_key f))" for w
  proof -
    have "hosted view w (crd_key f)"
      by (simp add: hosted_def crd_key_def prerequisites_def crd_kind_def snapshot_class_kind_def
          schedule_kind_def)
    from applyUnstructured_lands [of w ob inst] this that v k show ?thesis by (simp add: based_def)
  qed
  then show "lands view (base C) (base (insert (crd_key f) C)) (snd (crds_spec inst [f]))
      (applyCRD E (Some inst) f)"
    by (fastforce simp: lands_def applyCRD_def d crds_spec_def run_obj_def based_def)
  show "keeps (same_outside view {crd_key f}) (applyCRD E (Some inst) f)"
    using framed.keeps_object(5) [of ob "crd_key f"] k by (simp add: applyCRD_def d)
qed

lemma crds_frame: "keeps (same_outside view (crd_key ` set fs)) (applyCRDs E (Some inst) fs)"
proof (induction fs)
  case Nil
  show ?case by (auto simp: applyCRDs_def)
next
  case (Cons f fs)
  have "keeps (same_outside view (crd_key ` set (f # fs))) p"
    if "keeps (same_outside view K) p" "K \<subseteq> crd_key ` set (f # fs)" for K p
    using that unfolding keeps_def by (blast intro: same_outside_mono)
  from this [OF crd_lands(2) [of f inst]] this [OF Cons.IH]
  show ?case by (simp add: applyCRDs_def frame.keeps_bind subset_insertI)
qed

lemma crds_land:
  assumes "distinct (map crd_key fs)"
  shows "lands view (base C) (base (C \<union> crd_key ` set fs)) (snd (crds_spec inst fs))
      (applyCRDs E (Some inst) fs)"
  using assms
proof (induction fs arbitrary: C)
  case Nil
  show ?case by (simp add: applyCRDs_def crds_spec_def lands_ret)
next
  case (Cons f fs)
  have split: "snd (crds_spec inst (f # fs)) = snd (crds_spec inst [f]) @ snd (crds_spec inst fs)"
    and "fst ` set (snd (crds_spec inst fs)) = crd_key ` set fs"
    by (auto simp: crds_spec_def image_image)
  with Cons lands_bind [OF crd_lands(1) Cons.IH, where ks = "[crd_key f]"]
    crd_lands(2) show ?case
    by (simp add: applyCRDs_def)
qed

lemma namespace_lands:
  "lands view calm (base {namespace_key n}) [] (ensureNamespace E n)"
  "keeps (same_outside view {namespace_key n}) (ensureNamespace E n)"
proof -
  let ?ns = "namespace_obj n"
  have k: "key_of ?ns = namespace_key n" by (simp add: namespace_key_def namespace_obj_def)
  have f: "key_of (privileged_labels x) = key_of x" for x
    by (simp add: privileged_labels_def key_of_def)
  show "lands view calm (base {namespace_key n}) [] (ensureNamespace E n)"
  proof (rule landsI)
    fix w
    assume c: "calm w"
    from ensure_done [OF c] obtain st w'
      where r: "create_or_update E privileged_labels ?ns w = (Inr st, w')" by (metis prod.collapse)
    from create_or_update_ok [OF f r] k have "view w' (namespace_key n) \<noteq> None" by simp
    with calm_ensure [OF f c, of ?ns] r
    show "\<exists>w'. ensureNamespace E n w = (Inr (), w') \<and> base {namespace_key n} w'"
      by (simp add: ensureNamespace_def bindP_def call_def ret_def based_def)
  qed
  show "keeps (same_outside view {namespace_key n}) (ensureNamespace E n)"
    unfolding ensureNamespace_def
    using create_or_update_view [OF f, of ?ns] k
    by (auto intro!: frame.keeps_bind frame.keeps_call)
qed

lemma health_lands:
  assumes "prerequisites etcd_sts_key \<subseteq> C"
  shows "lands_step view (base C) ([], []) (etcdHealthCheck E)"
proof -
  have "\<exists>w'. etcdHealthCheck E w = (Inr (), w') \<and> base C w'" if b: "base C w" for w
  proof -
    have c: "calm w" and h: "hosted view w etcd_sts_key"
      using b hosted_base [OF b assms] by (auto simp: based_def etcd_sts_key_def schedule_kind_def)
    from c h show ?thesis
    proof (cases rule: get_cases)
      case (there sts w1)
      obtain w2 where g: "http_get E etcd_health_url w1 = (Inr 200, w2)"
        using health_answered [OF there(4)] by (metis prod.collapse)
      with calm_http [OF there(4), of etcd_health_url] http_view [of etcd_health_url w1] there b
      show ?thesis
        by (auto simp: etcdHealthCheck_def bindP_def attempt_def Get_def call_def ret_def based_def)
    next
      case (missing e w1)
      with b show ?thesis
        by (auto simp: etcdHealthCheck_def bindP_def attempt_def Get_def call_def ret_def based_def)
    qed
  qed
  with keeps_etcdHealthCheck show ?thesis by (simp add: lands_step_def lands_def)
qed

text \<open>Without a configured Velero schedule, the step deletes the one that may be there.\<close>

lemma velero_lands:
  assumes "\<not> schedule_configured inst" and "key_of (mayastorEtcdVeleroSchedule inst) \<notin> C"
  shows "lands_step view (base C) ([key_of (mayastorEtcdVeleroSchedule inst)], [])
    (reconcileEtcdVeleroSchedule E inst)"
proof -
  let ?k = "key_of (mayastorEtcdVeleroSchedule inst)"
  have "\<exists>w'. reconcileEtcdVeleroSchedule E inst w = (Inr (), w') \<and> base C w'" if b: "base C w" for w
  proof -
    obtain r w' where d: "cl_delete E ?k w = (r, w')" by (cases "cl_delete E ?k w")
    from b have c: "calm w" by (simp add: based_def)
    have m: "may ?k" by (rule may_schedule) (simp add: key_simps)
    have "calm w'" using calm_delete [OF c m] d by simp
    moreover have "view w' j = view w j" if "j \<noteq> ?k" for j
      using d delete_ok [of ?k w _ w'] delete_err [of ?k w _ w'] that by (cases r) auto
    ultimately have "base C w'"
      using b assms(2) unfolding based_def by metis
    with delete_done [OF c m] d assms(1) show ?thesis
      by (auto simp: reconcileEtcdVeleroSchedule_def delete_quietly_def bindP_def attempt_def
          Delete_def call_def ret_def)
  qed
  with keeps_velero show ?thesis by (simp add: lands_step_def lands_def)
qed

lemma etcd_lands:
  assumes "quantity_ok E (etcd_storage_size inst)" and "fits C (etcd_sts inst)"
  shows "lands_step view (base C) ([etcd_sts_key],
      [(etcd_sts_key, sts_updatable accepts E inst (etcd_sts inst))])
    (bindP (pure (mayastorEtcdStatefulSet E inst)) (\<lambda>sts.
       run_obj sts (applyStatefulSet E (Some inst))))"
proof -
  have "mayastorEtcdStatefulSet E inst = Inr (etcd_sts inst)"
    using assms(1) by (simp add: mayastorEtcdStatefulSet_Inr etcd_sts_def)
  with object_lands(5) [OF assms(2), of inst] show ?thesis
    by (simp add: bindP_def [abs_def] pure_def etcd_sts_key_of)
qed

section \<open>Engines\<close>

text \<open>An engine: its namespace, its definitions if it has any, and its further steps.\<close>

lemma engine_lands:
  assumes "list_all2 (lands_step view (base C)) specs ps"
    and "C = insert (namespace_key n) (crd_key ` set fs)"
    and "distinct (namespace_key n # map crd_key fs @ concat (map fst specs))"
  shows "lands view calm (base C) (snd (crds_spec inst fs) @ concat (map snd specs))
    (run_steps (ensureNamespace E n # applyCRDs E (Some inst) fs # ps))"
proof -
  have "fst ` set (snd t) \<subseteq> set (fst t)" if "t \<in> set specs" for t
    using that assms(1) by (metis in_set_conv_nth list_all2_conv_all_nth lands_step_def)
  then have sub: "fst ` set (concat (map snd specs)) \<subseteq> set (concat (map fst specs))"
    by (auto simp: image_subset_iff)
  have fs: "fst ` set (snd (crds_spec inst fs)) = crd_key ` set fs"
    by (auto simp: crds_spec_def image_image)
  have "lands view (base C) (base C) (concat (map snd specs)) (run_steps ps)"
    using lands_steps [OF assms(1)] assms(3) by simp
  moreover have "lands view (base {namespace_key n}) (base C) (snd (crds_spec inst fs))
      (applyCRDs E (Some inst) fs)"
    using crds_land [of fs "{namespace_key n}"] assms(2,3) by simp
  moreover have "set (map crd_key fs) \<inter> set (concat (map fst specs)) = {}"
    using assms(3) by simp
  with sub have "set (map crd_key fs) \<inter> fst ` set (concat (map snd specs)) = {}" by blast
  ultimately have rest: "lands view (base {namespace_key n}) (base C)
      (snd (crds_spec inst fs) @ concat (map snd specs))
      (bindP (applyCRDs E (Some inst) fs) (\<lambda>_. run_steps ps))"
    using crds_frame [of fs inst] by (intro lands_bind [where ks = "map crd_key fs"]) simp_all
  have "namespace_key n \<notin> set (concat (map fst specs))" using assms(3) by simp
  with sub have "namespace_key n \<notin> fst ` set (concat (map snd specs))" by blast
  with assms(3) fs
  have "set [namespace_key n] \<inter> fst ` set (snd (crds_spec inst fs) @ concat (map snd specs)) = {}"
    by (simp add: image_Un)
  with lands_bind [OF namespace_lands(1) rest, of "[namespace_key n]"] namespace_lands(2) [of n]
  show ?thesis by simp
qed

lemma engine_lands_plain:
  assumes "list_all2 (lands_step view (base {namespace_key n})) specs ps"
    and "distinct (namespace_key n # concat (map fst specs))"
  shows "lands view calm (base {namespace_key n}) (concat (map snd specs))
    (run_steps (ensureNamespace E n # ps))"
  using engine_lands [OF assms(1), of n "[]"] assms(2)
  by (simp add: crds_spec_def applyCRDs_def bindP_def [abs_def] ret_def)

lemmas class_steps = object_lands(1) [folded applyDeployment_def]
  object_lands(1) [folded applyDaemonSet_def] object_lands(1) [folded applyCSIDriver_def]
  object_lands(1-3) rbac_lands

text \<open>The conditions of the steps of an engine are met when its way is clear.\<close>

definition clears :: "OpenEBS \<Rightarrow> OpenEBSEngine \<Rightarrow> (objkey \<times> (kobj option \<Rightarrow> bool)) list \<Rightarrow> bool" where
  "clears inst e reqs \<longleftrightarrow>
     (\<forall>w. way_clear view accepts E inst e w \<longrightarrow> (\<forall>(k, Q) \<in> set reqs. Q (view w k)))"

definition succeeds :: "OpenEBS \<Rightarrow> OpenEBSEngine \<Rightarrow> bool" where
  "succeeds inst e \<longleftrightarrow> (\<forall>w. calm w \<and> way_clear view accepts E inst e w \<longrightarrow>
     (\<exists>w'. run_steps (engine_steps E inst e) w = (Inr (), w') \<and> calm w'))"

lemmas clear_simps = clears_def way_clear_def engine_parts_def engine_names objects_spec_def
  crds_spec_def

lemma landed_succeeds:
  assumes "lands view calm (base C) reqs (run_steps (engine_steps E inst e))"
    and "clears inst e reqs"
  shows "succeeds inst e"
  unfolding succeeds_def
proof (intro allI impI)
  fix w
  assume w: "calm w \<and> way_clear view accepts E inst e w"
  with assms(2) have "\<forall>(k, Q) \<in> set reqs. Q (view w k)" by (simp add: clears_def)
  with w assms(1) obtain w' where "run_steps (engine_steps E inst e) w = (Inr (), w')" "base C w'"
    unfolding lands_def by blast
  then show "\<exists>w'. run_steps (engine_steps E inst e) w = (Inr (), w') \<and> calm w'"
    by (auto simp: based_def)
qed

lemma succeedsI:
  assumes "take 2 (engine_steps E inst e) =
      [ensureNamespace E n, applyCRDs E (Some inst) fs]"
    and "C = insert (namespace_key n) (crd_key ` set fs)"
    and "list_all2 (lands_step view (base C)) specs (drop 2 (engine_steps E inst e))"
    and "distinct (namespace_key n # map crd_key fs @ concat (map fst specs))"
    and "clears inst e (snd (crds_spec inst fs) @ concat (map snd specs))"
  shows "succeeds inst e"
proof -
  have "ensureNamespace E n # applyCRDs E (Some inst) fs # drop 2 (engine_steps E inst e) =
      engine_steps E inst e"
    using append_take_drop_id [of 2 "engine_steps E inst e"] assms(1) by simp
  with engine_lands [OF assms(3,2,4), of inst] show ?thesis
    by (intro landed_succeeds [OF _ assms(5)]) simp
qed

lemma succeeds_plainI:
  assumes "hd (engine_steps E inst e) = ensureNamespace E n" and "engine_steps E inst e \<noteq> []"
    and "list_all2 (lands_step view (base {namespace_key n})) specs (tl (engine_steps E inst e))"
    and "distinct (namespace_key n # concat (map fst specs))"
    and "clears inst e (concat (map snd specs))"
  shows "succeeds inst e"
proof -
  have "ensureNamespace E n # tl (engine_steps E inst e) = engine_steps E inst e"
    using assms(1,2) by (cases "engine_steps E inst e") simp_all
  with engine_lands_plain [OF assms(3,4)] show ?thesis
    by (intro landed_succeeds [OF _ assms(5)]) simp
qed

lemmas engine_steps_of = engine_steps_def engine_names

lemma lvm_succeeds:
  assumes "spec_LVM (oe_Spec inst) = Some cfg"
  shows "succeeds inst OpenEBSEngineLVM"
proof (rule succeedsI [OF _ HOL.refl, where n = openebsNamespace and fs = lvm_crds])
  let ?specs = "[objects_spec inst [lvmServiceAccount, lvmClusterRole, lvmClusterRoleBinding],
    objects_spec inst [lvmControllerDeployment inst], objects_spec inst [lvmNodeDaemonSet inst],
    objects_spec inst [lvmCSIDriver], objects_spec inst [lvm_class cfg]]"
  let ?C = "insert (namespace_key openebsNamespace) (crd_key ` set lvm_crds)"
  show "list_all2 (lands_step view (base ?C)) ?specs (drop 2 (engine_steps E inst OpenEBSEngineLVM))"
    using lvm_fits [of "crd_key ` set lvm_crds" inst] class_steps [of ?C]
    by (simp add: engine_steps_of lvm_steps_def lvm_objects_def assms key_simps)
  show "distinct (namespace_key openebsNamespace # map crd_key lvm_crds @ concat (map fst ?specs))"
    by (simp add: objects_spec_def part_keys lvm_crds_def all_names)
  show "clears inst OpenEBSEngineLVM (snd (crds_spec inst lvm_crds) @ concat (map snd ?specs))"
    by (auto simp: clear_simps lvm_objects_def assms)
qed (simp add: engine_steps_of lvm_steps_def applyLVMCRDs_def lvm_crds_def)

lemma zfs_succeeds:
  assumes "spec_ZFS (oe_Spec inst) = Some cfg"
  shows "succeeds inst OpenEBSEngineZFS"
proof (rule succeedsI [OF _ HOL.refl, where n = openebsNamespace and fs = zfs_crds])
  let ?specs = "[objects_spec inst [zfsServiceAccount, zfsClusterRole, zfsClusterRoleBinding],
    objects_spec inst [zfsControllerDeployment inst], objects_spec inst [zfsBinConfigMap],
    objects_spec inst [zfsNodeDaemonSet inst], objects_spec inst [zfsCSIDriver],
    objects_spec inst [zfs_class cfg]]"
  let ?C = "insert (namespace_key openebsNamespace) (crd_key ` set zfs_crds)"
  show "list_all2 (lands_step view (base ?C)) ?specs (drop 2 (engine_steps E inst OpenEBSEngineZFS))"
    using zfs_fits [of "crd_key ` set zfs_crds" inst] class_steps [of ?C]
    by (simp add: engine_steps_of zfs_steps_def zfs_objects_def assms key_simps)
  show "distinct (namespace_key openebsNamespace # map crd_key zfs_crds @ concat (map fst ?specs))"
    by (simp add: objects_spec_def part_keys zfs_crds_def all_names)
  show "clears inst OpenEBSEngineZFS (snd (crds_spec inst zfs_crds) @ concat (map snd ?specs))"
    by (auto simp: clear_simps zfs_objects_def assms)
qed (simp add: engine_steps_of zfs_steps_def applyZFSCRDs_def zfs_crds_def)

lemma hostpath_succeeds:
  assumes "spec_Hostpath (oe_Spec inst) = Some cfg"
  shows "succeeds inst OpenEBSEngineHostpath"
proof (rule succeeds_plainI [where n = openebsNamespace])
  let ?specs = "[objects_spec inst
      [hostpathServiceAccount, hostpathClusterRole, hostpathClusterRoleBinding],
    objects_spec inst [hostpathDeployment inst], objects_spec inst [hostpath_class cfg]]"
  let ?C = "{namespace_key openebsNamespace}"
  show "list_all2 (lands_step view (base ?C)) ?specs
      (tl (engine_steps E inst OpenEBSEngineHostpath))"
    using hostpath_fits [of "{}" inst] class_steps [of ?C]
    by (simp add: engine_steps_of hostpath_steps_def hostpath_objects_def assms key_simps)
  show "distinct (namespace_key openebsNamespace # concat (map fst ?specs))"
    by (simp add: objects_spec_def part_keys all_names)
  show "clears inst OpenEBSEngineHostpath (concat (map snd ?specs))"
    by (auto simp: clear_simps hostpath_objects_def assms)
qed (simp_all add: engine_steps_of hostpath_steps_def)

lemma rawfile_succeeds:
  assumes "spec_Rawfile (oe_Spec inst) = Some cfg"
  shows "succeeds inst OpenEBSEngineRawfile"
proof (rule succeeds_plainI [where n = openebsNamespace])
  let ?specs = "[objects_spec inst
      [rawfileServiceAccount, rawfileClusterRole, rawfileClusterRoleBinding],
    objects_spec inst [rawfileDeployment inst], objects_spec inst [rawfile_class cfg]]"
  let ?C = "{namespace_key openebsNamespace}"
  show "list_all2 (lands_step view (base ?C)) ?specs
      (tl (engine_steps E inst OpenEBSEngineRawfile))"
    using rawfile_fits [of "{}" inst] class_steps [of ?C]
    by (simp add: engine_steps_of rawfile_steps_def rawfile_objects_def assms key_simps)
  show "distinct (namespace_key openebsNamespace # concat (map fst ?specs))"
    by (simp add: objects_spec_def part_keys all_names)
  show "clears inst OpenEBSEngineRawfile (concat (map snd ?specs))"
    by (auto simp: clear_simps rawfile_objects_def assms)
qed (simp_all add: engine_steps_of rawfile_steps_def)

lemma mayastor_succeeds:
  assumes "spec_Mayastor (oe_Spec inst) = Some cfg" and "quantity_ok E (etcd_storage_size inst)"
    and "\<not> schedule_configured inst"
  shows "succeeds inst OpenEBSEngineMayastor"
proof (rule succeedsI [OF _ HOL.refl, where n = mayastorNamespace and fs = snapshot_crds])
  let ?o = "\<lambda>ob. objects_spec inst [ob]" and ?k = "key_of (mayastorEtcdVeleroSchedule inst)"
  let ?sk = "key_of mayastorEtcdService"
  let ?specs = "[objects_spec inst
      [mayastorServiceAccount, mayastorClusterRole, mayastorClusterRoleBinding],
    ([?sk], [(?sk, service_updatable accepts E inst mayastorEtcdService)]), ([], []),
    ([etcd_sts_key], [(etcd_sts_key, sts_updatable accepts E inst (etcd_sts inst))]),
    ([?k], []), ?o (mayastorAgentCoreDeployment inst),
    ?o mayastorAgentCoreService, ?o mayastorAPIRestService, ?o (mayastorAPIRestDeployment inst),
    ?o (mayastorCSIControllerDeployment inst), ?o (mayastorIOEngineDaemonSet inst),
    ?o mayastorMetricsExporterService, ?o (mayastorCSINodeDaemonSet inst),
    ?o (mayastorHANodeDaemonSet inst), ?o (mayastorOperatorDiskpoolDeployment inst),
    ?o mayastorCSIDriver, ?o (mayastor_class inst cfg), ?o (mayastor_snapshot_class cfg)]"
  let ?C = "insert (namespace_key mayastorNamespace) (crd_key ` set snapshot_crds)"
  have "crd_key VolumeSnapshotClassCRD \<in> crd_key ` set snapshot_crds"
    by (simp add: snapshot_crds_def)
  note fits = mayastor_fits [OF this, of inst]
  have "prerequisites etcd_sts_key \<subseteq> ?C"
    by (simp add: prerequisites_def etcd_sts_key_def snapshot_class_kind_def)
  note health = health_lands [OF this]
  have "?k \<notin> ?C"
    by (auto simp: key_simps namespace_key_def crd_key_def crd_kind_def schedule_kind_def)
  note velero = velero_lands [OF assms(3) this]
  show "list_all2 (lands_step view (base ?C)) ?specs
      (drop 2 (engine_steps E inst OpenEBSEngineMayastor))"
    using fits class_steps [of ?C] object_lands(4) [of ?C mayastorEtcdService] health velero
      etcd_lands [OF assms(2), of ?C]
    by (simp add: engine_steps_of mayastor_steps_def mayastor_objects_def assms(1) key_simps
        mayastor_names)
  show "distinct (namespace_key mayastorNamespace # map crd_key snapshot_crds @
      concat (map fst ?specs))"
    by (simp add: objects_spec_def part_keys snapshot_crds_def mayastor_names etcd_sts_key_def
        schedule_kind_def snapshot_class_kind_def)
  show "clears inst OpenEBSEngineMayastor
      (snd (crds_spec inst snapshot_crds) @ concat (map snd ?specs))"
    by (auto simp: clear_simps mayastor_objects_def assms(1))
qed (simp add: engine_steps_of mayastor_steps_def applyVolumeSnapshotCRDs_def snapshot_crds_def)

end

end
