(* ===== verification/Spec_Only.thy ===== *)
theory Spec_Only
  imports Reliable
begin

text \<open>
  What the operator deploys depends on the spec of a resource, and on nothing else of it but the
  name and the UID that the owner references carry: not on its status, version or finalizers, which
  the operator itself writes.
\<close>

lemma builders_same_spec:
  assumes "oe_Spec j = oe_Spec i"
  shows "lvmControllerDeployment j = lvmControllerDeployment i"
    and "lvmNodeDaemonSet j = lvmNodeDaemonSet i"
    and "zfsControllerDeployment j = zfsControllerDeployment i"
    and "zfsNodeDaemonSet j = zfsNodeDaemonSet i"
    and "hostpathDeployment j = hostpathDeployment i"
    and "rawfileDeployment j = rawfileDeployment i"
proof -
  have img: "image_of j = image_of i" by (simp add: fun_eq_iff image_of_def assms)
  show "lvmControllerDeployment j = lvmControllerDeployment i"
    unfolding lvmControllerDeployment_def img assms by (rule HOL.refl)
  show "lvmNodeDaemonSet j = lvmNodeDaemonSet i"
    unfolding lvmNodeDaemonSet_def img assms by (rule HOL.refl)
  show "zfsControllerDeployment j = zfsControllerDeployment i"
    unfolding zfsControllerDeployment_def img assms by (rule HOL.refl)
  show "zfsNodeDaemonSet j = zfsNodeDaemonSet i"
    unfolding zfsNodeDaemonSet_def img assms by (rule HOL.refl)
  show "hostpathDeployment j = hostpathDeployment i"
    unfolding hostpathDeployment_def img assms by (rule HOL.refl)
  show "rawfileDeployment j = rawfileDeployment i"
    unfolding rawfileDeployment_def img assms by (rule HOL.refl)
qed

lemma mayastor_builders_same_spec:
  assumes "oe_Spec j = oe_Spec i"
  shows "mayastorAgentCoreDeployment j = mayastorAgentCoreDeployment i"
    and "mayastorAPIRestDeployment j = mayastorAPIRestDeployment i"
    and "mayastorCSIControllerDeployment j = mayastorCSIControllerDeployment i"
    and "mayastorIOEngineDaemonSet j = mayastorIOEngineDaemonSet i"
    and "mayastorCSINodeDaemonSet j = mayastorCSINodeDaemonSet i"
    and "mayastorHANodeDaemonSet j = mayastorHANodeDaemonSet i"
    and "mayastorOperatorDiskpoolDeployment j = mayastorOperatorDiskpoolDeployment i"
    and "mayastorEtcdVeleroSchedule j = mayastorEtcdVeleroSchedule i"
    and "etcd_sts j = etcd_sts i" and "mayastor_class j cfg = mayastor_class i cfg"
proof -
  have img: "image_of j = image_of i" by (simp add: fun_eq_iff image_of_def assms)
  have args: "ioEngineArgs j = ioEngineArgs i" unfolding ioEngineArgs_def assms by (rule HOL.refl)
  have tag: "mayastor_tag j = mayastor_tag i" by (simp add: mayastor_tag_def img assms)
  have ns: "velero_namespace j = velero_namespace i" by (simp add: velero_namespace_def assms)
  have etcd: "etcd_replicas j = etcd_replicas i" "etcd_storage_size j = etcd_storage_size i"
    "etcd_pod_annotations j = etcd_pod_annotations i"
    by (simp_all add: etcd_replicas_def etcd_storage_size_def etcd_pod_annotations_def assms)
  note eqs = img args tag ns etcd assms
  show "mayastorAgentCoreDeployment j = mayastorAgentCoreDeployment i"
    unfolding mayastorAgentCoreDeployment_def eqs by (rule HOL.refl)
  show "mayastorAPIRestDeployment j = mayastorAPIRestDeployment i"
    unfolding mayastorAPIRestDeployment_def eqs by (rule HOL.refl)
  show "mayastorCSIControllerDeployment j = mayastorCSIControllerDeployment i"
    unfolding mayastorCSIControllerDeployment_def eqs by (rule HOL.refl)
  show "mayastorIOEngineDaemonSet j = mayastorIOEngineDaemonSet i"
    unfolding mayastorIOEngineDaemonSet_def eqs by (rule HOL.refl)
  show "mayastorCSINodeDaemonSet j = mayastorCSINodeDaemonSet i"
    unfolding mayastorCSINodeDaemonSet_def eqs by (rule HOL.refl)
  show "mayastorHANodeDaemonSet j = mayastorHANodeDaemonSet i"
    unfolding mayastorHANodeDaemonSet_def eqs by (rule HOL.refl)
  show "mayastorOperatorDiskpoolDeployment j = mayastorOperatorDiskpoolDeployment i"
    unfolding mayastorOperatorDiskpoolDeployment_def eqs by (rule HOL.refl)
  show "mayastorEtcdVeleroSchedule j = mayastorEtcdVeleroSchedule i"
    unfolding mayastorEtcdVeleroSchedule_def eqs by (rule HOL.refl)
  show "etcd_sts j = etcd_sts i"
    unfolding etcd_sts_def etcd_statefulset_def eqs by (rule HOL.refl)
  show "mayastor_class j cfg = mayastor_class i cfg"
    unfolding mayastor_class_def mayastorStorageClass_def eqs by (rule HOL.refl)
qed

lemma engine_parts_same_spec: "oe_Spec j = oe_Spec i \<Longrightarrow> engine_parts j e = engine_parts i e"
  by (simp add: engine_parts_def engine_objects builders_same_spec [of j i]
      mayastor_builders_same_spec [of j i] cong: option.case_cong)

lemma enabled_same_spec:
  assumes "oe_Spec j = oe_Spec i"
  shows "enabled_engines j = enabled_engines i" "mayastor_on j = mayastor_on i"
    "distinct_classes j = distinct_classes i" "schedule_configured j = schedule_configured i"
    "etcd_storage_size j = etcd_storage_size i"
proof -
  have on: "lvm_on j = lvm_on i" "zfs_on j = zfs_on i" "hostpath_on j = hostpath_on i"
    "rawfile_on j = rawfile_on i" "mayastor_on j = mayastor_on i"
    by (simp_all add: lvm_on_def zfs_on_def hostpath_on_def rawfile_on_def mayastor_on_def assms)
  have "class_name j e = class_name i e" for e
    unfolding class_name_def assms by (rule HOL.refl)
  then have cn: "class_name j = class_name i" by (rule ext)
  show en: "enabled_engines j = enabled_engines i"
    unfolding enabled_engines_def on by (rule HOL.refl)
  show "mayastor_on j = mayastor_on i" by (rule on)
  show "distinct_classes j = distinct_classes i"
    unfolding distinct_classes_def en cn by (rule HOL.refl)
  show "schedule_configured j = schedule_configured i" by (simp add: schedule_configured_def assms)
  show "etcd_storage_size j = etcd_storage_size i" by (simp add: etcd_storage_size_def assms)
qed

lemma orphans_same_spec:
  assumes "oe_Spec j = oe_Spec i"
  shows "orphan j ob = orphan i ob" and "unwanted j k ob = unwanted i k ob"
proof -
  have "expectedResources j = expectedResources i"
    unfolding expectedResources_def lvm_on_def zfs_on_def hostpath_on_def rawfile_on_def
      mayastor_on_def assms by (rule HOL.refl)
  then show "orphan j ob = orphan i ob" by (simp add: orphan_def)
  then show "unwanted j k ob = unwanted i k ob"
    by (simp add: unwanted_def scheduleWanted_def assms mayastor_builders_same_spec [OF assms])
qed

text \<open>The owner references name the resource and its UID.\<close>

definition same_owner :: "'l lib_scheme \<Rightarrow> OpenEBS \<Rightarrow> OpenEBS \<Rightarrow> bool" where
  "same_owner L i j \<longleftrightarrow> oe_Spec j = oe_Spec i \<and> ownerRefs L j = ownerRefs L i"

lemma same_owner_set: "same_owner L i j \<Longrightarrow> set_owner L (Some j) ob = set_owner L (Some i) ob"
  by (simp add: same_owner_def set_owner_def)

lemma engine_deployed_same:
  assumes "same_owner L i j"
  shows "engine_deployed view d L j e w = engine_deployed view d L i e w"
proof -
  from assms have s: "oe_Spec j = oe_Spec i" by (simp add: same_owner_def)
  show ?thesis
    by (simp add: engine_deployed_def deployed_def as_built_def crd_as_embedded_def
        sts_as_built_def same_owner_set [OF assms] engine_parts_same_spec [OF s]
        mayastor_builders_same_spec [OF s])
qed

end
