(* ===== verification/Liveness.thy ===== *)
theory Liveness
  imports Progress Spec_Only Lifecycle
begin

text \<open>
  Whole reconciles in a calm phase.  With nothing in the way of the enabled engines (\<open>ready\<close>) one
  reconcile of a live resource reaches the state the resource asks for and says so in the status;
  one reconcile of a resource that is being deleted removes everything and lets the resource go.
\<close>

section \<open>All engines\<close>

lemma way_clear_kept:
  assumes "\<And>k. k \<in> own_keys inst e \<Longrightarrow> view w' k = view w k"
  shows "way_clear view accepts L inst e w' = way_clear view accepts L inst e w"
proof -
  obtain n files obs where p: "engine_parts inst e = (n, files, obs)"
    by (cases "engine_parts inst e") auto
  have f: "view w' (crd_key f) = view w (crd_key f)" if "f \<in> set files" for f
    by (rule assms) (use that p in \<open>simp add: own_keys_def\<close>)
  have ob: "view w' (key_of ob) = view w (key_of ob)" if "ob \<in> set obs" for ob
    by (rule assms) (use that p in \<open>simp add: own_keys_def\<close>)
  have m: "view w' etcd_sts_key = view w etcd_sts_key \<and>
      view w' (key_of mayastorEtcdService) = view w (key_of mayastorEtcdService)"
    if "e = OpenEBSEngineMayastor"
  proof -
    have "mayastorEtcdService \<in> set (mayastor_objects inst)" by (simp add: mayastor_objects_def)
    then have "{etcd_sts_key, key_of mayastorEtcdService} \<subseteq> own_keys inst e"
      using that by (auto simp: own_keys_def engine_parts_def engine_names)
    with assms show ?thesis by simp
  qed
  show ?thesis using p f ob m unfolding way_clear_def by (auto split: prod.split)
qed

text \<open>A loop over deployments that each succeed and leave the others' conditions alone.\<close>

definition serves_all :: "string set \<Rightarrow> ('w \<Rightarrow> bool) \<Rightarrow> (string \<Rightarrow> 'w \<Rightarrow> bool) \<Rightarrow> string \<Rightarrow>
    ('w, EngineStatus) prog \<Rightarrow> bool" where
  "serves_all N P G e dep \<longleftrightarrow> (\<forall>w. P w \<longrightarrow> G e w \<longrightarrow>
     (\<exists>st w'. dep w = (Inr st, w') \<and> es_Phase st = OpenEBSPhaseRunning \<and> P w' \<and>
       (\<forall>e' \<in> N. e' \<noteq> e \<longrightarrow> G e' w \<longrightarrow> G e' w')))"

lemma run_engines_all:
  assumes "\<And>e dep. (True, e, dep) \<in> set table \<Longrightarrow> serves_all N P G e dep"
    and "distinct (map (fst \<circ> snd) (filter fst table))"
    and "set (map (fst \<circ> snd) (filter fst table)) \<subseteq> N"
    and "P w" and "\<And>e. e \<in> set (map (fst \<circ> snd) (filter fst table)) \<Longrightarrow> G e w"
  shows "\<exists>new w'. run_engines table (es0, errs0) w = (Inr (es0 @ new, errs0), w') \<and> P w' \<and>
    (\<forall>s \<in> set new. es_Phase s = OpenEBSPhaseRunning)"
  using assms
proof (induction table arbitrary: es0 w)
  case Nil
  then show ?case by (simp add: ret_def)
next
  case (Cons t table)
  obtain en e dep where t: "t = (en, e, dep)" by (cases t)
  note rest = Cons.prems(1) [OF list.set_intros(2)]
  show ?case
  proof (cases en)
    case False
    have "\<exists>new w'. run_engines table (es0, errs0) w = (Inr (es0 @ new, errs0), w') \<and> P w' \<and>
        (\<forall>s \<in> set new. es_Phase s = OpenEBSPhaseRunning)"
      by (rule Cons.IH [OF rest]) (use Cons.prems(2-5) t False in simp_all)
    with t False show ?thesis by simp
  next
    case True
    have "serves_all N P G e dep" by (rule Cons.prems(1)) (simp add: t True)
    moreover have "G e w" by (rule Cons.prems(5)) (simp add: t True)
    ultimately obtain st w1 where d: "dep w = (Inr st, w1)" "es_Phase st = OpenEBSPhaseRunning"
      and P: "P w1" and G: "\<And>e'. e' \<in> N \<Longrightarrow> e' \<noteq> e \<Longrightarrow> G e' w \<Longrightarrow> G e' w1"
      using Cons.prems(4) unfolding serves_all_def by blast
    have "\<exists>new w'. run_engines table (es0 @ [st], errs0) w1 = (Inr ((es0 @ [st]) @ new, errs0), w') \<and>
        P w' \<and> (\<forall>s \<in> set new. es_Phase s = OpenEBSPhaseRunning)"
    proof (rule Cons.IH [OF rest])
      show "G x w1" if x: "x \<in> set (map (fst \<circ> snd) (filter fst table))" for x
      proof (rule G)
        show "x \<in> N" by (rule subsetD [OF Cons.prems(3)]) (use x t True in simp)
        show "x \<noteq> e" using Cons.prems(2) x t True by auto
        show "G x w" by (rule Cons.prems(5)) (use x t True in simp)
      qed
    qed (use Cons.prems(2,3) t True P in \<open>simp_all add: comp_def\<close>)
    then obtain new w' where "run_engines table (es0 @ [st], errs0) w1 = (Inr (es0 @ st # new, errs0), w')"
      "P w'" "\<forall>s \<in> set new. es_Phase s = OpenEBSPhaseRunning" by auto
    with d t True show ?thesis
      by (intro exI [of _ "st # new"] exI [of _ w']) (simp add: bindP_def phase_names)
  qed
qed

lemma enabled_names: "map (fst \<circ> snd) (filter fst (engine_table E inst)) = enabled_engines inst"
  by (simp add: engine_table_def enabled_engines_def engine_names)

lemma enabled_distinct: "distinct (enabled_engines inst)"
  by (simp add: enabled_engines_def engine_names)

text \<open>
  The resource asks for what can be given: the classes of its engines differ, nothing is in the
  way of an enabled engine, and for Mayastor the etcd size is a quantity and no Velero schedule,
  whose namespace and kind are not the operator's, is configured.
\<close>

definition ready :: "('w \<Rightarrow> objkey \<Rightarrow> kobj option) \<Rightarrow> (kobj \<Rightarrow> kobj \<Rightarrow> bool) \<Rightarrow> 'l lib_scheme \<Rightarrow>
    OpenEBS \<Rightarrow> 'w \<Rightarrow> bool" where
  "ready view accepts L inst w \<longleftrightarrow> distinct_classes inst \<and>
     (\<forall>e \<in> set (enabled_engines inst). way_clear view accepts L inst e w) \<and>
     (mayastor_on inst \<longrightarrow> quantity_ok L (etcd_storage_size inst) \<and> \<not> schedule_configured inst)"

lemma ready_same:
  assumes "same_owner L i j" and "view w' = view w"
  shows "ready view accepts L j w' = ready view accepts L i w"
proof -
  from assms(1) have s: "oe_Spec j = oe_Spec i" by (simp add: same_owner_def)
  have own: "set_owner L (Some j) = set_owner L (Some i)"
    using same_owner_set [OF assms(1)] by (rule ext)
  have "way_clear view accepts L j e w' = way_clear view accepts L i e w" for e
    unfolding way_clear_def updatable_def service_updatable_def sts_updatable_def assms(2) own
      engine_parts_same_spec [OF s] mayastor_builders_same_spec [OF s] by (rule HOL.refl)
  then show ?thesis by (simp add: ready_def enabled_same_spec [OF s])
qed

context guarded_cluster
begin

lemma engine_succeeds:
  assumes "e \<in> set (enabled_engines inst)" and "ready view accepts E inst w"
  shows "succeeds inst e"
proof -
  from assms(1) consider "e = OpenEBSEngineLVM" "lvm_on inst" | "e = OpenEBSEngineZFS" "zfs_on inst"
    | "e = OpenEBSEngineHostpath" "hostpath_on inst" | "e = OpenEBSEngineRawfile" "rawfile_on inst"
    | "e = OpenEBSEngineMayastor" "mayastor_on inst"
    by (auto simp: enabled_engines_def split: if_splits)
  then show ?thesis
    using assms(2) lvm_succeeds zfs_succeeds hostpath_succeeds rawfile_succeeds mayastor_succeeds
      engine_on_Some [of inst]
    by cases (auto simp: ready_def)
qed

lemma engine_serves:
  assumes "ready view accepts E inst w" and t: "(True, e, dep) \<in> set (engine_table E inst)"
  shows "serves_all (set (enabled_engines inst)) calm (way_clear view accepts E inst) e dep"
  unfolding serves_all_def
proof (intro allI impI)
  let ?N = "set (enabled_engines inst)" and ?G = "way_clear view accepts E inst"
  fix w1
  have cn: "class_name inst e \<noteq> class_name inst e'"
    if "e \<in> ?N" "e' \<in> ?N" "e \<noteq> e'" for e e'
    using assms(1) that by (auto simp: ready_def distinct_classes_def distinct_map inj_on_def)
  assume c: "calm w1" "?G e w1"
  from engine_table_steps [OF t] obtain msg where e: "e \<in> ?N"
    and dep: "dep = deploy_engine e msg (engine_steps E inst e)" by blast
  from engine_succeeds [OF e assms(1)] c obtain w2
    where "run_steps (engine_steps E inst e) w1 = (Inr (), w2)" "calm w2"
    unfolding succeeds_def by blast
  then have d: "dep w1 = (Inr (engineRunning e msg), w2)"
    by (simp add: dep deploy_engine_def bindP_def attempt_def ret_def)
  have "?G e' w2" if e': "e' \<in> ?N" "e' \<noteq> e" and g: "?G e' w1" for e'
  proof -
    have "view w2 k = view w1 k" if k: "k \<in> own_keys inst e'" for k
    proof (rule engine_frame [OF cluster_api_axioms apimachinery_axioms t d])
      show "k \<notin> own_keys inst e"
        by (rule own_keys_disjoint [OF e'(1) e e'(2) cn [OF e'(1) e e'(2)] k])
      show "k \<noteq> namespace_key (fst (engine_parts inst e))"
        using own_keys_owned [OF e'(1) k] by (auto simp: owned_def namespace_key_def)
    qed
    from way_clear_kept [of inst e' view w2 w1 accepts E, OF this] g show ?thesis by simp
  qed
  then have "\<forall>e' \<in> ?N. e' \<noteq> e \<longrightarrow> ?G e' w1 \<longrightarrow> ?G e' w2" by blast
  moreover have "es_Phase (engineRunning e msg) = OpenEBSPhaseRunning"
    by (simp add: engineRunning_def)
  ultimately show "\<exists>st w'. dep w1 = (Inr st, w') \<and> es_Phase st = OpenEBSPhaseRunning \<and>
      calm w' \<and> (\<forall>e' \<in> ?N. e' \<noteq> e \<longrightarrow> ?G e' w1 \<longrightarrow> ?G e' w')"
    using d \<open>calm w2\<close> by blast
qed

lemma engines_land:
  assumes "calm w" and "ready view accepts E inst w"
  shows "\<exists>es w'. deployEngines E inst w = (Inr (es, None), w') \<and> calm w' \<and>
    (\<forall>s \<in> set es. es_Phase s = OpenEBSPhaseRunning)"
proof -
  let ?N = "set (enabled_engines inst)" and ?G = "way_clear view accepts E inst"
  have "\<exists>new w'. run_engines (engine_table E inst) ([], []) w = (Inr ([] @ new, []), w') \<and> calm w' \<and>
      (\<forall>s \<in> set new. es_Phase s = OpenEBSPhaseRunning)"
  proof (rule run_engines_all [where P = calm and N = ?N and G = ?G])
    show "serves_all ?N calm ?G e dep" if "(True, e, dep) \<in> set (engine_table E inst)" for e dep
      by (rule engine_serves [OF assms(2) that])
    show "distinct (map (fst \<circ> snd) (filter fst (engine_table E inst)))"
      unfolding enabled_names by (rule enabled_distinct)
    show "set (map (fst \<circ> snd) (filter fst (engine_table E inst))) \<subseteq> ?N"
      unfolding enabled_names by (rule subset_refl)
    show "?G e w" if "e \<in> set (map (fst \<circ> snd) (filter fst (engine_table E inst)))" for e
      using that assms(2) unfolding enabled_names ready_def by blast
  qed (rule assms(1))
  then show ?thesis by (auto simp: deployEngines_def bindP_def ret_def)
qed

end

text \<open>The two clean-ups; the orphans of a resource are among the keys that may be deleted.\<close>

definition prunable :: "(objkey \<Rightarrow> bool) \<Rightarrow> OpenEBS \<Rightarrow> bool" where
  "prunable may inst \<longleftrightarrow> (\<forall>ob. orphan inst ob \<longrightarrow> may (key_of ob))"

lemma prunable_True: "prunable (\<lambda>_. True) inst"
  by (simp add: prunable_def)

context guarded_cluster
begin

lemma deletes_land:
  assumes "calm w" and "distinct (map key_of obs)" and "\<forall>ob \<in> set obs. view w (key_of ob) \<noteq> None"
    and "\<forall>ob \<in> set obs. P ob \<longrightarrow> may (key_of ob)"
  shows "\<exists>w'. run_steps (map (\<lambda>ob. if P ob then Delete E (key_of ob) else ret ()) obs) w =
    (Inr (), w') \<and> calm w'"
  using assms
proof (induction obs arbitrary: w)
  case Nil
  then show ?case by (simp add: ret_def)
next
  case (Cons ob obs)
  show ?case
  proof (cases "P ob")
    case False
    with Cons show ?thesis by (simp add: bindP_def ret_def)
  next
    case True
    with Cons.prems(4) have m: "may (key_of ob)" by simp
    from Cons.prems delete_present [OF Cons.prems(1) m] obtain w1
      where d: "cl_delete E (key_of ob) w = (Inr (), w1)" by (metis list.set_intros(1) prod.collapse)
    have "calm w1" using calm_delete [OF Cons.prems(1) m] d by simp
    moreover have "\<forall>ob' \<in> set obs. view w1 (key_of ob') \<noteq> None"
      using delete_ok [OF d] Cons.prems(2,3) by (auto simp: image_iff)
    ultimately have "\<exists>w'. run_steps (map (\<lambda>ob. if P ob then Delete E (key_of ob) else ret ()) obs)
        w1 = (Inr (), w') \<and> calm w'"
      using Cons.IH Cons.prems(2,4) by simp
    with True d show ?thesis by (simp add: bindP_def Delete_def call_def)
  qed
qed

text \<open>A chain of programs that each succeed in a calm world.\<close>

lemma steps_land:
  assumes "\<And>p w. p \<in> set ps \<Longrightarrow> calm w \<Longrightarrow> \<exists>w'. p w = (Inr (), w') \<and> calm w'" and "calm w"
  shows "\<exists>w'. run_steps ps w = (Inr (), w') \<and> calm w'"
  using assms
proof (induction ps arbitrary: w)
  case Nil
  then show ?case by (simp add: ret_def)
next
  case (Cons p ps)
  from Cons.prems obtain w1 where "p w = (Inr (), w1)" "calm w1" by (meson list.set_intros(1))
  with Cons show ?case by (simp add: bindP_def)
qed

lemma delete_quietly_lands:
  assumes "calm w" and "may k"
  shows "\<exists>w'. delete_quietly E k w = (Inr (), w') \<and> calm w'"
  using delete_done [OF assms] calm_delete [OF assms]
  by (cases "cl_delete E k w")
    (auto simp: delete_quietly_def bindP_def attempt_def Delete_def call_def ret_def)

lemma delete_orphans_lands:
  assumes "calm w"
    and m: "\<And>ob. listed (fst scope) (snd scope) managed_selector ob \<Longrightarrow> obj_name ob \<notin> set x \<Longrightarrow>
      may (key_of ob)"
  shows "\<exists>w'. delete_orphans E x scope w = (Inr (), w') \<and> calm w'"
proof -
  from list_answered [OF assms(1), of "fst scope" "snd scope" managed_selector] obtain obs w1
    where l: "cl_list E (fst scope) (snd scope) managed_selector w = (Inr obs, w1)"
    and d: "distinct (map key_of obs)" by (metis prod.collapse)
  have c: "calm w1" using calm_list [OF assms(1), of "fst scope" "snd scope" managed_selector] l by simp
  have "\<forall>ob \<in> set obs. view w1 (key_of ob) \<noteq> None"
    using list_ok [OF l] view_key by (auto simp: set_eq_iff)
  moreover have "\<forall>ob \<in> set obs. obj_name ob \<notin> set x \<longrightarrow> may (key_of ob)"
    using list_ok [OF l] m by blast
  ultimately have "\<exists>w'. run_steps (map (\<lambda>ob. if obj_name ob \<notin> set x then Delete E (key_of ob)
      else ret ()) obs) w1 = (Inr (), w') \<and> calm w'"
    by (rule deletes_land [OF c d])
  with l show ?thesis
    by (simp add: delete_orphans_def bindP_def call_def)
qed

lemma orphans_land:
  assumes "calm w" and "prunable may inst"
  shows "\<exists>w'. cleanupOrphans E inst w = (Inr (), w') \<and> calm w'"
proof -
  have "may (key_of (mayastorEtcdVeleroSchedule inst))"
    by (rule may_schedule) (simp add: key_simps)
  moreover have "may (key_of ob)"
    if "scope \<in> set orphan_scopes" "listed (fst scope) (snd scope) managed_selector ob"
      "obj_name ob \<notin> set (expectedResources inst)" for scope ob
    using assms(2) that unfolding prunable_def orphan_listed by blast
  ultimately show ?thesis
    unfolding cleanupOrphans_def
    by (intro steps_land [OF _ assms(1)])
      (fastforce intro: delete_orphans_lands delete_quietly_lands simp: ret_def)
qed

lemma cleanup_lands:
  assumes "calm w" and "quantity_ok E (etcd_storage_size inst)" and "\<And>k. may k"
  shows "\<exists>w'. cleanup E inst w = (Inr (), w') \<and> calm w'"
proof -
  have "\<exists>w'. run_steps (map (\<lambda>ob. delete_quietly E (key_of ob)) obs) w = (Inr (), w') \<and> calm w'" for obs
    by (rule steps_land [OF _ assms(1)]) (auto simp: delete_quietly_lands assms(3))
  with cleanup_objects_Inr [of E inst] assms(2) show ?thesis
    by (auto simp: cleanup_def bindP_def pure_def)
qed

end

section \<open>The custom resources\<close>

text \<open>
  A calm world that holds the resources \<open>m\<close>. A read returns the stored resource; an update that
  changes only the finalizers of the stored resource is accepted and gives it a new version; the
  resource goes away when the last finalizer of a deleted one does; a write of the status of the
  stored resource is accepted.
\<close>

definition with_finalizers :: "string list \<Rightarrow> OpenEBS \<Rightarrow> OpenEBS" where
  "with_finalizers fs i = i\<lparr>oe_meta := (oe_meta i)\<lparr>om_finalizers := fs\<rparr>\<rparr>"

definition with_version :: "string \<Rightarrow> OpenEBS \<Rightarrow> OpenEBS" where
  "with_version v i = i\<lparr>oe_meta := (oe_meta i)\<lparr>om_resource_version := v\<rparr>\<rparr>"

locale guarded_resources =
  fixes E :: "'a env" and view :: "'a \<Rightarrow> objkey \<Rightarrow> kobj option" and defaulted
    and calm :: "cr_store \<Rightarrow> 'a \<Rightarrow> bool" and accepts and may
  assumes reliable: "guarded_cluster E view defaulted (calm m) accepts may"
    and stored_name: "calm m w \<Longrightarrow> m n = Some i \<Longrightarrow> cr_name i = n"
    and reads_stored: "calm m w \<Longrightarrow> m n = Some i \<Longrightarrow>
      \<exists>w'. cr_get E n w = (Inr i, w') \<and> calm m w'"
    and keeps_finalized: "calm m w \<Longrightarrow> m n = Some i \<Longrightarrow>
      om_deletion_timestamp (oe_meta i) = None \<or> fs \<noteq> [] \<Longrightarrow>
      \<exists>v w'. cr_update E (with_finalizers fs i) w = (Inr (with_version v (with_finalizers fs i)), w') \<and>
        calm (m(n \<mapsto> with_version v (with_finalizers fs i))) w'"
    and lets_go: "calm m w \<Longrightarrow> m n = Some i \<Longrightarrow> om_deletion_timestamp (oe_meta i) \<noteq> None \<Longrightarrow>
      \<exists>j w'. cr_update E (with_finalizers [] i) w = (Inr j, w') \<and> calm (m(n := None)) w'"
    and writes_status: "calm m w \<Longrightarrow> m n = Some i \<Longrightarrow>
      \<exists>v w'. cr_status_update E (i\<lparr>oe_Status := st\<rparr>) w =
        (Inr (with_version v (i\<lparr>oe_Status := st\<rparr>)), w') \<and>
        calm (m(n \<mapsto> with_version v (i\<lparr>oe_Status := st\<rparr>))) w'"
    and tells_time: "calm m w \<Longrightarrow> calm m (snd (time_now E w))"
    and contains_member: "ContainsFinalizer E i f \<longleftrightarrow> f \<in> set (om_finalizers (oe_meta i))"
    and owner_by_uid: "om_name (oe_meta i) = om_name (oe_meta j) \<Longrightarrow>
      om_uid (oe_meta i) = om_uid (oe_meta j) \<Longrightarrow> NewControllerRef E i g k = NewControllerRef E j g k"
    and adds_one: "\<exists>fs. AddFinalizer E i f = with_finalizers fs i"
    and removes_one: "RemoveFinalizer E i f =
      with_finalizers (removeAll f (om_finalizers (oe_meta i))) i"

locale calm_resources = guarded_resources E view defaulted calm accepts "\<lambda>_. True"
  for E :: "'a env" and view :: "'a \<Rightarrow> objkey \<Rightarrow> kobj option" and defaulted
    and calm :: "cr_store \<Rightarrow> 'a \<Rightarrow> bool" and accepts

text \<open>What the operator reports when all is well.\<close>

definition all_running :: "OpenEBS \<Rightarrow> OpenEBSStatus \<Rightarrow> bool" where
  "all_running inst st \<longleftrightarrow> map es_Name (st_Engines st) = enabled_engines inst \<and>
     (\<forall>s \<in> set (st_Engines st). es_Phase s = OpenEBSPhaseRunning) \<and>
     st_Phase st = (if enabled_engines inst = [] then OpenEBSPhasePending else OpenEBSPhaseRunning)"

text \<open>
  The state a resource asks for: it holds the finalizer and reports its engines as Running, every
  enabled engine is in the cluster, and nothing that is not wanted is left.
\<close>

definition converged :: "('w \<Rightarrow> objkey \<Rightarrow> kobj option) \<Rightarrow> (kbody \<Rightarrow> kbody \<Rightarrow> bool) \<Rightarrow> 'l lib_scheme \<Rightarrow>
    OpenEBS \<Rightarrow> OpenEBS \<Rightarrow> 'w \<Rightarrow> bool" where
  "converged view d L inst i w \<longleftrightarrow> same_owner L inst i \<and>
     om_deletion_timestamp (oe_meta i) = None \<and> ContainsFinalizer L i openebsFinalizer \<and>
     all_running inst (oe_Status i) \<and>
     (\<forall>e \<in> set (enabled_engines inst). engine_deployed view d L inst e w) \<and>
     (\<forall>k ob. view w k = Some ob \<longrightarrow> \<not> unwanted inst k ob)"

context guarded_resources
begin

lemma api: "cluster_api E view defaulted" and lib: "apimachinery E"
  using reliable unfolding guarded_cluster_def by blast+

lemma derivePhase_running:
  assumes "\<forall>s \<in> set es. es_Phase s = OpenEBSPhaseRunning"
  shows "derivePhase es = (if es = [] then OpenEBSPhasePending else OpenEBSPhaseRunning)"
proof -
  have "phase_flags (True, False) es = (True, False)"
    using assms by (induction es) (simp_all add: phase_names)
  then show ?thesis by (simp add: derivePhase_def)
qed

lemma status_lands:
  assumes "calm m w" and "m (cr_name inst) = Some i"
    and "\<forall>s \<in> set es. es_Phase s = OpenEBSPhaseRunning"
  shows "\<exists>now v w'. let st = \<lparr>st_Phase = derivePhase es,
        st_Conditions = buildConditions now (derivePhase es), st_Engines = es\<rparr> in
     write_status E inst es w = (Inr (requeueAfter, None), w') \<and>
     calm (m(cr_name inst \<mapsto> with_version v (i\<lparr>oe_Status := st\<rparr>))) w'"
proof -
  obtain now w1 where t: "time_now E w = (now, w1)" by (cases "time_now E w")
  with tells_time [OF assms(1)] have c1: "calm m w1" by simp
  from reads_stored [OF c1 assms(2)] obtain w2
    where g: "cr_get E (cr_name inst) w1 = (Inr i, w2)" and c2: "calm m w2" by blast
  let ?st = "\<lparr>st_Phase = derivePhase es, st_Conditions = buildConditions now (derivePhase es),
    st_Engines = es\<rparr>"
  from writes_status [OF c2 assms(2), of ?st] obtain v w3
    where u: "cr_status_update E (i\<lparr>oe_Status := ?st\<rparr>) w2 =
        (Inr (with_version v (i\<lparr>oe_Status := ?st\<rparr>)), w3)"
    and c3: "calm (m(cr_name inst \<mapsto> with_version v (i\<lparr>oe_Status := ?st\<rparr>))) w3" by blast
  have "derivePhase es \<noteq> OpenEBSPhaseFailed"
    using derivePhase_running [OF assms(3)] by (simp add: phase_names)
  with t g u have "write_status E inst es w = (Inr (requeueAfter, None), w3)"
    by (simp add: write_status_def Let_def metav1_Now_def bindP_def attempt_def call_def ret_def
        cr_name_def with_status_def)
  with c3 show ?thesis by (auto simp: Let_def)
qed

lemma normal_lands:
  assumes "calm m w" and "m (cr_name inst) = Some i" and "ready view accepts E inst w"
    and "prunable may inst"
  shows "\<exists>st v w'. reconcileNormal E inst w = (Inr (requeueAfter, None), w') \<and>
     all_running inst st \<and>
     calm (m(cr_name inst \<mapsto> with_version v (i\<lparr>oe_Status := st\<rparr>))) w' \<and>
     (\<forall>e \<in> set (enabled_engines inst). engine_deployed view defaulted E inst e w') \<and>
     (\<forall>k ob. view w' k = Some ob \<longrightarrow> \<not> unwanted inst k ob)"
proof -
  note rel = reliable [of m]
  from guarded_cluster.engines_land [OF rel assms(1,3)] obtain es w1
    where d: "deployEngines E inst w = (Inr (es, None), w1)" and c1: "calm m w1"
    and run: "\<forall>s \<in> set es. es_Phase s = OpenEBSPhaseRunning" by blast
  from guarded_cluster.orphans_land [OF rel c1 assms(4)] obtain w2
    where o: "cleanupOrphans E inst w1 = (Inr (), w2)" and c2: "calm m w2" by blast
  from status_lands [OF c2 assms(2) run] obtain now v w3 st
    where st: "st = \<lparr>st_Phase = derivePhase es,
        st_Conditions = buildConditions now (derivePhase es), st_Engines = es\<rparr>"
    and s: "write_status E inst es w2 = (Inr (requeueAfter, None), w3)"
    and c3: "calm (m(cr_name inst \<mapsto> with_version v (i\<lparr>oe_Status := st\<rparr>))) w3"
    by (auto simp: Let_def)
  have v: "view w3 = view w2"
    using same_outsideD [OF frame.keeps_result [OF write_status_view [OF api] s]] by (simp add: fun_eq_iff)
  from deployEngines_reports(1) [OF d] have names: "map es_Name es = enabled_engines inst" .
  have dep: "engine_deployed view defaulted E inst e w2" if e: "e \<in> set (enabled_engines inst)" for e
  proof (rule cleanup_keeps_engines [OF api o e])
    from e names obtain s where "s \<in> set es" "es_Name s = e" by (metis (no_types) imageE set_map)
    with deployEngines_deployed [OF api lib _ d] run assms(3)
    show "engine_deployed view defaulted E inst e w1" by (auto simp: ready_def)
  qed
  have "all_running inst st"
    using names run derivePhase_running [OF run] st by (auto simp: all_running_def)
  moreover have "reconcileNormal E inst w = (Inr (requeueAfter, None), w3)"
    using d o s by (simp add: reconcileNormal_def bindP_def attempt_def)
  moreover have "engine_deployed view defaulted E inst e w3" if "e \<in> set (enabled_engines inst)" for e
    using dep [OF that] engine_deployed_view [OF v, of defaulted E inst e] by simp
  moreover have "\<not> unwanted inst k ob" if "view w3 k = Some ob" for k ob
    using prunes_clears [OF cluster_api.prunes_cleanupOrphans [OF api] o] that v by simp
  ultimately show ?thesis using c3 by blast
qed

text \<open>The operator's own changes of a resource: its finalizers, version and status.\<close>

lemma own_changes:
  "same_owner E i (with_finalizers fs i)" "same_owner E i (with_version v i)"
  "same_owner E i (i\<lparr>oe_Status := st\<rparr>)"
  by (auto simp: same_owner_def ownerRefs_def with_finalizers_def with_version_def
      intro!: owner_by_uid)

lemma same_owner_trans: "same_owner E i j \<Longrightarrow> same_owner E j k \<Longrightarrow> same_owner E i k"
  by (simp add: same_owner_def)

lemma normal_converges:
  assumes "calm m w" and "m name = Some i" and "same_owner E inst i"
    and "om_deletion_timestamp (oe_meta i) = None" and "ContainsFinalizer E i openebsFinalizer"
    and "ready view accepts E inst w" and "prunable may inst"
  shows "\<exists>j w'. reconcileNormal E i w = (Inr (requeueAfter, None), w') \<and>
     calm (m(name \<mapsto> j)) w' \<and> converged view defaulted E inst j w'"
proof -
  have n: "cr_name i = name" by (rule stored_name [OF assms(1,2)])
  from assms(3) have s: "oe_Spec i = oe_Spec inst" by (simp add: same_owner_def)
  from ready_same [OF assms(3), of view w w accepts] assms(6) have r: "ready view accepts E i w" by simp
  from assms(7) have "prunable may i" by (simp add: prunable_def orphans_same_spec(1) [OF s])
  from normal_lands [OF assms(1) _ r this, of i, unfolded n, OF assms(2)] obtain st v w'
    where r: "reconcileNormal E i w = (Inr (requeueAfter, None), w')" and a: "all_running i st"
    and c: "calm (m(name \<mapsto> with_version v (i\<lparr>oe_Status := st\<rparr>))) w'"
    and d: "\<forall>e \<in> set (enabled_engines i). engine_deployed view defaulted E i e w'"
    and u: "\<forall>k ob. view w' k = Some ob \<longrightarrow> \<not> unwanted i k ob" by blast
  let ?j = "with_version v (i\<lparr>oe_Status := st\<rparr>)"
  have "same_owner E inst ?j"
    using assms(3) own_changes(3) own_changes(2) same_owner_trans by metis
  moreover have "om_deletion_timestamp (oe_meta ?j) = None" "ContainsFinalizer E ?j openebsFinalizer"
    "oe_Status ?j = st"
    using assms(4,5) by (simp_all add: with_version_def contains_member)
  ultimately have "converged view defaulted E inst ?j w'"
    using a d u
    by (simp add: converged_def all_running_def enabled_same_spec [OF s] orphans_same_spec [OF s]
        engine_deployed_same [OF assms(3)])
  with r c show ?thesis by blast
qed

lemma reconcile_lands:
  assumes "calm m w" and "m name = Some inst" and "om_deletion_timestamp (oe_meta inst) = None"
    and "ready view accepts E inst w" and "prunable may inst"
  shows "\<exists>i w'. ReconcileReq E name w = (Inr (requeueAfter, None), w') \<and>
     calm (m(name \<mapsto> i)) w' \<and> converged view defaulted E inst i w'"
proof -
  from reads_stored [OF assms(1,2)] obtain w1 where g: "cr_get E name w = (Inr inst, w1)"
    and c1: "calm m w1" by blast
  have v1: "view w1 = view w" using cluster_api.cr_get_view [OF api, of name w] g by simp
  have same: "same_owner E inst inst" by (simp add: same_owner_def)
  show ?thesis
  proof (cases "ContainsFinalizer E inst openebsFinalizer")
    case True
    have "ReconcileReq E name w = reconcileNormal E inst w1"
      using True assms(3) g by (simp add: ReconcileReq_def bindP_def attempt_def call_def)
    moreover have "ready view accepts E inst w1"
      using ready_same [OF same v1, of accepts] assms(4) by simp
    ultimately show ?thesis using normal_converges [OF c1 assms(2) same assms(3) True _ assms(5)] by simp
  next
    case False
    obtain fs where fs: "AddFinalizer E inst openebsFinalizer = with_finalizers fs inst"
      using adds_one by blast
    from keeps_finalized [OF c1 assms(2), of fs] assms(3) obtain v w2
      where u: "cr_update E (with_finalizers fs inst) w1 =
          (Inr (with_version v (with_finalizers fs inst)), w2)"
      and c2: "calm (m(name \<mapsto> with_version v (with_finalizers fs inst))) w2" by blast
    let ?i = "with_version v (with_finalizers fs inst)"
    have i: "same_owner E inst ?i" by (rule same_owner_trans [OF own_changes(1,2)])
    have v2: "view w2 = view w"
      using cluster_api.cr_update_view [OF api, of "with_finalizers fs inst" w1] u v1 by simp
    have "ContainsFinalizer E (with_finalizers fs inst) openebsFinalizer"
      using apimachinery.contains_add [OF lib, of inst openebsFinalizer] fs by simp
    then have t: "om_deletion_timestamp (oe_meta ?i) = None" "ContainsFinalizer E ?i openebsFinalizer"
      using assms(3) by (simp_all add: contains_member with_version_def with_finalizers_def)
    have "ReconcileReq E name w = reconcileNormal E ?i w2"
      using False assms(3) g u fs by (simp add: ReconcileReq_def bindP_def attempt_def call_def)
    moreover have "ready view accepts E inst w2"
      using ready_same [OF same v2, of accepts] assms(4) by simp
    moreover have "(m(name \<mapsto> ?i)) name = Some ?i" by simp
    ultimately show ?thesis using normal_converges [OF c2 _ i t _ assms(5), of name] by simp
  qed
qed

end

context calm_resources
begin

lemmas calm_reconcile_lands = reconcile_lands [OF _ _ _ _ prunable_True]

lemma deletion_lands:
  assumes "calm m w" and "m name = Some inst" and "om_deletion_timestamp (oe_meta inst) \<noteq> None"
    and "quantity_ok E (etcd_storage_size inst)"
  shows "\<exists>w' m'. ReconcileReq E name w = (Inr (0, None), w') \<and> calm m' w' \<and>
     (\<forall>k \<in> cleanup_keys inst. view w' k = None) \<and>
     (\<forall>j. m' name = Some j \<longrightarrow> \<not> ContainsFinalizer E j openebsFinalizer) \<and>
     (set (om_finalizers (oe_meta inst)) \<subseteq> {openebsFinalizer} \<longrightarrow> m' name = None)"
proof -
  let ?fs = "removeAll openebsFinalizer (om_finalizers (oe_meta inst))"
  from reads_stored [OF assms(1,2)] obtain w1 where g: "cr_get E name w = (Inr inst, w1)"
    and c1: "calm m w1" by blast
  from guarded_cluster.cleanup_lands [OF reliable c1 assms(4) TrueI] obtain w2
    where c: "cleanup E inst w1 = (Inr (), w2)" and c2: "calm m w2" by blast
  have "\<exists>j m' w'. cr_update E (with_finalizers ?fs inst) w2 = (Inr j, w') \<and> calm m' w' \<and>
      (\<forall>j. m' name = Some j \<longrightarrow> \<not> ContainsFinalizer E j openebsFinalizer) \<and>
      (?fs = [] \<longrightarrow> m' name = None)"
  proof (cases "?fs = []")
    case True
    with lets_go [OF c2 assms(2,3)] show ?thesis by (metis fun_upd_same option.distinct(1))
  next
    case False
    have nc: "\<not> ContainsFinalizer E (with_version v (with_finalizers ?fs inst)) openebsFinalizer" for v
      by (simp add: contains_member with_version_def with_finalizers_def)
    from keeps_finalized [OF c2 assms(2), of ?fs] False obtain v w'
      where "cr_update E (with_finalizers ?fs inst) w2 =
          (Inr (with_version v (with_finalizers ?fs inst)), w')"
        "calm (m(name \<mapsto> with_version v (with_finalizers ?fs inst))) w'" by blast
    with nc False show ?thesis by (metis fun_upd_same option.inject)
  qed
  then obtain j m' w' where u: "cr_update E (with_finalizers ?fs inst) w2 = (Inr j, w')"
    and m': "calm m' w'" "\<forall>j. m' name = Some j \<longrightarrow> \<not> ContainsFinalizer E j openebsFinalizer"
      "?fs = [] \<longrightarrow> m' name = None" by blast
  have "ReconcileReq E name w = (Inr (0, None), w')"
    using assms(3) g c u removes_one
    by (simp add: ReconcileReq_def reconcileDelete_def bindP_def attempt_def call_def ret_def)
  moreover have "view w' k = None" if "k \<in> cleanup_keys inst" for k
    using cleanup_clears [OF api c that] cluster_api.cr_update_view [OF api, of _ w2] u
    by (metis snd_conv)
  moreover have "?fs = []" if "set (om_finalizers (oe_meta inst)) \<subseteq> {openebsFinalizer}"
    using that by (auto simp: filter_empty_conv removeAll_filter_not_eq)
  ultimately show ?thesis using m' by blast
qed

end

text \<open> C2: in a calm cluster, one reconcile of a live resource with nothing in the way of its
  enabled engines does all the resource asks for: it returns no error and the regular requeue
  time, the status it writes has one Running entry for each enabled engine and the phase Running
  (Pending when no engine is enabled), every enabled engine is in the cluster as it was built,
  and no object is left that the enabled engines do not want.\<close>

theorem calm_reconcile_converges:
  assumes "calm_resources E view defaulted calm accepts"
    and "calm m w" and "m name = Some inst" and "om_deletion_timestamp (oe_meta inst) = None"
    and "ready view accepts E inst w"
  shows "\<exists>i w'. ReconcileReq E name w = (Inr (requeueAfter, None), w') \<and>
     calm (m(name \<mapsto> i)) w' \<and> converged view defaulted E inst i w'"
  using calm_resources.calm_reconcile_lands [OF assms] .

text \<open> C5: in a calm cluster, one reconcile of a resource that is being deleted, whose etcd size
  is a quantity, finishes the deletion: it returns no error and asks for no requeue, every object
  of the clean-up's list is gone, the resource no longer holds the operator's finalizer, and if
  that was its only one, the resource is gone too.\<close>

theorem calm_deletion_completes:
  assumes "calm_resources E view defaulted calm accepts"
    and "calm m w" and "m name = Some inst" and "om_deletion_timestamp (oe_meta inst) \<noteq> None"
    and "quantity_ok E (etcd_storage_size inst)"
  shows "\<exists>w' m'. ReconcileReq E name w = (Inr (0, None), w') \<and> calm m' w' \<and>
     (\<forall>k \<in> cleanup_keys inst. view w' k = None) \<and>
     (\<forall>j. m' name = Some j \<longrightarrow> \<not> ContainsFinalizer E j openebsFinalizer) \<and>
     (set (om_finalizers (oe_meta inst)) \<subseteq> {openebsFinalizer} \<longrightarrow> m' name = None)"
  using calm_resources.deletion_lands [OF assms] .

section \<open>The reference cluster\<close>

text \<open>It is calm when no key is faulty and etcd is healthy; it accepts all but changed classes.\<close>

definition ref_calm :: "cr_store \<Rightarrow> cluster \<Rightarrow> bool" where
  "ref_calm m c \<longleftrightarrow> faulty c = [] \<and> etcd_status c = Inr 200 \<and>
     distinct (map key_of (objects c)) \<and> cluster_crs c = m"

definition ref_accepts :: "kobj \<Rightarrow> kobj \<Rightarrow> bool" where
  "ref_accepts old ob \<longleftrightarrow> \<not> immutable_change old ob"

lemma calm_log [simp]: "ref_calm m (log_req r c) = ref_calm m c"
  by (simp add: ref_calm_def) (simp add: log_req_def)

lemma calm_put: "ref_calm m c \<Longrightarrow> ref_calm m (put_object ob c)"
  unfolding ref_calm_def crs_simps
  by (auto simp: put_object_def distinct_map intro: inj_on_subset)

lemma calm_drop: "ref_calm m c \<Longrightarrow> ref_calm m (drop_object k c)"
  unfolding ref_calm_def crs_simps
  by (auto simp: drop_object_def distinct_map intro: inj_on_subset)

lemma calm_create: "ref_calm m c \<Longrightarrow> ref_calm m (snd (mem_create ob c))"
  by (auto simp: mem_create_def Let_def calm_put)

lemma calm_update: "ref_calm m c \<Longrightarrow> ref_calm m (snd (mem_update ob c))"
  by (auto simp: mem_update_def Let_def calm_put split: option.split)

lemma privileged_labels_simps [simp]:
  "key_of (privileged_labels ob) = key_of ob"
  "resource_version (privileged_labels ob) = resource_version ob"
  "\<not> immutable_change ob (privileged_labels ob)"
  by (auto simp: privileged_labels_def key_of_def resource_version_def immutable_change_def
      split: kbody.split)

lemma ref_ensure_done:
  assumes "ref_calm m c"
  shows "\<exists>st. fst (mem_create_or_update privileged_labels (namespace_obj n) c) = Inr st"
proof (cases "cluster_view c (key_of (namespace_obj n))")
  case None
  with assms show ?thesis
    by (simp add: mem_create_or_update_def mem_get_def mem_create_def ref_calm_def Let_def
        log_req_def cluster_view_def namespace_obj_def)
next
  case (Some ex)
  with cluster_view_key [OF Some] assms show ?thesis
    by (auto simp: mem_create_or_update_def mem_get_def mem_update_def ref_calm_def Let_def
        log_req_def cluster_view_def)
qed

interpretation ref_reliable: reliable_cluster ref_env cluster_view "(=)" "ref_calm m" ref_accepts for m
proof unfold_locales
  fix w k ob
  show "fst (cl_get ref_env k w) = Inr ob" if "cluster_view w k = Some ob"
    using that by (simp add: mem_get_def)
  show "\<exists>e. fst (cl_get ref_env k w) = Inl e \<and> IsNotFound e" if "cluster_view w k = None"
    using that by (simp add: mem_get_def not_found_def IsNotFound_def)
  show "\<exists>st. fst (cl_create ref_env ob w) = Inr st"
    if "ref_calm m w" "cluster_view w (key_of ob) = None" "resource_version ob = []"
    using that by (simp add: mem_create_def ref_calm_def Let_def)
  show "\<exists>st. fst (cl_update ref_env ob w) = Inr st"
    if "ref_calm m w" "cluster_view w (key_of ob) = Some old" "ref_accepts old ob"
      "resource_version ob = resource_version old" for old
    using that by (simp add: mem_update_def ref_calm_def ref_accepts_def Let_def)
  show "ref_accepts old (SetResourceVersion v ob) = ref_accepts old ob" for old v
    by (simp add: ref_accepts_def immutable_change_def)
  show "fst (cl_delete ref_env k w) = Inr () \<or>
      (\<exists>e. fst (cl_delete ref_env k w) = Inl e \<and> (IsNotFound e \<or> IsNoMatchError e))"
    if "ref_calm m w"
    using that by (auto simp: mem_delete_def ref_calm_def Let_def not_found_def IsNotFound_def)
  show "fst (cl_delete ref_env k w) = Inr ()" if "ref_calm m w" "cluster_view w k \<noteq> None"
    using that by (auto simp: mem_delete_def ref_calm_def Let_def)
  show "\<exists>obs. fst (cl_list ref_env kd ns sel w) = Inr obs \<and> distinct (map key_of obs)"
    if "ref_calm m w" for kd ns sel
    using that by (auto simp: mem_list_def ref_calm_def distinct_map intro: inj_on_subset)
  show "\<exists>st. fst (create_or_update ref_env privileged_labels (namespace_obj n) w) = Inr st"
    if "ref_calm m w" for n
    using ref_ensure_done [OF that] by simp
  show "fst (http_get ref_env etcd_health_url w) = Inr 200" if "ref_calm m w"
    using that by (simp add: ref_env_def ref_calm_def)
  show "\<exists>ob. decode_yaml ref_env cf = Inr ob \<and> resource_version ob = []" for cf
    by (simp add: ref_env_def)
  show "ref_calm m (snd (cl_delete ref_env k w))" if "ref_calm m w"
    using that by (auto simp: mem_delete_def Let_def calm_drop)
  show "ref_calm m (snd (create_or_update ref_env f ob w))" if "ref_calm m w" for f
    using that by (auto simp: mem_create_or_update_def mem_get_def calm_create calm_update
        split: option.split)
  show "ref_calm m (snd (http_get ref_env url w))" if "ref_calm m w" for url
    using that by (simp add: ref_env_def)
qed (simp_all add: mem_get_def mem_list_def calm_create calm_update)

text \<open>The versions of the resources do not change in this cluster.\<close>

lemma same_version: "with_version (om_resource_version (oe_meta i)) i = i"
  by (simp add: with_version_def)

lemma calm_store: "ref_calm m (store_cr i c) \<longleftrightarrow>
    faulty c = [] \<and> etcd_status c = Inr 200 \<and> distinct (map key_of (objects c)) \<and>
    m = (cluster_crs c)(cr_name i \<mapsto> i)"
  by (auto simp: ref_calm_def cr_name_def) (simp_all add: store_cr_def)

lemma ref_keeps_finalized:
  assumes "ref_calm m c" and "m n = Some i" and "om_deletion_timestamp (oe_meta i) = None \<or> fs \<noteq> []"
  shows "\<exists>c'. mem_cr_update (with_finalizers fs i) c = (Inr (with_finalizers fs i), c') \<and>
    ref_calm (m(n \<mapsto> with_finalizers fs i)) c'"
proof -
  have old: "cluster_crs c n = Some i" using assms(1,2) by (auto simp: ref_calm_def)
  then have n: "cr_name i = n" by (simp add: cr_name_def cluster_crs_name)
  have same: "(with_finalizers fs i)\<lparr>oe_meta := (oe_meta (with_finalizers fs i))\<lparr>
      om_deletion_timestamp := om_deletion_timestamp (oe_meta i)\<rparr>\<rparr> = with_finalizers fs i"
    by (simp add: with_finalizers_def)
  have f: "om_name (oe_meta (with_finalizers fs i)) = n" "om_finalizers (oe_meta (with_finalizers fs i)) = fs"
    using n by (simp_all add: with_finalizers_def cr_name_def)
  from assms(1,3) old f show ?thesis
    by (auto simp: mem_cr_update_def Let_def same calm_store)
      (auto simp: ref_calm_def cr_name_def log_req_def cluster_crs_def)
qed

lemma ref_lets_go:
  assumes "ref_calm m c" and "m n = Some i" and "om_deletion_timestamp (oe_meta i) \<noteq> None"
  shows "\<exists>j c'. mem_cr_update (with_finalizers [] i) c = (Inr j, c') \<and> ref_calm (m(n := None)) c'"
proof -
  have old: "cluster_crs c n = Some i" using assms(1,2) by (auto simp: ref_calm_def)
  have "om_name (oe_meta (with_finalizers [] i)) = n" "om_finalizers (oe_meta (with_finalizers [] i)) = []"
    using cluster_crs_name [OF old] by (simp_all add: with_finalizers_def)
  with assms old show ?thesis
    by (auto simp: mem_cr_update_def Let_def ref_calm_def) (auto simp: drop_cr_def log_req_def)
qed

lemma ref_writes_status:
  assumes "ref_calm m c" and "m n = Some i"
  shows "\<exists>c'. mem_cr_status_update (i\<lparr>oe_Status := st\<rparr>) c = (Inr (i\<lparr>oe_Status := st\<rparr>), c') \<and>
    ref_calm (m(n \<mapsto> i\<lparr>oe_Status := st\<rparr>)) c'"
proof -
  have old: "cluster_crs c n = Some i" using assms by (auto simp: ref_calm_def)
  with assms(1) cluster_crs_name [OF old] show ?thesis
    by (auto simp: mem_cr_status_update_def Let_def calm_store)
      (auto simp: ref_calm_def cr_name_def log_req_def cluster_crs_def)
qed

interpretation ref_resources: calm_resources ref_env cluster_view "(=)" ref_calm ref_accepts
proof unfold_locales
  fix m n w i
  show "cr_name i = n" if "ref_calm m w" "m n = Some i"
    using that cluster_crs_name by (auto simp: ref_calm_def cr_name_def)
  show "\<exists>w'. cr_get ref_env n w = (Inr i, w') \<and> ref_calm m w'" if "ref_calm m w" "m n = Some i"
    using that by (auto simp: mem_cr_get_def ref_calm_def) (simp_all add: log_req_def)
  show "\<exists>v w'. cr_update ref_env (with_finalizers fs i) w =
        (Inr (with_version v (with_finalizers fs i)), w') \<and>
      ref_calm (m(n \<mapsto> with_version v (with_finalizers fs i))) w'"
    if "ref_calm m w" "m n = Some i" "om_deletion_timestamp (oe_meta i) = None \<or> fs \<noteq> []" for fs
    using ref_keeps_finalized [OF that] same_version [of "with_finalizers fs i"] by (metis ref_env_sel(7))
  show "\<exists>j w'. cr_update ref_env (with_finalizers [] i) w = (Inr j, w') \<and> ref_calm (m(n := None)) w'"
    if "ref_calm m w" "m n = Some i" "om_deletion_timestamp (oe_meta i) \<noteq> None"
    using ref_lets_go [OF that] by simp
  show "\<exists>v w'. cr_status_update ref_env (i\<lparr>oe_Status := st\<rparr>) w =
        (Inr (with_version v (i\<lparr>oe_Status := st\<rparr>)), w') \<and>
      ref_calm (m(n \<mapsto> with_version v (i\<lparr>oe_Status := st\<rparr>))) w'"
    if "ref_calm m w" "m n = Some i" for st
    using ref_writes_status [OF that, of st] same_version [of "i\<lparr>oe_Status := st\<rparr>"]
    by (metis ref_env_sel(8))
  show "ref_calm m (snd (time_now ref_env w))" if "ref_calm m w"
    using that by (simp add: ref_env_def)
  show "ContainsFinalizer ref_env i f \<longleftrightarrow> f \<in> set (om_finalizers (oe_meta i))"
    "\<exists>fs. AddFinalizer ref_env i f = with_finalizers fs i"
    "RemoveFinalizer ref_env i f = with_finalizers (removeAll f (om_finalizers (oe_meta i))) i" for f
    by (auto simp: ref_env_def with_finalizers_def)
qed (simp add: ref_env_def)

end
