(* ===== verification/Steady.thy ===== *)
theory Steady
  imports Liveness
begin

text \<open>
  A converged cluster stays converged.  The operator updates every object in every reconcile, so
  this rests on what the server makes of its writes: it accepts what it already stores, and it
  fills in no field of a Service or a StatefulSet that the builders set and the operator compares.
  In particular the etcd StatefulSet that the operator wrote is never taken for a drifted one, which
  would be deleted and created again: that is why the builder sets the volume mode of its claims.
  To show this of the requests, and not only of the result, the reconciles are run in a world that
  counts as calm only as long as none of them asked for the deletion of an object of an engine.
\<close>

locale steady_cluster = guarded_resources +
  assumes accepts_stored: "conforms defaulted ob st \<Longrightarrow> accepts st ob"
    and accepts_kept: "conforms defaulted ob st \<Longrightarrow> accepts st (keep_claim_templates st ob)"
    and fills_service: "defaulted (ServiceBody s) x \<Longrightarrow>
      \<exists>t. x = ServiceBody t \<and> (svc_cluster_ip s \<noteq> '''' \<longrightarrow> svc_cluster_ip t = svc_cluster_ip s)"
    and fills_statefulset: "defaulted (StatefulSetBody a) x \<Longrightarrow>
      \<exists>b. x = StatefulSetBody b \<and> sts_service_name b = sts_service_name a \<and>
        sts_selector b = sts_selector a \<and>
        (sts_pod_management_policy a \<noteq> '''' \<longrightarrow>
          sts_pod_management_policy b = sts_pod_management_policy a)"
    and fills_claims: "defaulted (StatefulSetBody a) (StatefulSetBody b) \<Longrightarrow>
      None \<notin> set (map pvc_volume_mode (sts_volume_claim_templates a)) \<Longrightarrow>
      DeepEqual_pvcs E (map normalize_pvc (sts_volume_claim_templates b)) ts =
        DeepEqual_pvcs E (map normalize_pvc (sts_volume_claim_templates a)) ts"

locale steady_resources = steady_cluster E view defaulted calm accepts "\<lambda>_. True"
  for E :: "'a env" and view :: "'a \<Rightarrow> objkey \<Rightarrow> kobj option" and defaulted
    and calm :: "cr_store \<Rightarrow> 'a \<Rightarrow> bool" and accepts

section \<open>What is stored can be updated\<close>

definition etcd_spec :: "OpenEBS \<Rightarrow> statefulset_spec" where
  "etcd_spec inst = (case body (etcd_sts inst) of StatefulSetBody s \<Rightarrow> s)"

lemma etcd_sts_body: "body (etcd_sts inst) = StatefulSetBody (etcd_spec inst)"
  and etcd_spec_simps [simp]: "sts_pod_management_policy (etcd_spec inst) = ''Parallel''"
  by (simp_all add: etcd_spec_def etcd_sts_def etcd_statefulset_def Let_def Obj_def)

lemma etcd_volume_modes:
  "map pvc_volume_mode (sts_volume_claim_templates (etcd_spec inst)) = [Some ''Filesystem'']"
  by (simp add: etcd_spec_def etcd_sts_def etcd_statefulset_def Let_def Obj_def)

lemma set_owner_spec [simp]: "sts_spec_of (set_owner L i ob) = sts_spec_of ob"
  by (simp add: sts_spec_of_def)

lemma keep_claims_twice:
  "keep_claim_templates st (keep_claim_templates ex ob) =
     (if sts_spec_of ex = None \<or> sts_spec_of ob = None \<or> sts_spec_of st \<noteq> None
      then keep_claim_templates st ob else keep_claim_templates ex ob)"
  by (auto simp: keep_claim_templates_def sts_spec_of_def split: option.splits kbody.splits)

context steady_cluster
begin

text \<open>The claim templates the operator stores: its own, or live ones it does not differ from.\<close>

lemma target_claims:
  assumes "\<forall>ex. live = Some ex \<longrightarrow> sts_drift E ex (etcd_sts inst) = []"
    and "sts_spec_of (sts_target live (set_owner E (Some inst) (etcd_sts inst))) = Some a"
  shows "sts_service_name a = sts_service_name (etcd_spec inst)"
    and "sts_selector a = sts_selector (etcd_spec inst)"
    and "sts_pod_management_policy a = ''Parallel''"
    and "None \<notin> set (map pvc_volume_mode (sts_volume_claim_templates a))"
    and "DeepEqual_pvcs E (map normalize_pvc (sts_volume_claim_templates a))
      (map normalize_pvc (sts_volume_claim_templates (etcd_spec inst)))"
proof -
  let ?s = "etcd_spec inst"
  have spec: "sts_spec_of (etcd_sts inst) = Some ?s" by (simp add: sts_spec_of_def etcd_sts_body)
  consider (own) "a = ?s"
    | (live) ex l where "live = Some ex" "sts_spec_of ex = Some l"
        "a = ?s\<lparr>sts_volume_claim_templates := sts_volume_claim_templates l\<rparr>"
    using assms(2) spec
    by (auto simp: sts_target_def keep_claim_templates_def sts_spec_of_def
        split: option.splits kbody.splits)
  then have "sts_service_name a = sts_service_name ?s \<and> sts_selector a = sts_selector ?s \<and>
      sts_pod_management_policy a = ''Parallel'' \<and>
      None \<notin> set (map pvc_volume_mode (sts_volume_claim_templates a)) \<and>
      DeepEqual_pvcs E (map normalize_pvc (sts_volume_claim_templates a))
        (map normalize_pvc (sts_volume_claim_templates ?s))"
  proof cases
    case own
    then show ?thesis by (simp add: etcd_volume_modes apimachinery.pvcs_refl [OF lib] del: set_map)
  next
    case live
    have n: "pvc_volume_mode (normalize_pvc p) = pvc_volume_mode p" for p
      by (simp add: normalize_pvc_def)
    from assms(1) live spec have eq: "DeepEqual_pvcs E
        (map normalize_pvc (sts_volume_claim_templates l))
        (map normalize_pvc (sts_volume_claim_templates ?s))"
      by (simp add: sts_drift_def stsImmutableDriftFields_def volumeClaimTemplatesEqual_def
          split: if_splits)
    with apimachinery.pvcs_sound [OF lib eq]
    have "map pvc_volume_mode (sts_volume_claim_templates l) = [Some ''Filesystem'']"
      by (simp add: n comp_def etcd_volume_modes)
    with live eq show ?thesis by (simp del: set_map)
  qed
  then show "sts_service_name a = sts_service_name (etcd_spec inst)"
    and "sts_selector a = sts_selector (etcd_spec inst)"
    and "sts_pod_management_policy a = ''Parallel''"
    and "None \<notin> set (map pvc_volume_mode (sts_volume_claim_templates a))"
    and "DeepEqual_pvcs E (map normalize_pvc (sts_volume_claim_templates a))
      (map normalize_pvc (sts_volume_claim_templates (etcd_spec inst)))" by blast+
qed

lemma stored_etcd_updatable:
  assumes "sts_as_built defaulted E inst (etcd_sts inst) st"
  shows "sts_updatable accepts E inst (etcd_sts inst) (Some st)"
proof -
  let ?ob = "set_owner E (Some inst) (etcd_sts inst)" and ?s = "etcd_spec inst"
  from assms obtain live where l: "\<forall>ex. live = Some ex \<longrightarrow> sts_drift E ex (etcd_sts inst) = []"
    and c: "conforms defaulted (sts_target live ?ob) st" unfolding sts_as_built_def by blast
  have spec: "sts_spec_of ?ob = Some ?s" by (simp add: sts_spec_of_def etcd_sts_body)
  then have "\<exists>a. body (sts_target live ?ob) = StatefulSetBody a"
    by (cases live) (auto simp: sts_target_def keep_claim_templates_def etcd_sts_body
        split: option.split)
  then obtain a where a: "body (sts_target live ?ob) = StatefulSetBody a" by blast
  then have "sts_spec_of (sts_target live ?ob) = Some a" by (simp add: sts_spec_of_def)
  note t = target_claims [OF l this]
  from c a have d: "defaulted (StatefulSetBody a) (body st)" by (simp add: conforms_def)
  from fills_statefulset [OF d] t obtain b where b: "body st = StatefulSetBody b"
    "sts_service_name b = sts_service_name ?s" "sts_selector b = sts_selector ?s"
    "sts_pod_management_policy b = ''Parallel''" by auto
  from fills_claims [OF d [unfolded b(1)] t(4)] t(5)
  have "DeepEqual_pvcs E (map normalize_pvc (sts_volume_claim_templates b))
      (map normalize_pvc (sts_volume_claim_templates ?s))" by simp
  with b spec apimachinery.selector_refl [OF lib] have "sts_drift E st ?ob = []"
    by (simp add: sts_drift_def sts_spec_of_def [of st] stsImmutableDriftFields_def
        volumeClaimTemplatesEqual_def)
  moreover have "accepts st (keep_claim_templates st ?ob)"
  proof -
    have "keep_claim_templates st (sts_target live ?ob) = keep_claim_templates st ?ob"
      using b(1) by (auto simp: sts_target_def keep_claims_twice sts_spec_of_def [of st]
          split: option.split)
    with accepts_kept [OF c] show ?thesis by simp
  qed
  ultimately show ?thesis by (simp add: sts_updatable_def)
qed

lemma stored_updatable:
  "as_built defaulted E inst ob st \<Longrightarrow> updatable accepts E inst ob (Some st)"
  by (simp add: as_built_def updatable_def accepts_stored)

lemma stored_service_updatable:
  assumes "as_built defaulted E inst mayastorEtcdService st"
  shows "service_updatable accepts E inst mayastorEtcdService (Some st)"
proof -
  obtain a where a: "body mayastorEtcdService = ServiceBody a" "svc_cluster_ip a = ''None''"
    by (simp add: mayastorEtcdService_def Let_def Obj_def)
  with assms fills_service [of a "body st"] have "svc_ClusterIP st = svc_ClusterIP mayastorEtcdService"
    by (auto simp: as_built_def conforms_def svc_ClusterIP_def)
  with stored_updatable [OF assms] show ?thesis by (simp add: service_updatable_def)
qed

lemma deployed_way_clear:
  assumes "engine_deployed view defaulted E inst e w"
  shows "way_clear view accepts E inst e w"
proof -
  obtain n files obs where p: "engine_parts inst e = (n, files, obs)"
    by (cases "engine_parts inst e") auto
  with assms have d: "deployed view defaulted E inst n files obs w"
    and m: "e = OpenEBSEngineMayastor \<longrightarrow> (\<exists>st. view w etcd_sts_key = Some st \<and>
      sts_as_built defaulted E inst (etcd_sts inst) st)" by (simp_all add: engine_deployed_def)
  have "updatable accepts E inst ob (view w (crd_key f))"
    if "f \<in> set files" "decode_yaml E f = Inr ob" for f ob
    using d that stored_updatable by (fastforce simp: deployed_def crd_as_embedded_def)
  moreover have "updatable accepts E inst ob (view w (key_of ob))" if "ob \<in> set obs" for ob
    using d that stored_updatable unfolding deployed_def by fastforce
  moreover have "service_updatable accepts E inst mayastorEtcdService
      (view w (key_of mayastorEtcdService))" if "e = OpenEBSEngineMayastor"
  proof -
    have "mayastorEtcdService \<in> set obs"
      using p that by (auto simp: engine_parts_def engine_names mayastor_objects_def)
    with d stored_service_updatable show ?thesis unfolding deployed_def by fastforce
  qed
  moreover have "sts_updatable accepts E inst (etcd_sts inst) (view w etcd_sts_key)"
    if "e = OpenEBSEngineMayastor" using m that stored_etcd_updatable by auto
  ultimately show ?thesis using p by (simp add: way_clear_def)
qed

end

section \<open>Reconciling again and again\<close>

text \<open>The results of reconciles of a name, one after the other, and the last world.\<close>

primrec reconcile_times :: "'w env \<Rightarrow> string \<Rightarrow> nat \<Rightarrow> 'w \<Rightarrow> reconcile_result result list \<times> 'w" where
  "reconcile_times E name 0 w = ([], w)"
| "reconcile_times E name (Suc n) w = (case ReconcileReq E name w of (r, w1) \<Rightarrow>
     case reconcile_times E name n w1 of (rs, w2) \<Rightarrow> (r # rs, w2))"

context steady_cluster
begin

lemma converged_ready:
  assumes "converged view defaulted E inst i w" and "ready view accepts E inst w0"
  shows "ready view accepts E inst w"
  using assms deployed_way_clear by (simp add: ready_def converged_def)

lemma converged_again:
  assumes "calm m w" and "m name = Some i" and "converged view defaulted E inst i w"
    and "ready view accepts E inst w0" and "prunable may inst"
  shows "\<exists>j w'. reconcile_times E name n w = (replicate n (Inr (requeueAfter, None)), w') \<and>
     calm (m(name \<mapsto> j)) w' \<and> converged view defaulted E inst j w'"
  using assms(1-3)
proof (induction n arbitrary: m w i)
  case 0
  then show ?case by (intro exI [of _ i]) (simp add: fun_upd_idem)
next
  case (Suc n)
  note c = Suc.prems(3) [unfolded converged_def]
  from c have same: "same_owner E inst i" by simp
  have r: "ready view accepts E i w"
    using converged_ready [OF Suc.prems(3) assms(4)] ready_same [OF same, of view w w accepts] by simp
  have s: "oe_Spec i = oe_Spec inst" using same by (simp add: same_owner_def)
  from assms(5) have p: "prunable may i" by (simp add: prunable_def orphans_same_spec(1) [OF s])
  from c have "om_deletion_timestamp (oe_meta i) = None" by simp
  from reconcile_lands [OF Suc.prems(1,2) this r p] obtain j w1
    where j: "ReconcileReq E name w = (Inr (requeueAfter, None), w1)" "calm (m(name \<mapsto> j)) w1"
    and cj: "converged view defaulted E i j w1" by blast
  have "converged view defaulted E inst j w1"
    using cj same_owner_trans [OF same]
    by (simp add: converged_def all_running_def enabled_same_spec [OF s] orphans_same_spec(2) [OF s]
        engine_deployed_same [OF same])
  from Suc.IH [OF j(2) _ this] obtain j' w'
    where "reconcile_times E name n w1 = (replicate n (Inr (requeueAfter, None)), w')"
    and k: "calm (m(name \<mapsto> j')) w'" "converged view defaulted E inst j' w'"
    by (auto simp only: fun_upd_upd fun_upd_same)
  with j(1) have "reconcile_times E name (Suc n) w =
      (replicate (Suc n) (Inr (requeueAfter, None)), w')" by simp
  with k show ?case by blast
qed

lemma stays_converged:
  assumes "calm m w" and "m name = Some inst" and "om_deletion_timestamp (oe_meta inst) = None"
    and "ready view accepts E inst w" and "prunable may inst"
  shows "\<exists>i w'. reconcile_times E name (Suc n) w =
       (replicate (Suc n) (Inr (requeueAfter, None)), w') \<and>
     calm (m(name \<mapsto> i)) w' \<and> converged view defaulted E inst i w'"
proof -
  from reconcile_lands [OF assms] obtain i w1
    where r: "ReconcileReq E name w = (Inr (requeueAfter, None), w1)" "calm (m(name \<mapsto> i)) w1"
    and c: "converged view defaulted E inst i w1" by blast
  from converged_again [OF r(2) _ c assms(4,5), of name n] obtain j w'
    where "reconcile_times E name n w1 = (replicate n (Inr (requeueAfter, None)), w')"
    and k: "calm (m(name \<mapsto> j)) w'" "converged view defaulted E inst j w'"
    by (auto simp only: fun_upd_upd fun_upd_same)
  with r(1) have "reconcile_times E name (Suc n) w =
      (replicate (Suc n) (Inr (requeueAfter, None)), w')" by simp
  with k show ?thesis by blast
qed

end

section \<open>What the reconciles ask to delete\<close>

text \<open>The keys of the enabled engines, the Schedule apart, which the operator deletes on purpose
  when it is not configured.\<close>

definition spared :: "OpenEBS \<Rightarrow> objkey \<Rightarrow> bool" where
  "spared inst k \<longleftrightarrow> k \<in> engine_keys inst \<and> fst k \<noteq> schedule_kind"

lemma spared_no_orphan:
  assumes "spared inst (key_of ob)"
  shows "\<not> orphan inst ob"
proof -
  have no: "key_of ob \<noteq> key_of (mayastorEtcdVeleroSchedule inst)"
    using assms by (auto simp: spared_def key_simps)
  from assms obtain e where e: "e \<in> set (enabled_engines inst)"
    and k: "key_of ob = namespace_key (fst (engine_parts inst e)) \<or> key_of ob \<in> own_keys inst e"
    unfolding spared_def engine_keys_def by blast
  obtain n files obs where p: "engine_parts inst e = (n, files, obs)"
    by (cases "engine_parts inst e") auto
  from enabled_inventory [OF e p] obtain all where all: "(True, all) \<in> set (inventories inst)"
    "set obs \<subseteq> set all" "e = OpenEBSEngineMayastor \<longrightarrow> etcd_sts inst \<in> set all" .
  from k no p consider (other) "\<not> in_scope (key_of ob)"
    | (built) built where "built \<in> set obs" "key_of ob = key_of built"
    | (etcd) "e = OpenEBSEngineMayastor" "key_of ob = etcd_sts_key"
    by (auto simp: own_keys_def namespace_key_def crd_key_def crd_kind_def in_scope_def
        orphan_scopes_def split: if_splits)
  then show ?thesis
  proof cases
    case other
    then show ?thesis by (simp add: orphan_def)
  next
    case (built built)
    with inventory_wanted [OF all(1), of built ob] all(2) show ?thesis by (auto simp: unwanted_def)
  next
    case etcd
    with inventory_wanted [OF all(1), of "etcd_sts inst" ob] all(3) show ?thesis
      by (simp add: unwanted_def etcd_sts_key_of)
  qed
qed

text \<open>A calm world in which no request since \<open>w0\<close> was to delete a spared key.\<close>

definition deletes_only :: "(objkey \<Rightarrow> bool) \<Rightarrow> request \<Rightarrow> bool" where
  "deletes_only may r \<longleftrightarrow> (\<forall>k. r = DeleteReq k \<longrightarrow> may k)"

lemma logged_request:
  assumes "audit w' = audit w @ [r]" and "deletes_only may r"
  shows "logs_only audit (deletes_only may) w w'"
  using assms by (auto intro: logs_onlyI)

context audited_client
begin

lemma deletes_only_calls:
  "logs_only audit (deletes_only may) w (snd (cl_get E k w))"
  "logs_only audit (deletes_only may) w (snd (cl_create E ob w))"
  "logs_only audit (deletes_only may) w (snd (cl_update E ob w))"
  "may k \<Longrightarrow> logs_only audit (deletes_only may) w (snd (cl_delete E k w))"
  "logs_only audit (deletes_only may) w (snd (cl_list E kd ns sel w))"
  "logs_only audit (deletes_only may) w (snd (cr_get E n w))"
  "logs_only audit (deletes_only may) w (snd (cr_update E i w))"
  "logs_only audit (deletes_only may) w (snd (cr_status_update E i w))"
  "logs_only audit (deletes_only may) w (snd (http_get E url w))"
  by (rule logged_request, rule get_logged create_logged update_logged delete_logged list_logged
      cr_get_logged cr_update_logged cr_status_logged http_logged, simp add: deletes_only_def)+

end

text \<open>A world that is calm and something else, which the calls keep, will do as well.\<close>

lemma guarded_restrict:
  assumes g: "guarded_cluster E view d calm accepts (\<lambda>_. True)"
    and "\<And>w. P w \<Longrightarrow> calm w" and "\<And>k. fst k = schedule_kind \<Longrightarrow> may k"
    and "\<And>w k. P w \<Longrightarrow> P (snd (cl_get E k w))" and "\<And>w ob. P w \<Longrightarrow> P (snd (cl_create E ob w))"
    and "\<And>w ob. P w \<Longrightarrow> P (snd (cl_update E ob w))"
    and "\<And>w k. P w \<Longrightarrow> may k \<Longrightarrow> P (snd (cl_delete E k w))"
    and "\<And>w kd ns sel. P w \<Longrightarrow> P (snd (cl_list E kd ns sel w))"
    and "\<And>w f ob. (\<And>x. key_of (f x) = key_of x) \<Longrightarrow> P w \<Longrightarrow> P (snd (create_or_update E f ob w))"
    and "\<And>w url. P w \<Longrightarrow> P (snd (http_get E url w))"
  shows "guarded_cluster E view d P accepts may"
proof (intro guarded_cluster.intro guarded_cluster_axioms.intro)
  show "cluster_api E view d" "apimachinery E" using g by (simp_all add: guarded_cluster_def)
qed (fact assms guarded_cluster.accepts_version [OF g] guarded_cluster.decodes [OF g]
    | rule guarded_cluster.get_present [OF g assms(2)] guarded_cluster.get_absent [OF g assms(2)]
        guarded_cluster.create_absent [OF g assms(2)] guarded_cluster.update_accepted [OF g assms(2)]
        guarded_cluster.delete_done [OF g assms(2) TrueI]
        guarded_cluster.delete_present [OF g assms(2) TrueI]
        guarded_cluster.list_answered [OF g assms(2)] guarded_cluster.ensure_done [OF g assms(2)]
        guarded_cluster.health_answered [OF g assms(2)], assumption+)+

text \<open>The steady cluster again, calm only as long as no spared key was asked to be deleted.\<close>

locale logged_resources = steady_resources E view defaulted calm accepts + audited_client E audit
  for E :: "'a env" and view :: "'a \<Rightarrow> objkey \<Rightarrow> kobj option" and defaulted
    and calm :: "cr_store \<Rightarrow> 'a \<Rightarrow> bool" and accepts and audit
begin

definition calm_since :: "(objkey \<Rightarrow> bool) \<Rightarrow> 'a \<Rightarrow> cr_store \<Rightarrow> 'a \<Rightarrow> bool" where
  "calm_since may w0 m w \<longleftrightarrow> calm m w \<and> logs_only audit (deletes_only may) w0 w"

lemma calm_sinceD: "calm_since may w0 m w \<Longrightarrow> calm m w"
  by (simp add: calm_since_def)

lemma calm_since_step:
  "calm_since may w0 m w \<Longrightarrow> calm m' w' \<Longrightarrow> logs_only audit (deletes_only may) w w' \<Longrightarrow>
    calm_since may w0 m' w'"
  unfolding calm_since_def by (blast intro: log.trans)

lemma ensure_deletes_only:
  assumes "\<And>x. key_of (f x) = key_of x"
  shows "logs_only audit (deletes_only may) w (snd (create_or_update E f ob w))"
  using create_or_update_logged [OF assms, of ob w]
  by (rule logs_only_mono) (auto simp: deletes_only_def)

lemma guarded_since:
  assumes "\<And>k. fst k = schedule_kind \<Longrightarrow> may k"
  shows "guarded_cluster E view defaulted (calm_since may w0 m) accepts may"
proof (rule guarded_restrict [OF reliable [of m] calm_sinceD assms])
  note step = calm_since_step [OF _ _ deletes_only_calls(1)]
  note rel = reliable [of m]
  fix w
  assume c: "calm_since may w0 m w"
  note calm = calm_sinceD [OF c]
  show "calm_since may w0 m (snd (cl_get E k w))" for k
    using calm_since_step [OF c guarded_cluster.calm_get [OF rel calm]] deletes_only_calls(1) .
  show "calm_since may w0 m (snd (cl_create E ob w))" for ob
    using calm_since_step [OF c guarded_cluster.calm_create [OF rel calm]] deletes_only_calls(2) .
  show "calm_since may w0 m (snd (cl_update E ob w))" for ob
    using calm_since_step [OF c guarded_cluster.calm_update [OF rel calm]] deletes_only_calls(3) .
  show "calm_since may w0 m (snd (cl_delete E k w))" if "may k" for k
    using calm_since_step [OF c guarded_cluster.calm_delete [OF rel calm]] deletes_only_calls(4) that
    by blast
  show "calm_since may w0 m (snd (cl_list E kd ns sel w))" for kd ns sel
    using calm_since_step [OF c guarded_cluster.calm_list [OF rel calm]] deletes_only_calls(5) .
  show "calm_since may w0 m (snd (create_or_update E f ob w))" if "\<And>x. key_of (f x) = key_of x" for f ob
    by (rule calm_since_step [OF c guarded_cluster.calm_ensure [OF rel that calm]
        ensure_deletes_only [OF that]])
  show "calm_since may w0 m (snd (http_get E url w))" for url
    using calm_since_step [OF c guarded_cluster.calm_http [OF rel calm]] deletes_only_calls(9) .
qed

lemma time_deletes_only: "logs_only audit (deletes_only may) w (snd (time_now E w))"
  by (rule logs_onlyI [where rs = "[]"]) (simp_all add: time_silent)

lemma resources_since:
  assumes "\<And>k. fst k = schedule_kind \<Longrightarrow> may k"
  shows "guarded_resources E view defaulted (calm_since may w0) accepts may"
proof (rule guarded_resources.intro)
  fix m w n i
  assume c: "calm_since may w0 m w" and i: "m n = Some i"
  note calm = calm_sinceD [OF c]
  show "cr_name i = n" by (rule stored_name [OF calm i])
  show "\<exists>w'. cr_get E n w = (Inr i, w') \<and> calm_since may w0 m w'"
    using reads_stored [OF calm i] calm_since_step [OF c, of m] deletes_only_calls(6) [of may w n]
    by fastforce
  show "\<exists>v w'. cr_update E (with_finalizers fs i) w =
        (Inr (with_version v (with_finalizers fs i)), w') \<and>
      calm_since may w0 (m(n \<mapsto> with_version v (with_finalizers fs i))) w'"
    if "om_deletion_timestamp (oe_meta i) = None \<or> fs \<noteq> []" for fs
    using keeps_finalized [OF calm i that] calm_since_step [OF c]
      deletes_only_calls(7) [of may w "with_finalizers fs i"] by (metis snd_conv)
  show "\<exists>j w'. cr_update E (with_finalizers [] i) w = (Inr j, w') \<and>
      calm_since may w0 (m(n := None)) w'" if "om_deletion_timestamp (oe_meta i) \<noteq> None"
    using lets_go [OF calm i that] calm_since_step [OF c]
      deletes_only_calls(7) [of may w "with_finalizers [] i"] by (metis snd_conv)
  show "\<exists>v w'. cr_status_update E (i\<lparr>oe_Status := st\<rparr>) w =
        (Inr (with_version v (i\<lparr>oe_Status := st\<rparr>)), w') \<and>
        calm_since may w0 (m(n \<mapsto> with_version v (i\<lparr>oe_Status := st\<rparr>))) w'" for st
    using writes_status [OF calm i, of st] calm_since_step [OF c]
      deletes_only_calls(8) [of may w "i\<lparr>oe_Status := st\<rparr>"] by (metis snd_conv)
next
  show "calm_since may w0 m (snd (time_now E w))" if c: "calm_since may w0 m w" for m w
    by (rule calm_since_step [OF c tells_time [OF calm_sinceD [OF c]] time_deletes_only])
qed (rule guarded_since contains_member owner_by_uid adds_one removes_one; (rule assms)?; assumption?)+

lemma steady_since:
  assumes "\<And>k. fst k = schedule_kind \<Longrightarrow> may k"
  shows "steady_cluster E view defaulted (calm_since may w0) accepts may"
  using resources_since [OF assms] steady_cluster_axioms
  by (simp add: steady_cluster_def)

lemma stays_converged_sparing:
  assumes "calm m w" and "m name = Some inst" and "om_deletion_timestamp (oe_meta inst) = None"
    and "ready view accepts E inst w"
  shows "\<exists>i w' rs. reconcile_times E name (Suc n) w =
       (replicate (Suc n) (Inr (requeueAfter, None)), w') \<and>
     calm (m(name \<mapsto> i)) w' \<and> converged view defaulted E inst i w' \<and>
     audit w' = audit w @ rs \<and> (\<forall>k. DeleteReq k \<in> set rs \<longrightarrow> \<not> spared inst k)"
proof -
  let ?may = "\<lambda>k. \<not> spared inst k"
  have p: "prunable ?may inst" using spared_no_orphan by (auto simp: prunable_def)
  have c: "calm_since ?may w m w" using assms(1) log.refl by (simp add: calm_since_def)
  have "steady_cluster E view defaulted (calm_since ?may w) accepts ?may"
    by (rule steady_since) (simp add: spared_def)
  from steady_cluster.stays_converged [OF this c assms(2-4) p] obtain i w'
    where r: "reconcile_times E name (Suc n) w = (replicate (Suc n) (Inr (requeueAfter, None)), w')"
      "converged view defaulted E inst i w'" and c: "calm_since ?may w (m(name \<mapsto> i)) w'" by blast
  from c obtain rs where "audit w' = audit w @ rs" "list_all (deletes_only ?may) rs"
    by (auto simp: calm_since_def logs_only_def)
  then have "audit w' = audit w @ rs \<and> (\<forall>k. DeleteReq k \<in> set rs \<longrightarrow> \<not> spared inst k)"
    by (auto simp: list_all_iff deletes_only_def)
  with r calm_sinceD [OF c] show ?thesis by blast
qed

end

text \<open> C3: in a calm cluster whose server accepts what it stores and leaves the fields alone that
  the operator compares, any number of reconciles one after the other, from a state with nothing in
  the way, all succeed, and after each of them the cluster is as the resource asks. The operator
  does not undo its own work on the way: none of the requests of these reconciles is to delete an
  object, a definition or a namespace of an enabled engine (the Velero Schedule apart, which is
  deleted when none is configured). In particular it never takes its own etcd StatefulSet or Service
  for a drifted one, which it would delete and create again.\<close>

theorem convergence_is_stable:
  assumes "steady_resources E view defaulted calm accepts" and "audited_client E audit"
    and "calm m w" and "m name = Some inst" and "om_deletion_timestamp (oe_meta inst) = None"
    and "ready view accepts E inst w"
  shows "\<exists>i w' rs. reconcile_times E name (Suc n) w =
       (replicate (Suc n) (Inr (requeueAfter, None)), w') \<and>
     calm (m(name \<mapsto> i)) w' \<and> converged view defaulted E inst i w' \<and>
     audit w' = audit w @ rs \<and>
     (\<forall>k \<in> engine_keys inst. fst k \<noteq> schedule_kind \<longrightarrow> DeleteReq k \<notin> set rs)"
  using logged_resources.stays_converged_sparing [OF logged_resources.intro [OF assms(1,2)] assms(3-6)]
  unfolding spared_def by blast

section \<open>The reference cluster\<close>

interpretation ref_steady: steady_resources ref_env cluster_view "(=)" ref_calm ref_accepts
  by unfold_locales
    (auto simp: ref_accepts_def immutable_change_def conforms_def keep_claim_templates_def
      split: kbody.split option.split)

interpretation ref_logged: logged_resources ref_env cluster_view "(=)" ref_calm ref_accepts request_log
  by unfold_locales

end
