(* ===== verification/Manager.thy ===== *)
theory Manager
  imports Reconcile_Correct
begin

text \<open>
  The process of src/cmd/main.go: the scheme, the command-line flags, and the start of the manager;
  and \<open>SetupWithManager\<close> of src/internal/controller/openebs_controller.go, which says what wakes the
  reconciler.  The calls of controller-runtime are a parameter (\<open>manager_log\<close>), and so are its delivery of
  events (\<open>watch_source\<close>) and the flags that its zap package adds to the ones of the program.
\<close>

section \<open>Flags\<close>

record flags =
  metricsAddr :: string
  probeAddr :: string
  enableLeaderElection :: bool

definition default_flags :: flags where
  "default_flags = \<lparr>metricsAddr = '':8080'', probeAddr = '':8081'', enableLeaderElection = False\<rparr>"

text \<open>\<open>strconv.ParseBool\<close>.\<close>

definition ParseBool :: "string \<Rightarrow> bool option" where
  "ParseBool s =
     (if s \<in> set [''1'', ''t'', ''T'', ''true'', ''TRUE'', ''True''] then Some True
      else if s \<in> set [''0'', ''f'', ''F'', ''false'', ''FALSE'', ''False''] then Some False
      else None)"

text \<open>
  The flags that are defined, with a test for those that are boolean and the effect of a value:
  the three of \<open>main\<close>, and the ones that \<open>zap.Options.BindFlags\<close> defines. (A second definition of
  one name would panic; the names of zap begin with ''zap-''.)
\<close>

record 'z zap_api =
  zap_boolean :: "string \<Rightarrow> bool option"
  zap_set :: "string \<Rightarrow> string \<Rightarrow> 'z \<Rightarrow> 'z option"
  zap_default :: 'z

definition flag_boolean :: "'z zap_api \<Rightarrow> string \<Rightarrow> bool option" where
  "flag_boolean Z name =
     (if name = ''metrics-bind-address'' \<or> name = ''health-probe-bind-address'' then Some False
      else if name = ''leader-elect'' then Some True
      else zap_boolean Z name)"

definition flag_set ::
  "'z zap_api \<Rightarrow> string \<Rightarrow> string \<Rightarrow> flags \<times> 'z \<Rightarrow> (flags \<times> 'z) option" where
  "flag_set Z name v s = (case s of (fl, z) \<Rightarrow>
     if name = ''metrics-bind-address'' then Some (fl\<lparr>metricsAddr := v\<rparr>, z)
     else if name = ''health-probe-bind-address'' then Some (fl\<lparr>probeAddr := v\<rparr>, z)
     else if name = ''leader-elect'' then
       map_option (\<lambda>b. (fl\<lparr>enableLeaderElection := b\<rparr>, z)) (ParseBool v)
     else map_option (\<lambda>z'. (fl, z')) (zap_set Z name v z))"

datatype flag_error =
    BadSyntax string
  | NotDefined string
  | HelpRequested
  | NeedsArgument string
  | InvalidValue string string

text \<open>
  \<open>flag.Parse\<close> of Go's package \<open>flag\<close>: one or two dashes, a value after the first equals sign or, for
  a flag that is not boolean, in the next argument; it stops at the first argument that is no flag
  and after two dashes alone.
\<close>

definition split_value :: "string \<Rightarrow> string \<times> string option" where
  "split_value s = (case dropWhile (\<lambda>c. c \<noteq> CHR ''='') s of
     [] \<Rightarrow> (s, None) | e # v \<Rightarrow> (takeWhile (\<lambda>c. c \<noteq> CHR ''='') s, Some v))"

fun parse_args ::
  "'z zap_api \<Rightarrow> string list \<Rightarrow> flags \<times> 'z \<Rightarrow> flag_error + (flags \<times> 'z)" where
  "parse_args Z [] s = Inr s"
| "parse_args Z (a # rest) s =
     (if length a < 2 \<or> hd a \<noteq> CHR ''-'' then Inr s
      else if a = ''--'' then Inr s
      else let body = (if a ! 1 = CHR ''-'' then drop 2 a else drop 1 a) in
        if body = [] \<or> hd body = CHR ''-'' \<or> hd body = CHR ''='' then Inl (BadSyntax a)
        else case split_value body of (name, value) \<Rightarrow>
          (case flag_boolean Z name of
             None \<Rightarrow> if name = ''help'' \<or> name = ''h'' then Inl HelpRequested
               else Inl (NotDefined name)
           | Some True \<Rightarrow> (let v = (case value of None \<Rightarrow> ''true'' | Some v \<Rightarrow> v) in
               case flag_set Z name v s of
                 None \<Rightarrow> Inl (InvalidValue name v) | Some s' \<Rightarrow> parse_args Z rest s')
           | Some False \<Rightarrow> (case value of
               Some v \<Rightarrow> (case flag_set Z name v s of
                   None \<Rightarrow> Inl (InvalidValue name v) | Some s' \<Rightarrow> parse_args Z rest s')
             | None \<Rightarrow> (case rest of
                 [] \<Rightarrow> Inl (NeedsArgument name)
               | v # rest' \<Rightarrow> (case flag_set Z name v s of
                   None \<Rightarrow> Inl (InvalidValue name v) | Some s' \<Rightarrow> parse_args Z rest' s')))))"

text \<open>An error ends the process: with 0 after a request for help, with 2 otherwise.\<close>

definition flag_exit :: "flag_error \<Rightarrow> int" where
  "flag_exit e = (if e = HelpRequested then 0 else 2)"

section \<open>The scheme\<close>

text \<open>The group and version of the API, and what \<open>init\<close> registers: the types of client-go, the ones
  of the API (\<open>OpenEBS\<close> and its list) and the custom resource definitions.\<close>

definition GroupVersion :: string where
  "GroupVersion = ''storage.aldershaab-it.dk/v1alpha1''"

definition scheme_groups :: "string list" where
  "scheme_groups = [''client-go'', GroupVersion, ''apiextensions.k8s.io/v1'']"

section \<open>The manager\<close>

record manager_options =
  mo_Scheme :: "string list"
  mo_BindAddress :: string
  mo_HealthProbeBindAddress :: string
  mo_LeaderElection :: bool
  mo_LeaderElectionID :: string

text \<open>What the controller watches: one kind, the kinds it owns, and filters on updates.\<close>

record watch_spec =
  wt_For :: string
  wt_Owns :: "string list"
  wt_Predicates :: "(OpenEBS \<Rightarrow> OpenEBS \<Rightarrow> bool) list"

definition SetupWithManager :: watch_spec where
  "SetupWithManager = \<lparr>wt_For = ''OpenEBS'', wt_Owns = [], wt_Predicates = []\<rparr>"

text \<open>
  The contract of controller-runtime's delivery of events, which is not the program's: \<open>delivers wt
  old new\<close> says that a reconcile request for the resource is queued when the stored resource goes
  from \<open>old\<close> to \<open>new\<close>. For a controller of the kind, a change that passes every predicate is.
\<close>

locale watch_source =
  fixes delivers :: "watch_spec \<Rightarrow> OpenEBS \<Rightarrow> OpenEBS \<Rightarrow> bool"
  assumes delivers_change: "wt_For wt = ''OpenEBS'' \<Longrightarrow> old \<noteq> new \<Longrightarrow>
    list_all (\<lambda>p. p old new) (wt_Predicates wt) \<Longrightarrow> delivers wt old new"
begin

text \<open>The controller of the operator has no predicate.\<close>

lemma setup_delivers: "old \<noteq> new \<Longrightarrow> delivers SetupWithManager old new"
  by (rule delivers_change) (simp_all add: SetupWithManager_def)

end

datatype manager_call =
    GetConfig
  | NewManager manager_options
  | CompleteController watch_spec
  | AddHealthzCheck string
  | AddReadyzCheck string
  | StartManager

definition manager_options_of :: "flags \<Rightarrow> manager_options" where
  "manager_options_of fl = \<lparr>mo_Scheme = scheme_groups, mo_BindAddress = metricsAddr fl,
     mo_HealthProbeBindAddress = probeAddr fl, mo_LeaderElection = enableLeaderElection fl,
     mo_LeaderElectionID = ''openebs-operator-leader.aldershaab-it.dk''\<rparr>"

text \<open>The calls of \<open>main\<close>, in their order.  \<open>GetConfigOrDie\<close> exits with 1 as the others do.\<close>

definition main_calls :: "flags \<Rightarrow> manager_call list" where
  "main_calls fl = [GetConfig, NewManager (manager_options_of fl),
     CompleteController SetupWithManager, AddHealthzCheck ''healthz'', AddReadyzCheck ''readyz'',
     StartManager]"

text \<open>\<open>M c w\<close> runs a call of controller-runtime; the result is the exit status of the process.\<close>

definition operator_main :: "'z zap_api \<Rightarrow> (manager_call \<Rightarrow> ('w, unit) prog) \<Rightarrow> string list \<Rightarrow>
    'w \<Rightarrow> int \<times> 'w" where
  "operator_main Z M args w = (case parse_args Z args (default_flags, zap_default Z) of
     Inl e \<Rightarrow> (flag_exit e, w)
   | Inr (fl, z) \<Rightarrow> (case run_steps (map M (main_calls fl)) w of
       (Inl x, w') \<Rightarrow> (1, w') | (Inr u, w') \<Rightarrow> (0, w')))"

section \<open>Flags: writing and reading\<close>

text \<open>
  A setting of one of the program's flags, and an argument form for it: with one dash or two; the
  value behind an equals sign, in the next argument, or left out for a boolean flag that is set. A
  boolean has six spellings for each of its values.
\<close>

datatype setting = Metrics string | Probe string | LeaderElect bool

datatype form = Joined string | Separate string | Bare

definition dashes :: "bool \<Rightarrow> string" where
  "dashes two = (if two then ''--'' else ''-'')"

fun flag_name :: "setting \<Rightarrow> string" where
  "flag_name (Metrics a) = ''metrics-bind-address''"
| "flag_name (Probe a) = ''health-probe-bind-address''"
| "flag_name (LeaderElect b) = ''leader-elect''"

fun spellings :: "setting \<Rightarrow> string list" where
  "spellings (Metrics a) = [a]"
| "spellings (Probe a) = [a]"
| "spellings (LeaderElect b) = (if b then [''1'', ''t'', ''T'', ''true'', ''TRUE'', ''True'']
     else [''0'', ''f'', ''F'', ''false'', ''FALSE'', ''False''])"

fun is_switch :: "setting \<Rightarrow> bool" where
  "is_switch (LeaderElect b) = True"
| "is_switch _ = False"

fun spells :: "form \<Rightarrow> setting \<Rightarrow> bool" where
  "spells (Joined v) st \<longleftrightarrow> v \<in> set (spellings st)"
| "spells (Separate v) st \<longleftrightarrow> v \<in> set (spellings st) \<and> \<not> is_switch st"
| "spells Bare st \<longleftrightarrow> st = LeaderElect True"

fun render :: "bool \<times> form \<times> setting \<Rightarrow> string list" where
  "render (two, Joined v, st) = [dashes two @ flag_name st @ CHR ''='' # v]"
| "render (two, Separate v, st) = [dashes two @ flag_name st, v]"
| "render (two, Bare, st) = [dashes two @ flag_name st]"

fun apply_setting :: "setting \<Rightarrow> flags \<Rightarrow> flags" where
  "apply_setting (Metrics a) fl = fl\<lparr>metricsAddr := a\<rparr>"
| "apply_setting (Probe a) fl = fl\<lparr>probeAddr := a\<rparr>"
| "apply_setting (LeaderElect b) fl = fl\<lparr>enableLeaderElection := b\<rparr>"

lemma split_value_name:
  assumes "CHR ''='' \<notin> set name"
  shows "split_value (name @ CHR ''='' # v) = (name, Some v)" and "split_value name = (name, None)"
proof -
  let ?p = "\<lambda>c. c \<noteq> CHR ''=''"
  have "\<And>c. c \<in> set name \<Longrightarrow> ?p c" using assms by auto
  then have "dropWhile ?p name = []" "dropWhile ?p (name @ CHR ''='' # v) = CHR ''='' # v"
    "takeWhile ?p (name @ CHR ''='' # v) = name"
    by (simp_all add: dropWhile_append2 takeWhile_append2)
  then show "split_value (name @ CHR ''='' # v) = (name, Some v)"
    and "split_value name = (name, None)" by (simp_all only: split_value_def list.case)
qed

text \<open>One argument, from the name and the value it splits into.\<close>

lemma parse_flag:
  assumes "name \<noteq> []" and "hd name \<noteq> CHR ''-''" and "hd name \<noteq> CHR ''=''"
    and "CHR ''='' \<notin> set name" and "flag_boolean Z name = Some b" and "flag_set Z name v s = Some s'"
  shows "parse_args Z ((dashes two @ name @ CHR ''='' # v) # rest) s = parse_args Z rest s'"
    and "\<not> b \<Longrightarrow> parse_args Z ((dashes two @ name) # v # rest) s = parse_args Z rest s'"
    and "b \<Longrightarrow> v = ''true'' \<Longrightarrow> parse_args Z ((dashes two @ name) # rest) s = parse_args Z rest s'"
proof -
  obtain c cs where n: "name = c # cs" "c \<noteq> CHR ''-''" "c \<noteq> CHR ''=''"
    using assms(1-3) by (cases name) auto
  note split = split_value_name [OF assms(4)]
  have read: "parse_args Z ((dashes two @ c # t) # rest) s = (case split_value (c # t) of (name, value) \<Rightarrow>
      (case flag_boolean Z name of
         None \<Rightarrow> if name = ''help'' \<or> name = ''h'' then Inl HelpRequested
           else Inl (NotDefined name)
       | Some True \<Rightarrow> (let v = (case value of None \<Rightarrow> ''true'' | Some v \<Rightarrow> v) in
           case flag_set Z name v s of
             None \<Rightarrow> Inl (InvalidValue name v) | Some s' \<Rightarrow> parse_args Z rest s')
       | Some False \<Rightarrow> (case value of
           Some v \<Rightarrow> (case flag_set Z name v s of
               None \<Rightarrow> Inl (InvalidValue name v) | Some s' \<Rightarrow> parse_args Z rest s')
         | None \<Rightarrow> (case rest of
             [] \<Rightarrow> Inl (NeedsArgument name)
           | v # rest' \<Rightarrow> (case flag_set Z name v s of
               None \<Rightarrow> Inl (InvalidValue name v) | Some s' \<Rightarrow> parse_args Z rest' s')))))" for t rest
    using n(2,3) by (cases two) (simp_all add: dashes_def parse_args.simps(2) Let_def)
  show "parse_args Z ((dashes two @ name @ CHR ''='' # v) # rest) s = parse_args Z rest s'"
    using split(1) [of v] assms(5,6) read [of "cs @ CHR ''='' # v" rest] n(1) by (cases b) simp_all
  show "parse_args Z ((dashes two @ name) # v # rest) s = parse_args Z rest s'" if "\<not> b"
    using split(2) assms(5,6) that read [of cs "v # rest"] n(1) by simp
  show "parse_args Z ((dashes two @ name) # rest) s = parse_args Z rest s'" if "b" "v = ''true''"
    using split(2) assms(5,6) that read [of cs rest] n(1) by simp
qed

lemma own_flag:
  "flag_name st \<noteq> []" "hd (flag_name st) \<noteq> CHR ''-''" "hd (flag_name st) \<noteq> CHR ''=''"
  "CHR ''='' \<notin> set (flag_name st)" "flag_boolean Z (flag_name st) = Some (is_switch st)"
  by (cases st; simp add: flag_boolean_def)+

lemma ParseBool_spelling:
  assumes "v \<in> set (spellings (LeaderElect b))"
  shows "ParseBool v = Some b"
proof (cases b)
  case True
  with assms show ?thesis unfolding ParseBool_def by simp
next
  case False
  have "list_all (\<lambda>v. ParseBool v = Some False) (spellings (LeaderElect False))" by code_simp
  with False assms show ?thesis by (auto simp only: list_all_iff)
qed

lemma own_flag_set:
  assumes "v \<in> set (spellings st)"
  shows "flag_set Z (flag_name st) v (fl, z) = Some (apply_setting st fl, z)"
proof (cases st)
  case (LeaderElect b)
  with assms ParseBool_spelling [of v b] show ?thesis by (simp add: flag_set_def del: spellings.simps)
qed (use assms in \<open>simp_all add: flag_set_def\<close>)

lemma parse_render:
  assumes "spells f st"
  shows "parse_args Z (render (two, f, st) @ rest) (fl, z) = parse_args Z rest (apply_setting st fl, z)"
proof -
  note parse = parse_flag [of "flag_name st" Z _ _ "(fl, z)", OF own_flag own_flag_set]
  show ?thesis
  proof (cases f)
    case (Joined v)
    with assms parse(1) [of v] show ?thesis by (simp del: parse_args.simps)
  next
    case (Separate v)
    with assms parse(2) [of v] show ?thesis by (simp del: parse_args.simps)
  next
    case Bare
    with assms parse(3) [of "''true''"] show ?thesis by (simp del: parse_args.simps)
  qed
qed

text \<open> C27: the three flags of the program are read back from the arguments they are written as.
  Settings may be written with one dash or two, with the value joined by an equals sign or, for the
  addresses, in the next argument, and for leader election in any of the spellings that Go's flag
  package takes for a boolean or by the flag's name alone, in any order and repeatedly: the
  program gets the value of the last setting of each flag, and the default of main for a flag that is
  not set, and parsing goes on with the arguments after them.\<close>

theorem flags_round_trip:
  assumes "\<And>two f st. (two, f, st) \<in> set sts \<Longrightarrow> spells f st"
  shows "parse_args Z (concat (map render sts) @ rest) (default_flags, z) =
     parse_args Z rest (fold apply_setting (map (snd \<circ> snd) sts) default_flags, z)"
proof -
  have "parse_args Z (concat (map render sts) @ rest) (fl, z) =
      parse_args Z rest (fold apply_setting (map (snd \<circ> snd) sts) fl, z)" for fl
    using assms
  proof (induction sts arbitrary: fl)
    case (Cons s sts)
    obtain two f st where s: "s = (two, f, st)" by (cases s)
    have "spells f st" by (rule Cons.prems [of two]) (simp add: s)
    moreover have "parse_args Z (concat (map render sts) @ rest) (fl, z) =
        parse_args Z rest (fold apply_setting (map (snd \<circ> snd) sts) fl, z)" for fl
      by (rule Cons.IH) (use Cons.prems in auto)
    ultimately show ?case by (simp add: s parse_render comp_def del: parse_args.simps render.simps)
  qed simp
  then show ?thesis .
qed

section \<open>How the process ends\<close>

text \<open>The contract of the calls: they are made one after the other, and none is made twice.\<close>

locale manager_log =
  fixes M :: "manager_call \<Rightarrow> ('w, unit) prog" and made :: "'w \<Rightarrow> manager_call list"
  assumes logged: "made (snd (M c w)) = made w @ [c]"
begin

lemma made_step: "M c w = (r, w') \<Longrightarrow> made w' = made w @ [c]"
  using logged [of c w] by simp

lemma made_all: "run_steps (map M cs) w = (Inr (), w') \<Longrightarrow> made w' = made w @ cs"
proof (induction cs arbitrary: w)
  case Nil
  then show ?case by (simp add: ret_def)
next
  case (Cons c cs)
  then obtain w1 where "M c w = (Inr (), w1)" "run_steps (map M cs) w1 = (Inr (), w')"
    by (auto elim: bindP_InrE)
  with Cons.IH [of w1] made_step [of c w] show ?case by simp
qed

end

text \<open>Calls made one after the other that all succeed.\<close>

fun all_succeed :: "('c \<Rightarrow> ('w, unit) prog) \<Rightarrow> 'c list \<Rightarrow> 'w \<Rightarrow> 'w \<Rightarrow> bool" where
  "all_succeed M [] w w' \<longleftrightarrow> w' = w"
| "all_succeed M (c # cs) w w' \<longleftrightarrow> (\<exists>w1. M c w = (Inr (), w1) \<and> all_succeed M cs w1 w')"

lemma run_steps_succeed: "run_steps (map M cs) w = (Inr (), w') \<Longrightarrow> all_succeed M cs w w'"
  by (induction cs arbitrary: w) (auto simp: ret_def elim: bindP_InrE)

context manager_log
begin

lemma stopped_calls:
  assumes "run_steps (map M cs) w = (Inl x, w')"
  obtains i w1 where "i < length cs" "made w' = made w @ take (Suc i) cs"
    "all_succeed M (butlast (take (Suc i) cs)) w w1" "M (last (take (Suc i) cs)) w1 = (Inl x, w')"
proof -
  from run_steps_Inl [OF assms] obtain i w1 where i: "i < length cs"
    and r: "run_steps (map M (take i cs)) w = (Inr (), w1)" and f: "M (cs ! i) w1 = (Inl x, w')"
    by (auto simp: take_map)
  have t: "take (Suc i) cs = take i cs @ [cs ! i]" by (rule take_Suc_conv_app_nth [OF i])
  have "made w' = made w @ take (Suc i) cs" using made_all [OF r] made_step [OF f] t by simp
  from that [OF i this] run_steps_succeed [OF r] f show thesis by (simp add: t)
qed

end

lemma start_last: "i < 6 \<Longrightarrow> StartManager \<in> set (take (Suc i) (main_calls fl)) \<Longrightarrow> i = 5"
  by (auto simp: main_calls_def less_Suc_eq numeral_eq_Suc)

text \<open> C26: the process ends with the status of the flag package, before any call, when the
  arguments are bad. Otherwise it makes calls in a fixed order, and the manager is started only as
  the last of them, after the controller and both probes were registered, and with the options that
  the flags say. The status is 0 only when the manager was started and every call succeeded, the
  manager's own run included; it is 1 when a call failed: then all calls before it had succeeded,
  and none was made after it.\<close>

theorem main_exit:
  assumes "manager_log M made" and "operator_main Z M args w = (code, w')"
  shows "case parse_args Z args (default_flags, zap_default Z) of
      Inl e \<Rightarrow> code = flag_exit e \<and> w' = w
    | Inr (fl, z) \<Rightarrow> \<exists>cs. made w' = made w @ cs \<and>
        (StartManager \<in> set cs \<longrightarrow> cs = [GetConfig, NewManager (manager_options_of fl),
           CompleteController SetupWithManager, AddHealthzCheck ''healthz'',
           AddReadyzCheck ''readyz'', StartManager]) \<and>
        (code = 0 \<and> StartManager \<in> set cs \<and> all_succeed M cs w w' \<or>
         code = 1 \<and> cs \<noteq> [] \<and>
           (\<exists>w1 x. all_succeed M (butlast cs) w w1 \<and> M (last cs) w1 = (Inl x, w')))"
proof (cases "parse_args Z args (default_flags, zap_default Z)")
  case (Inl e)
  with assms(2) show ?thesis by (simp add: operator_main_def)
next
  case (Inr s)
  obtain fl z where s: "s = (fl, z)" by (cases s)
  let ?cs = "main_calls fl"
  obtain r w1 where run: "run_steps (map M ?cs) w = (r, w1)" by fastforce
  have w1: "w1 = w'" using assms(2) Inr s run by (auto simp: operator_main_def split: sum.splits)
  show ?thesis
  proof (cases r)
    case Inr': (Inr u)
    with run w1 have "made w' = made w @ ?cs" "all_succeed M ?cs w w'"
      by (simp_all add: manager_log.made_all [OF assms(1)] run_steps_succeed)
    moreover have "code = 0" using assms(2) Inr s run Inr' by (simp add: operator_main_def)
    ultimately show ?thesis using Inr s
      by (auto simp: main_calls_def intro!: exI [of _ ?cs])
  next
    case Inl': (Inl x)
    with run w1 have "run_steps (map M ?cs) w = (Inl x, w')" by simp
    then obtain i w2 where i: "i < length ?cs" and m: "made w' = made w @ take (Suc i) ?cs"
      and ok: "all_succeed M (butlast (take (Suc i) ?cs)) w w2"
        "M (last (take (Suc i) ?cs)) w2 = (Inl x, w')"
      by (rule manager_log.stopped_calls [OF assms(1)])
    have "StartManager \<in> set (take (Suc i) ?cs) \<longrightarrow> take (Suc i) ?cs = ?cs"
      using i start_last [of i fl] by (auto simp: main_calls_def)
    moreover have "take (Suc i) ?cs \<noteq> []" using i by auto
    moreover have "code = 1" using assms(2) Inr s run Inl' by (simp add: operator_main_def)
    ultimately have "\<exists>cs. made w' = made w @ cs \<and> (StartManager \<in> set cs \<longrightarrow> cs = ?cs) \<and>
        code = 1 \<and> cs \<noteq> [] \<and>
        (\<exists>w1 x. all_succeed M (butlast cs) w w1 \<and> M (last cs) w1 = (Inl x, w'))"
      using m ok by blast
    with Inr s show ?thesis unfolding main_calls_def by auto
  qed
qed

section \<open>What wakes the reconciler\<close>

text \<open> C25: a reconcile that ends with the regular requeue time has read the clock and the stored
  resource, and has written a status whose conditions all carry that time; apart from its
  status the resource is the one it read. So unless the conditions of the resource it read were made
  in the same second, the write changes the resource, and, the controller having no predicate on
  updates, the operator's own write is delivered to it as a new reconcile request.\<close>

theorem status_write_wakes:
  assumes "watch_source delivers" and "reconcileNormal E inst w = (Inr (requeueAfter, None), w')"
  shows "\<exists>latest status stored now w0 w1 w2. time_now E w0 = (now, w1) \<and>
    cr_get E (om_name (oe_meta inst)) w1 = (Inr latest, w2) \<and>
    cr_status_update E (latest\<lparr>oe_Status := status\<rparr>) w2 = (Inr stored, w') \<and>
    st_Conditions status \<noteq> [] \<and>
    (\<forall>c \<in> set (st_Conditions status). cond_LastTransitionTime c = now) \<and>
    ((\<exists>c \<in> set (st_Conditions (oe_Status latest)). cond_LastTransitionTime c = now) \<or>
      delivers SetupWithManager latest (latest\<lparr>oe_Status := status\<rparr>))"
proof (rule reconcileNormal_InrE [OF assms(2)])
  fix es err w1 c w2
  assume "write_status E inst es w2 = (Inr (requeueAfter, None), w')"
  then show ?thesis
  proof (cases rule: write_status_cases)
    case (written latest now w3 w4 stored)
    obtain st where new: "with_status (derivePhase es) es (buildConditions now (derivePhase es)) latest =
        latest\<lparr>oe_Status := st\<rparr>" and st: "st_Conditions st = buildConditions now (derivePhase es)"
      by (simp add: with_status_def)
    have c: "st_Conditions st \<noteq> []" "\<forall>c \<in> set (st_Conditions st). cond_LastTransitionTime c = now"
      unfolding st by (simp_all add: buildConditions_def Let_def)
    have "delivers SetupWithManager latest (latest\<lparr>oe_Status := st\<rparr>)"
      if "\<not> (\<exists>c \<in> set (st_Conditions (oe_Status latest)). cond_LastTransitionTime c = now)"
    proof (rule watch_source.setup_delivers [OF assms(1)])
      have "hd (st_Conditions st) \<in> set (st_Conditions st)" using c(1) by simp
      with c(2) that have "oe_Status latest \<noteq> st" by auto
      then show "latest \<noteq> latest\<lparr>oe_Status := st\<rparr>" by (cases latest) simp
    qed
    with written c show ?thesis unfolding new by blast
  qed (auto simp: requeueAfter_def)
qed

text \<open>A delivery: every change of the kind that passes the predicates, and no other.\<close>

definition deliver_changes :: "watch_spec \<Rightarrow> OpenEBS \<Rightarrow> OpenEBS \<Rightarrow> bool" where
  "deliver_changes wt old new \<longleftrightarrow> wt_For wt = ''OpenEBS'' \<and> old \<noteq> new \<and>
     list_all (\<lambda>p. p old new) (wt_Predicates wt)"

interpretation changes: watch_source deliver_changes
  by unfold_locales (simp add: deliver_changes_def)

section \<open>A run\<close>

text \<open>The arguments of src/config/manager/manager.yaml, and calls of which some fail.\<close>

definition deployed_args :: "string list" where
  "deployed_args = [''--health-probe-bind-address=:8081'', ''--metrics-bind-address=:8080'',
     ''--leader-elect=false'']"

definition no_zap :: "unit zap_api" where
  "no_zap = \<lparr>zap_boolean = (\<lambda>_. None), zap_set = (\<lambda>_ _ _. None), zap_default = ()\<rparr>"

definition log_call :: "(manager_call \<Rightarrow> bool) \<Rightarrow> manager_call \<Rightarrow> (manager_call list, unit) prog" where
  "log_call fails c w = (if fails c then Inl (GoError (Plain ''unavailable'')) else Inr (), w @ [c])"

fun second_probe :: "manager_call \<Rightarrow> bool" where
  "second_probe (AddReadyzCheck n) = True"
| "second_probe _ = False"

interpretation logged_calls: manager_log "log_call fails" "\<lambda>w. w" for fails
  by unfold_locales (simp add: log_call_def)

lemma deployed_flags: "parse_args no_zap deployed_args (default_flags, ()) = Inr (default_flags, ())"
  by code_simp

lemma probe_port_taken:
  "operator_main no_zap (log_call second_probe) deployed_args [] =
     (1, take 5 (main_calls default_flags))"
  using deployed_flags
  by (simp add: operator_main_def no_zap_def main_calls_def log_call_def bindP_def)

lemma main_exit_witness:
  "\<exists>cs. take 5 (main_calls default_flags) = [] @ cs \<and>
     (StartManager \<in> set cs \<longrightarrow> cs = [GetConfig, NewManager (manager_options_of default_flags),
        CompleteController SetupWithManager, AddHealthzCheck ''healthz'',
        AddReadyzCheck ''readyz'', StartManager]) \<and>
     ((1 :: int) = 0 \<and> StartManager \<in> set cs \<and>
        all_succeed (log_call second_probe) cs [] (take 5 (main_calls default_flags)) \<or>
      (1 :: int) = 1 \<and> cs \<noteq> [] \<and> (\<exists>w1 x. all_succeed (log_call second_probe) (butlast cs) [] w1 \<and>
        log_call second_probe (last cs) w1 = (Inl x, take 5 (main_calls default_flags))))"
  using main_exit [OF logged_calls.manager_log_axioms probe_port_taken] deployed_flags
  by (simp add: no_zap_def)

text \<open>Settings in several spellings, one of them repeated.\<close>

definition some_settings :: "(bool \<times> form \<times> setting) list" where
  "some_settings = [(True, Joined ''T'', LeaderElect True), (False, Separate '':9090'', Metrics '':9090''),
     (False, Joined ''0'', LeaderElect False), (True, Bare, LeaderElect True)]"

lemma flags_round_trip_witness:
  "parse_args no_zap [''--leader-elect=T'', ''-metrics-bind-address'', '':9090'', ''-leader-elect=0'',
     ''--leader-elect''] (default_flags, ()) =
   Inr (\<lparr>metricsAddr = '':9090'', probeAddr = '':8081'', enableLeaderElection = True\<rparr>, ())"
proof -
  have "spells f st" if "(two, f, st) \<in> set some_settings" for two f st
    using that by (auto simp: some_settings_def)
  from flags_round_trip [of some_settings no_zap "[]", OF this] show ?thesis
    by (simp add: some_settings_def dashes_def default_flags_def del: parse_args.simps(2))
qed

end
