(* ===== verification/Runs.thy ===== *)
theory Runs
  imports Footprint Workloads Lifecycle Permissions Steady Manager
begin

text \<open>
  Concrete runs on the in-memory cluster of \<open>Ref_Cluster\<close>: the theorems of the other theories,
  applied where their hypotheses hold.
\<close>

lemma run_eq: "fst p = r \<Longrightarrow> p = (r, snd p)"
  by (cases p) simp

section \<open>A reconcile of the hostpath engine\<close>

definition hostpath_resource :: OpenEBS where
  "hostpath_resource = openebs0\<lparr>oe_Spec := spec0\<lparr>spec_Hostpath := Some
     \<lparr>hp_Enabled = True, hp_BasePath = '''', hp_IsDefaultClass = False,
      hp_StorageClassName = ''''\<rparr>\<rparr>\<rparr>"

definition hostpath_world :: cluster where
  "hostpath_world = empty_cluster\<lparr>resources_cr := [hostpath_resource]\<rparr>"

lemma hostpath_reconciled:
  "fst (reconcileNormal ref_env hostpath_resource hostpath_world) = Inr (requeueAfter, None)"
  by code_simp

lemma hostpath_engine: "enabled_engines hostpath_resource = [OpenEBSEngineHostpath]"
  by code_simp

lemma hostpath_distinct: "distinct_classes hostpath_resource"
  by (simp add: distinct_classes_def hostpath_engine)


lemma requeue_witness:
  "(requeueAfter = requeueAfter \<and> (None :: gerror option) = None) \<or>
    (requeueAfter = 0 \<and> (None :: gerror option) \<noteq> None)"
  by (rule reconcileNormal_requeue [OF run_eq [OF hostpath_reconciled]])

lemma hostpath_deploys:
  "fst (deployEngines ref_env hostpath_resource hostpath_world) =
     Inr ([engineRunning OpenEBSEngineHostpath ''Hostpath engine deployed''], None)"
  by code_simp

lemma statuses_witness:
  "map es_Name [engineRunning OpenEBSEngineHostpath ''Hostpath engine deployed''] =
     enabled_engines hostpath_resource"
  using deployEngines_statuses [OF run_eq [OF hostpath_deploys]] by (rule conjunct1)

section \<open>Deletion and the finalizer\<close>

definition deleted_resource :: OpenEBS where
  "deleted_resource = openebs0\<lparr>oe_meta := (oe_meta openebs0)\<lparr>
     om_finalizers := [openebsFinalizer], om_deletion_timestamp := Some ''2025-01-01T00:00:00Z''\<rparr>\<rparr>"

definition deleted_world :: cluster where
  "deleted_world = empty_cluster\<lparr>resources_cr := [deleted_resource],
     objects := [lvmNodeDaemonSet deleted_resource]\<rparr>"

definition released_resource :: OpenEBS where
  "released_resource = RemoveFinalizer ref_env deleted_resource openebsFinalizer"

lemma deleted_log:
  "CrUpdateReq released_resource \<in>
     set (request_log (snd (ReconcileReq ref_env ''openebs'' deleted_world)))"
  by code_simp

lemma finalizer_last_witness:
  "\<exists>inst w1. cr_get ref_env ''openebs'' deleted_world = (Inr inst, w1) \<and>
    om_deletion_timestamp (oe_meta inst) \<noteq> None \<and>
    released_resource = RemoveFinalizer ref_env inst openebsFinalizer \<and>
    last (request_log (snd (ReconcileReq ref_env ''openebs'' deleted_world))) =
      CrUpdateReq released_resource \<and>
    (\<forall>k \<in> cleanup_keys inst.
      cluster_view (snd (ReconcileReq ref_env ''openebs'' deleted_world)) k = None)"
proof (rule finalizer_last [OF ref_api.cluster_api_axioms ref_audit.audited_client_axioms
      ref_lib.apimachinery_axioms run_eq [OF refl] _ deleted_log])
  show "request_log (snd (ReconcileReq ref_env ''openebs'' deleted_world)) =
      request_log deleted_world @ request_log (snd (ReconcileReq ref_env ''openebs'' deleted_world))"
    by (simp add: deleted_world_def empty_cluster_def)
  show "\<not> ContainsFinalizer ref_env released_resource openebsFinalizer"
    unfolding released_resource_def by (rule ref_lib.contains_remove)
qed

lemma hostpath_read: "fst (cr_get ref_env ''openebs'' hostpath_world) = Inr hostpath_resource"
  by code_simp

lemma finalizer_first_witness:
  "\<exists>rs. request_log (snd (ReconcileReq ref_env ''openebs'' hostpath_world)) =
      request_log hostpath_world @ [CrGetReq ''openebs'',
        CrUpdateReq (AddFinalizer ref_env hostpath_resource openebsFinalizer)] @ rs"
proof -
  have "om_deletion_timestamp (oe_meta hostpath_resource) = None"
    and "\<not> ContainsFinalizer ref_env hostpath_resource openebsFinalizer"
    by code_simp+
  from finalizer_first [OF ref_audit.audited_client_axioms run_eq [OF hostpath_read] this
      run_eq [OF refl]]
  show ?thesis by blast
qed

definition bad_resource :: OpenEBS where
  "bad_resource = deleted_resource\<lparr>oe_Spec := spec0\<lparr>spec_Mayastor :=
     Some (mayastor_config0\<lparr>ms_EtcdStorageSize := ''ten gigabytes''\<rparr>)\<rparr>\<rparr>"

definition bad_world :: cluster where
  "bad_world = empty_cluster\<lparr>resources_cr := [bad_resource]\<rparr>"

lemma bad_read: "fst (cr_get ref_env ''openebs'' bad_world) = Inr bad_resource"
  by code_simp

lemma bad_size: "om_deletion_timestamp (oe_meta bad_resource) = Some ''2025-01-01T00:00:00Z''"
    "\<not> quantity_ok ref_env (etcd_storage_size bad_resource)"
  by code_simp+

lemma bad_quantity_witness:
  "ReconcileReq ref_env ''openebs'' bad_world =
    (Inl (GoPanic (''cannot parse '' @ etcd_storage_size bad_resource)),
     snd (cr_get ref_env ''openebs'' bad_world))"
  by (rule bad_quantity_blocks_deletion [OF run_eq [OF bad_read] bad_size])

lemma bad_panics:
  "fst (ReconcileReq ref_env ''openebs'' bad_world) = Inl (GoPanic ''cannot parse ten gigabytes'')"
  by code_simp

lemma stops_only_witness:
  "\<exists>m inst. GoPanic ''cannot parse ten gigabytes'' = GoPanic m \<and>
    reconciles ref_env ''openebs'' bad_world inst \<and>
    \<not> quantity_ok ref_env (etcd_storage_size inst)"
  by (rule reconcile_stops_only_on_quantity [OF ref_client.kube_client_axioms run_eq [OF bad_panics]])

section \<open>A request that the markers do not allow\<close>

text \<open>The clean-up of the deleted resource ends with the Velero Schedule.\<close>

lemma schedule_requested:
  "DeleteReq (key_of (mayastorEtcdVeleroSchedule deleted_resource)) \<in>
     set (request_log (snd (ReconcileReq ref_env ''openebs'' deleted_world)))"
  by code_simp

lemma requests_permitted_witness:
  "permitted manager_role kubernetes_rest
      (DeleteReq (key_of (mayastorEtcdVeleroSchedule deleted_resource))) \<and>
    \<not> permitted rbac_markers kubernetes_rest
      (DeleteReq (key_of (mayastorEtcdVeleroSchedule deleted_resource)))"
proof -
  let ?w = "snd (ReconcileReq ref_env ''openebs'' deleted_world)"
  have "request_log ?w = request_log deleted_world @ request_log ?w"
    by (simp add: deleted_world_def empty_cluster_def)
  from requests_permitted [OF ref_audit.audited_client_axioms ref_api.cluster_api_axioms
      ref_lib.apimachinery_axioms served.rest_mapping_axioms prod.collapse [symmetric] this
      schedule_requested]
  show ?thesis by (simp add: key_simps schedule_kind_def)
qed

section \<open>What a reconcile touches\<close>

lemma daemonset_deleted:
  "cluster_view (snd (ReconcileReq ref_env ''openebs'' deleted_world))
     (KDaemonSet, openebsNamespace, lvmNodeName) \<noteq>
   cluster_view deleted_world (KDaemonSet, openebsNamespace, lvmNodeName)"
  by code_simp

lemma reconcile_footprint_witness:
  "(KDaemonSet, openebsNamespace, lvmNodeName) \<in> cleanup_keys deleted_resource \<and>
   cluster_view (snd (ReconcileReq ref_env ''openebs'' deleted_world))
     (KDaemonSet, openebsNamespace, lvmNodeName) = None"
proof -
  have "cluster_crs deleted_world ''openebs'' = Some deleted_resource"
    and t: "om_deletion_timestamp (oe_meta deleted_resource) \<noteq> None" by code_simp+
  then have "cr_get ref_env ''openebs'' deleted_world =
      (Inr deleted_resource, log_req (CrGetReq ''openebs'') deleted_world)"
    by (simp add: mem_cr_get_def)
  with reconcile_footprint [OF ref_api.cluster_api_axioms ref_lib.apimachinery_axioms
      prod.collapse [symmetric] daemonset_deleted] t
  show ?thesis by (auto split: if_splits)
qed

text \<open>A Schedule in the namespace backup, and a resource that names the default.\<close>

definition stale_schedule :: kobj where
  "stale_schedule = (let s = mayastorEtcdVeleroSchedule deleted_resource in
     s\<lparr>meta := (meta s)\<lparr>om_namespace := ''backup''\<rparr>\<rparr>)"

definition stale_world :: cluster where
  "stale_world = deleted_world\<lparr>objects := [stale_schedule]\<rparr>"

lemma stale_read: "cr_get ref_env ''openebs'' stale_world =
    (Inr deleted_resource, log_req (CrGetReq ''openebs'') stale_world)"
proof -
  have "cluster_crs stale_world ''openebs'' = Some deleted_resource" by code_simp
  then show ?thesis by (simp add: mem_cr_get_def)
qed

lemma stale_there:
  "cluster_view stale_world (schedule_kind, ''backup'', mayastorEtcdName) = Some stale_schedule"
  by code_simp

lemma stale_schedule_witness:
  "cluster_view (snd (ReconcileReq ref_env ''openebs'' stale_world))
     (schedule_kind, ''backup'', mayastorEtcdName) = Some stale_schedule"
proof -
  have "oe_Spec inst = oe_Spec deleted_resource" if "reconciles ref_env ''openebs'' stale_world inst"
    for inst
    using that unfolding reconciles_def stale_read
    by (auto simp: mem_cr_update_def Let_def ref_lib.add_spec split: option.splits)
  then have "velero_namespace inst = velero_namespace deleted_resource"
    if "reconciles ref_env ''openebs'' stale_world inst" for inst
    using that by (simp add: velero_namespace_def)
  moreover have "velero_namespace deleted_resource \<noteq> ''backup''" by code_simp
  ultimately have other: "\<forall>inst. reconciles ref_env ''openebs'' stale_world inst \<longrightarrow>
      velero_namespace inst \<noteq> ''backup''" by simp
  have run: "ReconcileReq ref_env ''openebs'' stale_world =
      (fst (ReconcileReq ref_env ''openebs'' stale_world),
       snd (ReconcileReq ref_env ''openebs'' stale_world))" by simp
  show ?thesis
    by (rule stale_schedule_kept [OF ref_api.cluster_api_axioms ref_lib.apimachinery_axioms run
          stale_there other])
qed

section \<open>The life of a resource\<close>

text \<open>A user creates the hostpath resource, and it is reconciled.\<close>

definition deployed_state :: cluster where
  "deployed_state = snd (ReconcileReq ref_env ''openebs'' hostpath_world)"

abbreviation hostpath_key :: objkey where
  "hostpath_key \<equiv> (KDeployment, openebsNamespace, hostpathDeployName)"

lemma deployed_reachable: "reachable ref_env cluster_view cluster_crs deployed_state"
proof -
  have "reachable ref_env cluster_view cluster_crs empty_cluster"
    by (rule reachable.start) (simp add: cluster_view_def empty_cluster_def)
  moreover have "cluster_crs hostpath_world = (cluster_crs empty_cluster)
      (cr_name hostpath_resource \<mapsto> hostpath_resource)"
    by (simp add: cluster_crs_def hostpath_world_def empty_cluster_def cr_name_def fun_eq_iff)
  then have "users (cluster_crs empty_cluster) (cluster_crs hostpath_world)"
    by (simp, intro move_users creates)
      (simp_all add: cluster_crs_def empty_cluster_def hostpath_resource_def openebs0_def object_meta_def)
  ultimately have "reachable ref_env cluster_view cluster_crs hostpath_world"
    by (rule reachable.others)
      (auto simp: cluster_view_def hostpath_world_def empty_cluster_def)
  then show ?thesis unfolding deployed_state_def by (rule reachable.reconciles) (rule prod.collapse [symmetric])
qed

lemma deployed_there: "cluster_view deployed_state hostpath_key \<noteq> None"
  by code_simp

lemma hostpath_workload: "operator_workload hostpath_key"
proof -
  have "(hostpath_on openebs0, hostpath_objects openebs0) \<in> set (inventories openebs0)"
    by (simp add: inventories_def)
  moreover have "hostpath_key \<in> key_of ` set (hostpath_objects openebs0)"
    by (simp add: hostpath_objects_def key_simps)
  ultimately show ?thesis
    unfolding operator_workload_def by (intro conjI exI [of _ openebs0]) (simp, blast)
qed


section \<open>Cleaning up\<close>

text \<open>An LVM DaemonSet and its role, left over from a resource that enables no engine now.\<close>

definition orphan_world :: cluster where
  "orphan_world = empty_cluster\<lparr>objects := [lvmNodeDaemonSet openebs0, lvmClusterRole]\<rparr>"

lemma orphans_cleaned: "fst (cleanupOrphans ref_env openebs0 orphan_world) = Inr ()"
  by code_simp

lemma orphan_there:
  "cluster_view orphan_world (KDaemonSet, openebsNamespace, lvmNodeName) =
     Some (lvmNodeDaemonSet openebs0)"
  "cluster_view orphan_world (key_of lvmClusterRole) = Some lvmClusterRole"
  "unwanted openebs0 (KDaemonSet, openebsNamespace, lvmNodeName) (lvmNodeDaemonSet openebs0)"
  by code_simp+

lemma cleanupOrphans_exact_witness:
  "cluster_view (snd (cleanupOrphans ref_env openebs0 orphan_world))
     (KDaemonSet, openebsNamespace, lvmNodeName) = None"
  using cleanupOrphans_exact [OF ref_api.cluster_api_axioms run_eq [OF orphans_cleaned],
      of "(KDaemonSet, openebsNamespace, lvmNodeName)"] orphan_there
  by simp

lemma orphan_gone:
  "cluster_view (snd (cleanupOrphans ref_env openebs0 orphan_world))
     (KDaemonSet, openebsNamespace, lvmNodeName) \<noteq>
   cluster_view orphan_world (KDaemonSet, openebsNamespace, lvmNodeName)"
  by code_simp

lemma cleanupOrphans_safe_witness:
  "\<exists>ob. cluster_view orphan_world (KDaemonSet, openebsNamespace, lvmNodeName) = Some ob \<and>
    ((KDaemonSet, openebsNamespace, lvmNodeName) = key_of (mayastorEtcdVeleroSchedule openebs0) \<and>
       \<not> scheduleWanted openebs0 \<or>
     map_of (om_labels (meta ob)) managedLabelKey = Some managedLabelValue \<and>
     in_scope (KDaemonSet, openebsNamespace, lvmNodeName) \<and>
     lvmNodeName \<notin> set (expectedResources openebs0))"
  using cleanupOrphans_safe [OF ref_api.cluster_api_axioms run_eq [OF orphans_cleaned] orphan_gone]
  by simp

lemma roles_leak_witness:
  "cluster_view (snd (cleanupOrphans ref_env openebs0 orphan_world)) (key_of lvmClusterRole) =
     Some lvmClusterRole"
  by (rule engine_roles_leak [OF ref_api.cluster_api_axioms run_eq [OF orphans_cleaned] _
        orphan_there(2) refl]) simp

lemma spares_witness:
  "cluster_view (snd (cleanupOrphans ref_env hostpath_resource hostpath_world))
     (key_of (hostpathDeployment hostpath_resource)) =
   cluster_view hostpath_world (key_of (hostpathDeployment hostpath_resource))"
proof (rule cleanupOrphans_spares_engines [OF ref_api.cluster_api_axioms prod.collapse [symmetric]])
  have "hostpath_on hostpath_resource" by code_simp
  then show "(True, hostpath_objects hostpath_resource) \<in> set (inventories hostpath_resource)"
    by (simp add: inventories_def)
  show "hostpathDeployment hostpath_resource \<in> set (hostpath_objects hostpath_resource)"
    by (simp add: hostpath_objects_def)
qed

lemma all_cleaned: "fst (cleanup ref_env openebs0 orphan_world) = Inr ()"
  by code_simp

lemma default_size: "quantity_ok ref_env (etcd_storage_size openebs0)"
  by code_simp

lemma lvm_in_list: "(KDaemonSet, openebsNamespace, lvmNodeName) \<in> cleanup_keys openebs0"
  by (simp add: cleanup_keys_def)

lemma cleanup_exact_witness:
  "cluster_view (snd (cleanup ref_env openebs0 orphan_world))
     (KDaemonSet, openebsNamespace, lvmNodeName) = None"
  using cleanup_exact [OF ref_api.cluster_api_axioms run_eq [OF all_cleaned],
      of "(KDaemonSet, openebsNamespace, lvmNodeName)"] lvm_in_list
  by simp

lemma covers_workloads_witness:
  "cluster_view (snd (cleanup ref_env openebs0 orphan_world))
     (key_of (lvmNodeDaemonSet openebs0)) = None"
proof (rule cleanup_covers_workloads [OF ref_api.cluster_api_axioms run_eq [OF all_cleaned]])
  show "(lvm_on openebs0, lvm_objects openebs0) \<in> set (inventories openebs0)"
    by (simp add: inventories_def)
  show "lvmNodeDaemonSet openebs0 \<in> set (lvm_objects openebs0)"
    by (simp add: lvm_objects_def)
qed (simp add: key_simps)

section \<open>An etcd that does not answer\<close>

text \<open>A cluster whose etcd endpoint answers 503 whatever happens.\<close>

definition down_env :: "cluster env" where
  "down_env = ref_env\<lparr>http_get := (\<lambda>url c. (Inr 503, log_req (HttpReq url) c))\<rparr>"

lemma down_sel:
  "NewControllerRef down_env = NewControllerRef ref_env"
  "IsControlledBy down_env = IsControlledBy ref_env"
  "quantity_ok down_env = quantity_ok ref_env"
  "DeepEqual_selector down_env = DeepEqual_selector ref_env"
  "DeepEqual_pvcs down_env = DeepEqual_pvcs ref_env"
  "ContainsFinalizer down_env = ContainsFinalizer ref_env"
  "AddFinalizer down_env = AddFinalizer ref_env"
  "RemoveFinalizer down_env = RemoveFinalizer ref_env"
  "decode_yaml down_env = decode_yaml ref_env"
  "cl_get down_env = cl_get ref_env" "cl_create down_env = cl_create ref_env"
  "cl_update down_env = cl_update ref_env" "cl_delete down_env = cl_delete ref_env"
  "cl_list down_env = cl_list ref_env" "cr_get down_env = cr_get ref_env"
  "cr_update down_env = cr_update ref_env" "cr_status_update down_env = cr_status_update ref_env"
  "time_now down_env = time_now ref_env"
  "create_or_update down_env = create_or_update ref_env"
  "retry_on_conflict down_env = retry_on_conflict ref_env"
  by (simp_all only: down_env_def env.simps lib.simps) (simp_all add: ref_env_def)

interpretation down_lib: apimachinery down_env
  using ref_lib.apimachinery_axioms unfolding apimachinery_def down_sel by assumption

lemma down_http:
  "(\<forall>url w. cluster_view (snd (http_get down_env url w)) = cluster_view w) =
   (\<forall>url w. cluster_view (snd (http_get ref_env url w)) = cluster_view w)"
  by (simp add: down_env_def ref_env_def)

interpretation down_api: cluster_api down_env cluster_view "(=)"
  using ref_api.cluster_api_axioms
  unfolding cluster_api_def cluster_api_axioms_def kube_client_def down_sel down_http
  by assumption

definition mayastor_resource :: OpenEBS where
  "mayastor_resource = openebs0\<lparr>oe_Spec := spec0\<lparr>spec_Mayastor :=
     Some (mayastor_config0\<lparr>ms_Enabled := True\<rparr>)\<rparr>\<rparr>"

text \<open>The etcd StatefulSet as a server would show it with one replica ready.\<close>

definition ready_etcd :: kobj where
  "ready_etcd = (case body (etcd_sts mayastor_resource) of
     StatefulSetBody s \<Rightarrow>
       (etcd_sts mayastor_resource)\<lparr>body := StatefulSetBody (s\<lparr>sts_ready_replicas := 1\<rparr>)\<rparr>
   | _ \<Rightarrow> etcd_sts mayastor_resource)"

definition etcd_world :: cluster where
  "etcd_world = empty_cluster\<lparr>objects := [ready_etcd]\<rparr>"

lemma etcd_ready: "cluster_view etcd_world etcd_sts_key = Some ready_etcd"
    "sts_ReadyReplicas ready_etcd \<noteq> 0"
  by code_simp+

lemma unhealthy_witness:
  "\<exists>err. fst (deployMayastor down_env mayastor_resource etcd_world) =
     Inr (engineFailed OpenEBSEngineMayastor err)"
proof -
  have "fst (http_get down_env etcd_health_url w) \<noteq> Inr 200" for w
    by (simp add: down_env_def)
  from unhealthy_etcd_blocks_mayastor [OF down_api.cluster_api_axioms down_lib.apimachinery_axioms
      etcd_ready this prod.collapse [symmetric]]
  show ?thesis by blast
qed

section \<open>A failing engine\<close>

definition faulty_world :: cluster where
  "faulty_world = empty_cluster\<lparr>faulty := [(KClusterRole, '''', ''openebs-localpv-provisioner'')]\<rparr>"

definition failed_status :: EngineStatus where
  "failed_status = engineFailed OpenEBSEngineHostpath
     (Wrapped ''clusterrole openebs-localpv-provisioner'' injected)"

lemma hostpath_fails:
  "fst (deployHostpath ref_env hostpath_resource faulty_world) = Inr failed_status"
  by code_simp

lemma hostpath_listed:
  "(True, OpenEBSEngineHostpath, deployHostpath ref_env hostpath_resource)
     \<in> set (engine_table ref_env hostpath_resource)"
proof -
  have "hostpath_on hostpath_resource" by code_simp
  then show ?thesis by (simp add: engine_table_def engine_names)
qed


section \<open>Phases, workloads, counts\<close>

lemma derivePhase_witness:
  "derivePhase [failed_status] = OpenEBSPhaseDegraded"
  using derivePhase_spec [of "[failed_status]"] by (simp add: failed_status_def)

lemma conditions_witness:
  "cond_true (buildConditions '''' (derivePhase [failed_status])) ConditionDegraded \<and>
   cond_true (buildConditions '''' (derivePhase [failed_status])) ConditionAvailable"
proof -
  have "\<exists>e \<in> set [failed_status]. es_Phase e = OpenEBSPhaseFailed"
    by (simp add: failed_status_def)
  with conditions_of_phase [of "''''" "[failed_status]"] show ?thesis by blast
qed

lemma workloads_witness: "workload_ok (mayastorIOEngineDaemonSet openebs0)"
proof (rule workloads_well_formed)
  show "mayastorIOEngineDaemonSet openebs0 \<in> set (workloads openebs0)"
    by (simp add: workloads_def)
  show "plain_env_context openebs0"
    by (simp add: plain_env_context_def openebs0_def spec0_def)
qed

lemma selectors_witness:
  "\<not> has_labels (pod_selector (workloads openebs0 ! 0)) (pod_labels (workloads openebs0 ! 1))"
  using selectors_disjoint [of 0 openebs0 1] by (simp add: workloads_def)

lemma services_witness: "serves mayastorEtcdService (etcd_sts openebs0)"
  using services_reach_pods [of mayastorEtcdService "etcd_sts openebs0" openebs0]
  by (simp add: service_backends_def)

lemma roles_witness:
  "granted [lvmServiceAccount, lvmClusterRole, lvmClusterRoleBinding] (lvmNodeDaemonSet openebs0) =
     rules_of lvmClusterRole"
  using pods_get_their_role [of lvmServiceAccount lvmClusterRole lvmClusterRoleBinding
      "[lvmControllerDeployment openebs0, lvmNodeDaemonSet openebs0]" openebs0
      "lvmNodeDaemonSet openebs0"]
  by (simp add: rbac_table_def)

definition huge_resource :: OpenEBS where
  "huge_resource = openebs0\<lparr>oe_Spec := spec0\<lparr>spec_Mayastor :=
     Some (mayastor_config0\<lparr>ms_EtcdReplicaCount := 4294967296\<rparr>)\<rparr>\<rparr>"

lemma replicas_witness:
  "\<exists>s. body (etcd_sts huge_resource) = StatefulSetBody s \<and> sint (sts_replicas s) = 0"
proof -
  have "mayastorEtcdStatefulSet ref_env huge_resource = Inr (etcd_sts huge_resource)"
    unfolding mayastorEtcdStatefulSet_Inr by (simp add: etcd_sts_def) code_simp
  from etcd_replicas_bounds [OF this] show ?thesis
    by (simp add: huge_resource_def Let_def)
qed

lemma status_wakes_witness:
  "\<exists>latest status stored now w0 w1 w2. time_now ref_env w0 = (now, w1) \<and>
    cr_get ref_env (om_name (oe_meta hostpath_resource)) w1 = (Inr latest, w2) \<and>
    cr_status_update ref_env (latest\<lparr>oe_Status := status\<rparr>) w2 =
      (Inr stored, snd (reconcileNormal ref_env hostpath_resource hostpath_world)) \<and>
    st_Conditions status \<noteq> [] \<and>
    (\<forall>c \<in> set (st_Conditions status). cond_LastTransitionTime c = now) \<and>
    ((\<exists>c \<in> set (st_Conditions (oe_Status latest)). cond_LastTransitionTime c = now) \<or>
      deliver_changes SetupWithManager latest (latest\<lparr>oe_Status := status\<rparr>))"
  by (rule status_write_wakes [OF changes.watch_source_axioms run_eq [OF hostpath_reconciled]])

section \<open>A calm cluster\<close>

text \<open>All five engines, on a cluster that has none of their objects yet.\<close>

definition full_resource :: OpenEBS where
  "full_resource = openebs0\<lparr>oe_Spec := spec0\<lparr>
       spec_Hostpath := Some \<lparr>hp_Enabled = True, hp_BasePath = [], hp_IsDefaultClass = True,
         hp_StorageClassName = []\<rparr>,
       spec_LVM := Some \<lparr>lvm_Enabled = True, lvm_StorageClassName = [], lvm_IsDefaultClass = False,
         lvm_VolumeGroup = []\<rparr>,
       spec_ZFS := Some \<lparr>zfs_Enabled = True, zfs_StorageClassName = ''fast'', zfs_PoolName = [],
         zfs_IsDefaultClass = False\<rparr>,
       spec_Rawfile := Some \<lparr>rf_Enabled = True, rf_BasePath = [], rf_IsDefaultClass = False\<rparr>,
       spec_Mayastor := Some (mayastor_config0\<lparr>ms_Enabled := True\<rparr>)\<rparr>\<rparr>"

definition full_world :: cluster where
  "full_world = empty_cluster\<lparr>resources_cr := [full_resource]\<rparr>"

lemma full_facts:
  "distinct_classes full_resource" "quantity_ok ref_env (etcd_storage_size full_resource)"
  "\<not> schedule_configured full_resource" "\<not> ContainsFinalizer ref_env full_resource openebsFinalizer"
  "cluster_crs full_world ''openebs'' = Some full_resource"
  "om_deletion_timestamp (oe_meta full_resource) = None"
  by code_simp+

lemma way_clear_empty: "(\<And>k. view w k = None) \<Longrightarrow> way_clear view accepts L inst e w"
  by (simp add: way_clear_def updatable_def service_updatable_def sts_updatable_def
      split: prod.split)

lemma full_ready: "ready cluster_view ref_accepts ref_env full_resource full_world"
  using full_facts(1-3)
  by (simp add: ready_def way_clear_empty full_world_def empty_cluster_def cluster_view_def)

lemma full_calm: "ref_calm (cluster_crs full_world) full_world"
  by (simp add: ref_calm_def full_world_def empty_cluster_def)

lemma converges_witness:
  "\<exists>i w'. ReconcileReq ref_env ''openebs'' full_world = (Inr (requeueAfter, None), w') \<and>
     ref_calm ((cluster_crs full_world)(''openebs'' \<mapsto> i)) w' \<and>
     converged cluster_view (=) ref_env full_resource i w'"
  by (rule calm_reconcile_converges [OF ref_resources.calm_resources_axioms full_calm
        full_facts(5,6) full_ready])

lemma stable_witness:
  "\<exists>i w' rs. reconcile_times ref_env ''openebs'' (Suc 2) full_world =
       (replicate (Suc 2) (Inr (requeueAfter, None)), w') \<and>
     ref_calm ((cluster_crs full_world)(''openebs'' \<mapsto> i)) w' \<and>
     converged cluster_view (=) ref_env full_resource i w' \<and>
     request_log w' = request_log full_world @ rs \<and>
     (\<forall>k \<in> engine_keys full_resource. fst k \<noteq> schedule_kind \<longrightarrow> DeleteReq k \<notin> set rs)"
  by (rule convergence_is_stable [OF ref_steady.steady_resources_axioms
        ref_audit.audited_client_axioms full_calm full_facts(5,6) full_ready])

lemma deleted_facts:
  "quantity_ok ref_env (etcd_storage_size deleted_resource)"
  "cluster_crs deleted_world ''openebs'' = Some deleted_resource"
  "om_deletion_timestamp (oe_meta deleted_resource) \<noteq> None"
  by code_simp+

lemma deletion_witness:
  "\<exists>w' m'. ReconcileReq ref_env ''openebs'' deleted_world = (Inr (0, None), w') \<and> ref_calm m' w' \<and>
     (\<forall>k \<in> cleanup_keys deleted_resource. cluster_view w' k = None) \<and>
     (\<forall>j. m' ''openebs'' = Some j \<longrightarrow> \<not> ContainsFinalizer ref_env j openebsFinalizer) \<and>
     (set (om_finalizers (oe_meta deleted_resource)) \<subseteq> {openebsFinalizer} \<longrightarrow> m' ''openebs'' = None)"
proof (rule calm_deletion_completes [where m = "cluster_crs deleted_world",
      OF ref_resources.calm_resources_axioms _ deleted_facts(2,3,1)])
  show "ref_calm (cluster_crs deleted_world) deleted_world"
    by (simp add: ref_calm_def deleted_world_def empty_cluster_def)
qed

end
