(* ===== verification/Apply_Results.thy ===== *)
theory Apply_Results
  imports Apply_Correct Engines
begin

text \<open>
  What a caller of the \<open>apply\<close> family may rely on, over any cluster that keeps the contract
  \<open>cluster_api\<close>: one statement for each operation, with its successes, its failures and what it
  refuses to touch.
\<close>

section \<open>Storing or leaving alone\<close>

text \<open> C15: \<open>apply\<close> and \<open>applyUnstructured\<close> either store the object, with the
  owner reference to the instance and whatever defaults the server fills in, and change nothing
  else, or return an error and leave the cluster as it was.\<close>

theorem apply_stores_or_leaves:
  assumes api: "cluster_api E view d"
    and p: "p = apply_obj E inst \<or> p = applyUnstructured E inst"
    and run: "p (ob, w) = (r, (ob', w'))"
  shows "(case r of
      Inr _ \<Rightarrow> \<exists>st. view w' = (view w)(key_of ob \<mapsto> st) \<and> conforms d (set_owner E inst ob) st
    | Inl x \<Rightarrow> view w' = view w \<and> (\<exists>e. x = GoError e))"
proof (cases r)
  case (Inl x)
  with p run cluster_api.apply_err [OF api, of inst ob w x "(ob', w')"]
    cluster_api.applyUnstructured_err [OF api, of inst ob w x "(ob', w')"]
  show ?thesis by (auto simp: untouched_def)
next
  case (Inr u)
  with p run cluster_api.apply_ok [OF api, of inst ob w u ob' w']
    cluster_api.applyUnstructured_ok [OF api, of inst ob w u ob' w']
  show ?thesis by (auto simp: stored_def)
qed

text \<open> C16: \<open>applyStorageClass\<close> stores the class when it succeeds, also when
  the server calls the update invalid because the class is immutable; when it fails the cluster is
  unchanged, or the class is gone, and that only after an update that was invalid.\<close>

theorem applyStorageClass_result:
  assumes api: "cluster_api E view d" and run: "applyStorageClass E inst (ob, w) = (r, (ob', w'))"
  shows "(case r of
      Inr _ \<Rightarrow> \<exists>st. view w' = (view w)(key_of ob \<mapsto> st) \<and> conforms d (set_owner E inst ob) st
    | Inl x \<Rightarrow> view w' = view w \<or>
        (view w' = (view w)(key_of ob := None) \<and>
         (\<exists>e s. apply_obj E inst (ob, w) = (Inl (GoError e), s) \<and> IsInvalid e)))"
proof (cases r)
  case (Inr u)
  with run cluster_api.applyStorageClass_ok [OF api, of inst ob w u ob' w'] show ?thesis
    by (simp add: stored_def)
next
  case (Inl x)
  from cluster_api.applyStorageClass_cases [OF api, of inst ob w] show ?thesis
  proof cases
    case (1 s1)
    with run Inl show ?thesis by simp
  next
    case (2 e s1)
    with run Inl cluster_api.apply_err [OF api 2(1)] show ?thesis by (auto simp: untouched_def)
  next
    case (3 e s1)
    with run Inl cluster_api.applyStorageClass_err [OF api, of inst ob w x "(ob', w')"] show ?thesis
      by auto
  qed
qed

section \<open>Objects of somebody else\<close>

text \<open> C14: \<open>applyService\<close> stores the Service when it succeeds; when it fails the
  Service is as it was or gone. A live Service with another cluster IP that the operator neither
  controls nor labelled is never touched: the operation fails and the cluster is unchanged.\<close>

theorem applyService_result:
  assumes api: "cluster_api E view d" and run: "applyService E inst (ob, w) = (r, (ob', w'))"
  shows "(case r of
      Inr _ \<Rightarrow> \<exists>st. view w' = (view w)(key_of ob \<mapsto> st) \<and> conforms d (set_owner E inst ob) st
    | Inl _ \<Rightarrow> view w' = view w \<or> view w' = (view w)(key_of ob := None)) \<and>
    (\<forall>ex. view w (key_of ob) = Some ex \<longrightarrow> svc_ClusterIP ex \<noteq> svc_ClusterIP ob \<longrightarrow>
       \<not> controlled_or_managed E inst ex \<longrightarrow> (\<exists>x. r = Inl x) \<and> view w' = view w)"
proof
  show "case r of
      Inr _ \<Rightarrow> \<exists>st. view w' = (view w)(key_of ob \<mapsto> st) \<and> conforms d (set_owner E inst ob) st
    | Inl _ \<Rightarrow> view w' = view w \<or> view w' = (view w)(key_of ob := None)"
  proof (cases r)
    case (Inl x)
    with run cluster_api.applyService_err [OF api, of inst ob w x "(ob', w')"] show ?thesis
      by (simp add: cleared_def)
  next
    case (Inr u)
    with run cluster_api.applyService_ok [OF api, of inst ob w u ob' w'] show ?thesis
      by (simp add: stored_def)
  qed
  show "\<forall>ex. view w (key_of ob) = Some ex \<longrightarrow> svc_ClusterIP ex \<noteq> svc_ClusterIP ob \<longrightarrow>
      \<not> controlled_or_managed E inst ex \<longrightarrow> (\<exists>x. r = Inl x) \<and> view w' = view w"
    using cluster_api.applyService_foreign [OF api, of w ob _ inst] run by auto
qed

text \<open> C13: \<open>applyStatefulSet\<close> succeeds only when no immutable field has
  drifted, and then stores the object with the claim templates of the live one. When it fails the
  cluster is unchanged, unless a live StatefulSet of the operator has drifted: that one alone may
  be deleted, a StatefulSet of somebody else or one that has not drifted never is.\<close>

theorem applyStatefulSet_result:
  assumes api: "cluster_api E view d" and lib: "apimachinery E"
    and run: "applyStatefulSet E inst (ob, w) = (r, (ob', w'))"
  shows "case r of
      Inr _ \<Rightarrow> (\<forall>ex. view w (key_of ob) = Some ex \<longrightarrow> sts_drift E ex ob = []) \<and>
        (\<exists>st. view w' = (view w)(key_of ob \<mapsto> st) \<and> conforms d
           (case view w (key_of ob) of None \<Rightarrow> set_owner E inst ob
            | Some ex \<Rightarrow> keep_claim_templates ex (set_owner E inst ob)) st)
    | Inl _ \<Rightarrow> view w' = view w \<or>
        (\<exists>ex. view w (key_of ob) = Some ex \<and> isOperatorOwned E inst ex \<and>
           sts_drift E ex ob \<noteq> [] \<and> view w' = (view w)(key_of ob := None))"
proof (cases r)
  case (Inl x)
  with run cluster_api.applyStatefulSet_err [OF api, of inst ob w x "(ob', w')"]
    apimachinery.pvcs_refl [OF lib] show ?thesis by auto
next
  case (Inr u)
  with run have ok: "applyStatefulSet E inst (ob, w) = (Inr u, (ob', w'))" by simp
  note res = cluster_api.applyStatefulSet_ok [OF api ok apimachinery.pvcs_refl [OF lib]]
  from res(1) obtain st where "view w' = (view w)(key_of ob \<mapsto> st)"
    and "conforms d (sts_target (view w (key_of ob)) (set_owner E inst ob)) st"
    by (auto simp: stored_def)
  then show ?thesis using Inr res(2) by (auto simp: sts_target_def)
qed

text \<open>After a reconcile that deleted a drifted StatefulSet, the
  next application meets no live object: it either leaves the key empty again, with an error, or
  stores exactly the desired object, claim templates included.\<close>

theorem drifted_statefulset_recreated:
  assumes api: "cluster_api E view d" and lib: "apimachinery E"
    and first: "applyStatefulSet E inst (ob, w) = (Inl x, (ob1, w1))" and "view w1 \<noteq> view w"
    and second: "applyStatefulSet E inst (ob, w1) = (r, (ob2, w2))"
  shows "case r of
      Inr _ \<Rightarrow> \<exists>st. view w2 = (view w)(key_of ob \<mapsto> st) \<and> conforms d (set_owner E inst ob) st
    | Inl _ \<Rightarrow> view w2 = (view w)(key_of ob := None)"
proof -
  note refl = apimachinery.pvcs_refl [OF lib]
  from cluster_api.applyStatefulSet_err [OF api first refl] assms(4)
  have gone: "view w1 = (view w)(key_of ob := None)" by auto
  show ?thesis
  proof (cases r)
    case (Inl y)
    with second cluster_api.applyStatefulSet_err [OF api _ refl, of inst ob w1 y "(ob2, w2)"] gone
    show ?thesis by auto
  next
    case (Inr u)
    with second cluster_api.applyStatefulSet_ok(1) [OF api _ refl, of inst ob w1 u ob2 w2] gone
    show ?thesis by (auto simp: stored_def sts_target_def)
  qed
qed

section \<open>Ownership\<close>

text \<open> C18: whatever operation of the family stored an object for an instance, the
  stored object is controlled by the instance, so later reconciles take it for their own: the
  Service and the StatefulSet of an instance are never refused as foreign.\<close>

theorem applied_is_owned:
  assumes api: "cluster_api E view d" and lib: "apimachinery E"
    and p: "p \<in> {apply_obj E (Some i), applyUnstructured E (Some i), applyStorageClass E (Some i),
      applyService E (Some i), applyStatefulSet E (Some i)}"
    and run: "p (ob, w) = (Inr u, (ob', w'))"
  shows "\<exists>st. view w' (key_of ob) = Some st \<and> IsControlledBy E (meta st) i \<and>
    isOperatorOwned E (Some i) st \<and> controlled_or_managed E (Some i) st"
proof -
  have "\<exists>tgt. key_of tgt = key_of ob \<and> om_owner_refs (meta tgt) = ownerRefs E i \<and>
      stored view d tgt w w'"
    using p
  proof (elim insertE emptyE)
    assume "p = applyStatefulSet E (Some i)"
    with run cluster_api.applyStatefulSet_ok(1) [OF api _ apimachinery.pvcs_refl [OF lib]]
    have "stored view d (sts_target (view w (key_of ob)) (set_owner E (Some i) ob)) w w'" by auto
    moreover have "om_owner_refs (meta (sts_target live (set_owner E (Some i) ob))) = ownerRefs E i"
      for live
      by (auto simp: sts_target_def keep_claim_templates_def set_owner_def SetOwnerReferences_def
          split: option.split)
    ultimately show ?thesis by (metis set_owner_simps(1) sts_target_key)
  qed (use run api in \<open>auto simp: set_owner_def SetOwnerReferences_def key_of_def
      intro!: exI [of _ "set_owner E (Some i) ob"]
      dest: cluster_api.apply_ok cluster_api.applyUnstructured_ok
        cluster_api.applyStorageClass_ok cluster_api.applyService_ok\<close>)
  then obtain st where "view w' (key_of ob) = Some st" "om_owner_refs (meta st) = ownerRefs E i"
    by (auto simp: stored_def conforms_def)
  moreover from this(2) have "IsControlledBy E (meta st) i"
    unfolding ownerRefs_def by (rule apimachinery.controller_ref [OF lib])
  ultimately show ?thesis by (simp add: isOperatorOwned_def controlled_or_managed_def)
qed

section \<open>What the family may touch\<close>

context audited_client
begin

lemma family_logged:
  assumes "p \<in> {apply_obj E inst, applyUnstructured E inst, applyStorageClass E inst,
      applyService E inst, applyStatefulSet E inst}"
  shows "keeps (logs_only audit (\<lambda>r. req_key r = Some (key_of ob))) (run_obj ob p)"
  using assms logged.keeps_object [OF refl, of ob inst] by (elim insertE emptyE) simp_all

end

text \<open>Every request that an operation of the family sends, on any of its
  paths and however often a conflict makes it try again, is about the object it was given.\<close>

theorem apply_family_own_key:
  assumes api: "audited_client E audit"
    and p: "p \<in> {apply_obj E inst, applyUnstructured E inst, applyStorageClass E inst,
      applyService E inst, applyStatefulSet E inst}"
  shows "\<exists>reqs. audit (snd (run_obj ob p w)) = audit w @ reqs \<and>
    list_all (\<lambda>r. req_key r = Some (key_of ob)) reqs"
  using audited_client.family_logged [OF api p, of ob] by (simp add: keeps_def logs_only_def)

section \<open>The drift test\<close>

lemma drift_fields_empty:
  "stsImmutableDriftFields L a b = [] \<longleftrightarrow> sts_service_name a = sts_service_name b \<and>
     sts_pod_management_policy a = sts_pod_management_policy b \<and>
     DeepEqual_selector L (sts_selector a) (sts_selector b) \<and>
     volumeClaimTemplatesEqual L (sts_volume_claim_templates a) (sts_volume_claim_templates b)"
  by (simp add: stsImmutableDriftFields_def)

text \<open>The drift test lists the drifted fields in a fixed order. It is empty for
  specs with the same service name, pod management policy and selector whose claim templates differ
  only in what the server fills in (type, status, all metadata but the name); and when it is empty
  the specs do agree on these fields, and their claims on names and storage classes.\<close>

theorem drift_test:
  assumes "apimachinery L"
  shows "filter (\<lambda>f. f \<in> set (stsImmutableDriftFields L a b))
      [''serviceName'', ''podManagementPolicy'', ''selector'', ''volumeClaimTemplates''] =
      stsImmutableDriftFields L a b \<and>
    (sts_service_name a = sts_service_name b \<and>
      sts_pod_management_policy a = sts_pod_management_policy b \<and> sts_selector a = sts_selector b \<and>
      map normalize_pvc (sts_volume_claim_templates a) =
        map normalize_pvc (sts_volume_claim_templates b) \<longrightarrow>
      \<not> stsImmutableDrift L a b) \<and>
    (\<not> stsImmutableDrift L a b \<longrightarrow> sts_service_name a = sts_service_name b \<and>
      sts_pod_management_policy a = sts_pod_management_policy b \<and>
      same_map (sts_selector a) (sts_selector b) \<and>
      map (om_name \<circ> pvc_meta) (sts_volume_claim_templates a) =
        map (om_name \<circ> pvc_meta) (sts_volume_claim_templates b) \<and>
      map pvc_storage_class (sts_volume_claim_templates a) =
        map pvc_storage_class (sts_volume_claim_templates b))"
proof (intro conjI impI)
  show "filter (\<lambda>f. f \<in> set (stsImmutableDriftFields L a b))
      [''serviceName'', ''podManagementPolicy'', ''selector'', ''volumeClaimTemplates''] =
      stsImmutableDriftFields L a b"
    by (simp add: stsImmutableDriftFields_def)
next
  assume "sts_service_name a = sts_service_name b \<and>
      sts_pod_management_policy a = sts_pod_management_policy b \<and> sts_selector a = sts_selector b \<and>
      map normalize_pvc (sts_volume_claim_templates a) =
        map normalize_pvc (sts_volume_claim_templates b)"
  then show "\<not> stsImmutableDrift L a b"
    by (simp add: stsImmutableDrift_def drift_fields_empty volumeClaimTemplatesEqual_def
        apimachinery.selector_refl [OF assms] apimachinery.pvcs_refl [OF assms])
next
  assume "\<not> stsImmutableDrift L a b"
  then have e: "sts_service_name a = sts_service_name b"
      "sts_pod_management_policy a = sts_pod_management_policy b"
      "DeepEqual_selector L (sts_selector a) (sts_selector b)"
    and v: "DeepEqual_pvcs L (map normalize_pvc (sts_volume_claim_templates a))
      (map normalize_pvc (sts_volume_claim_templates b))"
    by (simp_all add: stsImmutableDrift_def drift_fields_empty volumeClaimTemplatesEqual_def)
  have n: "om_name \<circ> pvc_meta \<circ> normalize_pvc = om_name \<circ> pvc_meta"
    "pvc_storage_class \<circ> normalize_pvc = pvc_storage_class"
    by (simp_all add: fun_eq_iff normalize_pvc_def object_meta_def)
  from apimachinery.pvcs_sound [OF assms v]
  show "map (om_name \<circ> pvc_meta) (sts_volume_claim_templates a) =
      map (om_name \<circ> pvc_meta) (sts_volume_claim_templates b)"
    and "map pvc_storage_class (sts_volume_claim_templates a) =
      map pvc_storage_class (sts_volume_claim_templates b)"
    by (simp_all only: map_map n)
  from e apimachinery.selector_sound [OF assms e(3)]
  show "sts_service_name a = sts_service_name b"
    and "sts_pod_management_policy a = sts_pod_management_policy b"
    and "same_map (sts_selector a) (sts_selector b)" by simp_all
qed

text \<open>The storage class configured for the volumes of etcd.\<close>

definition etcd_class :: "OpenEBS \<Rightarrow> string" where
  "etcd_class i = (case spec_Mayastor (oe_Spec i) of
     None \<Rightarrow> '''' | Some c \<Rightarrow> ms_EtcdStorageClassName c)"

lemma etcd_spec:
  "sts_spec_of (etcd_statefulset i q) = Some s \<Longrightarrow> sts_service_name s = mayastorEtcdServiceName \<and>
     sts_pod_management_policy s = ''Parallel'' \<and> sts_selector s = labels ''mayastor-etcd'' \<and>
     sts_volume_claim_templates s = [\<lparr>pvc_type_meta = ([], []),
       pvc_meta = object_meta ''data'' [] [(''app'', ''etcd'')],
       pvc_access_modes = [''ReadWriteOnce''], pvc_volume_mode = Some ''Filesystem'',
       pvc_requests = [(''storage'', q)],
       pvc_storage_class = (if etcd_class i \<noteq> [] then Some (etcd_class i) else None),
       pvc_status = []\<rparr>]"
  by (auto simp: etcd_statefulset_def Let_def sts_spec_of_def etcd_class_def)

lemma etcd_spec_ex: "\<exists>s. sts_spec_of (etcd_statefulset i q) = Some s"
  by (simp add: etcd_statefulset_def Let_def sts_spec_of_def)

text \<open> C17: a StatefulSet of etcd built for one configuration drifts from
  the one built for another only through its storage: with the same size and storage class nothing
  has drifted, whatever else changed (replicas, images, backup annotations), so the live
  StatefulSet is updated and not deleted; with another storage class the drift is reported for
  the claim templates, and for them only.\<close>

theorem etcd_drift_only_by_storage:
  assumes "apimachinery L"
    and "mayastorEtcdStatefulSet L old = Inr a" and "mayastorEtcdStatefulSet L new = Inr b"
  shows "(etcd_storage_size old = etcd_storage_size new \<and> etcd_class old = etcd_class new \<longrightarrow>
      sts_drift L a b = []) \<and>
    (etcd_class old \<noteq> etcd_class new \<longrightarrow> sts_drift L a b = [''volumeClaimTemplates''])"
proof -
  from assms(2,3) have ab: "a = etcd_statefulset old (Quantity (etcd_storage_size old))"
    "b = etcd_statefulset new (Quantity (etcd_storage_size new))"
    by (simp_all add: mayastorEtcdStatefulSet_Inr)
  obtain s t where st: "sts_spec_of a = Some s" "sts_spec_of b = Some t"
    unfolding ab using etcd_spec_ex by metis
  note s = etcd_spec [OF st(1) [unfolded ab]] and t = etcd_spec [OF st(2) [unfolded ab]]
  have rest: "sts_drift L a b = (if volumeClaimTemplatesEqual L (sts_volume_claim_templates s)
      (sts_volume_claim_templates t) then [] else [''volumeClaimTemplates''])"
    using s t st apimachinery.selector_refl [OF assms(1)]
    by (simp add: sts_drift_def stsImmutableDriftFields_def)
  have "etcd_class old = etcd_class new" if "volumeClaimTemplatesEqual L
      (sts_volume_claim_templates s) (sts_volume_claim_templates t)"
    using apimachinery.pvcs_sound [OF assms(1) that [unfolded volumeClaimTemplatesEqual_def]] s t
    by (auto simp: normalize_pvc_def split: if_splits)
  moreover have "volumeClaimTemplatesEqual L (sts_volume_claim_templates s)
      (sts_volume_claim_templates t)"
    if "etcd_storage_size old = etcd_storage_size new" "etcd_class old = etcd_class new"
    using that s t apimachinery.pvcs_refl [OF assms(1)] by (simp add: volumeClaimTemplatesEqual_def)
  ultimately show ?thesis using rest by auto
qed

end
