(* ===== verification/Apply_Runs.thy ===== *)
theory Apply_Runs
  imports Apply_Results Ref_Cluster
begin

text \<open>
  Concrete runs of the \<open>apply\<close> family on the in-memory cluster, where the hypotheses of
  \<open>Apply_Results\<close> hold.
\<close>

lemma run_obj_eq: "fst p = r \<Longrightarrow> p = (r, (fst (snd p), snd (snd p)))"
  by (cases p) simp

lemma created: "fst (apply_obj ref_env (Some openebs0) (lvmServiceAccount, empty_cluster)) = Inr ()"
  by code_simp

lemma apply_stores_witness:
  "\<exists>st. cluster_view (snd (snd (apply_obj ref_env (Some openebs0)
       (lvmServiceAccount, empty_cluster)))) =
     (cluster_view empty_cluster)(key_of lvmServiceAccount \<mapsto> st) \<and>
     conforms (=) (set_owner ref_env (Some openebs0) lvmServiceAccount) st"
  using apply_stores_or_leaves [OF ref_api.cluster_api_axioms disjI1 [OF refl]
      run_obj_eq [OF created]] by simp

text \<open>A class with other parameters, which the server does not let change.\<close>

definition class_world :: cluster where
  "class_world = empty_cluster\<lparr>objects := [storage_class lvmSCName [] [] lvmCSIDriverName []]\<rparr>"

definition wanted_class :: kobj where
  "wanted_class = storage_class lvmSCName [] [] lvmCSIDriverName [(''volgroup'', ''vg'')]"

lemma replaced: "fst (applyStorageClass ref_env (Some openebs0) (wanted_class, class_world)) = Inr ()"
  by code_simp

lemma storage_class_witness:
  "\<exists>st. cluster_view (snd (snd (applyStorageClass ref_env (Some openebs0)
       (wanted_class, class_world)))) = (cluster_view class_world)(key_of wanted_class \<mapsto> st) \<and>
     conforms (=) (set_owner ref_env (Some openebs0) wanted_class) st"
  using applyStorageClass_result [OF ref_api.cluster_api_axioms run_obj_eq [OF replaced]] by simp

text \<open>A Service of somebody else under the name of the etcd Service.\<close>

definition foreign_service :: kobj where
  "foreign_service = Obj mayastorEtcdServiceName mayastorNamespace [] (ServiceBody
     \<lparr>svc_cluster_ip = ''10.0.0.7'', svc_selector = [], svc_ports = []\<rparr>)"

definition service_world :: cluster where
  "service_world = empty_cluster\<lparr>objects := [foreign_service]\<rparr>"

lemma service_witness:
  "cluster_view (snd (snd (applyService ref_env (Some openebs0)
     (mayastorEtcdService, service_world)))) = cluster_view service_world"
proof -
  have "cluster_view service_world (key_of mayastorEtcdService) = Some foreign_service"
    and "svc_ClusterIP foreign_service \<noteq> svc_ClusterIP mayastorEtcdService"
    and "\<not> controlled_or_managed ref_env (Some openebs0) foreign_service"
    by code_simp+
  with applyService_result [OF ref_api.cluster_api_axioms run_obj_eq [OF refl],
      of "Some openebs0" mayastorEtcdService service_world]
  show ?thesis by blast
qed

section \<open>The etcd StatefulSet\<close>

definition wanted_etcd :: kobj where
  "wanted_etcd = etcd_statefulset openebs0 (Quantity ''10Gi'')"

text \<open>A live one of the operator without claim templates.\<close>

definition drifted_etcd :: kobj where
  "drifted_etcd = (case body wanted_etcd of
     StatefulSetBody s \<Rightarrow>
       wanted_etcd\<lparr>body := StatefulSetBody (s\<lparr>sts_volume_claim_templates := []\<rparr>)\<rparr>
   | _ \<Rightarrow> wanted_etcd)"

definition drifted_world :: cluster where
  "drifted_world = empty_cluster\<lparr>objects := [drifted_etcd]\<rparr>"

lemma wanted_applied: "fst (applyStatefulSet ref_env (Some openebs0) (wanted_etcd, empty_cluster)) = Inr ()"
  by code_simp

lemma stateful_set_witness:
  "\<exists>st. cluster_view (snd (snd (applyStatefulSet ref_env (Some openebs0)
       (wanted_etcd, empty_cluster)))) = (cluster_view empty_cluster)(key_of wanted_etcd \<mapsto> st) \<and>
     conforms (=) (set_owner ref_env (Some openebs0) wanted_etcd) st"
  using applyStatefulSet_result [OF ref_api.cluster_api_axioms ref_lib.apimachinery_axioms
      run_obj_eq [OF wanted_applied]]
  by (simp add: cluster_view_def empty_cluster_def)

definition after_drift :: "unit result \<times> kobj \<times> cluster" where
  "after_drift = applyStatefulSet ref_env (Some openebs0) (wanted_etcd, drifted_world)"

lemma drift_deleted:
  "fst after_drift = Inl (GoError (Plain (sts_deleted_message drifted_etcd
     [''volumeClaimTemplates''])))"
  by code_simp

lemma drift_gone: "Option.is_none (cluster_view (snd (snd after_drift)) (key_of wanted_etcd))"
  by code_simp

lemma drift_live: "\<not> Option.is_none (cluster_view drifted_world (key_of wanted_etcd))"
  by code_simp

lemma drift_recreated:
  "fst (applyStatefulSet ref_env (Some openebs0) (wanted_etcd, snd (snd after_drift))) = Inr ()"
  by code_simp

lemma recreated_witness:
  "\<exists>st. cluster_view (snd (snd (applyStatefulSet ref_env (Some openebs0)
       (wanted_etcd, snd (snd after_drift))))) =
     (cluster_view drifted_world)(key_of wanted_etcd \<mapsto> st) \<and>
     conforms (=) (set_owner ref_env (Some openebs0) wanted_etcd) st"
proof -
  have first: "applyStatefulSet ref_env (Some openebs0) (wanted_etcd, drifted_world) =
      (Inl (GoError (Plain (sts_deleted_message drifted_etcd [''volumeClaimTemplates'']))),
       (fst (snd after_drift), snd (snd after_drift)))"
    using run_obj_eq [OF drift_deleted] by (simp only: after_drift_def)
  have "cluster_view (snd (snd after_drift)) \<noteq> cluster_view drifted_world"
    using drift_gone drift_live by metis
  from drifted_statefulset_recreated [OF ref_api.cluster_api_axioms ref_lib.apimachinery_axioms
      first this run_obj_eq [OF drift_recreated]]
  show ?thesis by simp
qed

lemma owned_witness:
  "\<exists>st. cluster_view (snd (snd (applyStatefulSet ref_env (Some openebs0)
       (wanted_etcd, empty_cluster)))) (key_of wanted_etcd) = Some st \<and>
     IsControlledBy ref_env (meta st) openebs0"
  using applied_is_owned [OF ref_api.cluster_api_axioms ref_lib.apimachinery_axioms,
      where p = "applyStatefulSet ref_env (Some openebs0)" and i = openebs0,
      OF _ run_obj_eq [OF wanted_applied]] by blast

lemma own_key_witness:
  "\<exists>reqs. request_log (snd (run_obj wanted_class (applyStorageClass ref_env (Some openebs0))
       class_world)) = request_log class_world @ reqs \<and>
     list_all (\<lambda>r. req_key r = Some (key_of wanted_class)) reqs"
  by (rule apply_family_own_key [OF ref_audit.audited_client_axioms, where inst = "Some openebs0"])
    simp

lemma drift_test_witness:
  "\<not> stsImmutableDrift ref_env (the (sts_spec_of wanted_etcd)) (the (sts_spec_of wanted_etcd))"
  using drift_test [OF ref_lib.apimachinery_axioms, of "the (sts_spec_of wanted_etcd)"
      "the (sts_spec_of wanted_etcd)"] by blast

text \<open>The same resource with another storage class for etcd.\<close>

definition fast_resource :: OpenEBS where
  "fast_resource = openebs0\<lparr>oe_Spec := spec0\<lparr>spec_Mayastor :=
     Some (mayastor_config0\<lparr>ms_EtcdStorageClassName := ''fast''\<rparr>)\<rparr>\<rparr>"

lemma sizes_parse:
  "quantity_ok ref_env (etcd_storage_size openebs0)"
  "quantity_ok ref_env (etcd_storage_size fast_resource)"
  "etcd_class openebs0 \<noteq> etcd_class fast_resource"
  by code_simp+

lemma etcd_drift_witness:
  "sts_drift ref_env
     (etcd_statefulset openebs0 (Quantity (etcd_storage_size openebs0)))
     (etcd_statefulset fast_resource (Quantity (etcd_storage_size fast_resource))) =
   [''volumeClaimTemplates'']"
  using etcd_drift_only_by_storage [OF ref_lib.apimachinery_axioms,
      of openebs0 _ fast_resource] sizes_parse
  by (simp add: mayastorEtcdStatefulSet_Inr)

end
