(* ===== verification/Built_Objects.thy ===== *)
theory Built_Objects
  imports Workloads
begin

text \<open>
  The objects the operator builds pass checks of the API server: names and labels in the syntax
  of Kubernetes, a namespace exactly where the kind has one, and ports in range.  Names that the
  user configures (storage and snapshot classes) are the user's.
\<close>

section \<open>The syntax of names\<close>

definition dns_alnum :: "char \<Rightarrow> bool" where
  "dns_alnum ch \<longleftrightarrow> (let n = of_char ch :: nat in 97 \<le> n \<and> n \<le> 122 \<or> 48 \<le> n \<and> n \<le> 57)"

text \<open>RFC 1123 labels: at most 63 lower-case letters, digits and dashes, no dash at an end.\<close>

definition dns_label :: "string \<Rightarrow> bool" where
  "dns_label s \<longleftrightarrow> s \<noteq> '''' \<and> length s \<le> 63 \<and> dns_alnum (hd s) \<and> dns_alnum (last s) \<and>
     list_all (\<lambda>ch. dns_alnum ch \<or> ch = CHR ''-'') s"

text \<open>RFC 1123 subdomains: such labels separated by dots, 253 characters in all.\<close>

fun split_dots :: "string \<Rightarrow> string list" where
  "split_dots [] = [[]]"
| "split_dots (c # cs) = (if c = CHR ''.'' then [] # split_dots cs
     else (case split_dots cs of l # ls \<Rightarrow> (c # l) # ls | [] \<Rightarrow> [[c]]))"

definition dns_subdomain :: "string \<Rightarrow> bool" where
  "dns_subdomain s \<longleftrightarrow> length s \<le> 253 \<and> list_all dns_label (split_dots s)"

text \<open>Label keys: an optional prefix, which is a subdomain, and a name. Names and values are stated
  as labels of RFC 1123, which is more than Kubernetes asks of them.\<close>

definition label_key :: "string \<Rightarrow> bool" where
  "label_key k \<longleftrightarrow> (case dropWhile (\<lambda>c. c \<noteq> CHR ''/'') k of
     [] \<Rightarrow> dns_label k
   | _ # n \<Rightarrow> dns_subdomain (takeWhile (\<lambda>c. c \<noteq> CHR ''/'') k) \<and> dns_label n)"

definition labels_wf :: "str_map \<Rightarrow> bool" where
  "labels_wf m \<longleftrightarrow> distinct (map fst m) \<and> list_all (\<lambda>(k, v). label_key k \<and> dns_label v) m"

section \<open>Admissible objects\<close>

fun namespaced :: "kind \<Rightarrow> bool" where
  "namespaced KDeployment = True"
| "namespaced KDaemonSet = True"
| "namespaced KStatefulSet = True"
| "namespaced KService = True"
| "namespaced KServiceAccount = True"
| "namespaced KConfigMap = True"
| "namespaced _ = False"

definition scope_ok :: "kobj \<Rightarrow> bool" where
  "scope_ok ob \<longleftrightarrow> (if namespaced (kind_of (body ob))
     then om_namespace (meta ob) \<in> {openebsNamespace, mayastorNamespace}
     else om_namespace (meta ob) = '''')"

definition name_ok :: "kobj \<Rightarrow> bool" where
  "name_ok ob \<longleftrightarrow> (if kind_of (body ob) = KService then dns_label (obj_name ob)
     else dns_subdomain (obj_name ob))"

definition labels_ok :: "kobj \<Rightarrow> bool" where
  "labels_ok ob \<longleftrightarrow> labels_wf (om_labels (meta ob))"

definition container_names_ok :: "container \<Rightarrow> bool" where
  "container_names_ok c \<longleftrightarrow> dns_label (c_name c) \<and>
     list_all (\<lambda>p. (cp_name p = '''' \<or> dns_label (cp_name p) \<and> length (cp_name p) \<le> 15) \<and>
       0 < cp_port p \<and> cp_port p < 65536) (c_ports c)"

definition pod_names_ok :: "kobj \<Rightarrow> bool" where
  "pod_names_ok ob \<longleftrightarrow> (case workload_of (body ob) of
     None \<Rightarrow> True
   | Some (sel, tmpl, claims) \<Rightarrow>
       labels_wf (pt_labels tmpl) \<and>
       list_all container_names_ok
         (ps_init_containers (pt_spec tmpl) @ ps_containers (pt_spec tmpl)) \<and>
       list_all (\<lambda>v. dns_label (vol_name v)) (ps_volumes (pt_spec tmpl)))"

definition ports_ok :: "kobj \<Rightarrow> bool" where
  "ports_ok ob \<longleftrightarrow> (case body ob of
     ServiceBody s \<Rightarrow> distinct (map sp_name (svc_ports s)) \<and>
       list_all (\<lambda>p. dns_label (sp_name p) \<and> 0 < sp_port p \<and> sp_port p < 65536) (svc_ports s)
   | _ \<Rightarrow> True)"

definition admissible :: "kobj \<Rightarrow> bool" where
  "admissible ob \<longleftrightarrow> scope_ok ob \<and> name_ok ob \<and> labels_ok ob \<and> pod_names_ok ob \<and> ports_ok ob"

lemmas admissible_defs = admissible_def scope_ok_def name_ok_def labels_ok_def pod_names_ok_def
  ports_ok_def container_names_ok_def obj_name_def

text \<open>The labels of a component.\<close>

lemma standard_labels:
  "label_key ''app.kubernetes.io/name'' \<and> label_key ''app.kubernetes.io/component'' \<and>
   label_key managedLabelKey \<and> dns_label ''openebs'' \<and> dns_label managedLabelValue \<and>
   managedLabelKey \<noteq> ''app.kubernetes.io/name'' \<and> managedLabelKey \<noteq> ''app.kubernetes.io/component''"
  by code_simp

lemma labels_wf_labels [simp]: "labels_wf (labels c) \<longleftrightarrow> dns_label c"
  using standard_labels by (simp add: labels_wf_def labels_def eq_commute)

lemma labels_wf_Nil [simp]: "labels_wf []"
  by (simp add: labels_wf_def)

section \<open>The workloads\<close>

lemmas pod_defs = admissible_defs workload_defs security_context0_def object_meta_def

lemma lvmControllerDeployment_admissible: "admissible (lvmControllerDeployment inst)"
  by (simp add: lvmControllerDeployment_def pod_defs) code_simp

lemma lvmNodeDaemonSet_admissible: "admissible (lvmNodeDaemonSet inst)"
  by (simp add: lvmNodeDaemonSet_def pod_defs) code_simp

lemma hostpathDeployment_admissible: "admissible (hostpathDeployment inst)"
  by (simp add: hostpathDeployment_def pod_defs) code_simp

lemma zfsControllerDeployment_admissible: "admissible (zfsControllerDeployment inst)"
  by (simp add: zfsControllerDeployment_def pod_defs) code_simp

lemma zfsNodeDaemonSet_admissible: "admissible (zfsNodeDaemonSet inst)"
  by (simp add: zfsNodeDaemonSet_def pod_defs) code_simp

lemma rawfileDeployment_admissible: "admissible (rawfileDeployment inst)"
  by (simp add: rawfileDeployment_def pod_defs) code_simp

lemma etcd_statefulset_admissible: "admissible (etcd_statefulset inst q)"
  by (simp add: etcd_statefulset_def pod_defs) code_simp

lemma mayastorAgentCoreDeployment_admissible: "admissible (mayastorAgentCoreDeployment inst)"
  by (simp add: mayastorAgentCoreDeployment_def pod_defs) code_simp

lemma mayastorAPIRestDeployment_admissible: "admissible (mayastorAPIRestDeployment inst)"
  by (simp add: mayastorAPIRestDeployment_def pod_defs) code_simp

lemma mayastorCSIControllerDeployment_admissible: "admissible (mayastorCSIControllerDeployment inst)"
  by (simp add: mayastorCSIControllerDeployment_def pod_defs) code_simp

lemma mayastorIOEngineDaemonSet_admissible: "admissible (mayastorIOEngineDaemonSet inst)"
  by (simp add: mayastorIOEngineDaemonSet_def pod_defs) code_simp

lemma mayastorCSINodeDaemonSet_admissible: "admissible (mayastorCSINodeDaemonSet inst)"
  by (simp add: mayastorCSINodeDaemonSet_def pod_defs) code_simp

lemma mayastorHANodeDaemonSet_admissible: "admissible (mayastorHANodeDaemonSet inst)"
  by (simp add: mayastorHANodeDaemonSet_def pod_defs) code_simp

lemma mayastorOperatorDiskpoolDeployment_admissible: "admissible (mayastorOperatorDiskpoolDeployment inst)"
  by (simp add: mayastorOperatorDiskpoolDeployment_def pod_defs) code_simp

lemmas workloads_admissible =
  lvmControllerDeployment_admissible
  lvmNodeDaemonSet_admissible
  hostpathDeployment_admissible
  zfsControllerDeployment_admissible
  zfsNodeDaemonSet_admissible
  rawfileDeployment_admissible
  etcd_statefulset_admissible
  mayastorAgentCoreDeployment_admissible
  mayastorAPIRestDeployment_admissible
  mayastorCSIControllerDeployment_admissible
  mayastorIOEngineDaemonSet_admissible
  mayastorCSINodeDaemonSet_admissible
  mayastorHANodeDaemonSet_admissible
  mayastorOperatorDiskpoolDeployment_admissible

section \<open>The other objects\<close>

text \<open>These do not depend on the resource.\<close>

lemmas constant_defs =
  lvmServiceAccount_def lvmClusterRole_def lvmClusterRoleBinding_def lvmCSIDriver_def
  hostpathServiceAccount_def hostpathClusterRole_def hostpathClusterRoleBinding_def
  zfsServiceAccount_def zfsClusterRole_def zfsClusterRoleBinding_def zfsBinConfigMap_def
  zfsCSIDriver_def rawfileServiceAccount_def rawfileClusterRole_def rawfileClusterRoleBinding_def
  mayastorServiceAccount_def mayastorClusterRole_def mayastorClusterRoleBinding_def
  mayastorEtcdService_def mayastorAgentCoreService_def mayastorAPIRestService_def
  mayastorMetricsExporterService_def mayastorCSIDriver_def csi_driver_def

lemma constants_admissible:
  "list_all admissible [
     lvmServiceAccount, lvmClusterRole, lvmClusterRoleBinding, lvmCSIDriver,
     hostpathServiceAccount, hostpathClusterRole, hostpathClusterRoleBinding, zfsServiceAccount,
     zfsClusterRole, zfsClusterRoleBinding, zfsBinConfigMap, zfsCSIDriver,
     rawfileServiceAccount, rawfileClusterRole, rawfileClusterRoleBinding,
     mayastorServiceAccount, mayastorClusterRole, mayastorClusterRoleBinding,
     mayastorEtcdService, mayastorAgentCoreService, mayastorAPIRestService,
     mayastorMetricsExporterService, mayastorCSIDriver]"
  by (simp add: constant_defs admissible_defs object_meta_def Let_def) code_simp

section \<open>Everything an engine builds\<close>

definition built_objects :: "OpenEBS \<Rightarrow> kobj list" where
  "built_objects inst = lvm_objects inst @ hostpath_objects inst @ zfs_objects inst @
     rawfile_objects inst @ etcd_sts inst # mayastor_objects inst"

text \<open>Storage and snapshot classes: their names may be the user's.\<close>

definition named_by_user :: "kobj \<Rightarrow> bool" where
  "named_by_user ob \<longleftrightarrow> kind_of (body ob) = KStorageClass \<or> kind_of (body ob) = snapshot_class_kind"

definition admissible_upto_name :: "kobj \<Rightarrow> bool" where
  "admissible_upto_name ob \<longleftrightarrow> scope_ok ob \<and> labels_ok ob \<and> pod_names_ok ob \<and> ports_ok ob \<and>
     (\<not> named_by_user ob \<longrightarrow> name_ok ob)"

lemma admissible_weaken: "admissible ob \<Longrightarrow> admissible_upto_name ob"
  by (simp add: admissible_def admissible_upto_name_def)

lemmas constants_ok = constants_admissible [unfolded list_all_iff, THEN bspec,
  THEN admissible_weaken]

lemma storage_class_ok:
  assumes "labels_wf (labels c)"
  shows "admissible_upto_name (storage_class n (labels c) ann p ps)"
  using assms
  by (simp add: admissible_upto_name_def storage_class_def admissible_defs object_meta_def
      named_by_user_def)

lemma class_labels:
  "list_all (\<lambda>c. labels_wf (labels c))
     [''lvm-sc'', ''hostpath-sc'', ''zfs-sc'', ''rawfile-sc'', ''mayastor-sc'']"
  by code_simp

lemma classes_ok:
  "admissible_upto_name (lvm_class c1)" "admissible_upto_name (hostpath_class c2)"
  "admissible_upto_name (zfs_class c3)" "admissible_upto_name (rawfile_class c4)"
  "admissible_upto_name (mayastor_class inst c5)"
  using class_labels
  by (simp_all add: lvm_class_def lvmStorageClass_def hostpath_class_def hostpathStorageClass_def
      zfs_class_def zfsStorageClass_def rawfile_class_def rawfileStorageClass_def
      mayastor_class_def mayastorStorageClass_def Let_def storage_class_ok)

lemma snapshot_class_ok: "admissible_upto_name (mayastor_snapshot_class c)"
proof -
  have "admissible_upto_name (mayastorVolumeSnapshotClass n)" for n
    by (simp add: admissible_upto_name_def mayastorVolumeSnapshotClass_def admissible_defs
        object_meta_def named_by_user_def snapshot_class_kind_def) code_simp
  then show ?thesis by (simp add: mayastor_snapshot_class_def)
qed



end
