(* ===== verification/Crd_Check.thy ===== *)
theory Crd_Check
  imports Prelude "HOL-Library.Multiset"
begin

text \<open>
  The release tool src/hack/crd-breaking-check/main.go: it compares the schemas of two versions
  of a CustomResourceDefinition and reports the changes that break clients.

  A Go map is a list of pairs with distinct keys.  Ranging over a map visits its keys in an
  order that the language leaves open, and that may differ from one loop to the next: the order
  is the parameter \<open>ord\<close>, which sees the loop it is asked for.
\<close>

section \<open>Data\<close>

text \<open>
  The fields of \<open>apiextensionsv1.JSONSchemaProps\<close> that matter here. The tool reads the first
  four; \<open>Items\<close> and \<open>AdditionalProperties\<close> are the schemas of array elements and of map values.
  An enum value is its raw JSON text.
\<close>

datatype schema = Schema
  (Type: string)
  (Required: "string list")
  (Enum: "string list")
  (Properties: "(string \<times> schema) list")
  (Items: "schema option")
  (AdditionalProperties: "schema option")

record crd_version =
  cv_Name :: string
  cv_Schema :: "schema option"

type_synonym crd = "crd_version list"

datatype range_loop =
    NewRequired string string
  | OldRequired string string
  | AllProps string string

type_synonym map_order = "range_loop \<Rightarrow> string list \<Rightarrow> string list"

text \<open>Ranging over a map visits each key once.\<close>

definition visits_keys :: "map_order \<Rightarrow> bool" where
  "visits_keys ord \<longleftrightarrow> (\<forall>l ks. distinct ks \<longrightarrow> mset (ord l ks) = mset ks)"

section \<open>The sets of the tool\<close>

text \<open>A \<open>map[string]bool\<close> whose values are all \<open>true\<close> is the list of its keys.\<close>

definition toSet :: "string list \<Rightarrow> string list" where
  "toSet items = remdups items"

definition toSetEnum :: "string list \<Rightarrow> string list" where
  "toSetEnum items = remdups items"

fun containsEnum :: "string list \<Rightarrow> string \<Rightarrow> bool" where
  "containsEnum [] target = False"
| "containsEnum (item # items) target = (if item = target then True else containsEnum items target)"

definition mergeKeys :: "(string \<times> 'a) list \<Rightarrow> (string \<times> 'a) list \<Rightarrow> string list" where
  "mergeKeys a b = remdups (map fst a @ map fst b)"

section \<open>compareSchemas\<close>

text \<open>The texts of the messages.\<close>

definition at_path :: "string \<Rightarrow> string \<Rightarrow> string" where
  "at_path version path = ''['' @ version @ ''] '' @ path"

definition type_message :: "string \<Rightarrow> string \<Rightarrow> string \<Rightarrow> string \<Rightarrow> string" where
  "type_message version path old new = at_path version path @ '': type changed from '' @
     go_quote old @ '' to '' @ go_quote new"

definition required_message :: "string \<Rightarrow> string \<Rightarrow> string \<Rightarrow> string" where
  "required_message version path field =
     at_path version path @ ''.'' @ field @ '': field became required (was optional)''"

definition optional_message :: "string \<Rightarrow> string \<Rightarrow> string \<Rightarrow> string" where
  "optional_message version path field =
     at_path version path @ ''.'' @ field @ '': field became optional (was required)''"

definition added_message :: "string \<Rightarrow> string \<Rightarrow> string \<Rightarrow> string" where
  "added_message version path v = at_path version path @ '': added enum value '' @ go_quote v"

definition dropped_message :: "string \<Rightarrow> string \<Rightarrow> string \<Rightarrow> string" where
  "dropped_message version path v = at_path version path @ '': removed enum value '' @ go_quote v"

definition removed_message :: "string \<Rightarrow> string \<Rightarrow> string" where
  "removed_message version path = at_path version path @ '': property removed''"

text \<open>The three blocks before the loop over the properties.\<close>

definition type_changes :: "string \<Rightarrow> string \<Rightarrow> schema \<Rightarrow> schema \<Rightarrow> string list" where
  "type_changes version prefix old new = (if Type old \<noteq> Type new
     then [type_message version prefix (Type old) (Type new)] else [])"

definition required_changes ::
  "map_order \<Rightarrow> string \<Rightarrow> string \<Rightarrow> schema \<Rightarrow> schema \<Rightarrow> string list" where
  "required_changes ord version prefix old new = (let
     oldRequired = toSet (Required old);
     newRequired = toSet (Required new)
   in map (required_message version prefix)
        (filter (\<lambda>field. field \<notin> set oldRequired) (ord (NewRequired version prefix) newRequired)) @
      map (optional_message version prefix)
        (filter (\<lambda>field. field \<notin> set newRequired) (ord (OldRequired version prefix) oldRequired)))"

definition enum_changes :: "string \<Rightarrow> string \<Rightarrow> schema \<Rightarrow> schema \<Rightarrow> string list" where
  "enum_changes version prefix old new = (if Enum new = [] then [] else
     map (added_message version prefix)
       (filter (\<lambda>v. v \<notin> set (toSetEnum (Enum old))) (Enum new)) @
     map (dropped_message version prefix)
       (filter (\<lambda>v. \<not> containsEnum (Enum new) v) (Enum old)))"

definition prop_path :: "string \<Rightarrow> string \<Rightarrow> string" where
  "prop_path prefix name = (if prefix \<noteq> '''' then prefix @ ''.'' @ name else name)"

lemma property_smaller:
  "map_of ps k = Some s \<Longrightarrow> size s < Suc (size_list (size_prod (\<lambda>_. 0) size) ps + m)"
proof (induction ps)
  case (Cons a ps)
  then show ?case by (cases a) (auto split: if_splits)
qed simp

function compareSchemas :: "map_order \<Rightarrow> string \<Rightarrow> string \<Rightarrow> schema \<Rightarrow> schema \<Rightarrow> string list" where
  "compareSchemas ord version prefix old new =
     type_changes version prefix old new @
     required_changes ord version prefix old new @
     enum_changes version prefix old new @
     concat (map (\<lambda>propName. let propPath = prop_path prefix propName in
         case map_of (Properties new) propName of
           None \<Rightarrow> [removed_message version propPath]
         | Some newProp \<Rightarrow> (case map_of (Properties old) propName of
               None \<Rightarrow> []
             | Some oldProp \<Rightarrow> compareSchemas ord version propPath oldProp newProp))
       (ord (AllProps version prefix) (mergeKeys (Properties old) (Properties new))))"
  by pat_completeness auto
termination
proof (relation "measure (\<lambda>(ord, version, prefix, old, new). size old)", goal_cases)
  case (2 ord version prefix old new propName propPath newProp oldProp)
  then show ?case using property_smaller [of "Properties old" propName oldProp]
    by (cases old) (simp add: add.assoc)
qed simp

declare compareSchemas.simps [simp del]

section \<open>main\<close>

text \<open>\<open>findVersion\<close>: the first version of that name.\<close>

fun findVersion :: "crd \<Rightarrow> string \<Rightarrow> crd_version option" where
  "findVersion [] name = None"
| "findVersion (v # vs) name = (if cv_Name v = name then Some v else findVersion vs name)"

text \<open>The loop over the versions of the new definition.\<close>

fun breaking_changes :: "map_order \<Rightarrow> crd \<Rightarrow> crd \<Rightarrow> string list" where
  "breaking_changes ord oldCRD [] = []"
| "breaking_changes ord oldCRD (newVer # rest) =
     (case findVersion oldCRD (cv_Name newVer) of
        None \<Rightarrow> []
      | Some oldVer \<Rightarrow> (case cv_Schema newVer of
            None \<Rightarrow> []
          | Some newSchema \<Rightarrow> (case cv_Schema oldVer of
                None \<Rightarrow> []
              | Some oldSchema \<Rightarrow>
                  compareSchemas ord (cv_Name oldVer) '''' oldSchema newSchema))) @
     breaking_changes ord oldCRD rest"

text \<open>
  The exit code and the lines printed. Reading and decoding a file is the parameter \<open>loadCRD\<close>,
  which gives an error text or a definition.
\<close>

definition crd_main ::
  "map_order \<Rightarrow> (string \<Rightarrow> string + crd) \<Rightarrow> string list \<Rightarrow> nat \<times> string list" where
  "crd_main ord loadCRD args = (case args of
     [_, oldPath, newPath] \<Rightarrow> (case loadCRD oldPath of
         Inl err \<Rightarrow> (1, [''failed to load old CRD: '' @ err])
       | Inr oldCRD \<Rightarrow> (case loadCRD newPath of
             Inl err \<Rightarrow> (1, [''failed to load new CRD: '' @ err])
           | Inr newCRD \<Rightarrow> (let breaking = breaking_changes ord oldCRD newCRD in
               if breaking \<noteq> []
               then (1, ''BREAKING CHANGES DETECTED:'' # map (\<lambda>b. ''  - '' @ b) breaking)
               else (0, [''No breaking changes detected.'']))))
   | _ \<Rightarrow> (2, [''usage: crd-breaking-check <old-crd.yaml> <new-crd.yaml>'']))"

end
