(* ===== verification/Crd_Check_Correct.thy ===== *)
theory Crd_Check_Correct
  imports Crd_Check
begin

text \<open>
  What the CRD check reports: exactly the local changes of the nodes that both schemas have, in
  terms of paths of property names rather than of the recursion; so it accepts exactly the
  compatible schemas, whatever order Go ranges over its maps in.
\<close>

section \<open>Nodes and paths\<close>

primrec schema_at :: "schema \<Rightarrow> string list \<Rightarrow> schema option" where
  "schema_at s [] = Some s"
| "schema_at s (k # ks) = (case map_of (Properties s) k of
     None \<Rightarrow> None | Some t \<Rightarrow> schema_at t ks)"

lemma schema_at_snoc:
  "schema_at s (path @ [k]) = (case schema_at s path of
     None \<Rightarrow> None | Some t \<Rightarrow> map_of (Properties t) k)"
  by (induction path arbitrary: s) (auto split: option.splits)

definition same_node :: "schema \<Rightarrow> schema \<Rightarrow> bool" where
  "same_node old new \<longleftrightarrow> Type old = Type new \<and> set (Required old) = set (Required new) \<and>
     (Enum new \<noteq> [] \<longrightarrow> set (Enum old) = set (Enum new))"

text \<open>
  The new schema accepts the documents of the old one's clients: every node of the old one is
  there, with its type, its required fields and, unless it is now unrestricted, its enum.
\<close>

definition compatible :: "schema \<Rightarrow> schema \<Rightarrow> bool" where
  "compatible old new \<longleftrightarrow> (\<forall>path s. schema_at old path = Some s \<longrightarrow>
     (\<exists>t. schema_at new path = Some t \<and> same_node s t))"

lemma compatible_node: "compatible old new \<Longrightarrow> same_node old new"
  unfolding compatible_def by (metis option.inject schema_at.simps(1))

lemma compatible_property:
  assumes "compatible old new" and "map_of (Properties old) k = Some s"
  shows "\<exists>t. map_of (Properties new) k = Some t \<and> compatible s t"
proof -
  have at: "\<exists>t. schema_at new (k # path) = Some t \<and> same_node u t"
    if "schema_at s path = Some u" for path u
    using assms that unfolding compatible_def by (metis option.simps(5) schema_at.simps(2))
  then obtain t where t: "map_of (Properties new) k = Some t"
    using at [of "[]" s] by (cases "map_of (Properties new) k") simp_all
  have "compatible s t" unfolding compatible_def using at t by auto
  with t show ?thesis by blast
qed

lemma compatibleI:
  assumes "same_node old new"
    and "\<And>k s. map_of (Properties old) k = Some s \<Longrightarrow>
      \<exists>t. map_of (Properties new) k = Some t \<and> compatible s t"
  shows "compatible old new"
  unfolding compatible_def
proof (intro allI impI)
  fix path s
  assume s: "schema_at old path = Some s"
  show "\<exists>t. schema_at new path = Some t \<and> same_node s t"
  proof (cases path)
    case Nil
    with s assms(1) show ?thesis by simp
  next
    case (Cons k ks)
    with s obtain u where u: "map_of (Properties old) k = Some u" "schema_at u ks = Some s"
      by (auto split: option.splits)
    with assms(2) [OF u(1)] Cons show ?thesis by (auto simp: compatible_def)
  qed
qed

lemma compatible_trans:
  assumes "compatible a b" and "compatible b c"
  shows "compatible a c"
  unfolding compatible_def
proof (intro allI impI)
  fix path s
  assume "schema_at a path = Some s"
  with assms(1) obtain t where t: "schema_at b path = Some t" "same_node s t"
    by (auto simp: compatible_def)
  with assms(2) obtain u where u: "schema_at c path = Some u" "same_node t u"
    by (auto simp: compatible_def)
  from t(2) u(2) have "same_node s u" by (auto simp: same_node_def)
  with u(1) show "\<exists>u. schema_at c path = Some u \<and> same_node s u" by blast
qed

section \<open>The changes at one node\<close>

inductive reported :: "string \<Rightarrow> string \<Rightarrow> schema \<Rightarrow> schema \<Rightarrow> string \<Rightarrow> bool"
  for v p old new where
  type_changed: "Type old \<noteq> Type new \<Longrightarrow>
     reported v p old new (type_message v p (Type old) (Type new))"
| became_required: "f \<in> set (Required new) \<Longrightarrow> f \<notin> set (Required old) \<Longrightarrow>
     reported v p old new (required_message v p f)"
| became_optional: "f \<in> set (Required old) \<Longrightarrow> f \<notin> set (Required new) \<Longrightarrow>
     reported v p old new (optional_message v p f)"
| enum_added: "e \<in> set (Enum new) \<Longrightarrow> e \<notin> set (Enum old) \<Longrightarrow>
     reported v p old new (added_message v p e)"
| enum_removed: "Enum new \<noteq> [] \<Longrightarrow> e \<in> set (Enum old) \<Longrightarrow> e \<notin> set (Enum new) \<Longrightarrow>
     reported v p old new (dropped_message v p e)"
| property_removed: "map_of (Properties old) k = Some s \<Longrightarrow> map_of (Properties new) k = None \<Longrightarrow>
     reported v p old new (removed_message v (prop_path p k))"

inductive_simps reported_iff: "reported v p old new msg"

lemma ex_eq_image: "{msg. \<exists>x. msg = f x \<and> P x} = f ` {x. P x}"
  by blast

lemma visits_set: "visits_keys ord \<Longrightarrow> distinct ks \<Longrightarrow> set (ord l ks) = set ks"
  unfolding visits_keys_def by (metis set_mset_mset)

lemma containsEnum_iff [simp]: "containsEnum vs v \<longleftrightarrow> v \<in> set vs"
  by (induction vs) auto

lemma set_checks [simp]:
  "set (toSet xs) = set xs" "distinct (toSet xs)" "set (toSetEnum xs) = set xs"
  "distinct (mergeKeys a b)" "set (mergeKeys a b) = fst ` set a \<union> fst ` set b"
  by (simp_all add: toSet_def toSetEnum_def mergeKeys_def)

text \<open>The reports of the node itself, and those of the property \<open>k\<close>.\<close>

definition node_report :: "map_order \<Rightarrow> string \<Rightarrow> string \<Rightarrow> schema \<Rightarrow> schema \<Rightarrow> string list" where
  "node_report ord v p old new = type_changes v p old new @ required_changes ord v p old new @
     enum_changes v p old new"

definition property_report ::
  "map_order \<Rightarrow> string \<Rightarrow> string \<Rightarrow> schema \<Rightarrow> schema \<Rightarrow> string \<Rightarrow> string list" where
  "property_report ord v p old new k = (case map_of (Properties new) k of
     None \<Rightarrow> [removed_message v (prop_path p k)]
   | Some t \<Rightarrow> (case map_of (Properties old) k of
         None \<Rightarrow> []
       | Some s \<Rightarrow> compareSchemas ord v (prop_path p k) s t))"

lemma compareSchemas_parts:
  "compareSchemas ord v p old new = node_report ord v p old new @
     concat (map (property_report ord v p old new)
       (ord (AllProps v p) (mergeKeys (Properties old) (Properties new))))"
  by (subst compareSchemas.simps)
    (simp add: node_report_def property_report_def [abs_def] Let_def)

lemma set_compareSchemas:
  assumes "visits_keys ord"
  shows "set (compareSchemas ord v p old new) = set (node_report ord v p old new) \<union>
    (\<Union>k \<in> fst ` set (Properties old) \<union> fst ` set (Properties new).
       set (property_report ord v p old new k))"
  by (simp add: compareSchemas_parts visits_set [OF assms])

lemma set_node_report:
  assumes "visits_keys ord"
  shows "msg \<in> set (node_report ord v p old new) \<or>
      (\<exists>k s. msg = removed_message v (prop_path p k) \<and>
        map_of (Properties old) k = Some s \<and> map_of (Properties new) k = None)
    \<longleftrightarrow> reported v p old new msg"
  unfolding reported_iff
  by (auto simp: node_report_def type_changes_def required_changes_def enum_changes_def Let_def
      visits_set [OF assms])

section \<open>The whole report\<close>

text \<open>The prefix at the end of a path.\<close>

abbreviation path_text :: "string \<Rightarrow> string list \<Rightarrow> string" where
  "path_text p path \<equiv> foldl prop_path p path"

definition changes_below :: "string \<Rightarrow> string \<Rightarrow> schema \<Rightarrow> schema \<Rightarrow> string set" where
  "changes_below v p old new = {msg. \<exists>path s t. schema_at old path = Some s \<and>
     schema_at new path = Some t \<and> reported v (path_text p path) s t msg}"

lemma changes_below_unfold:
  "changes_below v p old new = {msg. reported v p old new msg} \<union>
     (\<Union>{changes_below v (prop_path p k) s t | k s t.
        map_of (Properties old) k = Some s \<and> map_of (Properties new) k = Some t})"
  (is "?l = ?a \<union> ?b")
proof
  show "?l \<subseteq> ?a \<union> ?b"
  proof
    fix msg assume "msg \<in> ?l"
    then obtain path s t where p: "schema_at old path = Some s" "schema_at new path = Some t"
      "reported v (path_text p path) s t msg" by (auto simp: changes_below_def)
    show "msg \<in> ?a \<union> ?b"
    proof (cases path)
      case Nil
      with p show ?thesis by simp
    next
      case (Cons k ks)
      with p(1,2) obtain s' t' where "map_of (Properties old) k = Some s'"
        "schema_at s' ks = Some s" "map_of (Properties new) k = Some t'" "schema_at t' ks = Some t"
        by (auto split: option.splits)
      moreover from this p(3) Cons have "msg \<in> changes_below v (prop_path p k) s' t'"
        by (auto simp: changes_below_def)
      ultimately show ?thesis by blast
    qed
  qed
  have "?a \<subseteq> ?l"
    unfolding changes_below_def by (force intro: exI [of _ "[]"])
  moreover have "changes_below v (prop_path p k) s t \<subseteq> ?l"
    if "map_of (Properties old) k = Some s" "map_of (Properties new) k = Some t" for k s t
  proof
    fix msg assume "msg \<in> changes_below v (prop_path p k) s t"
    then obtain path s' t' where "schema_at s path = Some s'" "schema_at t path = Some t'"
      "reported v (path_text (prop_path p k) path) s' t' msg" by (auto simp: changes_below_def)
    with that show "msg \<in> ?l"
      unfolding changes_below_def by (auto intro!: exI [of _ "k # path"])
  qed
  ultimately show "?a \<union> ?b \<subseteq> ?l" by blast
qed

lemma property_reports:
  assumes "\<And>k s t. map_of (Properties old) k = Some s \<Longrightarrow> map_of (Properties new) k = Some t \<Longrightarrow>
      set (compareSchemas ord v (prop_path p k) s t) = changes_below v (prop_path p k) s t"
  shows "(\<Union>k \<in> fst ` set (Properties old) \<union> fst ` set (Properties new).
      set (property_report ord v p old new k)) =
    {removed_message v (prop_path p k) | k. map_of (Properties old) k \<noteq> None \<and>
       map_of (Properties new) k = None} \<union>
    (\<Union>{changes_below v (prop_path p k) s t | k s t.
        map_of (Properties old) k = Some s \<and> map_of (Properties new) k = Some t})"
  (is "(\<Union>k \<in> ?ks. ?f k) = ?r \<union> ?b")
proof -
  have keys: "?ks = {k. map_of (Properties old) k \<noteq> None \<or> map_of (Properties new) k \<noteq> None}"
    by (auto simp: map_of_eq_None_iff)
  have f: "?f k = (case map_of (Properties new) k of
      None \<Rightarrow> {removed_message v (prop_path p k)}
    | Some t \<Rightarrow> (case map_of (Properties old) k of
          None \<Rightarrow> {} | Some s \<Rightarrow> changes_below v (prop_path p k) s t))" for k
    by (simp add: property_report_def assms split: option.split)
  show ?thesis unfolding keys f by (fastforce split: option.splits)
qed

lemma set_report:
  assumes "visits_keys ord"
  shows "set (compareSchemas ord v p old new) = changes_below v p old new"
  using assms
proof (induction ord v p old new rule: compareSchemas.induct)
  case (1 ord v p old new)
  have "k \<in> set (ord (AllProps v p) (mergeKeys (Properties old) (Properties new)))"
    if "map_of (Properties old) k = Some s" for k s
    using that by (auto simp: visits_set [OF "1.prems"] dest: map_of_SomeD intro: rev_image_eqI)
  with "1.IH" "1.prems" have
    "set (compareSchemas ord v (prop_path p k) s t) = changes_below v (prop_path p k) s t"
    if "map_of (Properties old) k = Some s" "map_of (Properties new) k = Some t" for k s t
    using that by blast
  then have props: "(\<Union>k \<in> fst ` set (Properties old) \<union> fst ` set (Properties new).
        set (property_report ord v p old new k)) =
      {removed_message v (prop_path p k) | k. map_of (Properties old) k \<noteq> None \<and>
         map_of (Properties new) k = None} \<union>
      (\<Union>{changes_below v (prop_path p k) s t | k s t.
          map_of (Properties old) k = Some s \<and> map_of (Properties new) k = Some t})"
    by (rule property_reports)
  have "set (node_report ord v p old new) \<union>
      {removed_message v (prop_path p k) | k. map_of (Properties old) k \<noteq> None \<and>
         map_of (Properties new) k = None} = {msg. reported v p old new msg}"
    unfolding set_node_report [OF "1.prems", symmetric] by auto
  then show ?case
    unfolding set_compareSchemas [OF "1.prems"] props changes_below_unfold [of v p old new]
    by (simp only: Un_assoc [symmetric])
qed

lemma not_reported_iff:
  "(\<forall>msg. \<not> reported v p s t msg) \<longleftrightarrow> same_node s t \<and>
     (\<forall>k. map_of (Properties s) k \<noteq> None \<longrightarrow> map_of (Properties t) k \<noteq> None)"
proof
  assume none: "\<forall>msg. \<not> reported v p s t msg"
  have "Type s = Type t" using none type_changed by blast
  moreover have "set (Required s) = set (Required t)"
    using none became_required became_optional by blast
  moreover have "set (Enum s) = set (Enum t)" if "Enum t \<noteq> []"
    using none enum_added enum_removed [OF that] by blast
  moreover have "map_of (Properties t) k \<noteq> None" if "map_of (Properties s) k \<noteq> None" for k
    using none property_removed that by blast
  ultimately show "same_node s t \<and>
      (\<forall>k. map_of (Properties s) k \<noteq> None \<longrightarrow> map_of (Properties t) k \<noteq> None)"
    by (simp add: same_node_def)
qed (auto simp: reported_iff same_node_def)

lemma nothing_below_iff: "changes_below v p old new = {} \<longleftrightarrow> compatible old new"
proof
  assume none: "changes_below v p old new = {}"
  then have quiet: "\<forall>msg. \<not> reported v (path_text p path) s t msg"
    if "schema_at old path = Some s" "schema_at new path = Some t" for path s t
    using that by (auto simp: changes_below_def)
  have "\<exists>t. schema_at new path = Some t \<and> same_node s t" if "schema_at old path = Some s" for path s
    using that
  proof (induction path arbitrary: s rule: rev_induct)
    case Nil
    with quiet [of "[]"] not_reported_iff show ?case by auto
  next
    case (snoc k path)
    then obtain s' where s': "schema_at old path = Some s'" "map_of (Properties s') k = Some s"
      by (auto simp: schema_at_snoc split: option.splits)
    with snoc.IH obtain t' where t': "schema_at new path = Some t'" by blast
    with quiet [OF s'(1) t'] s'(2) not_reported_iff [of v "path_text p path" s' t'] obtain t where
      t: "map_of (Properties t') k = Some t" by auto
    with t' have at: "schema_at new (path @ [k]) = Some t" by (simp add: schema_at_snoc)
    with quiet [OF snoc.prems this] not_reported_iff show ?case by blast
  qed
  then show "compatible old new" by (simp add: compatible_def)
next
  assume c: "compatible old new"
  have "\<not> reported v (path_text p path) s t msg"
    if st: "schema_at old path = Some s" "schema_at new path = Some t" for path s t msg
  proof -
    have "map_of (Properties t) k \<noteq> None" if "map_of (Properties s) k = Some u" for k u
    proof -
      from st(1) that have "schema_at old (path @ [k]) = Some u" by (simp add: schema_at_snoc)
      with c obtain w where "schema_at new (path @ [k]) = Some w" by (auto simp: compatible_def)
      with st(2) show ?thesis by (auto simp: schema_at_snoc split: option.splits)
    qed
    moreover from c st have "same_node s t" unfolding compatible_def by (metis option.inject)
    ultimately show ?thesis using not_reported_iff by blast
  qed
  then show "changes_below v p old new = {}" by (auto simp: changes_below_def)
qed

text \<open> C28: whatever order the maps are visited in, the report of two schemas is
  exactly the set of the changes at the paths of property names that both have: a changed type, a
  field that became required or optional, an added or removed enum value where the new schema has
  an enum, a removed property, each with its version and its dotted path.\<close>

theorem compareSchemas_report:
  assumes "visits_keys ord"
  shows "set (compareSchemas ord v p old new) = {msg. \<exists>path s t. schema_at old path = Some s \<and>
     schema_at new path = Some t \<and> reported v (foldl prop_path p path) s t msg}"
  unfolding set_report [OF assms] changes_below_def ..

lemma accepts_iff:
  "visits_keys ord \<Longrightarrow> compareSchemas ord v p old new = [] \<longleftrightarrow> compatible old new"
  using nothing_below_iff set_report set_empty by metis

text \<open> C29: two schemas give an empty report exactly when every node of the old
  one is in the new one at the same path of properties, with the same type, the same required
  fields and, where the new node has an enum, the same enum values.\<close>

theorem accepts_iff_compatible:
  assumes "visits_keys ord"
  shows "compareSchemas ord v p old new = [] \<longleftrightarrow>
    (\<forall>path s. schema_at old path = Some s \<longrightarrow> (\<exists>t. schema_at new path = Some t \<and>
       Type s = Type t \<and> set (Required s) = set (Required t) \<and>
       (Enum t \<noteq> [] \<longrightarrow> set (Enum s) = set (Enum t))))"
  unfolding accepts_iff [OF assms] compatible_def same_node_def ..

text \<open> C31: releases that are accepted one after the other are accepted end to
  end: a schema with an empty report against its predecessor's successor has one against the
  predecessor.\<close>

theorem accepted_releases_chain:
  assumes "visits_keys ord"
    and "compareSchemas ord v p a b = []" and "compareSchemas ord v p b c = []"
  shows "compareSchemas ord v p a c = []"
  using assms compatible_trans by (simp add: accepts_iff)

section \<open>Map order\<close>

lemma mset_concat_map: "mset (concat (map f xs)) = (\<Sum>x \<in># mset xs. mset (f x))"
  by (induction xs) auto

lemma visits_mset: "visits_keys ord \<Longrightarrow> distinct ks \<Longrightarrow> mset (ord l ks) = mset ks"
  by (simp add: visits_keys_def)

lemma mset_node_report:
  assumes "visits_keys ord1" and "visits_keys ord2"
  shows "mset (node_report ord1 v p old new) = mset (node_report ord2 v p old new)"
  by (simp add: node_report_def required_changes_def Let_def visits_mset [OF assms(1)]
      visits_mset [OF assms(2)])

lemma mset_compareSchemas:
  assumes "visits_keys ord"
  shows "mset (compareSchemas ord v p old new) = mset (node_report ord v p old new) +
    (\<Sum>k \<in># mset (mergeKeys (Properties old) (Properties new)).
       mset (property_report ord v p old new k))"
  by (simp only: compareSchemas_parts mset_append mset_concat_map
      visits_mset [OF assms set_checks(4)])

text \<open> C30: two runs that visit the maps in different orders print the same
  lines the same number of times, in a different order at most.\<close>

theorem report_order_independent:
  assumes "visits_keys ord1" and "visits_keys ord2"
  shows "mset (compareSchemas ord1 v p old new) = mset (compareSchemas ord2 v p old new)"
  using assms(1)
proof (induction ord1 v p old new rule: compareSchemas.induct)
  case (1 ord1 v p old new)
  let ?ks = "mergeKeys (Properties old) (Properties new)"
  have "mset (property_report ord1 v p old new k) = mset (property_report ord2 v p old new k)"
    if "k \<in> set ?ks" for k
  proof -
    from that have "k \<in> set (ord1 (AllProps v p) ?ks)"
      by (simp only: visits_set [OF "1.prems" set_checks(4)])
    from "1.IH" [OF this refl _ _ "1.prems"] show ?thesis
      by (simp add: property_report_def split: option.split)
  qed
  then have "(\<Sum>k \<in># mset ?ks. mset (property_report ord1 v p old new k)) =
      (\<Sum>k \<in># mset ?ks. mset (property_report ord2 v p old new k))"
    by (intro arg_cong [where f = sum_mset] image_mset_cong) (simp only: set_mset_mset)
  then show ?case
    by (simp only: mset_compareSchemas [OF "1.prems"] mset_compareSchemas [OF assms(2)]
        mset_node_report [OF "1.prems" assms(2)])
qed

section \<open>What is not compared\<close>

fun properties_only :: "schema \<Rightarrow> schema" where
  "properties_only (Schema t r e ps i a) =
     Schema t r e (map (\<lambda>(k, s). (k, properties_only s)) ps) None None"

lemma properties_only_sel [simp]:
  "Type (properties_only s) = Type s" "Required (properties_only s) = Required s"
  "Enum (properties_only s) = Enum s"
  "Properties (properties_only s) = map (\<lambda>(k, t). (k, properties_only t)) (Properties s)"
  by (cases s; simp)+

lemma map_of_properties_only:
  "map_of (map (\<lambda>(k, t). (k, properties_only t)) ps) k = map_option properties_only (map_of ps k)"
  by (induction ps) auto

lemma mergeKeys_properties_only:
  "mergeKeys (map (\<lambda>(k, t). (k, f t)) ps) (map (\<lambda>(k, t). (k, g t)) qs) = mergeKeys ps qs"
  by (simp add: mergeKeys_def comp_def case_prod_beta)

text \<open>Only the tree of properties is compared: the report does not depend
  on the schema of array items or of map values at any depth, so a change in one of them is never
  reported.\<close>

theorem nested_schemas_ignored:
  "compareSchemas ord v p old new = compareSchemas ord v p (properties_only old) (properties_only new)"
proof (induction ord v p old new rule: compareSchemas.induct)
  case (1 ord v p old new)
  let ?old = "properties_only old" and ?new = "properties_only new"
  let ?ks = "ord (AllProps v p) (mergeKeys (Properties old) (Properties new))"
  have node: "node_report ord v p ?old ?new = node_report ord v p old new"
    by (simp add: node_report_def type_changes_def required_changes_def enum_changes_def)
  have "property_report ord v p ?old ?new k = property_report ord v p old new k" if "k \<in> set ?ks" for k
    using "1.IH" [OF that refl]
    by (simp add: property_report_def map_of_properties_only split: option.split)
  then have "map (property_report ord v p ?old ?new) ?ks = map (property_report ord v p old new) ?ks"
    by simp
  then show ?case
    by (simp only: compareSchemas_parts [of ord v p old] compareSchemas_parts [of ord v p ?old]
        properties_only_sel(4) mergeKeys_properties_only node)
qed

section \<open>The tool\<close>

lemma breaking_changes_iff:
  assumes "visits_keys ord"
  shows "breaking_changes ord old new = [] \<longleftrightarrow> (\<forall>nv \<in> set new. \<forall>ov s t.
    findVersion old (cv_Name nv) = Some ov \<longrightarrow> cv_Schema ov = Some s \<longrightarrow> cv_Schema nv = Some t \<longrightarrow>
    compatible s t)"
  by (induction new) (auto simp: accepts_iff [OF assms] split: option.splits)

text \<open> C32: the tool exits with 2 unless it gets two paths; with 0 when both files load
  and every version of the new definition whose name the old one has, both with a schema, is
  compatible with the old one's; with 1 otherwise.\<close>

theorem crd_main_exit:
  assumes "visits_keys ord"
  shows "(length args \<noteq> 3 \<longrightarrow> fst (crd_main ord load args) = 2) \<and>
    (length args = 3 \<longrightarrow> fst (crd_main ord load args) =
      (if \<exists>old new. load (args ! 1) = Inr old \<and> load (args ! 2) = Inr new \<and>
          (\<forall>nv \<in> set new. \<forall>ov s t. findVersion old (cv_Name nv) = Some ov \<longrightarrow>
             cv_Schema ov = Some s \<longrightarrow> cv_Schema nv = Some t \<longrightarrow> compatible s t)
       then 0 else 1))"
proof (cases "length args = 3")
  case True
  then obtain prog a b where args: "args = [prog, a, b]"
    by (auto simp: numeral_3_eq_3 length_Suc_conv)
  show ?thesis
    unfolding breaking_changes_iff [OF assms, symmetric]
    by (cases "load a"; cases "load b") (simp_all add: args crd_main_def Let_def)
next
  case False
  then have "crd_main ord load args = (2, [''usage: crd-breaking-check <old-crd.yaml> <new-crd.yaml>''])"
    by (auto simp: crd_main_def split: list.split)
  with False show ?thesis by simp
qed

text \<open>
  Leaving a version out of the new definition removes lines from the report and adds none:
  dropping a served version is not reported.
\<close>

theorem dropped_version_unreported:
  "set (breaking_changes ord old (filter (\<lambda>nv. cv_Name nv \<noteq> name) new)) \<subseteq>
     set (breaking_changes ord old new)"
  by (induction new) auto

section \<open>Examples\<close>

lemma visits_listed: "visits_keys (\<lambda>_ ks. ks)"
  by (simp add: visits_keys_def)

lemma visits_reversed: "visits_keys (\<lambda>_. rev)"
  by (simp add: visits_keys_def)

definition phase_schema :: "string list \<Rightarrow> schema" where
  "phase_schema phases = Schema ''string'' [] phases [] None None"

definition old_status :: schema where
  "old_status = Schema ''object'' [''phase''] []
     [(''phase'', phase_schema [''Running'', ''Failed'']), (''version'', phase_schema [])] None None"

definition new_status :: schema where
  "new_status = Schema ''object'' [''phase'', ''message''] []
     [(''phase'', phase_schema [''Running'']), (''message'', phase_schema [])] None None"

lemma compareSchemas_report_witness:
  "dropped_message ''v1alpha1'' ''status.phase'' ''Failed'' \<in>
     set (compareSchemas (\<lambda>_ ks. ks) ''v1alpha1'' ''status'' old_status new_status)"
proof -
  have "reported ''v1alpha1'' (foldl prop_path ''status'' [''phase''])
      (phase_schema [''Running'', ''Failed'']) (phase_schema [''Running''])
      (dropped_message ''v1alpha1'' (foldl prop_path ''status'' [''phase'']) ''Failed'')"
    by (rule enum_removed) (simp_all add: phase_schema_def)
  moreover have "foldl prop_path ''status'' [''phase''] = ''status.phase''"
    by (simp add: prop_path_def)
  moreover have "schema_at old_status [''phase''] = Some (phase_schema [''Running'', ''Failed''])"
    and "schema_at new_status [''phase''] = Some (phase_schema [''Running''])"
    by (simp_all add: old_status_def new_status_def)
  ultimately show ?thesis
    unfolding compareSchemas_report [OF visits_listed] mem_Collect_eq by metis
qed

lemma accepts_iff_compatible_witness:
  "compareSchemas (\<lambda>_. rev) ''v1alpha1'' '''' old_status old_status = []"
  by (subst accepts_iff_compatible [OF visits_reversed]) simp

lemma leaf_accepted:
  "b = [] \<or> set a = set b \<Longrightarrow>
     compareSchemas (\<lambda>_ ks. ks) v p (phase_schema a) (phase_schema b) = []"
  by (auto simp: compareSchemas_parts node_report_def phase_schema_def type_changes_def
      required_changes_def toSet_def mergeKeys_def enum_changes_def filter_empty_conv)

lemma accepted_releases_chain_witness:
  "compareSchemas (\<lambda>_ ks. ks) ''v1alpha1'' '''' (phase_schema [''Running'', ''Failed''])
     (phase_schema []) = []"
  by (rule accepted_releases_chain [OF visits_listed,
        of _ _ _ "phase_schema [''Failed'', ''Running'']"])
    (simp_all add: leaf_accepted insert_commute)

lemma report_order_independent_witness:
  "mset (compareSchemas (\<lambda>_ ks. ks) ''v1alpha1'' '''' old_status new_status) =
     mset (compareSchemas (\<lambda>_. rev) ''v1alpha1'' '''' old_status new_status)"
  by (rule report_order_independent [OF visits_listed visits_reversed])

definition stored_crd :: "string \<Rightarrow> string + crd" where
  "stored_crd path = (if path = ''old.yaml''
     then Inr [\<lparr>cv_Name = ''v1alpha1'', cv_Schema = Some old_status\<rparr>]
     else if path = ''new.yaml''
     then Inr [\<lparr>cv_Name = ''v1alpha1'', cv_Schema = Some new_status\<rparr>]
     else Inl ''no such file'')"

lemma crd_main_exit_witness:
  "fst (crd_main (\<lambda>_ ks. ks) stored_crd [''check'', ''old.yaml'', ''new.yaml'']) = 1"
proof -
  have "\<not> compatible old_status new_status"
    using compatible_node [of old_status new_status]
    by (auto simp: same_node_def old_status_def new_status_def)
  then show ?thesis
    using crd_main_exit [OF visits_listed, of "[''check'', ''old.yaml'', ''new.yaml'']" stored_crd]
    by (simp add: stored_crd_def)
qed

end
