(* ===== verification/Go_Heap.thy ===== *)
theory Go_Heap
  imports "HOL-Library.State_Monad"
begin

text \<open>
  A Go heap for the generated copy functions: addresses, typed cells, allocation.  A value that
  holds pointers, slices or maps is a representation (its scalars and addresses); \<open>denotes h r\<close> is
  what it stands for in the heap \<open>h\<close>, \<open>reach h r\<close> the addresses it leads to.  The locale
  \<open>deep_copier\<close> is the contract of a deep copy, and the lemmas below show that copying through a
  pointer, field by field and element by element keeps it.
\<close>

section \<open>Heaps\<close>

type_synonym addr = nat

record 'c heap =
  cells :: "addr \<Rightarrow> 'c option"
  next_addr :: addr

definition wf_heap :: "'c heap \<Rightarrow> bool" where
  "wf_heap h \<longleftrightarrow> (\<forall>a. next_addr h \<le> a \<longrightarrow> cells h a = None)"

text \<open>\<open>new(T)\<close>, and \<open>*p = c\<close>.\<close>

definition alloc :: "'c \<Rightarrow> ('c heap, addr) state" where
  "alloc c = State (\<lambda>h. (next_addr h,
     h\<lparr>cells := (cells h)(next_addr h \<mapsto> c), next_addr := Suc (next_addr h)\<rparr>))"

definition store :: "addr \<Rightarrow> 'c \<Rightarrow> ('c heap, unit) state" where
  "store a c = State (\<lambda>h. ((), h\<lparr>cells := (cells h)(a \<mapsto> c)\<rparr>))"

text \<open>
  \<open>*p\<close>, at the type that \<open>proj\<close> selects. Go's types exclude the cases where the zero value is
  returned; the theorems speak of well-typed pointers only.
\<close>

definition load :: "('c \<Rightarrow> 'r option) \<Rightarrow> 'r \<Rightarrow> addr \<Rightarrow> ('c heap, 'r) state" where
  "load proj zero a = State (\<lambda>h. (case Option.bind (cells h a) proj of None \<Rightarrow> zero | Some r \<Rightarrow> r, h))"

lemma run_heap [simp]:
  "run_state (alloc c) h = (next_addr h,
     h\<lparr>cells := (cells h)(next_addr h \<mapsto> c), next_addr := Suc (next_addr h)\<rparr>)"
  "run_state (store a c) h = ((), h\<lparr>cells := (cells h)(a \<mapsto> c)\<rparr>)"
  "run_state (load proj zero a) h =
     (case Option.bind (cells h a) proj of None \<Rightarrow> zero | Some r \<Rightarrow> r, h)"
  by (simp_all add: alloc_def store_def load_def)

section \<open>Copying through a pointer and over a slice\<close>

text \<open>
  The shape of every generated copy of a pointer: nil stays nil; otherwise a new cell, filled by
  copying the content.  A slice or a map is such a pointer too, to its elements.
\<close>

definition copy_pointer :: "('c \<Rightarrow> 'r option) \<Rightarrow> ('r \<Rightarrow> 'c) \<Rightarrow> 'r \<Rightarrow> ('r \<Rightarrow> ('c heap, 'r) state) \<Rightarrow>
    addr option \<Rightarrow> ('c heap, addr option) state" where
  "copy_pointer proj mk zero copy p = (case p of
     None \<Rightarrow> State_Monad.return None
   | Some a \<Rightarrow> do {
       out \<leftarrow> alloc (mk zero);
       r \<leftarrow> load proj zero a;
       r' \<leftarrow> copy r;
       store out (mk r');
       State_Monad.return (Some out)
     })"

text \<open>\<open>*in.f.DeepCopy()\<close>: a copy of a field in a new cell, read back.\<close>

definition copy_boxed :: "('c \<Rightarrow> 'r option) \<Rightarrow> ('r \<Rightarrow> 'c) \<Rightarrow> 'r \<Rightarrow> ('r \<Rightarrow> ('c heap, 'r) state) \<Rightarrow>
    'r \<Rightarrow> ('c heap, 'r) state" where
  "copy_boxed proj mk zero copy r = do {
     out \<leftarrow> alloc (mk zero);
     r' \<leftarrow> copy r;
     store out (mk r');
     load proj zero out
   }"

fun copy_list :: "('r \<Rightarrow> ('c heap, 'r) state) \<Rightarrow> 'r list \<Rightarrow> ('c heap, 'r list) state" where
  "copy_list copy [] = State_Monad.return []"
| "copy_list copy (x # xs) = do {
     x' \<leftarrow> copy x;
     xs' \<leftarrow> copy_list copy xs;
     State_Monad.return (x' # xs')
   }"

definition pointer_value :: "('c \<Rightarrow> 'r option) \<Rightarrow> ('c heap \<Rightarrow> 'r \<Rightarrow> 'v option) \<Rightarrow> 'c heap \<Rightarrow>
    addr option \<Rightarrow> 'v option option" where
  "pointer_value proj denotes h p = (case p of
     None \<Rightarrow> Some None
   | Some a \<Rightarrow> map_option Some (Option.bind (Option.bind (cells h a) proj) (denotes h)))"

definition pointer_reach :: "('c \<Rightarrow> 'r option) \<Rightarrow> ('c heap \<Rightarrow> 'r \<Rightarrow> addr set) \<Rightarrow> 'c heap \<Rightarrow>
    addr option \<Rightarrow> addr set" where
  "pointer_reach proj reach h p = (case p of
     None \<Rightarrow> {}
   | Some a \<Rightarrow> insert a (case Option.bind (cells h a) proj of None \<Rightarrow> {} | Some r \<Rightarrow> reach h r))"

definition list_value :: "('c heap \<Rightarrow> 'r \<Rightarrow> 'v option) \<Rightarrow> 'c heap \<Rightarrow> 'r list \<Rightarrow> 'v list option" where
  "list_value denotes h rs = those (map (denotes h) rs)"

definition list_reach :: "('c heap \<Rightarrow> 'r \<Rightarrow> addr set) \<Rightarrow> 'c heap \<Rightarrow> 'r list \<Rightarrow> addr set" where
  "list_reach reach h rs = (\<Union>r \<in> set rs. reach h r)"

section \<open>The contract\<close>

text \<open>\<open>h'\<close> has the cells of \<open>h\<close>, and new ones.\<close>

definition extends :: "'c heap \<Rightarrow> 'c heap \<Rightarrow> bool" where
  "extends h h' \<longleftrightarrow> (\<forall>a \<in> dom (cells h). cells h' a = cells h a)"

lemma extends_refl [simp]: "extends h h"
  by (simp add: extends_def)

lemma extends_dom: "extends h h' \<Longrightarrow> dom (cells h) \<subseteq> dom (cells h')"
  by (force simp: extends_def)

lemma extends_trans: "extends h1 h2 \<Longrightarrow> extends h2 h3 \<Longrightarrow> extends h1 h3"
  using extends_dom [of h1 h2] by (force simp: extends_def)

lemma next_fresh: "wf_heap h \<Longrightarrow> next_addr h \<notin> dom (cells h)"
  by (simp add: wf_heap_def domIff)

locale deep_copier =
  fixes copy :: "'r \<Rightarrow> ('c heap, 'r) state"
    and denotes :: "'c heap \<Rightarrow> 'r \<Rightarrow> 'v option"
    and reach :: "'c heap \<Rightarrow> 'r \<Rightarrow> addr set"
  assumes locality: "(\<And>a. a \<in> reach h r \<Longrightarrow> cells h' a = cells h a) \<Longrightarrow>
      denotes h' r = denotes h r \<and> reach h' r = reach h r"
    and allocated: "denotes h r = Some v \<Longrightarrow> reach h r \<subseteq> dom (cells h)"
    and copies: "wf_heap h \<Longrightarrow> denotes h r = Some v \<Longrightarrow> run_state (copy r) h = (r', h') \<Longrightarrow>
      wf_heap h' \<and> extends h h' \<and> denotes h' r' = Some v \<and> reach h' r' \<inter> dom (cells h) = {}"
begin

lemma kept:
  assumes "extends h h'" and "denotes h r = Some v"
  shows "denotes h' r = Some v" and "reach h' r = reach h r"
  using locality [of h r h'] allocated [OF assms(2)] assms by (auto simp: extends_def)

text \<open>A copy and its original can be changed without the other noticing.\<close>

lemma original_independent:
  assumes "wf_heap h" and "denotes h r = Some v" and "run_state (copy r) h = (r', h')"
    and "\<And>a. a \<in> dom (cells h) \<Longrightarrow> cells h'' a = cells h' a"
  shows "denotes h'' r = Some v"
proof -
  have "extends h h''" using copies [OF assms(1-3)] assms(4) by (simp add: extends_def)
  from kept(1) [OF this assms(2)] show ?thesis .
qed

lemma copy_independent:
  assumes "wf_heap h" and "denotes h r = Some v" and "run_state (copy r) h = (r', h')"
    and "\<And>a. a \<notin> dom (cells h) \<Longrightarrow> cells h'' a = cells h' a"
  shows "denotes h'' r' = Some v"
proof -
  note c = copies [OF assms(1-3)]
  have "denotes h'' r' = denotes h' r' \<and> reach h'' r' = reach h' r'"
    by (rule locality) (use c assms(4) in blast)
  with c show ?thesis by simp
qed

end

section \<open>Ways to copy\<close>

text \<open>A value without pointers is copied by assignment.\<close>

lemma deep_copier_plain: "deep_copier State_Monad.return (\<lambda>h r. Some (f r)) (\<lambda>h r. {})"
  by unfold_locales auto

text \<open>Copying a content into a cell allocated for it.\<close>

lemma filled_cell:
  assumes "deep_copier (copy :: 'r \<Rightarrow> ('c heap, 'r) state) denotes reach"
    and wf: "wf_heap h" and v: "denotes h r = Some v"
    and run: "run_state (copy r)
      (h\<lparr>cells := (cells h)(next_addr h \<mapsto> z), next_addr := Suc (next_addr h)\<rparr>) = (r', h2)"
    and h'_def: "h' = h2\<lparr>cells := (cells h2)(next_addr h \<mapsto> c)\<rparr>"
  shows "wf_heap h'" and "extends h h'" and "denotes h' r' = Some v"
    and "insert (next_addr h) (reach h' r') \<inter> dom (cells h) = {}"
proof -
  let ?n = "next_addr h"
  let ?h1 = "h\<lparr>cells := (cells h)(?n \<mapsto> z), next_addr := Suc ?n\<rparr>"
  have fresh: "?n \<notin> dom (cells h)" by (rule next_fresh [OF wf])
  have e1: "extends h ?h1" using fresh by (auto simp: extends_def)
  have wf1: "wf_heap ?h1" using wf by (auto simp: wf_heap_def)
  from deep_copier.copies [OF assms(1) wf1 deep_copier.kept(1) [OF assms(1) e1 v] run]
  have wf2: "wf_heap h2" and e2: "extends ?h1 h2" and v2: "denotes h2 r' = Some v"
    and f2: "reach h2 r' \<inter> dom (cells ?h1) = {}" by auto
  have "?n \<in> dom (cells h2)" using extends_dom [OF e2] by auto
  with wf2 have "?n < next_addr h2" unfolding wf_heap_def by (metis domIff not_le)
  with wf2 show "wf_heap h'" by (auto simp: h'_def wf_heap_def)
  show "extends h h'" using extends_trans [OF e1 e2] fresh by (auto simp: h'_def extends_def)
  have same: "denotes h' r' = denotes h2 r' \<and> reach h' r' = reach h2 r'"
    by (rule deep_copier.locality [OF assms(1)]) (use f2 in \<open>auto simp: h'_def\<close>)
  with v2 show "denotes h' r' = Some v" by simp
  show "insert ?n (reach h' r') \<inter> dom (cells h) = {}"
    using same f2 fresh extends_dom [OF e1] by auto
qed

lemma deep_copier_pointer:
  assumes "deep_copier (copy :: 'r \<Rightarrow> ('c heap, 'r) state) denotes reach" and "\<And>r. proj (mk r) = Some r"
  shows "deep_copier (copy_pointer proj mk zero copy) (pointer_value proj denotes)
    (pointer_reach proj reach)"
proof -
  note locality = deep_copier.locality [OF assms(1)] and allocated = deep_copier.allocated [OF assms(1)]
  show ?thesis
  proof
    fix h h' :: "'c heap" and p
    assume same: "\<And>a. a \<in> pointer_reach proj reach h p \<Longrightarrow> cells h' a = cells h a"
    show "pointer_value proj denotes h' p = pointer_value proj denotes h p \<and>
        pointer_reach proj reach h' p = pointer_reach proj reach h p"
    proof (cases p)
      case (Some a)
      with same have a: "cells h' a = cells h a" by (simp add: pointer_reach_def)
      show ?thesis
      proof (cases "Option.bind (cells h a) proj")
        case None
        with a Some show ?thesis by (simp add: pointer_value_def pointer_reach_def)
      next
        case r: (Some r)
        with same Some have "denotes h' r = denotes h r \<and> reach h' r = reach h r"
          by (intro locality) (simp add: pointer_reach_def)
        with a Some r show ?thesis by (simp add: pointer_value_def pointer_reach_def)
      qed
    qed (simp add: pointer_value_def pointer_reach_def)
  next
    fix h :: "'c heap" and p v
    assume "pointer_value proj denotes h p = Some v"
    then show "pointer_reach proj reach h p \<subseteq> dom (cells h)"
      using allocated [of h]
      by (auto simp: pointer_value_def pointer_reach_def bind_eq_Some_conv
          split: option.splits dest!: allocated)
  next
    fix h h' :: "'c heap" and p v p'
    assume wf: "wf_heap h" and v: "pointer_value proj denotes h p = Some v"
      and run: "run_state (copy_pointer proj mk zero copy p) h = (p', h')"
    show "wf_heap h' \<and> extends h h' \<and> pointer_value proj denotes h' p' = Some v \<and>
        pointer_reach proj reach h' p' \<inter> dom (cells h) = {}"
    proof (cases p)
      case None
      with wf v run show ?thesis
        by (simp add: copy_pointer_def pointer_value_def pointer_reach_def)
    next
      case (Some a)
      with v obtain c r u where a: "cells h a = Some c" "proj c = Some r"
        and u: "denotes h r = Some u" and vu: "v = Some u"
        by (auto simp: pointer_value_def bind_eq_Some_conv)
      obtain r' h2 where run': "run_state (copy r) (h\<lparr>cells := (cells h)(next_addr h \<mapsto> mk zero),
          next_addr := Suc (next_addr h)\<rparr>) = (r', h2)" by fastforce
      have "a \<noteq> next_addr h" using next_fresh [OF wf] a(1) by auto
      with run Some a run' have p': "p' = Some (next_addr h)"
        and h': "h' = h2\<lparr>cells := (cells h2)(next_addr h \<mapsto> mk r')\<rparr>"
        by (simp_all add: copy_pointer_def)
      from filled_cell [OF assms(1) wf u run' h'] show ?thesis
        by (simp add: p' h' pointer_value_def pointer_reach_def assms(2) vu)
    qed
  qed
qed

lemma deep_copier_pair:
  assumes "deep_copier (c1 :: 'a \<Rightarrow> ('c heap, 'a) state) v1 r1" and "deep_copier c2 v2 r2"
  shows "deep_copier
    (\<lambda>(x, y). do { x' \<leftarrow> c1 x; y' \<leftarrow> c2 y; State_Monad.return (x', y') })
    (\<lambda>h (x, y). do { a \<leftarrow> v1 h x; b \<leftarrow> v2 h y; Some (a, b) })
    (\<lambda>h (x, y). r1 h x \<union> r2 h y)"
  (is "deep_copier ?c ?v ?r")
proof
  fix h h' :: "'c heap" and p
  assume same: "\<And>a. a \<in> ?r h p \<Longrightarrow> cells h' a = cells h a"
  obtain x y where p: "p = (x, y)" by (cases p)
  from same deep_copier.locality [OF assms(1), of h x h'] deep_copier.locality [OF assms(2), of h y h']
  show "?v h' p = ?v h p \<and> ?r h' p = ?r h p" by (simp add: p)
next
  fix h :: "'c heap" and p v
  assume "?v h p = Some v"
  then show "?r h p \<subseteq> dom (cells h)"
    using deep_copier.allocated [OF assms(1)] deep_copier.allocated [OF assms(2)]
    by (cases p) (fastforce simp: bind_eq_Some_conv)
next
  fix h h' :: "'c heap" and p v p'
  assume wf: "wf_heap h" and v: "?v h p = Some v" and run: "run_state (?c p) h = (p', h')"
  obtain x y where p: "p = (x, y)" by (cases p)
  from v p obtain a b where ab: "v1 h x = Some a" "v2 h y = Some b" "v = (a, b)"
    by (auto simp: bind_eq_Some_conv)
  obtain x' h1 where r1: "run_state (c1 x) h = (x', h1)" by fastforce
  obtain y' h2 where r2: "run_state (c2 y) h1 = (y', h2)" by fastforce
  from run p r1 r2 have p': "p' = (x', y')" and h': "h' = h2" by simp_all
  from deep_copier.copies [OF assms(1) wf ab(1) r1] have wf1: "wf_heap h1" and e1: "extends h h1"
    and x': "v1 h1 x' = Some a" and f1: "r1 h1 x' \<inter> dom (cells h) = {}" by auto
  from deep_copier.copies [OF assms(2) wf1 deep_copier.kept(1) [OF assms(2) e1 ab(2)] r2]
  have wf2: "wf_heap h2" and e2: "extends h1 h2" and y': "v2 h2 y' = Some b"
    and f2: "r2 h2 y' \<inter> dom (cells h1) = {}" by auto
  note k = deep_copier.kept [OF assms(1) e2 x']
  have "r2 h2 y' \<inter> dom (cells h) = {}" using f2 extends_dom [OF e1] by blast
  with k f1 have "?r h' p' \<inter> dom (cells h) = {}" by (simp add: p' h' Int_Un_distrib2)
  moreover have "?v h' p' = Some v" using k y' by (simp add: p' h' ab(3))
  ultimately show "wf_heap h' \<and> extends h h' \<and> ?v h' p' = Some v \<and> ?r h' p' \<inter> dom (cells h) = {}"
    using wf2 extends_trans [OF e1 e2] by (simp add: h')
qed

text \<open>A representation that holds another one: \<open>f\<close> reads it, \<open>g\<close> writes it.\<close>

lemma deep_copier_part:
  assumes "deep_copier (c :: 'a \<Rightarrow> ('c heap, 'a) state) v r" and "\<And>x y. f (g x y) = y" and "\<And>x y a. k (g x y) a = k x a"
  shows "deep_copier (\<lambda>x. do { y \<leftarrow> c (f x); State_Monad.return (g x y) })
    (\<lambda>h x. map_option (k x) (v h (f x))) (\<lambda>h x. r h (f x))"
  (is "deep_copier ?c ?v ?r")
proof
  fix h h' :: "'c heap" and x
  assume "\<And>a. a \<in> r h (f x) \<Longrightarrow> cells h' a = cells h a"
  from deep_copier.locality [OF assms(1) this] show "?v h' x = ?v h x \<and> ?r h' x = ?r h x" by simp
next
  fix h :: "'c heap" and x w
  assume "?v h x = Some w"
  then obtain u where "v h (f x) = Some u" by auto
  from deep_copier.allocated [OF assms(1) this] show "?r h x \<subseteq> dom (cells h)" .
next
  fix h h' :: "'c heap" and x w x'
  assume wf: "wf_heap h" and w: "?v h x = Some w" and run: "run_state (?c x) h = (x', h')"
  from w obtain u where u: "v h (f x) = Some u" "w = k x u" by auto
  obtain y h1 where y: "run_state (c (f x)) h = (y, h1)" by fastforce
  with run have "x' = g x y" "h' = h1" by simp_all
  with deep_copier.copies [OF assms(1) wf u(1) y] u(2)
  show "wf_heap h' \<and> extends h h' \<and> ?v h' x' = Some w \<and> ?r h' x' \<inter> dom (cells h) = {}"
    by (simp add: assms(2,3))
qed

lemma deep_copier_list:
  assumes "deep_copier (c :: 'a \<Rightarrow> ('c heap, 'a) state) v r"
  shows "deep_copier (copy_list c) (list_value v) (list_reach r)"
proof
  fix h h' :: "'c heap" and xs
  assume same: "\<And>a. a \<in> list_reach r h xs \<Longrightarrow> cells h' a = cells h a"
  have "v h' x = v h x \<and> r h' x = r h x" if "x \<in> set xs" for x
    by (rule deep_copier.locality [OF assms]) (use same that in \<open>auto simp: list_reach_def\<close>)
  then show "list_value v h' xs = list_value v h xs \<and> list_reach r h' xs = list_reach r h xs"
    by (simp add: list_value_def list_reach_def cong: map_cong)
next
  fix h :: "'c heap" and xs w
  assume "list_value v h xs = Some w"
  then show "list_reach r h xs \<subseteq> dom (cells h)"
  proof (induction xs arbitrary: w)
    case (Cons x xs)
    then obtain u us where "v h x = Some u" "list_value v h xs = Some us"
      by (auto simp: list_value_def split: option.splits)
    with Cons.IH deep_copier.allocated [OF assms] show ?case
      unfolding list_reach_def by (metis UN_insert Un_least list.simps(15))
  qed (simp add: list_reach_def)
next
  fix h h' :: "'c heap" and xs w xs'
  show "wf_heap h \<Longrightarrow> list_value v h xs = Some w \<Longrightarrow> run_state (copy_list c xs) h = (xs', h') \<Longrightarrow>
      wf_heap h' \<and> extends h h' \<and> list_value v h' xs' = Some w \<and>
      list_reach r h' xs' \<inter> dom (cells h) = {}"
  proof (induction xs arbitrary: h w xs')
    case Nil
    then show ?case by (simp add: list_value_def list_reach_def)
  next
    case (Cons x xs)
    from Cons.prems(2) obtain u us where u: "v h x = Some u" and us: "list_value v h xs = Some us"
      and w: "w = u # us" by (auto simp: list_value_def split: option.splits)
    obtain x' h1 where r1: "run_state (c x) h = (x', h1)" by fastforce
    obtain ys h2 where r2: "run_state (copy_list c xs) h1 = (ys, h2)" by fastforce
    from Cons.prems(3) r1 r2 have xs': "xs' = x' # ys" and h': "h' = h2" by simp_all
    from deep_copier.copies [OF assms Cons.prems(1) u r1] have wf1: "wf_heap h1"
      and e1: "extends h h1" and x': "v h1 x' = Some u" and f1: "r h1 x' \<inter> dom (cells h) = {}"
      by auto
    have "list_value v h1 xs = Some us"
      using us e1
    proof (induction xs arbitrary: us)
      case (Cons y ys)
      then show ?case using deep_copier.kept(1) [OF assms e1]
        by (fastforce simp: list_value_def split: option.splits)
    qed (simp add: list_value_def)
    from Cons.IH [OF wf1 this] r2 h' have wf2: "wf_heap h2" and e2: "extends h1 h2"
      and ys: "list_value v h2 ys = Some us" and f2: "list_reach r h2 ys \<inter> dom (cells h1) = {}"
      by auto
    note k = deep_copier.kept [OF assms e2 x']
    have "list_reach r h2 ys \<inter> dom (cells h) = {}" using f2 extends_dom [OF e1] by blast
    with k f1 have "list_reach r h' xs' \<inter> dom (cells h) = {}"
      by (simp add: list_reach_def xs' h' Int_Un_distrib2)
    moreover have "list_value v h' xs' = Some w"
      using k ys by (simp add: list_value_def xs' h' w)
    ultimately show ?case using wf2 extends_trans [OF e1 e2] by (simp add: h')
  qed
qed

lemma deep_copier_boxed:
  assumes "deep_copier (copy :: 'r \<Rightarrow> ('c heap, 'r) state) denotes reach"
    and "\<And>r. proj (mk r) = Some r"
  shows "deep_copier (copy_boxed proj mk zero copy) denotes reach"
proof
  show "denotes h' r = denotes h r \<and> reach h' r = reach h r"
    if "\<And>a. a \<in> reach h r \<Longrightarrow> cells h' a = cells h a" for h h' :: "'c heap" and r
    by (rule deep_copier.locality [OF assms(1) that])
  show "reach h r \<subseteq> dom (cells h)" if "denotes h r = Some v" for h :: "'c heap" and r v
    by (rule deep_copier.allocated [OF assms(1) that])
next
  fix h h' :: "'c heap" and r v r''
  assume wf: "wf_heap h" and v: "denotes h r = Some v"
    and run: "run_state (copy_boxed proj mk zero copy r) h = (r'', h')"
  obtain r' h2 where run': "run_state (copy r) (h\<lparr>cells := (cells h)(next_addr h \<mapsto> mk zero),
      next_addr := Suc (next_addr h)\<rparr>) = (r', h2)" by fastforce
  with run have r'': "r'' = r'"
    and h': "h' = h2\<lparr>cells := (cells h2)(next_addr h \<mapsto> mk r')\<rparr>"
    by (auto simp: copy_boxed_def assms(2))
  from filled_cell [OF assms(1) wf v run' h']
  show "wf_heap h' \<and> extends h h' \<and> denotes h' r'' = Some v \<and> reach h' r'' \<inter> dom (cells h) = {}"
    by (simp add: r'')
qed

lemma deep_copier_cong:
  assumes "deep_copier c v r"
    and "\<And>x. c' x = c x" and "\<And>h x. v' h x = v h x" and "\<And>h x. r' h x = r h x"
  shows "deep_copier c' v' r'"
proof -
  from assms(2-4) have "c' = c" "v' = v" "r' = r" by (simp_all add: fun_eq_iff)
  with assms(1) show ?thesis by simp
qed

end
