(* ===== verification/Deep_Copy.thy ===== *)
theory Deep_Copy
  imports Go_Heap Api_Types
begin

text \<open>
  The generated copy functions of src/api/v1alpha1/zz_generated.deepcopy.go.  Here, and only here,
  the pointers of the API types matter: a struct is its representation in a heap, with an address
  for every pointer, slice and map.  \<open>DeepCopyInto\<close> is a program that takes the content of its
  receiver and returns what it writes to \<open>*out\<close>; \<open>DeepCopy\<close> takes and returns a pointer.  The copy
  functions of metav1 are not part of this repository: they are the record \<open>metav1\<close>, and
  \<open>'m\<close> and \<open>'l\<close> stand for the representations of \<open>ObjectMeta\<close> and \<open>ListMeta\<close>.
\<close>

section \<open>Representations\<close>

record mayastor_rep =
  rm_Enabled :: bool
  rm_EtcdReplicaCount :: "64 word"
  rm_IOEngineResources :: "addr option"
  rm_CoreAgentResources :: "addr option"
  rm_StorageClassName :: string
  rm_IsDefaultClass :: bool
  rm_SnapshotClassName :: string
  rm_EtcdStorageSize :: string
  rm_EtcdStorageClassName :: string
  rm_EtcdVeleroBackup :: bool
  rm_EtcdVeleroSchedule :: string
  rm_EtcdVeleroNamespace :: string
  rm_IoEngineEnvContext :: string

record spec_rep =
  rs_Hostpath :: "addr option"
  rs_LVM :: "addr option"
  rs_ZFS :: "addr option"
  rs_Rawfile :: "addr option"
  rs_Mayastor :: "addr option"
  rs_ImagePullSecrets :: "addr option"
  rs_NodeSelector :: "addr option"
  rs_Images :: "addr option"

record status_rep =
  rt_Phase :: OpenEBSPhase
  rt_Conditions :: "addr option"
  rt_Engines :: "addr option"

record 'm openebs_rep =
  ro_TypeMeta :: "string \<times> string"
  ro_ObjectMeta :: 'm
  ro_Spec :: spec_rep
  ro_Status :: status_rep

record 'l list_rep =
  rl_TypeMeta :: "string \<times> string"
  rl_ListMeta :: 'l
  rl_Items :: "addr option"

datatype ('m, 'l) cell =
    HostpathCell HostpathConfig
  | LVMCell LVMConfig
  | ZFSCell ZFSConfig
  | RawfileCell RawfileConfig
  | MayastorCell mayastor_rep
  | ResourceCell ResourceSpec
  | ImageCell ImageConfig
  | StringsCell "string list"
  | MapCell str_map
  | ConditionsCell "Condition list"
  | EnginesCell "EngineStatus list"
  | SpecCell spec_rep
  | StatusCell status_rep
  | OpenEBSCell "'m openebs_rep"
  | ItemsCell "'m openebs_rep list"
  | ListCell "'l list_rep"

type_synonym ('m, 'l) go_heap = "('m, 'l) cell heap"

type_synonym ('m, 'l, 'a) go = "(('m, 'l) go_heap, 'a) state"

record ('m, 'l) metav1 =
  ObjectMeta_DeepCopyInto :: "'m \<Rightarrow> ('m, 'l, 'm) go"
  ListMeta_DeepCopyInto :: "'l \<Rightarrow> ('m, 'l, 'l) go"
  Condition_DeepCopyInto :: "Condition \<Rightarrow> ('m, 'l, Condition) go"

section \<open>Reading a cell at its type, and zero values\<close>

definition hostpath_cell :: "('m, 'l) cell \<Rightarrow> HostpathConfig option" where
  "hostpath_cell c = (case c of HostpathCell r \<Rightarrow> Some r | _ \<Rightarrow> None)"

definition lvm_cell :: "('m, 'l) cell \<Rightarrow> LVMConfig option" where
  "lvm_cell c = (case c of LVMCell r \<Rightarrow> Some r | _ \<Rightarrow> None)"

definition zfs_cell :: "('m, 'l) cell \<Rightarrow> ZFSConfig option" where
  "zfs_cell c = (case c of ZFSCell r \<Rightarrow> Some r | _ \<Rightarrow> None)"

definition rawfile_cell :: "('m, 'l) cell \<Rightarrow> RawfileConfig option" where
  "rawfile_cell c = (case c of RawfileCell r \<Rightarrow> Some r | _ \<Rightarrow> None)"

definition mayastor_cell :: "('m, 'l) cell \<Rightarrow> mayastor_rep option" where
  "mayastor_cell c = (case c of MayastorCell r \<Rightarrow> Some r | _ \<Rightarrow> None)"

definition resource_cell :: "('m, 'l) cell \<Rightarrow> ResourceSpec option" where
  "resource_cell c = (case c of ResourceCell r \<Rightarrow> Some r | _ \<Rightarrow> None)"

definition image_cell :: "('m, 'l) cell \<Rightarrow> ImageConfig option" where
  "image_cell c = (case c of ImageCell r \<Rightarrow> Some r | _ \<Rightarrow> None)"

definition strings_cell :: "('m, 'l) cell \<Rightarrow> string list option" where
  "strings_cell c = (case c of StringsCell r \<Rightarrow> Some r | _ \<Rightarrow> None)"

definition map_cell :: "('m, 'l) cell \<Rightarrow> str_map option" where
  "map_cell c = (case c of MapCell r \<Rightarrow> Some r | _ \<Rightarrow> None)"

definition conditions_cell :: "('m, 'l) cell \<Rightarrow> Condition list option" where
  "conditions_cell c = (case c of ConditionsCell r \<Rightarrow> Some r | _ \<Rightarrow> None)"

definition engines_cell :: "('m, 'l) cell \<Rightarrow> EngineStatus list option" where
  "engines_cell c = (case c of EnginesCell r \<Rightarrow> Some r | _ \<Rightarrow> None)"

definition spec_cell :: "('m, 'l) cell \<Rightarrow> spec_rep option" where
  "spec_cell c = (case c of SpecCell r \<Rightarrow> Some r | _ \<Rightarrow> None)"

definition status_cell :: "('m, 'l) cell \<Rightarrow> status_rep option" where
  "status_cell c = (case c of StatusCell r \<Rightarrow> Some r | _ \<Rightarrow> None)"

definition openebs_cell :: "('m, 'l) cell \<Rightarrow> 'm openebs_rep option" where
  "openebs_cell c = (case c of OpenEBSCell r \<Rightarrow> Some r | _ \<Rightarrow> None)"

definition items_cell :: "('m, 'l) cell \<Rightarrow> 'm openebs_rep list option" where
  "items_cell c = (case c of ItemsCell r \<Rightarrow> Some r | _ \<Rightarrow> None)"

definition list_cell :: "('m, 'l) cell \<Rightarrow> 'l list_rep option" where
  "list_cell c = (case c of ListCell r \<Rightarrow> Some r | _ \<Rightarrow> None)"

lemmas cell_defs = hostpath_cell_def lvm_cell_def zfs_cell_def rawfile_cell_def mayastor_cell_def
  resource_cell_def image_cell_def strings_cell_def map_cell_def conditions_cell_def
  engines_cell_def spec_cell_def status_cell_def openebs_cell_def items_cell_def list_cell_def

lemma cell_read [simp]:
  "hostpath_cell (HostpathCell a) = Some a" "lvm_cell (LVMCell b) = Some b"
  "zfs_cell (ZFSCell d) = Some d" "rawfile_cell (RawfileCell e) = Some e"
  "mayastor_cell (MayastorCell f) = Some f" "resource_cell (ResourceCell g) = Some g"
  "image_cell (ImageCell i) = Some i" "strings_cell (StringsCell j) = Some j"
  "map_cell (MapCell k) = Some k" "conditions_cell (ConditionsCell l) = Some l"
  "engines_cell (EnginesCell m) = Some m" "spec_cell (SpecCell n) = Some n"
  "status_cell (StatusCell p) = Some p" "openebs_cell (OpenEBSCell q) = Some q"
  "items_cell (ItemsCell r) = Some r" "list_cell (ListCell s) = Some s"
  by (simp_all add: cell_defs)

definition mayastor_zero :: mayastor_rep where
  "mayastor_zero = \<lparr>rm_Enabled = False, rm_EtcdReplicaCount = 0, rm_IOEngineResources = None,
     rm_CoreAgentResources = None, rm_StorageClassName = '''', rm_IsDefaultClass = False,
     rm_SnapshotClassName = '''', rm_EtcdStorageSize = '''', rm_EtcdStorageClassName = '''',
     rm_EtcdVeleroBackup = False, rm_EtcdVeleroSchedule = '''', rm_EtcdVeleroNamespace = '''',
     rm_IoEngineEnvContext = ''''\<rparr>"

definition spec_zero :: spec_rep where
  "spec_zero = \<lparr>rs_Hostpath = None, rs_LVM = None, rs_ZFS = None, rs_Rawfile = None,
     rs_Mayastor = None, rs_ImagePullSecrets = None, rs_NodeSelector = None, rs_Images = None\<rparr>"

definition status_zero :: status_rep where
  "status_zero = \<lparr>rt_Phase = '''', rt_Conditions = None, rt_Engines = None\<rparr>"

definition hostpath_zero :: HostpathConfig where
  "hostpath_zero = \<lparr>hp_Enabled = False, hp_BasePath = '''', hp_IsDefaultClass = False,
     hp_StorageClassName = ''''\<rparr>"

definition lvm_zero :: LVMConfig where
  "lvm_zero = \<lparr>lvm_Enabled = False, lvm_StorageClassName = '''', lvm_IsDefaultClass = False,
     lvm_VolumeGroup = ''''\<rparr>"

definition zfs_zero :: ZFSConfig where
  "zfs_zero = \<lparr>zfs_Enabled = False, zfs_StorageClassName = '''', zfs_PoolName = '''',
     zfs_IsDefaultClass = False\<rparr>"

definition rawfile_zero :: RawfileConfig where
  "rawfile_zero = \<lparr>rf_Enabled = False, rf_BasePath = '''', rf_IsDefaultClass = False\<rparr>"

definition resource_zero :: ResourceSpec where
  "resource_zero = \<lparr>CPU = '''', Memory = '''', Hugepages2Mi = ''''\<rparr>"

definition image_zero :: ImageConfig where
  "image_zero = \<lparr>img_LVM = '''', img_Hostpath = '''', img_ZFS = '''', img_Rawfile = '''',
     img_CSIProvisioner = '''', img_CSIResizer = '''', img_CSISnapshotter = '''',
     img_CSIAttacher = '''', img_CSISnapshotController = '''', img_CSINodeRegistrar = '''',
     img_Mayastor = '''', img_Etcd = ''''\<rparr>"

section \<open>The functions\<close>

text \<open>\<open>**out = **in\<close>, \<open>copy(*out, *in)\<close>: a content without pointers.\<close>

definition assign :: "'r \<Rightarrow> ('m, 'l, 'r) go" where
  "assign r = State_Monad.return r"

text \<open>
  \<open>for key, val := range *in { (*out)[key] = val }\<close>. The keys of a map are distinct, so the order of
  the visits does not matter.
\<close>

definition copy_map :: "str_map \<Rightarrow> ('m, 'l, str_map) go" where
  "copy_map m = State_Monad.return (foldr (\<lambda>(key, val) out. put key val out) m [])"

definition ImageConfig_DeepCopyInto :: "ImageConfig \<Rightarrow> ('m, 'l, ImageConfig) go" where
  "ImageConfig_DeepCopyInto r = assign r"

definition MayastorConfig_DeepCopyInto :: "mayastor_rep \<Rightarrow> ('m, 'l, mayastor_rep) go" where
  "MayastorConfig_DeepCopyInto r = do {
     io \<leftarrow> copy_pointer resource_cell ResourceCell resource_zero assign (rm_IOEngineResources r);
     core \<leftarrow> copy_pointer resource_cell ResourceCell resource_zero assign (rm_CoreAgentResources r);
     State_Monad.return (r\<lparr>rm_IOEngineResources := io, rm_CoreAgentResources := core\<rparr>)
   }"

definition OpenEBSSpec_DeepCopyInto :: "spec_rep \<Rightarrow> ('m, 'l, spec_rep) go" where
  "OpenEBSSpec_DeepCopyInto r = do {
     hostpath \<leftarrow> copy_pointer hostpath_cell HostpathCell hostpath_zero assign (rs_Hostpath r);
     lvm \<leftarrow> copy_pointer lvm_cell LVMCell lvm_zero assign (rs_LVM r);
     zfs \<leftarrow> copy_pointer zfs_cell ZFSCell zfs_zero assign (rs_ZFS r);
     rawfile \<leftarrow> copy_pointer rawfile_cell RawfileCell rawfile_zero assign (rs_Rawfile r);
     mayastor \<leftarrow> copy_pointer mayastor_cell MayastorCell mayastor_zero
       MayastorConfig_DeepCopyInto (rs_Mayastor r);
     secrets \<leftarrow> copy_pointer strings_cell StringsCell [] assign (rs_ImagePullSecrets r);
     selector \<leftarrow> copy_pointer map_cell MapCell [] copy_map (rs_NodeSelector r);
     images \<leftarrow> copy_pointer image_cell ImageCell image_zero assign (rs_Images r);
     State_Monad.return \<lparr>rs_Hostpath = hostpath, rs_LVM = lvm, rs_ZFS = zfs, rs_Rawfile = rawfile,
       rs_Mayastor = mayastor, rs_ImagePullSecrets = secrets, rs_NodeSelector = selector,
       rs_Images = images\<rparr>
   }"

definition OpenEBSStatus_DeepCopyInto ::
  "('m, 'l) metav1 \<Rightarrow> status_rep \<Rightarrow> ('m, 'l, status_rep) go" where
  "OpenEBSStatus_DeepCopyInto M r = do {
     conditions \<leftarrow> copy_pointer conditions_cell ConditionsCell []
       (copy_list (Condition_DeepCopyInto M)) (rt_Conditions r);
     engines \<leftarrow> copy_pointer engines_cell EnginesCell [] assign (rt_Engines r);
     State_Monad.return (r\<lparr>rt_Conditions := conditions, rt_Engines := engines\<rparr>)
   }"

text \<open>\<open>*in.Spec.DeepCopy()\<close>: a copy of a field in a new cell, read back.\<close>

definition OpenEBS_DeepCopyInto ::
  "('m, 'l) metav1 \<Rightarrow> 'm openebs_rep \<Rightarrow> ('m, 'l, 'm openebs_rep) go" where
  "OpenEBS_DeepCopyInto M r = do {
     om \<leftarrow> ObjectMeta_DeepCopyInto M (ro_ObjectMeta r);
     spec \<leftarrow> copy_boxed spec_cell SpecCell spec_zero OpenEBSSpec_DeepCopyInto (ro_Spec r);
     status \<leftarrow> copy_boxed status_cell StatusCell status_zero
       (OpenEBSStatus_DeepCopyInto M) (ro_Status r);
     State_Monad.return (r\<lparr>ro_ObjectMeta := om, ro_Spec := spec, ro_Status := status\<rparr>)
   }"

definition OpenEBSList_DeepCopyInto ::
  "('m, 'l) metav1 \<Rightarrow> 'l list_rep \<Rightarrow> ('m, 'l, 'l list_rep) go" where
  "OpenEBSList_DeepCopyInto M r = do {
     lm \<leftarrow> ListMeta_DeepCopyInto M (rl_ListMeta r);
     items \<leftarrow> copy_pointer items_cell ItemsCell [] (copy_list (OpenEBS_DeepCopyInto M)) (rl_Items r);
     State_Monad.return (r\<lparr>rl_ListMeta := lm, rl_Items := items\<rparr>)
   }"

text \<open>The \<open>DeepCopy\<close> methods: nil for nil, else a new object filled by \<open>DeepCopyInto\<close>.\<close>

definition ImageConfig_DeepCopy :: "addr option \<Rightarrow> ('m, 'l, addr option) go" where
  "ImageConfig_DeepCopy = copy_pointer image_cell ImageCell image_zero ImageConfig_DeepCopyInto"

definition MayastorConfig_DeepCopy :: "addr option \<Rightarrow> ('m, 'l, addr option) go" where
  "MayastorConfig_DeepCopy =
     copy_pointer mayastor_cell MayastorCell mayastor_zero MayastorConfig_DeepCopyInto"

definition OpenEBSSpec_DeepCopy :: "addr option \<Rightarrow> ('m, 'l, addr option) go" where
  "OpenEBSSpec_DeepCopy = copy_pointer spec_cell SpecCell spec_zero OpenEBSSpec_DeepCopyInto"

definition OpenEBSStatus_DeepCopy ::
  "('m, 'l) metav1 \<Rightarrow> addr option \<Rightarrow> ('m, 'l, addr option) go" where
  "OpenEBSStatus_DeepCopy M =
     copy_pointer status_cell StatusCell status_zero (OpenEBSStatus_DeepCopyInto M)"

text \<open>\<open>new(OpenEBS)\<close> has a zero \<open>ObjectMeta\<close>, \<open>new(OpenEBSList)\<close> a zero \<open>ListMeta\<close>.\<close>

definition OpenEBS_DeepCopy ::
  "('m, 'l) metav1 \<Rightarrow> 'm \<Rightarrow> addr option \<Rightarrow> ('m, 'l, addr option) go" where
  "OpenEBS_DeepCopy M om0 = copy_pointer openebs_cell OpenEBSCell
     \<lparr>ro_TypeMeta = ('''', ''''), ro_ObjectMeta = om0, ro_Spec = spec_zero, ro_Status = status_zero\<rparr>
     (OpenEBS_DeepCopyInto M)"

definition OpenEBSList_DeepCopy ::
  "('m, 'l) metav1 \<Rightarrow> 'l \<Rightarrow> addr option \<Rightarrow> ('m, 'l, addr option) go" where
  "OpenEBSList_DeepCopy M lm0 = copy_pointer list_cell ListCell
     \<lparr>rl_TypeMeta = ('''', ''''), rl_ListMeta = lm0, rl_Items = None\<rparr> (OpenEBSList_DeepCopyInto M)"

text \<open>
  \<open>DeepCopyObject\<close> returns the interface: nil when the copy is nil, so that no typed nil pointer
  hides in it.
\<close>

datatype runtime_Object = OpenEBSObject addr | OpenEBSListObject addr

definition OpenEBS_DeepCopyObject ::
  "('m, 'l) metav1 \<Rightarrow> 'm \<Rightarrow> addr option \<Rightarrow> ('m, 'l, runtime_Object option) go" where
  "OpenEBS_DeepCopyObject M om0 p = do {
     c \<leftarrow> OpenEBS_DeepCopy M om0 p;
     State_Monad.return (case c of Some a \<Rightarrow> Some (OpenEBSObject a) | None \<Rightarrow> None)
   }"

definition OpenEBSList_DeepCopyObject ::
  "('m, 'l) metav1 \<Rightarrow> 'l \<Rightarrow> addr option \<Rightarrow> ('m, 'l, runtime_Object option) go" where
  "OpenEBSList_DeepCopyObject M lm0 p = do {
     c \<leftarrow> OpenEBSList_DeepCopy M lm0 p;
     State_Monad.return (case c of Some a \<Rightarrow> Some (OpenEBSListObject a) | None \<Rightarrow> None)
   }"

end
