(* ===== verification/Deep_Copy_Correct.thy ===== *)
theory Deep_Copy_Correct
  imports Deep_Copy
begin

text \<open>
  The generated copies are deep: a copy denotes the same resource, shares no cell with the
  original, and leaves the original as it was.
\<close>

section \<open>What a representation denotes\<close>

definition plain :: "('m, 'l) go_heap \<Rightarrow> 'r \<Rightarrow> 'r option" where
  "plain h r = Some r"

definition no_cells :: "('m, 'l) go_heap \<Rightarrow> 'r \<Rightarrow> addr set" where
  "no_cells h r = {}"

definition map_denotes :: "('m, 'l) go_heap \<Rightarrow> str_map \<Rightarrow> str_map option" where
  "map_denotes h m = (if distinct (map fst m) then Some m else None)"

abbreviation resource_pointer :: "('m, 'l) go_heap \<Rightarrow> addr option \<Rightarrow> ResourceSpec option option" where
  "resource_pointer \<equiv> pointer_value resource_cell plain"

definition mayastor_of ::
  "mayastor_rep \<Rightarrow> ResourceSpec option \<times> ResourceSpec option \<Rightarrow> MayastorConfig" where
  "mayastor_of r v = \<lparr>ms_Enabled = rm_Enabled r, ms_EtcdReplicaCount = rm_EtcdReplicaCount r,
     ms_IOEngineResources = fst v, ms_CoreAgentResources = snd v,
     ms_StorageClassName = rm_StorageClassName r, ms_IsDefaultClass = rm_IsDefaultClass r,
     ms_SnapshotClassName = rm_SnapshotClassName r, ms_EtcdStorageSize = rm_EtcdStorageSize r,
     ms_EtcdStorageClassName = rm_EtcdStorageClassName r,
     ms_EtcdVeleroBackup = rm_EtcdVeleroBackup r, ms_EtcdVeleroSchedule = rm_EtcdVeleroSchedule r,
     ms_EtcdVeleroNamespace = rm_EtcdVeleroNamespace r,
     ms_IoEngineEnvContext = rm_IoEngineEnvContext r\<rparr>"

definition mayastor_denotes :: "('m, 'l) go_heap \<Rightarrow> mayastor_rep \<Rightarrow> MayastorConfig option" where
  "mayastor_denotes h r = do {
     io \<leftarrow> resource_pointer h (rm_IOEngineResources r);
     core \<leftarrow> resource_pointer h (rm_CoreAgentResources r);
     Some (mayastor_of r (io, core))
   }"

definition mayastor_reach :: "('m, 'l) go_heap \<Rightarrow> mayastor_rep \<Rightarrow> addr set" where
  "mayastor_reach h r = pointer_reach resource_cell no_cells h (rm_IOEngineResources r) \<union>
     pointer_reach resource_cell no_cells h (rm_CoreAgentResources r)"

text \<open>A nil slice or map holds no elements.\<close>

definition elements :: "'a list option \<Rightarrow> 'a list" where
  "elements xs = (case xs of None \<Rightarrow> [] | Some ys \<Rightarrow> ys)"

definition spec_denotes :: "('m, 'l) go_heap \<Rightarrow> spec_rep \<Rightarrow> OpenEBSSpec option" where
  "spec_denotes h r = do {
     hostpath \<leftarrow> pointer_value hostpath_cell plain h (rs_Hostpath r);
     lvm \<leftarrow> pointer_value lvm_cell plain h (rs_LVM r);
     zfs \<leftarrow> pointer_value zfs_cell plain h (rs_ZFS r);
     rawfile \<leftarrow> pointer_value rawfile_cell plain h (rs_Rawfile r);
     mayastor \<leftarrow> pointer_value mayastor_cell mayastor_denotes h (rs_Mayastor r);
     secrets \<leftarrow> pointer_value strings_cell plain h (rs_ImagePullSecrets r);
     selector \<leftarrow> pointer_value map_cell map_denotes h (rs_NodeSelector r);
     images \<leftarrow> pointer_value image_cell plain h (rs_Images r);
     Some \<lparr>spec_Hostpath = hostpath, spec_LVM = lvm, spec_ZFS = zfs, spec_Rawfile = rawfile,
       spec_Mayastor = mayastor, spec_ImagePullSecrets = elements secrets,
       spec_NodeSelector = elements selector, spec_Images = images\<rparr>
   }"

definition spec_reach :: "('m, 'l) go_heap \<Rightarrow> spec_rep \<Rightarrow> addr set" where
  "spec_reach h r = pointer_reach hostpath_cell no_cells h (rs_Hostpath r) \<union>
     (pointer_reach lvm_cell no_cells h (rs_LVM r) \<union>
     (pointer_reach zfs_cell no_cells h (rs_ZFS r) \<union>
     (pointer_reach rawfile_cell no_cells h (rs_Rawfile r) \<union>
     (pointer_reach mayastor_cell mayastor_reach h (rs_Mayastor r) \<union>
     (pointer_reach strings_cell no_cells h (rs_ImagePullSecrets r) \<union>
     (pointer_reach map_cell no_cells h (rs_NodeSelector r) \<union>
      pointer_reach image_cell no_cells h (rs_Images r)))))))"

definition status_denotes :: "('m, 'l) go_heap \<Rightarrow> status_rep \<Rightarrow> OpenEBSStatus option" where
  "status_denotes h r = do {
     conditions \<leftarrow> pointer_value conditions_cell (list_value plain) h (rt_Conditions r);
     engines \<leftarrow> pointer_value engines_cell plain h (rt_Engines r);
     Some \<lparr>st_Phase = rt_Phase r, st_Conditions = elements conditions,
       st_Engines = elements engines\<rparr>
   }"

definition status_reach :: "('m, 'l) go_heap \<Rightarrow> status_rep \<Rightarrow> addr set" where
  "status_reach h r = pointer_reach conditions_cell (list_reach no_cells) h (rt_Conditions r) \<union>
     pointer_reach engines_cell no_cells h (rt_Engines r)"

section \<open>The copies of the parts\<close>

interpretation assigned: deep_copier assign plain no_cells
  by unfold_locales (auto simp: assign_def plain_def no_cells_def)

interpretation maps: deep_copier copy_map map_denotes no_cells
proof -
  have "foldr (\<lambda>(k, v) out. put k v out) m [] = m" if "distinct (map fst m)" for m :: str_map
    using that
  proof (induction m)
    case (Cons kv m)
    obtain k v where kv: "kv = (k, v)" by (cases kv)
    from Cons.prems kv have "filter (\<lambda>(k', _). k' \<noteq> k) m = m"
      by (auto simp: filter_id_conv image_iff)
    with Cons kv show ?case by (simp add: put_def)
  qed simp
  then show "deep_copier copy_map map_denotes no_cells"
    by unfold_locales (auto simp: copy_map_def map_denotes_def no_cells_def split: if_splits)
qed

lemmas plain_pointer = deep_copier_pointer [OF assigned.deep_copier_axioms]

text \<open>The record of a copied struct, field by field.\<close>

lemmas copy_fields = map_conv_bind_option comp_def split_def

interpretation mayastor_config: deep_copier MayastorConfig_DeepCopyInto mayastor_denotes mayastor_reach
  by (rule deep_copier_cong [OF deep_copier_part [where k = mayastor_of and
        f = "\<lambda>r. (rm_IOEngineResources r, rm_CoreAgentResources r)" and
        g = "\<lambda>r v. r\<lparr>rm_IOEngineResources := fst v, rm_CoreAgentResources := snd v\<rparr>",
        OF deep_copier_pair [OF plain_pointer [where mk = ResourceCell and zero = resource_zero]
          plain_pointer [where mk = ResourceCell and zero = resource_zero]]]])
    (simp_all add: MayastorConfig_DeepCopyInto_def mayastor_denotes_def mayastor_reach_def
      mayastor_of_def copy_fields)

lemma image_copier: "deep_copier ImageConfig_DeepCopyInto plain no_cells"
  using assigned.deep_copier_axioms by (simp add: ImageConfig_DeepCopyInto_def [abs_def])

lemmas spec_fields = deep_copier_pair [OF
    plain_pointer [where mk = HostpathCell and zero = hostpath_zero] deep_copier_pair [OF
    plain_pointer [where mk = LVMCell and zero = lvm_zero] deep_copier_pair [OF
    plain_pointer [where mk = ZFSCell and zero = zfs_zero] deep_copier_pair [OF
    plain_pointer [where mk = RawfileCell and zero = rawfile_zero] deep_copier_pair [OF
    deep_copier_pointer [OF mayastor_config.deep_copier_axioms, where mk = MayastorCell and zero = mayastor_zero] deep_copier_pair [OF
    plain_pointer [where mk = StringsCell and zero = "[]"] deep_copier_pair [OF
    deep_copier_pointer [OF maps.deep_copier_axioms, where mk = MapCell and zero = "[]"]
    plain_pointer [where mk = ImageCell and zero = image_zero]]]]]]]]

interpretation spec: deep_copier OpenEBSSpec_DeepCopyInto spec_denotes spec_reach
  by (rule deep_copier_cong [OF deep_copier_part [OF spec_fields, where
        f = "\<lambda>r. (rs_Hostpath r, rs_LVM r, rs_ZFS r, rs_Rawfile r, rs_Mayastor r,
          rs_ImagePullSecrets r, rs_NodeSelector r, rs_Images r)" and
        g = "\<lambda>r (hostpath, lvm, zfs, rawfile, mayastor, secrets, selector, images).
          \<lparr>rs_Hostpath = hostpath, rs_LVM = lvm, rs_ZFS = zfs, rs_Rawfile = rawfile,
           rs_Mayastor = mayastor, rs_ImagePullSecrets = secrets, rs_NodeSelector = selector,
           rs_Images = images\<rparr>" and
        k = "\<lambda>r (hostpath, lvm, zfs, rawfile, mayastor, secrets, selector, images).
          \<lparr>spec_Hostpath = hostpath, spec_LVM = lvm, spec_ZFS = zfs, spec_Rawfile = rawfile,
           spec_Mayastor = mayastor, spec_ImagePullSecrets = elements secrets,
           spec_NodeSelector = elements selector, spec_Images = images\<rparr>"]])
    (simp_all add: OpenEBSSpec_DeepCopyInto_def spec_denotes_def spec_reach_def copy_fields)

section \<open>The copies of metav1\<close>

text \<open>
  What the code relies on: the copy functions of metav1 are deep copies, and a condition holds no
  pointers.
\<close>

locale metav1_api =
  fixes M :: "('m, 'l) metav1"
    and om_denotes :: "('m, 'l) go_heap \<Rightarrow> 'm \<Rightarrow> 'mv option"
    and om_reach :: "('m, 'l) go_heap \<Rightarrow> 'm \<Rightarrow> addr set"
    and lm_denotes :: "('m, 'l) go_heap \<Rightarrow> 'l \<Rightarrow> 'lv option"
    and lm_reach :: "('m, 'l) go_heap \<Rightarrow> 'l \<Rightarrow> addr set"
  assumes object_meta: "deep_copier (ObjectMeta_DeepCopyInto M) om_denotes om_reach"
    and list_meta: "deep_copier (ListMeta_DeepCopyInto M) lm_denotes lm_reach"
    and condition: "deep_copier (Condition_DeepCopyInto M) plain no_cells"

definition openebs_denotes :: "(('m, 'l) go_heap \<Rightarrow> 'm \<Rightarrow> 'mv option) \<Rightarrow> ('m, 'l) go_heap \<Rightarrow>
    'm openebs_rep \<Rightarrow> ((string \<times> string) \<times> 'mv \<times> OpenEBSSpec \<times> OpenEBSStatus) option" where
  "openebs_denotes om_denotes h r = do {
     om \<leftarrow> om_denotes h (ro_ObjectMeta r);
     spec \<leftarrow> spec_denotes h (ro_Spec r);
     status \<leftarrow> status_denotes h (ro_Status r);
     Some (ro_TypeMeta r, om, spec, status)
   }"

definition openebs_reach :: "(('m, 'l) go_heap \<Rightarrow> 'm \<Rightarrow> addr set) \<Rightarrow> ('m, 'l) go_heap \<Rightarrow>
    'm openebs_rep \<Rightarrow> addr set" where
  "openebs_reach om_reach h r = om_reach h (ro_ObjectMeta r) \<union>
     (spec_reach h (ro_Spec r) \<union> status_reach h (ro_Status r))"

definition list_denotes :: "(('m, 'l) go_heap \<Rightarrow> 'm \<Rightarrow> 'mv option) \<Rightarrow>
    (('m, 'l) go_heap \<Rightarrow> 'l \<Rightarrow> 'lv option) \<Rightarrow> ('m, 'l) go_heap \<Rightarrow> 'l list_rep \<Rightarrow>
    ((string \<times> string) \<times> 'lv \<times>
      ((string \<times> string) \<times> 'mv \<times> OpenEBSSpec \<times> OpenEBSStatus) list) option" where
  "list_denotes om_denotes lm_denotes h r = do {
     lm \<leftarrow> lm_denotes h (rl_ListMeta r);
     items \<leftarrow> pointer_value items_cell (list_value (openebs_denotes om_denotes)) h (rl_Items r);
     Some (rl_TypeMeta r, lm, elements items)
   }"

definition listed_reach :: "(('m, 'l) go_heap \<Rightarrow> 'm \<Rightarrow> addr set) \<Rightarrow>
    (('m, 'l) go_heap \<Rightarrow> 'l \<Rightarrow> addr set) \<Rightarrow> ('m, 'l) go_heap \<Rightarrow> 'l list_rep \<Rightarrow> addr set" where
  "listed_reach om_reach lm_reach h r = lm_reach h (rl_ListMeta r) \<union>
     pointer_reach items_cell (list_reach (openebs_reach om_reach)) h (rl_Items r)"

sublocale metav1_api \<subseteq> status: deep_copier "OpenEBSStatus_DeepCopyInto M" status_denotes status_reach
  by (rule deep_copier_cong [OF deep_copier_part [where
        f = "\<lambda>r. (rt_Conditions r, rt_Engines r)" and
        g = "\<lambda>r v. r\<lparr>rt_Conditions := fst v, rt_Engines := snd v\<rparr>" and
        k = "\<lambda>r v. \<lparr>st_Phase = rt_Phase r, st_Conditions = elements (fst v),
          st_Engines = elements (snd v)\<rparr>",
        OF deep_copier_pair [OF
          deep_copier_pointer [OF deep_copier_list [OF condition],
            where mk = ConditionsCell and zero = "[]"]
          plain_pointer [where mk = EnginesCell and zero = "[]"]]]])
    (simp_all add: OpenEBSStatus_DeepCopyInto_def status_denotes_def status_reach_def copy_fields)

sublocale metav1_api \<subseteq> openebs: deep_copier "OpenEBS_DeepCopyInto M"
  "openebs_denotes om_denotes" "openebs_reach om_reach"
  by (rule deep_copier_cong [OF deep_copier_part [where
        f = "\<lambda>r. (ro_ObjectMeta r, ro_Spec r, ro_Status r)" and
        g = "\<lambda>r (om, spec, status). r\<lparr>ro_ObjectMeta := om, ro_Spec := spec, ro_Status := status\<rparr>" and
        k = "\<lambda>r v. (ro_TypeMeta r, v)",
        OF deep_copier_pair [OF object_meta deep_copier_pair [OF
          deep_copier_boxed [OF spec.deep_copier_axioms, where mk = SpecCell and zero = spec_zero]
          deep_copier_boxed [OF status.deep_copier_axioms, where mk = StatusCell and
            zero = status_zero]]]]])
    (simp_all add: OpenEBS_DeepCopyInto_def openebs_denotes_def openebs_reach_def copy_fields)

sublocale metav1_api \<subseteq> openebs_list: deep_copier "OpenEBSList_DeepCopyInto M"
  "list_denotes om_denotes lm_denotes" "listed_reach om_reach lm_reach"
  by (rule deep_copier_cong [OF deep_copier_part [where
        f = "\<lambda>r. (rl_ListMeta r, rl_Items r)" and
        g = "\<lambda>r v. r\<lparr>rl_ListMeta := fst v, rl_Items := snd v\<rparr>" and
        k = "\<lambda>r v. (rl_TypeMeta r, fst v, elements (snd v))",
        OF deep_copier_pair [OF list_meta
          deep_copier_pointer [OF deep_copier_list [OF openebs.deep_copier_axioms],
            where mk = ItemsCell and zero = "[]"]]]])
    (simp_all add: OpenEBSList_DeepCopyInto_def list_denotes_def listed_reach_def copy_fields)

section \<open>Whole objects\<close>

abbreviation openebs_at where
  "openebs_at om_denotes \<equiv> pointer_value openebs_cell (openebs_denotes om_denotes)"

abbreviation list_at where
  "list_at om_denotes lm_denotes \<equiv> pointer_value list_cell (list_denotes om_denotes lm_denotes)"

context metav1_api
begin

lemma copies_openebs: "deep_copier (OpenEBS_DeepCopy M om0) (openebs_at om_denotes)
    (pointer_reach openebs_cell (openebs_reach om_reach))"
  unfolding OpenEBS_DeepCopy_def
  by (rule deep_copier_pointer [OF openebs.deep_copier_axioms]) simp

lemma copies_list: "deep_copier (OpenEBSList_DeepCopy M lm0) (list_at om_denotes lm_denotes)
    (pointer_reach list_cell (listed_reach om_reach lm_reach))"
  unfolding OpenEBSList_DeepCopy_def
  by (rule deep_copier_pointer [OF openebs_list.deep_copier_axioms]) simp

end

lemma pointer_copy_not_nil:
  "run_state (copy_pointer proj mk zero copy (Some a)) h = (q, h') \<Longrightarrow> \<exists>b. q = Some b"
  by (auto simp: copy_pointer_def split: prod.splits)

text \<open> C39: \<open>DeepCopyObject\<close> of nil is nil; of a pointer to a well-typed resource it is
  a new object that denotes the same resource, type, metadata, every field of the spec and the
  status included, while the original denotes what it did; and no address reachable from the copy
  existed before.\<close>

theorem deep_copy_faithful:
  assumes metav1: "metav1_api M omd omr lmd lmr" and wf: "wf_heap h"
    and v: "openebs_at omd h (Some a) = Some v"
    and run: "run_state (OpenEBS_DeepCopyObject M om0 (Some a)) h = (ob, h')"
  shows "\<exists>b. ob = Some (OpenEBSObject b) \<and> openebs_at omd h' (Some b) = Some v \<and>
      openebs_at omd h' (Some a) = Some v \<and>
      pointer_reach openebs_cell (openebs_reach omr) h' (Some b) \<inter> dom (cells h) = {} \<and>
    run_state (OpenEBS_DeepCopyObject M om0 None) h = (None, h)"
proof -
  note copier = metav1_api.copies_openebs [OF metav1, of om0]
  obtain q h1 where q: "run_state (OpenEBS_DeepCopy M om0 (Some a)) h = (q, h1)" by fastforce
  with pointer_copy_not_nil obtain b where b: "q = Some b" unfolding OpenEBS_DeepCopy_def by metis
  with run q have "ob = Some (OpenEBSObject b)" "h' = h1"
    by (simp_all add: OpenEBS_DeepCopyObject_def)
  moreover note deep_copier.copies [OF copier wf v q]
  moreover from this have "openebs_at omd h1 (Some a) = Some v"
    using deep_copier.kept(1) [OF copier _ v] by blast
  moreover have "run_state (OpenEBS_DeepCopyObject M om0 None) h = (None, h)"
    by (simp add: OpenEBS_DeepCopyObject_def OpenEBS_DeepCopy_def copy_pointer_def)
  ultimately show ?thesis using b by blast
qed

text \<open> C40: after a list of resources was copied, whatever is then written to the
  cells of the copy leaves the original list as it was, and whatever is written to the cells that
  existed before leaves the copy as it is: the two share nothing, down to the maps, slices and
  pointers of their items.\<close>

theorem deep_copy_independent:
  assumes metav1: "metav1_api M omd omr lmd lmr" and wf: "wf_heap h"
    and v: "list_at omd lmd h p = Some v"
    and run: "run_state (OpenEBSList_DeepCopy M lm0 p) h = (q, h')"
  shows "list_at omd lmd h' q = Some v \<and>
    (\<forall>h''. (\<forall>x. x \<in> dom (cells h) \<longrightarrow> cells h'' x = cells h' x) \<longrightarrow>
       list_at omd lmd h'' p = Some v) \<and>
    (\<forall>h''. (\<forall>x. x \<notin> dom (cells h) \<longrightarrow> cells h'' x = cells h' x) \<longrightarrow>
       list_at omd lmd h'' q = Some v)"
proof -
  note copier = metav1_api.copies_list [OF metav1, of lm0]
  from deep_copier.copies [OF copier wf v run] deep_copier.original_independent [OF copier wf v run]
    deep_copier.copy_independent [OF copier wf v run]
  show ?thesis by blast
qed

section \<open>Examples\<close>

text \<open>Metadata without pointers, copied by assignment.\<close>

definition value_metav1 :: "(obj_meta, string) metav1" where
  "value_metav1 = \<lparr>ObjectMeta_DeepCopyInto = assign, ListMeta_DeepCopyInto = assign,
     Condition_DeepCopyInto = assign\<rparr>"

interpretation value_metav1: metav1_api value_metav1 plain no_cells plain no_cells
  by (rule metav1_api.intro) (simp_all add: value_metav1_def assigned.deep_copier_axioms)

text \<open>A resource at address 0 whose hostpath configuration is at 1 and node selector at 2.\<close>

definition example_rep :: "obj_meta openebs_rep" where
  "example_rep = \<lparr>ro_TypeMeta = (''storage.aldershaab-it.dk/v1alpha1'', ''OpenEBS''),
     ro_ObjectMeta = object_meta ''openebs'' '''' [],
     ro_Spec = spec_zero\<lparr>rs_Hostpath := Some 1, rs_NodeSelector := Some 2\<rparr>,
     ro_Status = status_zero\<rparr>"

definition example_heap :: "(obj_meta, string) go_heap" where
  "example_heap = \<lparr>cells = [0 \<mapsto> OpenEBSCell example_rep,
       1 \<mapsto> HostpathCell hostpath_zero, 2 \<mapsto> MapCell [(''disk'', ''ssd'')],
       3 \<mapsto> ItemsCell [example_rep],
       4 \<mapsto> ListCell \<lparr>rl_TypeMeta = ('''', ''''), rl_ListMeta = '''', rl_Items = Some 3\<rparr>],
     next_addr = 5\<rparr>"

lemma example_wf: "wf_heap example_heap"
  by (simp add: wf_heap_def example_heap_def)

lemma example_denotes:
  "\<exists>v. openebs_at plain example_heap (Some 0) = Some v"
  "\<exists>v. list_at plain plain example_heap (Some 4) = Some v"
  by (simp_all add: pointer_value_def example_heap_def example_rep_def openebs_denotes_def
      list_denotes_def list_value_def plain_def spec_denotes_def spec_zero_def status_denotes_def
      status_zero_def map_denotes_def)

lemma deep_copy_witness:
  "\<exists>v b h'. openebs_at plain example_heap (Some 0) = Some v \<and>
     run_state (OpenEBS_DeepCopyObject value_metav1 (object_meta '''' '''' []) (Some 0))
       example_heap = (Some (OpenEBSObject b), h') \<and> openebs_at plain h' (Some b) = Some v"
proof -
  obtain v where v: "openebs_at plain example_heap (Some 0) = Some v"
    using example_denotes(1) by blast
  from deep_copy_faithful [OF value_metav1.metav1_api_axioms example_wf v prod.collapse [symmetric]]
  show ?thesis using v by (metis prod.collapse)
qed

lemma deep_copy_independent_witness:
  "\<exists>v. list_at plain plain example_heap (Some 4) = Some v \<and>
     list_at plain plain (snd (run_state (OpenEBSList_DeepCopy value_metav1 '''' (Some 4))
       example_heap)) (fst (run_state (OpenEBSList_DeepCopy value_metav1 '''' (Some 4))
       example_heap)) = Some v"
proof -
  obtain v where v: "list_at plain plain example_heap (Some 4) = Some v"
    using example_denotes(2) by blast
  from deep_copy_independent [OF value_metav1.metav1_api_axioms example_wf v prod.collapse [symmetric]]
  show ?thesis using v by blast
qed

end
