(* ===== verification/Spec2Isabelle.thy ===== *)
theory Spec2Isabelle
  imports Runs Apply_Runs Built_Objects Crd_Check_Correct Deep_Copy_Correct
begin

text \<open>
  A model of the openebs-operator (Go, src/) and the theorems that make it correct.

  The program.  The operator watches one cluster-scoped custom resource, \<open>OpenEBS\<close>
  (src/api/v1alpha1/types.go).  A reconcile (src/internal/controller/openebs_controller.go) reads
  it, adds its finalizer, deploys every enabled storage engine (LVM, ZFS, hostpath, rawfile,
  Mayastor), deletes what no enabled engine expects, and writes a status; when the resource is
  being deleted it removes everything and then the finalizer.  Deploying an engine
  (src/internal/controller/deployer.go, engine_crds.go, volume_snapshot.go) is a chain of
  \<open>apply\<close> calls on objects that src/internal/controller/component.go builds.  The API types are
  copied by src/api/v1alpha1/zz_generated.deepcopy.go, src/cmd/main.go starts the process, and a
  release tool
  (src/hack/crd-breaking-check/main.go) compares two versions of a CRD.

  The theories, in the order of their imports.

  \<^item> \<open>Prelude\<close>: Go errors and panics as values (\<open>gerror\<close>, \<open>abort\<close>), programs over a world
    (\<open>prog\<close>, \<open>bindP\<close>, \<open>attempt\<close>, \<open>run_steps\<close> for a chain of early returns), relations that
    programs keep, string maps.
  \<^item> \<open>Kube_Objects\<close>: the Kubernetes objects, with the fields the code sets or reads.
  \<^item> \<open>Api_Types\<close>: types.go, record for struct.
  \<^item> \<open>Names\<close>: the constants, labels and small helpers of deployer.go and component.go, and the
    record \<open>lib\<close> of third-party helpers on values with its contract \<open>apimachinery\<close>.
  \<^item> \<open>Lvm\<close>, \<open>Hostpath\<close>, \<open>Zfs\<close>, \<open>Rawfile\<close>, \<open>Mayastor_Etcd\<close>, \<open>Mayastor\<close>: component.go, one
    definition for each builder.  A Go function that returns an object is a HOL function; the one
    that can panic (\<open>mayastorEtcdStatefulSet\<close>) returns a \<open>result\<close>.
  \<^item> \<open>Environment\<close>: the client, \<open>RetryOnConflict\<close>, \<open>CreateOrUpdate\<close>, HTTP and the clock, as a
    record \<open>env\<close> over an abstract world, and the contracts \<open>kube_client\<close>, \<open>audited_client\<close> and
    \<open>cluster_api\<close>.
  \<^item> \<open>Apply\<close>, \<open>Engines\<close>, \<open>Cleanup\<close>: deployer.go.  The functions of the \<open>apply\<close> family mutate the
    object behind their pointer argument, so they run on the pair of that object and the world.
  \<^item> \<open>Reconcile\<close>: openebs_controller.go.
  \<^item> \<open>Apply_Correct\<close>, \<open>Apply_Results\<close>, \<open>Engines_Correct\<close>, \<open>Cleanup_Correct\<close>,
    \<open>Object_Calls\<close>, \<open>Reconcile_Correct\<close>, \<open>Convergence\<close>, \<open>Footprint\<close>, \<open>Workloads\<close>,
    \<open>Built_Objects\<close>: the theorems.
  \<^item> \<open>Lifecycle\<close>: the custom resources over many reconciles as a state machine (\<open>reachable\<close>), with
    users who act between any two requests.
  \<^item> \<open>Manager\<close>: src/cmd/main.go (flags, scheme, the calls that start the manager, the exit status) and
    \<open>SetupWithManager\<close>.
  \<^item> \<open>Reliable\<close>, \<open>Progress\<close>, \<open>Spec_Only\<close>, \<open>Liveness\<close>, \<open>Steady\<close>: what a reconcile achieves in a calm
    cluster: the \<open>apply\<close> family, the engines, what depends on the spec only, whole reconciles, and
    any number of them.
  \<^item> \<open>Permissions\<close>: the kubebuilder markers of openebs_controller.go and the ClusterRole of
    src/config/rbac/role.yaml, against the requests of a reconcile.
  \<^item> \<open>Ref_Cluster\<close>: an in-memory cluster that satisfies every contract; \<open>Runs\<close> and \<open>Apply_Runs\<close>
    apply the theorems to concrete runs on it.
  \<^item> \<open>Crd_Check\<close>, \<open>Crd_Check_Correct\<close>: the release tool. \<open>compareSchemas\<close> is a recursion on the
    size of the old schema, so no fuel is needed.
  \<^item> \<open>Go_Heap\<close>, \<open>Deep_Copy\<close>, \<open>Deep_Copy_Correct\<close>: the generated copy functions. Elsewhere the API
    types are values; here a struct is its representation over a heap of addressed cells, with an
    address for every pointer, slice and map, and the copy functions are programs that allocate.

  What is shown.

  \<^item> \<open>Apply_Correct\<close>: each operation of the \<open>apply\<close> family touches its own key only; on success
    the object is stored as it was written, on failure the store is unchanged, up to the
    operations that delete first.
  \<^item> \<open>Engines_Correct\<close>, \<open>Convergence\<close>: an engine that the written status reports as Running is in
    the cluster as it was built, also after the later engines and the orphan clean-up of the same
    reconcile; a failed engine has stored all parts before the one it reports, and changed none after
    it; an unhealthy etcd is never updated.
  \<^item> \<open>Object_Calls\<close>: a relation on worlds that every call on a cluster object keeps is kept by the
    engines, both clean-ups and a whole reconcile; used for the request log, the custom resources
    and the permissions.
  \<^item> \<open>Lifecycle\<close>: in every reachable state, an object of the final clean-up's list is in the cluster
    only while some resource holds the finalizer.
  \<^item> \<open>Liveness\<close>: in a calm cluster with nothing in the way of the enabled engines (\<open>ready\<close>) one
    reconcile reaches the state the resource asks for (\<open>converged\<close>), and one reconcile of a deleted
    resource completes its deletion; \<open>Steady\<close>: the converged state is kept by every later reconcile, and no
    request of these reconciles is to delete an object of an enabled engine.
  \<^item> \<open>Manager\<close>: flags are read as they are written; the manager is started last, and the process
    ends with 0 only when every call succeeded; the status write is delivered as a new request.
  \<^item> \<open>Footprint\<close>: a reconcile of a live resource changes no object but those of the enabled engines
    and the unwanted ones, which it deletes; one of a deleted resource only deletes, and only the
    final clean-up's list; so a Velero Schedule in a namespace that the resource no longer names is
    never removed.
  \<^item> \<open>Permissions\<close>: every request of a reconcile is permitted by the deployed role; the markers do
    not permit those about Velero Schedules.
  \<^item> \<open>Cleanup_Correct\<close>: the orphan clean-up deletes exactly the managed objects of its scopes that
    no enabled engine expects, so nothing unmanaged and nothing of an enabled engine; the final
    clean-up deletes exactly its list, which covers every workload.
  \<^item> \<open>Reconcile_Correct\<close>: phases, conditions and requeueing; the finalizer is added before the
    first object is written and removed after the last one is deleted; a reconcile ends without
    a panic unless the configured etcd size is no quantity, and then it cannot finish a deletion.
  \<^item> \<open>Workloads\<close>: the built objects fit together (selectors, mounts, Services, roles);
    \<open>Built_Objects\<close>: each of them passes checks of an API server on names, labels, scope and ports
    (not on the replica count of etcd, which can wrap, as \<open>Workloads\<close> shows).
  \<^item> \<open>Apply_Results\<close>: what each function of the \<open>apply\<close> family stores and returns, on every branch:
    created, updated, adopted, deleted and recreated, refused.
  \<^item> \<open>Crd_Check_Correct\<close>: the tool reports a change for exactly the differences it looks at, in an
    order of the map keys that does not affect which; which differences it does not look at; its
    exit status.
  \<^item> \<open>Deep_Copy_Correct\<close>: a copy denotes the same value as its original and shares no cell with it,
    so that a write to one is not seen in the other.

  The parameters.  What is not code of this repository is an argument: the records \<open>lib\<close> and
  \<open>env\<close>.  The hypotheses of a theorem are the contract it needs; each contract is interpreted on
  \<open>ref_env\<close> in \<open>Ref_Cluster\<close>.  \<open>cluster_api\<close> has no writers beside the operator between two calls;
  \<open>audited_client\<close> and \<open>kube_client\<close> do not assume that.  \<open>cr_api\<close> adds the stored custom resources
  and lets them move between any two calls, as long as nobody but the operator takes its finalizer
  away; reads are taken to be current.  \<open>reliable_cluster\<close> adds that requests do not fail for reasons
  of their own while the world is calm, and that the server takes an update of the fields it accepts
  to change (a parameter); it is the case of \<open>guarded_cluster\<close> in which every key may be deleted, and
  the other cases are worlds that are calm only until a key that may not be deleted is (\<open>Steady\<close> uses
  one of them); \<open>calm_resources\<close> (\<open>guarded_resources\<close>) adds the custom resources without other writers, and
  \<open>steady_resources\<close> what the server may fill in.  In all of them an object is gone as soon as its
  Delete succeeds, definitions and their finalizers included, which is an idealisation.  The calls of
  the manager (\<open>manager_log\<close>), the delivery of events (\<open>watch_source\<close>) and the flags of zap are
  parameters.  The REST resource of a kind (\<open>rest_mapping\<close>) is a parameter.  \<open>RetryOnConflict\<close> may try any number of
  times (the inductive \<open>attempts\<close>); the reference cluster tries up to five times, as
  \<open>retry.DefaultRetry\<close> does.  The release tool is over the order in which a Go map is ranged
  (\<open>map_order\<close>, any that \<open>visits_keys\<close>) and over what reading a CRD file gives; the deep copy is
  over the copy functions of metav1 (the record \<open>metav1\<close> with the contract \<open>metav1_api\<close>, interpreted
  on a representation by values).

  Machine integers.  \<open>EtcdReplicaCount\<close> is a \<open>64 word\<close> and its conversion to \<open>int32\<close> a \<open>ucast\<close> to
  \<open>32 word\<close>; the other numbers of the program are literals.

  Not modelled.  Logging; the embedded CRD manifests, which are read through \<open>decode_yaml\<close>; deployment
  manifests and tests.  The liveness theorems leave out a configured Velero schedule: its kind and
  its namespace are not the operator's to provide.
\<close>

end
